(* ===== verification/Prelude.thy ===== *)
theory Prelude
  imports Main "HOL-Library.Word" "HOL-Library.Char_ord" "HOL-Library.List_Lexorder"
begin

text \<open>
  The containers and integers the server uses, shared by every component.
  A \<open>boost::container::flat_map\<close> is a list of key/value pairs in strictly increasing key
  order (\<^theory_text>\<open>fm_put\<close>, \<^theory_text>\<open>fm_emplace\<close>, \<^theory_text>\<open>fm_erase\<close>, lookup by \<open>map_of\<close>), a
  \<open>boost::container::flat_set\<close> a strictly increasing list. Keys are \<open>std::string\<close>s, compared
  byte by byte, which is the lexicographic order of HOL-Library's \<open>List_Lexorder\<close> over
  \<open>Char_ord\<close>. A \<open>std::string\<close> is a list of bytes, an \<open>int\<close> a 32-bit word and an \<open>int64_t\<close> a
  64-bit word, read as signed with \<open>sint\<close>. The locale \<open>keyed_store\<close> is the contract the
  components rely on for every map they keep; it is interpreted on \<open>flat_map\<close> below.
\<close>

type_synonym i32 = "32 word"
type_synonym i64 = "64 word"

type_synonym 'v flat_map = "(string \<times> 'v) list"
type_synonym flat_set = "string list"

named_theorems frame_simps "fields that an operation leaves alone"
named_theorems wf_intros "operations that keep a well-formedness invariant"

subsection \<open>flat\_map\<close>

fun fm_put :: "'k::linorder \<Rightarrow> 'v \<Rightarrow> ('k \<times> 'v) list \<Rightarrow> ('k \<times> 'v) list" where
  "fm_put k v [] = [(k, v)]"
| "fm_put k v ((a, w) # m) =
     (if k < a then (k, v) # (a, w) # m
      else if k = a then (k, v) # m
      else (a, w) # fm_put k v m)"

definition fm_erase :: "'k \<Rightarrow> ('k \<times> 'v) list \<Rightarrow> ('k \<times> 'v) list" where
  "fm_erase k m = filter (\<lambda>e. fst e \<noteq> k) m"

definition fm_has :: "'k \<Rightarrow> ('k \<times> 'v) list \<Rightarrow> bool" where
  "fm_has k m \<longleftrightarrow> map_of m k \<noteq> None"

definition fm_emplace :: "'k::linorder \<Rightarrow> 'v \<Rightarrow> ('k \<times> 'v) list \<Rightarrow> ('k \<times> 'v) list" where
  "fm_emplace k v m = (if fm_has k m then m else fm_put k v m)"

definition fm_of_list :: "('k::linorder \<times> 'v) list \<Rightarrow> ('k \<times> 'v) list" where
  "fm_of_list kvs = fold (\<lambda>(k, v). fm_emplace k v) kvs []"

definition fm_wf :: "('k::linorder \<times> 'v) list \<Rightarrow> bool" where
  "fm_wf m \<longleftrightarrow> sorted_wrt (<) (map fst m)"

lemma map_of_fm_put [simp]: "map_of (fm_put k v m) = (map_of m)(k \<mapsto> v)"
  by (induction k v m rule: fm_put.induct) (auto simp: fun_eq_iff)

lemma map_of_fm_erase [simp]: "map_of (fm_erase k m) = (map_of m)(k := None)"
  by (induction m) (auto simp: fm_erase_def fun_eq_iff)

lemma map_of_fm_emplace:
  "map_of (fm_emplace k v m) = (if fm_has k m then map_of m else (map_of m)(k \<mapsto> v))"
  by (simp add: fm_emplace_def)

lemma set_fst_fm_put [simp]: "fst ` set (fm_put k v m) = insert k (fst ` set m)"
  by (induction k v m rule: fm_put.induct) auto

lemma set_fst_fm_erase [simp]: "fst ` set (fm_erase k m) = fst ` set m - {k}"
  by (auto simp: fm_erase_def)

lemma fm_wf_Nil [simp]: "fm_wf []"
  by (simp add: fm_wf_def)

lemma fm_wf_Cons [simp]:
  "fm_wf ((k, v) # m) \<longleftrightarrow> (\<forall>a \<in> fst ` set m. k < a) \<and> fm_wf m"
  by (auto simp: fm_wf_def)

lemma fm_wf_put [wf_intros]: "fm_wf m \<Longrightarrow> fm_wf (fm_put k v m)"
  by (induction k v m rule: fm_put.induct) auto

lemma fm_wf_erase [wf_intros]: "fm_wf m \<Longrightarrow> fm_wf (fm_erase k m)"
  by (induction m) (auto simp: fm_erase_def)

lemma fm_wf_emplace [wf_intros]: "fm_wf m \<Longrightarrow> fm_wf (fm_emplace k v m)"
  by (simp add: fm_emplace_def fm_wf_put)

lemma fm_wf_distinct: "fm_wf m \<Longrightarrow> distinct (map fst m)"
  unfolding fm_wf_def by (metis strict_sorted_iff)

lemma fm_wf_of_list [wf_intros]: "fm_wf (fm_of_list kvs)"
proof -
  have "fm_wf m \<Longrightarrow> fm_wf (fold (\<lambda>(k, v). fm_emplace k v) kvs m)" for m :: "('a \<times> 'b) list"
    by (induction kvs arbitrary: m) (auto intro: fm_wf_emplace)
  then show ?thesis by (simp add: fm_of_list_def)
qed

lemma fm_put_min: "\<forall>a \<in> fst ` set m. k < a \<Longrightarrow> fm_put k v m = (k, v) # m"
  by (cases m) auto

lemma fm_has_iff: "fm_has k m \<longleftrightarrow> k \<in> fst ` set m"
  by (auto simp: fm_has_def map_of_eq_None_iff)

lemma fm_erase_put_same: "fm_erase k (fm_put k v m) = fm_erase k m"
  by (induction k v m rule: fm_put.induct) (auto simp: fm_erase_def)

text \<open>Two ordered maps with the same lookups are the same list: the representation is canonical.\<close>

lemma fm_wf_ext:
  assumes "fm_wf m" "fm_wf m'" "map_of m = map_of m'"
  shows "m = m'"
proof (rule map_sorted_distinct_set_unique [where f = fst])
  show eq: "set m = set m'"
    using assms fm_wf_distinct map_of_inject_set by blast
  show "inj_on fst (set m \<union> set m')"
    using eq fm_wf_distinct [OF assms(1)] by (simp add: distinct_map)
qed (use assms in \<open>auto simp: fm_wf_def strict_sorted_iff\<close>)

subsection \<open>The contract of a keyed store\<close>

text \<open>
  What every component assumes of the maps it keeps. The proofs inside the locale are about any
  store that keeps these laws; \<open>merge\<close> is the update loop of the server's data commands: an
  entry whose new value is a tombstone (JSON \<open>null\<close>) is erased, any other entry is written.
\<close>

locale keyed_store =
  fixes find :: "'m \<Rightarrow> 'k \<Rightarrow> 'v option"
    and put :: "'k \<Rightarrow> 'v \<Rightarrow> 'm \<Rightarrow> 'm"
    and erase :: "'k \<Rightarrow> 'm \<Rightarrow> 'm"
    and invar :: "'m \<Rightarrow> bool"
  assumes find_put: "find (put k v m) = (find m)(k \<mapsto> v)"
    and find_erase: "find (erase k m) = (find m)(k := None)"
    and invar_put: "invar m \<Longrightarrow> invar (put k v m)"
    and invar_erase: "invar m \<Longrightarrow> invar (erase k m)"
begin

lemma find_put_same: "find (put k v m) k = Some v"
  by (simp add: find_put)

lemma find_put_other: "j \<noteq> k \<Longrightarrow> find (put k v m) j = find m j"
  by (simp add: find_put)

lemma merge_find:
  assumes "distinct (map fst kvs)"
  shows "find (fold (\<lambda>(k, v) m. if tomb v then erase k m else put k v m) kvs m) j =
    (case map_of kvs j of None \<Rightarrow> find m j | Some v \<Rightarrow> if tomb v then None else Some v)"
  using assms
proof (induction kvs arbitrary: m)
  case Nil
  then show ?case by simp
next
  case (Cons e kvs)
  obtain k v where e: "e = (k, v)" by (cases e)
  have "map_of kvs k = None"
    using Cons.prems e by (simp add: map_of_eq_None_iff)
  then show ?case
    using Cons.IH Cons.prems e by (auto simp: find_put find_erase split: option.split)
qed

lemma merge_invar:
  "invar m \<Longrightarrow> invar (fold (\<lambda>(k, v) m. if tomb v then erase k m else put k v m) kvs m)"
  by (induction kvs arbitrary: m) (auto simp: invar_put invar_erase)

end

interpretation fm: keyed_store "map_of :: (string \<times> 'v) list \<Rightarrow> string \<Rightarrow> 'v option"
    fm_put fm_erase fm_wf
  by unfold_locales (auto intro: fm_wf_put fm_wf_erase)

subsection \<open>flat\_set\<close>

fun fs_insert :: "'a::linorder \<Rightarrow> 'a list \<Rightarrow> 'a list" where
  "fs_insert x [] = [x]"
| "fs_insert x (y # ys) =
     (if x < y then x # y # ys else if x = y then y # ys else y # fs_insert x ys)"

definition fs_erase :: "'a \<Rightarrow> 'a list \<Rightarrow> 'a list" where
  "fs_erase x xs = filter (\<lambda>y. y \<noteq> x) xs"

definition fs_wf :: "'a::linorder list \<Rightarrow> bool" where
  "fs_wf xs \<longleftrightarrow> sorted_wrt (<) xs"

lemma set_fs_insert [simp]: "set (fs_insert x xs) = insert x (set xs)"
  by (induction x xs rule: fs_insert.induct) auto

lemma set_fs_erase [simp]: "set (fs_erase x xs) = set xs - {x}"
  by (auto simp: fs_erase_def)

lemma fs_wf_Nil [simp]: "fs_wf []"
  by (simp add: fs_wf_def)

lemma fs_wf_Cons [simp]: "fs_wf (x # xs) \<longleftrightarrow> (\<forall>y \<in> set xs. x < y) \<and> fs_wf xs"
  by (auto simp: fs_wf_def)

lemma fs_wf_insert [wf_intros]: "fs_wf xs \<Longrightarrow> fs_wf (fs_insert x xs)"
  by (induction x xs rule: fs_insert.induct) auto

lemma fs_wf_erase [wf_intros]: "fs_wf xs \<Longrightarrow> fs_wf (fs_erase x xs)"
  by (induction xs) (auto simp: fs_erase_def)

lemma fs_wf_distinct: "fs_wf xs \<Longrightarrow> distinct xs"
  by (simp add: fs_wf_def strict_sorted_iff)

lemma fs_insert_id: "fs_wf xs \<Longrightarrow> x \<in> set xs \<Longrightarrow> fs_insert x xs = xs"
  by (induction x xs rule: fs_insert.induct) auto

lemma length_fs_insert:
  "fs_wf xs \<Longrightarrow> length (fs_insert x xs) = (if x \<in> set xs then length xs else Suc (length xs))"
  by (induction x xs rule: fs_insert.induct) auto

lemma fs_erase_id: "x \<notin> set xs \<Longrightarrow> fs_erase x xs = xs"
  by (auto simp: fs_erase_def filter_id_conv)

lemma length_fs_erase_le: "length (fs_erase x xs) \<le> length xs"
  by (simp add: fs_erase_def)

lemma fs_erase_Nil_iff: "fs_erase x xs = [] \<longleftrightarrow> set xs \<subseteq> {x}"
  by (auto simp: fs_erase_def filter_empty_conv)

subsection \<open>Integers and C strings\<close>

text \<open>
  \<open>static_cast<int>\<close> of an \<open>int64_t\<close> keeps the low 32 bits, and an \<open>int\<close> used as an \<open>int64_t\<close>
  is sign-extended. A \<open>size_t\<close> compared with an \<open>int64_t\<close> turns the latter into an unsigned
  number: \<open>size_le\<close> is the comparison \<open>size <= n\<close> as C++ makes it.
\<close>

definition to_i32 :: "i64 \<Rightarrow> i32" where
  "to_i32 n = ucast n"

definition to_i64 :: "i32 \<Rightarrow> i64" where
  "to_i64 n = scast n"

definition size_le :: "nat \<Rightarrow> i64 \<Rightarrow> bool" where
  "size_le sz n \<longleftrightarrow> sz \<le> unat n"

definition size_lt :: "nat \<Rightarrow> i64 \<Rightarrow> bool" where
  "size_lt sz n \<longleftrightarrow> sz < unat n"

lemma sint_nonneg:
  fixes n :: "'a::len word"
  assumes "\<not> sint n < 0"
  shows "sint n = uint n"
proof -
  have "sint n < 2 ^ (LENGTH('a) - 1)" by (rule sint_lt)
  also have "\<dots> \<le> 2 ^ LENGTH('a)" by (simp add: power_increasing)
  finally have "take_bit LENGTH('a) (sint n) = sint n" using assms by (simp add: take_bit_int_eq_self)
  then show ?thesis by (simp add: uint_sint)
qed

lemma sint_add_small:
  fixes a :: "'a::len word"
  assumes "- (2 ^ (LENGTH('a) - 1)) \<le> sint a + x" "sint a + x < 2 ^ (LENGTH('a) - 1)"
  shows "sint (a + word_of_int x) = sint a + x"
proof -
  have "a + word_of_int x = word_of_int (sint a + x)" by simp
  then have "sint (a + word_of_int x) = signed_take_bit (LENGTH('a) - 1) (sint a + x)"
    by (simp only: sint_sbintrunc')
  then show ?thesis using assms by (simp only: signed_take_bit_int_eq_self)
qed

text \<open>A \<open>std::string\<close> built from a \<open>const char *\<close> ends at the first zero byte.\<close>

definition c_str :: "string \<Rightarrow> string" where
  "c_str s = takeWhile (\<lambda>c. c \<noteq> CHR 0x00) s"

lemma c_str_id: "CHR 0x00 \<notin> set s \<Longrightarrow> c_str s = s"
  unfolding c_str_def by (rule takeWhile_eq_all_conv [THEN iffD2]) auto

lemma c_str_no_zero: "CHR 0x00 \<notin> set (c_str s)"
  by (auto simp: c_str_def dest: set_takeWhileD)

text \<open>\<open>std::string::find\<close>, \<open>std::isspace\<close>, and texts joined with commas.\<close>

fun find_sub :: "string \<Rightarrow> string \<Rightarrow> nat option" where
  "find_sub pat [] = (if pat = [] then Some 0 else None)"
| "find_sub pat (ch # s) =
     (if take (length pat) (ch # s) = pat then Some 0 else map_option Suc (find_sub pat s))"

definition isspace :: "char \<Rightarrow> bool" where
  "isspace ch \<longleftrightarrow> ch \<in> {CHR '' '', CHR 0x09, CHR 0x0A, CHR 0x0B, CHR 0x0C, CHR 0x0D}"

fun join :: "string list \<Rightarrow> string" where
  "join [] = []"
| "join [x] = x"
| "join (x # xs) = x @ '','' @ join xs"

end
