(* ===== verification/Any_Type.thy ===== *)
theory Any_Type
  imports Prelude
begin

text \<open>
  \<^verbatim>\<open>src/src/common/any_type.h\<close> and \<^verbatim>\<open>any_type.cpp\<close>: the dynamic value every message, tag, user
  datum and script argument is made of, its comparison, its translation to a JSON document and
  the decoders that read a JSON document back. A \<open>yyjson_val\<close> is the document tree it points to,
  with yyjson's own type tags; a pointer that may be \<open>NULL\<close> is an \<open>option\<close>. A \<open>double\<close> is its
  IEEE 754 bit pattern. Turning a document into text and text into a document is yyjson's, and is
  a parameter of the components that do it.
\<close>

subsection \<open>Doubles as bit patterns\<close>

type_synonym f64 = "64 word"

definition f64_exp :: "f64 \<Rightarrow> int" where
  "f64_exp d = (uint d div 2 ^ 52) mod 2 ^ 11"

definition f64_frac :: "f64 \<Rightarrow> int" where
  "f64_frac d = uint d mod 2 ^ 52"

definition f64_neg :: "f64 \<Rightarrow> bool" where
  "f64_neg d \<longleftrightarrow> 2 ^ 63 \<le> uint d"

definition f64_is_nan :: "f64 \<Rightarrow> bool" where
  "f64_is_nan d \<longleftrightarrow> f64_exp d = 2047 \<and> f64_frac d \<noteq> 0"

definition f64_is_zero :: "f64 \<Rightarrow> bool" where
  "f64_is_zero d \<longleftrightarrow> f64_exp d = 0 \<and> f64_frac d = 0"

definition f64_finite :: "f64 \<Rightarrow> bool" where
  "f64_finite d \<longleftrightarrow> f64_exp d \<noteq> 2047"

text \<open>\<open>==\<close> on doubles: no NaN is equal to anything, and the two zeros are equal.\<close>

definition f64_eq :: "f64 \<Rightarrow> f64 \<Rightarrow> bool" where
  "f64_eq a b \<longleftrightarrow> \<not> f64_is_nan a \<and> \<not> f64_is_nan b \<and> (a = b \<or> (f64_is_zero a \<and> f64_is_zero b))"

text \<open>The integer part of a finite double, rounded towards zero, and whether nothing was cut off.\<close>

definition f64_trunc :: "f64 \<Rightarrow> int" where
  "f64_trunc d =
    (let e = f64_exp d; m = 2 ^ 52 + f64_frac d;
         a = (if e = 0 then 0
              else if 1075 \<le> e then m * 2 ^ nat (e - 1075) else m div 2 ^ nat (1075 - e))
     in if f64_neg d then - a else a)"

definition f64_integral :: "f64 \<Rightarrow> bool" where
  "f64_integral d \<longleftrightarrow> f64_finite d \<and>
    (if f64_exp d = 0 then f64_frac d = 0
     else 1075 \<le> f64_exp d \<or> (2 ^ 52 + f64_frac d) mod 2 ^ nat (1075 - f64_exp d) = 0)"

subsection \<open>AnyElement\<close>

datatype any_element =
    ANull
  | ABool bool
  | AInt i64
  | AReal f64
  | AStr string
  | AMap "(string \<times> any_element) list"
  | AArr "any_element list"

type_synonym dict = "any_element flat_map"

text \<open>A decoded value whose dictionaries are proper flat maps and whose strings hold no zero byte.\<close>

fun any_wf :: "any_element \<Rightarrow> bool" where
  "any_wf (AStr s) \<longleftrightarrow> CHR 0x00 \<notin> set s"
| "any_wf (AMap m) \<longleftrightarrow> fm_wf m \<and> (\<forall>(k, v) \<in> set m. CHR 0x00 \<notin> set k \<and> any_wf v)"
| "any_wf (AArr xs) \<longleftrightarrow> (\<forall>x \<in> set xs. any_wf x)"
| "any_wf _ \<longleftrightarrow> True"

text \<open>\<open>operator==\<close>: the same alternative, and equal contents.\<close>

fun any_eq :: "any_element \<Rightarrow> any_element \<Rightarrow> bool"
  and map_eq :: "(string \<times> any_element) list \<Rightarrow> (string \<times> any_element) list \<Rightarrow> bool"
  and arr_eq :: "any_element list \<Rightarrow> any_element list \<Rightarrow> bool" where
  "any_eq ANull ANull = True"
| "any_eq (ABool a) (ABool b) = (a = b)"
| "any_eq (AInt a) (AInt b) = (a = b)"
| "any_eq (AReal a) (AReal b) = f64_eq a b"
| "any_eq (AStr a) (AStr b) = (a = b)"
| "any_eq (AMap a) (AMap b) = map_eq a b"
| "any_eq (AArr a) (AArr b) = arr_eq a b"
| "any_eq _ _ = False"
| "map_eq [] [] = True"
| "map_eq ((k, v) # a) ((l, w) # b) = (k = l \<and> any_eq v w \<and> map_eq a b)"
| "map_eq _ _ = False"
| "arr_eq [] [] = True"
| "arr_eq (v # a) (w # b) = (any_eq v w \<and> arr_eq a b)"
| "arr_eq _ _ = False"

definition is_str :: "any_element \<Rightarrow> bool" where
  "is_str x \<longleftrightarrow> (case x of AStr _ \<Rightarrow> True | _ \<Rightarrow> False)"

subsection \<open>JSON documents\<close>

datatype yyval =
    YNone
  | YRaw string
  | YNull
  | YBool bool
  | YUint i64
  | YSint i64
  | YReal f64
  | YStr string
  | YArr "yyval list"
  | YObj "(yyval \<times> yyval) list"

definition yy_is_obj :: "yyval \<Rightarrow> bool" where
  "yy_is_obj v \<longleftrightarrow> (case v of YObj _ \<Rightarrow> True | _ \<Rightarrow> False)"

definition yy_obj_get :: "yyval option \<Rightarrow> string \<Rightarrow> yyval option" where
  "yy_obj_get v key =
    (case v of Some (YObj kvs) \<Rightarrow> map_option snd (List.find (\<lambda>(k, _). k = YStr key) kvs)
     | _ \<Rightarrow> None)"

fun to_yyjson :: "any_element \<Rightarrow> yyval" where
  "to_yyjson ANull = YNull"
| "to_yyjson (ABool b) = YBool b"
| "to_yyjson (AInt n) = YSint n"
| "to_yyjson (AReal d) = YReal d"
| "to_yyjson (AStr s) = YStr (c_str s)"
| "to_yyjson (AMap m) = YObj (map (\<lambda>(k, v). (YStr (c_str k), to_yyjson v)) m)"
| "to_yyjson (AArr xs) = YArr (map to_yyjson xs)"

text \<open>
  \<open>decode_value\<close>, \<open>decode_array\<close> and the loop of \<open>decode_object\<close>: an error message (left) or the
  value (right). The object loop returns the entries it has decoded so far beside its error,
  since the callers keep the dictionary they passed in. yyjson's integer test holds of both
  integer subtypes, so every integer is read as a signed 64-bit number.
\<close>

fun decode_value :: "yyval \<Rightarrow> string + any_element"
  and decode_items :: "yyval list \<Rightarrow> string + any_element list"
  and decode_pairs :: "(yyval \<times> yyval) list \<Rightarrow> dict \<Rightarrow> string \<times> dict" where
  "decode_value YNull = Inr ANull"
| "decode_value (YBool b) = Inr (ABool b)"
| "decode_value (YSint n) = Inr (AInt n)"
| "decode_value (YUint n) = Inr (AInt n)"
| "decode_value (YReal d) = Inr (AReal d)"
| "decode_value (YStr s) = Inr (AStr (c_str s))"
| "decode_value (YArr xs) =
     (case decode_items xs of Inl e \<Rightarrow> Inl e | Inr ys \<Rightarrow> Inr (AArr ys))"
| "decode_value (YObj kvs) =
     (let (e, d) = decode_pairs kvs [] in if e \<noteq> [] then Inl e else Inr (AMap d))"
| "decode_value YNone = Inl ''Unknown JSON type''"
| "decode_value (YRaw _) = Inl ''Unknown JSON type''"
| "decode_items [] = Inr []"
| "decode_items (x # xs) =
     (case decode_value x of Inl e \<Rightarrow> Inl e
      | Inr y \<Rightarrow> (case decode_items xs of Inl e \<Rightarrow> Inl e | Inr ys \<Rightarrow> Inr (y # ys)))"
| "decode_pairs [] d = ([], d)"
| "decode_pairs ((k, v) # kvs) d =
     (case k of YStr s \<Rightarrow>
        (case decode_value v of Inl e \<Rightarrow> (e, d)
         | Inr x \<Rightarrow> decode_pairs kvs (fm_put (c_str s) x d))
      | _ \<Rightarrow> (''Non-string key in object'', d))"

definition decode_array :: "yyval option \<Rightarrow> string + any_element" where
  "decode_array v =
    (case v of Some (YArr xs) \<Rightarrow> decode_value (YArr xs) | _ \<Rightarrow> Inl ''Not an array'')"

definition decode_object :: "yyval option \<Rightarrow> dict \<Rightarrow> string \<times> dict" where
  "decode_object v d = (case v of Some (YObj kvs) \<Rightarrow> decode_pairs kvs d | _ \<Rightarrow> ([], d))"

definition decode_string_or_default :: "yyval option \<Rightarrow> string \<Rightarrow> string \<Rightarrow> string" where
  "decode_string_or_default v key dflt =
    (case yy_obj_get v key of Some (YStr s) \<Rightarrow> c_str s | _ \<Rightarrow> dflt)"

text \<open>
  \<open>static_cast<int>\<close> of a double outside the range of \<open>int\<close> is undefined in C++: \<open>ub\<close> is what
  the compiled code makes of it.
\<close>

definition f64_to_i32 :: "(f64 \<Rightarrow> i32) \<Rightarrow> f64 \<Rightarrow> i32" where
  "f64_to_i32 ub d =
    (if f64_finite d \<and> - (2 ^ 31) \<le> f64_trunc d \<and> f64_trunc d < 2 ^ 31
     then word_of_int (f64_trunc d) else ub d)"

definition decode_int_or_default ::
  "(f64 \<Rightarrow> i32) \<Rightarrow> yyval option \<Rightarrow> string \<Rightarrow> i64 \<Rightarrow> i64" where
  "decode_int_or_default ub v key dflt =
    (case yy_obj_get v key of
       Some (YSint n) \<Rightarrow> to_i64 (to_i32 n)
     | Some (YUint n) \<Rightarrow> to_i64 (to_i32 n)
     | Some (YReal d) \<Rightarrow> to_i64 (f64_to_i32 ub d)
     | _ \<Rightarrow> dflt)"

definition decode_bool_or_default :: "yyval option \<Rightarrow> string \<Rightarrow> bool \<Rightarrow> bool" where
  "decode_bool_or_default v key dflt =
    (case yy_obj_get v key of None \<Rightarrow> dflt | Some (YBool b) \<Rightarrow> b | Some _ \<Rightarrow> False)"


subsection \<open>Properties of the decoders\<close>

lemma fm_put_last: "\<forall>a \<in> fst ` set d. a < k \<Longrightarrow> fm_put k v d = d @ [(k, v)]"
  by (induction k v d rule: fm_put.induct) auto

lemma set_fm_put_subset: "set (fm_put k v m) \<subseteq> insert (k, v) (set m)"
  by (induction k v m rule: fm_put.induct) auto

lemma decode_items_map:
  "(\<And>x. x \<in> set xs \<Longrightarrow> decode_value (to_yyjson x) = Inr x) \<Longrightarrow>
   decode_items (map to_yyjson xs) = Inr xs"
  by (induction xs) auto

lemma decode_pairs_map:
  assumes "\<And>k x. (k, x) \<in> set m \<Longrightarrow> decode_value (to_yyjson x) = Inr x"
    and "\<And>k x. (k, x) \<in> set m \<Longrightarrow> CHR 0x00 \<notin> set k"
    and "fm_wf m" and "\<forall>a \<in> fst ` set d. \<forall>b \<in> fst ` set m. a < b"
  shows "decode_pairs (map (\<lambda>(k, v). (YStr (c_str k), to_yyjson v)) m) d = ([], d @ m)"
  using assms
proof (induction m arbitrary: d)
  case Nil
  then show ?case by simp
next
  case (Cons e m)
  obtain k x where e: "e = (k, x)" by (cases e)
  have k: "c_str k = k" and x: "decode_value (to_yyjson x) = Inr x"
    using Cons.prems(1,2) [of k x] e by (simp_all add: c_str_id)
  have put: "fm_put k x d = d @ [(k, x)]"
    using Cons.prems(4) e by (intro fm_put_last) auto
  have "decode_pairs (map (\<lambda>(k, v). (YStr (c_str k), to_yyjson v)) m) (d @ [(k, x)]) =
      ([], (d @ [(k, x)]) @ m)"
    using Cons.prems e by (intro Cons.IH) auto
  then show ?case
    using e k x put by simp
qed

theorem decode_to_yyjson: "any_wf x \<Longrightarrow> decode_value (to_yyjson x) = Inr x"
proof (induction x rule: to_yyjson.induct)
  case (5 s)
  then show ?case by (simp add: c_str_id)
next
  case (6 m)
  have "decode_pairs (map (\<lambda>(k, v). (YStr (c_str k), to_yyjson v)) m) [] = ([], [] @ m)"
    using 6 by (intro decode_pairs_map) auto
  then show ?case by simp
next
  case (7 xs)
  then show ?case by (simp add: decode_items_map)
qed auto

lemma decode_wf:
  "decode_value v = Inr x \<Longrightarrow> any_wf x"
  "decode_items vs = Inr xs \<Longrightarrow> \<forall>x \<in> set xs. any_wf x"
  "any_wf (AMap d) \<Longrightarrow> any_wf (AMap (snd (decode_pairs kvs d)))"
proof (induction v and vs and kvs d arbitrary: x and xs
    rule: decode_value_decode_items_decode_pairs.induct)
  case (14 k v kvs d)
  then show ?case
    using set_fm_put_subset
    by (fastforce simp: c_str_no_zero split: yyval.splits sum.splits intro: fm_wf_put)
qed (auto simp: c_str_no_zero Let_def split: sum.splits prod.splits if_splits)

end
