(* ===== verification/Messages.thy ===== *)
theory Messages
  imports Any_Type
begin

text \<open>
  \<^verbatim>\<open>src/src/game/game_thread_messages.h\<close>: the error codes, the response and command numbers, and
  one function per notification. A notification is a dictionary turned into text by yyjson; the
  writer \<open>wr\<close> is a parameter that yields \<open>None\<close> where \<open>yyjson_mut_write\<close> returns \<open>NULL\<close>.
\<close>

type_synonym writer = "yyval \<Rightarrow> string option"

definition to_string :: "writer \<Rightarrow> any_element \<Rightarrow> string" where
  "to_string wr x = (case wr (to_yyjson x) of None \<Rightarrow> [] | Some s \<Rightarrow> c_str s)"

definition mk_obj :: "(string \<times> any_element) list \<Rightarrow> any_element" where
  "mk_obj kvs = AMap (fm_of_list kvs)"

subsection \<open>Error codes\<close>

definition ERROR_CANNOT_PARSE_JSON :: string where
  "ERROR_CANNOT_PARSE_JSON = ''ERROR_CANNOT_PARSE_JSON''"

definition ERROR_PEER_NOT_FOUND :: string where
  "ERROR_PEER_NOT_FOUND = ''ERROR_PEER_NOT_FOUND''"

definition ERROR_PEER_ALREADY_EXISTS :: string where
  "ERROR_PEER_ALREADY_EXISTS = ''ERROR_PEER_ALREADY_EXISTS''"

definition ERROR_PEER_NOT_IN_A_LOBBY :: string where
  "ERROR_PEER_NOT_IN_A_LOBBY = ''ERROR_PEER_NOT_IN_A_LOBBY''"

definition ERROR_PEER_IS_IN_A_LOBBY :: string where
  "ERROR_PEER_IS_IN_A_LOBBY = ''ERROR_PEER_IS_IN_A_LOBBY''"

definition ERROR_PEER_NOT_HOST :: string where
  "ERROR_PEER_NOT_HOST = ''ERROR_PEER_NOT_HOST''"

definition ERROR_PEER_IS_READY :: string where
  "ERROR_PEER_IS_READY = ''ERROR_PEER_IS_READY''"

definition ERROR_PEER_IS_NOT_READY :: string where
  "ERROR_PEER_IS_NOT_READY = ''ERROR_PEER_IS_NOT_READY''"

definition ERROR_CANNOT_KICK_SELF :: string where
  "ERROR_CANNOT_KICK_SELF = ''ERROR_CANNOT_KICK_SELF''"

definition ERROR_INVALID_FUNCTION_MSG :: string where
  "ERROR_INVALID_FUNCTION_MSG = ''ERROR_INVALID_FUNCTION_MSG''"

definition ERROR_INVALID_ARGUMENTS :: string where
  "ERROR_INVALID_ARGUMENTS = ''ERROR_INVALID_ARGUMENTS''"

definition ERROR_LOBBY_NOT_FOUND :: string where
  "ERROR_LOBBY_NOT_FOUND = ''ERROR_LOBBY_NOT_FOUND''"

definition ERROR_LOBBY_WRONG_PASSWORD :: string where
  "ERROR_LOBBY_WRONG_PASSWORD = ''ERROR_LOBBY_WRONG_PASSWORD''"

definition ERROR_LOBBY_FULL :: string where
  "ERROR_LOBBY_FULL = ''ERROR_LOBBY_FULL''"

definition ERROR_GAME_NOT_FOUND :: string where
  "ERROR_GAME_NOT_FOUND = ''ERROR_GAME_NOT_FOUND''"

definition ERROR_GAME_NOT_RELAY :: string where
  "ERROR_GAME_NOT_RELAY = ''ERROR_GAME_NOT_RELAY''"

definition ERROR_GAME_NOT_SCRIPTED :: string where
  "ERROR_GAME_NOT_SCRIPTED = ''ERROR_GAME_NOT_SCRIPTED''"

definition ERROR_UNKOWN_COMMAND :: string where
  "ERROR_UNKOWN_COMMAND = ''ERROR_UNKOWN_COMMAND''"

definition ERROR_GAME_IS_UNLOADED :: string where
  "ERROR_GAME_IS_UNLOADED = ''ERROR_GAME_IS_UNLOADED''"

definition ERROR_INVALID_TAGS :: string where
  "ERROR_INVALID_TAGS = ''ERROR_INVALID_TAGS''"

subsection \<open>Response numbers\<close>

definition RESPONSE_ERROR :: i64 where
  "RESPONSE_ERROR = 0"

definition RESPONSE_LOBBY_HOSTED :: i64 where
  "RESPONSE_LOBBY_HOSTED = 1"

definition RESPONSE_LOBBY_CREATED :: i64 where
  "RESPONSE_LOBBY_CREATED = 2"

definition RESPONSE_LOBBY_UNSEALED :: i64 where
  "RESPONSE_LOBBY_UNSEALED = 3"

definition RESPONSE_LOBBY_SEALED :: i64 where
  "RESPONSE_LOBBY_SEALED = 4"

definition RESPONSE_LOBBY_RESIZED :: i64 where
  "RESPONSE_LOBBY_RESIZED = 5"

definition RESPONSE_LOBBY_PASSWORDED :: i64 where
  "RESPONSE_LOBBY_PASSWORDED = 6"

definition RESPONSE_LOBBY_TITLED :: i64 where
  "RESPONSE_LOBBY_TITLED = 7"

definition RESPONSE_PEER_READY :: i64 where
  "RESPONSE_PEER_READY = 8"

definition RESPONSE_PEER_UNREADY :: i64 where
  "RESPONSE_PEER_UNREADY = 9"

definition RESPONSE_LOBBY_LEFT :: i64 where
  "RESPONSE_LOBBY_LEFT = 10"

definition RESPONSE_PEER_LEFT :: i64 where
  "RESPONSE_PEER_LEFT = 11"

definition RESPONSE_LOBBY_KICKED :: i64 where
  "RESPONSE_LOBBY_KICKED = 12"

definition RESPONSE_PEER_STATE :: i64 where
  "RESPONSE_PEER_STATE = 13"

definition RESPONSE_LOBBY_CALL :: i64 where
  "RESPONSE_LOBBY_CALL = 14"

definition RESPONSE_PEER_USER_DATA :: i64 where
  "RESPONSE_PEER_USER_DATA = 15"

definition RESPONSE_LOBBY_TAGS :: i64 where
  "RESPONSE_LOBBY_TAGS = 16"

definition RESPONSE_PEER_CHAT :: i64 where
  "RESPONSE_PEER_CHAT = 17"

definition RESPONSE_PEER_RECONNECTED :: i64 where
  "RESPONSE_PEER_RECONNECTED = 18"

definition RESPONSE_JOINED_LOBBY :: i64 where
  "RESPONSE_JOINED_LOBBY = 19"

definition RESPONSE_PEER_JOINED :: i64 where
  "RESPONSE_PEER_JOINED = 20"

definition RESPONSE_PEER_DISCONNECTED :: i64 where
  "RESPONSE_PEER_DISCONNECTED = 21"

definition RESPONSE_LOBBY_LIST :: i64 where
  "RESPONSE_LOBBY_LIST = 22"

definition RESPONSE_LOBBY_DATA :: i64 where
  "RESPONSE_LOBBY_DATA = 23"

definition RESPONSE_PEER_NOTIFY :: i64 where
  "RESPONSE_PEER_NOTIFY = 24"

definition RESPONSE_DATA_TO :: i64 where
  "RESPONSE_DATA_TO = 25"

definition RESPONSE_DATA_TO_SENT :: i64 where
  "RESPONSE_DATA_TO_SENT = 26"

definition RESPONSE_NOTIFY_TO_SENT :: i64 where
  "RESPONSE_NOTIFY_TO_SENT = 27"

subsection \<open>Command numbers\<close>

definition COMMAND_LOBBY_DATA :: i64 where
  "COMMAND_LOBBY_DATA = 0"

definition COMMAND_LOBBY_DATA_TO :: i64 where
  "COMMAND_LOBBY_DATA_TO = 1"

definition COMMAND_LOBBY_DATA_TO_ALL :: i64 where
  "COMMAND_LOBBY_DATA_TO_ALL = 2"

definition COMMAND_LOBBY_NOTIFY_TO :: i64 where
  "COMMAND_LOBBY_NOTIFY_TO = 3"

definition COMMAND_LOBBY_NOTIFY :: i64 where
  "COMMAND_LOBBY_NOTIFY = 4"

definition COMMAND_LOBBY_CALL :: i64 where
  "COMMAND_LOBBY_CALL = 5"

definition COMMAND_LOBBY_QUICK_JOIN :: i64 where
  "COMMAND_LOBBY_QUICK_JOIN = 6"

definition COMMAND_CREATE_LOBBY :: i64 where
  "COMMAND_CREATE_LOBBY = 7"

definition COMMAND_JOIN_LOBBY :: i64 where
  "COMMAND_JOIN_LOBBY = 8"

definition COMMAND_LEAVE_LOBBY :: i64 where
  "COMMAND_LEAVE_LOBBY = 9"

definition COMMAND_LIST_LOBBY :: i64 where
  "COMMAND_LIST_LOBBY = 10"

definition COMMAND_CHAT_LOBBY :: i64 where
  "COMMAND_CHAT_LOBBY = 11"

definition COMMAND_LOBBY_TAGS :: i64 where
  "COMMAND_LOBBY_TAGS = 12"

definition COMMAND_KICK_PEER :: i64 where
  "COMMAND_KICK_PEER = 13"

definition COMMAND_USER_DATA :: i64 where
  "COMMAND_USER_DATA = 14"

definition COMMAND_LOBBY_READY :: i64 where
  "COMMAND_LOBBY_READY = 15"

definition COMMAND_LOBBY_UNREADY :: i64 where
  "COMMAND_LOBBY_UNREADY = 16"

definition COMMAND_LOBBY_SEAL :: i64 where
  "COMMAND_LOBBY_SEAL = 17"

definition COMMAND_LOBBY_UNSEAL :: i64 where
  "COMMAND_LOBBY_UNSEAL = 18"

definition COMMAND_LOBBY_MAX_PLAYERS :: i64 where
  "COMMAND_LOBBY_MAX_PLAYERS = 19"

definition COMMAND_LOBBY_TITLE :: i64 where
  "COMMAND_LOBBY_TITLE = 20"

definition COMMAND_LOBBY_PASSWORD :: i64 where
  "COMMAND_LOBBY_PASSWORD = 21"

definition COMMAND_STOP_LISTING :: i64 where
  "COMMAND_STOP_LISTING = 22"

lemmas command_defs =
  COMMAND_LOBBY_DATA_def
  COMMAND_LOBBY_DATA_TO_def
  COMMAND_LOBBY_DATA_TO_ALL_def
  COMMAND_LOBBY_NOTIFY_TO_def
  COMMAND_LOBBY_NOTIFY_def
  COMMAND_LOBBY_CALL_def
  COMMAND_LOBBY_QUICK_JOIN_def
  COMMAND_CREATE_LOBBY_def
  COMMAND_JOIN_LOBBY_def
  COMMAND_LEAVE_LOBBY_def
  COMMAND_LIST_LOBBY_def
  COMMAND_CHAT_LOBBY_def
  COMMAND_LOBBY_TAGS_def
  COMMAND_KICK_PEER_def
  COMMAND_USER_DATA_def
  COMMAND_LOBBY_READY_def
  COMMAND_LOBBY_UNREADY_def
  COMMAND_LOBBY_SEAL_def
  COMMAND_LOBBY_UNSEAL_def
  COMMAND_LOBBY_MAX_PLAYERS_def
  COMMAND_LOBBY_TITLE_def
  COMMAND_LOBBY_PASSWORD_def
  COMMAND_STOP_LISTING_def

subsection \<open>Notifications\<close>

definition notification_error :: "writer \<Rightarrow> string \<Rightarrow> string \<Rightarrow> bool \<Rightarrow> string" where
  "notification_error wr message command_id is_logical_error =
    to_string wr (mk_obj
      [(''c'', AInt RESPONSE_ERROR),
       (''m'', AStr message),
       (''d'', mk_obj [(''id'', AStr command_id)]),
       (''e'', ABool is_logical_error)])"

definition notification_lobby_host_changed :: "writer \<Rightarrow> string \<Rightarrow> string" where
  "notification_lobby_host_changed wr host_id =
    to_string wr (mk_obj
      [(''c'', AInt RESPONSE_LOBBY_HOSTED),
       (''d'', mk_obj
            [(''h'', AStr host_id)])])"

definition notification_lobby_created :: "writer \<Rightarrow> any_element \<Rightarrow> any_element \<Rightarrow> string \<Rightarrow> string" where
  "notification_lobby_created wr lobby peers command_id =
    to_string wr (mk_obj
      [(''c'', AInt RESPONSE_LOBBY_CREATED),
       (''d'', mk_obj
            [(''l'', lobby),
             (''p'', peers),
             (''id'', AStr command_id)])])"

definition notification_lobby_unsealed :: "writer \<Rightarrow> string \<Rightarrow> string" where
  "notification_lobby_unsealed wr command_id =
    to_string wr (mk_obj
      [(''c'', AInt RESPONSE_LOBBY_UNSEALED),
       (''d'', mk_obj
            [(''id'', AStr command_id)])])"

definition notification_lobby_sealed :: "writer \<Rightarrow> string \<Rightarrow> string" where
  "notification_lobby_sealed wr command_id =
    to_string wr (mk_obj
      [(''c'', AInt RESPONSE_LOBBY_SEALED),
       (''d'', mk_obj
            [(''id'', AStr command_id)])])"

definition notification_lobby_max_players :: "writer \<Rightarrow> i32 \<Rightarrow> string \<Rightarrow> string" where
  "notification_lobby_max_players wr max_players command_id =
    to_string wr (mk_obj
      [(''c'', AInt RESPONSE_LOBBY_RESIZED),
       (''d'', mk_obj
            [(''m'', AInt (to_i64 max_players)),
             (''id'', AStr command_id)])])"

definition notification_lobby_password_protected :: "writer \<Rightarrow> bool \<Rightarrow> string \<Rightarrow> string" where
  "notification_lobby_password_protected wr password_protected command_id =
    to_string wr (mk_obj
      [(''c'', AInt RESPONSE_LOBBY_PASSWORDED),
       (''d'', mk_obj
            [(''_p'', ABool password_protected),
             (''id'', AStr command_id)])])"

definition notification_lobby_title :: "writer \<Rightarrow> string \<Rightarrow> string \<Rightarrow> string" where
  "notification_lobby_title wr title command_id =
    to_string wr (mk_obj
      [(''c'', AInt RESPONSE_LOBBY_TITLED),
       (''d'', mk_obj
            [(''n'', AStr title),
             (''id'', AStr command_id)])])"

definition notification_peer_ready :: "writer \<Rightarrow> string \<Rightarrow> string \<Rightarrow> string" where
  "notification_peer_ready wr peer_id command_id =
    to_string wr (mk_obj
      [(''c'', AInt RESPONSE_PEER_READY),
       (''d'', mk_obj
            [(''p'', AStr peer_id),
             (''id'', AStr command_id)])])"

definition notification_peer_unready :: "writer \<Rightarrow> string \<Rightarrow> string \<Rightarrow> string" where
  "notification_peer_unready wr peer_id command_id =
    to_string wr (mk_obj
      [(''c'', AInt RESPONSE_PEER_UNREADY),
       (''d'', mk_obj
            [(''p'', AStr peer_id),
             (''id'', AStr command_id)])])"

definition notification_lobby_left :: "writer \<Rightarrow> string \<Rightarrow> string" where
  "notification_lobby_left wr command_id =
    to_string wr (mk_obj
      [(''c'', AInt RESPONSE_LOBBY_LEFT),
       (''d'', mk_obj
            [(''id'', AStr command_id)])])"

definition notification_peer_left :: "writer \<Rightarrow> string \<Rightarrow> string \<Rightarrow> string" where
  "notification_peer_left wr peer_id command_id =
    to_string wr (mk_obj
      [(''c'', AInt RESPONSE_PEER_LEFT),
       (''d'', mk_obj
            [(''p'', AStr peer_id),
             (''id'', AStr command_id)])])"

definition notification_peer_kicked :: "writer \<Rightarrow> string \<Rightarrow> string \<Rightarrow> string" where
  "notification_peer_kicked wr peer_id command_id =
    to_string wr (mk_obj
      [(''c'', AInt RESPONSE_PEER_LEFT),
       (''d'', mk_obj
            [(''p'', AStr peer_id),
             (''k'', ABool True),
             (''id'', AStr command_id)])])"

definition notification_lobby_kicked :: "writer \<Rightarrow> string" where
  "notification_lobby_kicked wr =
    to_string wr (mk_obj
      [(''c'', AInt RESPONSE_LOBBY_KICKED)])"

definition notification_peer_state :: "writer \<Rightarrow> any_element \<Rightarrow> string" where
  "notification_peer_state wr peer_json =
    to_string wr (mk_obj
      [(''c'', AInt RESPONSE_PEER_STATE),
       (''d'', mk_obj
            [(''p'', peer_json)])])"

definition notification_lobby_call :: "writer \<Rightarrow> any_element \<Rightarrow> string \<Rightarrow> string" where
  "notification_lobby_call wr result command_id =
    to_string wr (mk_obj
      [(''c'', AInt RESPONSE_LOBBY_CALL),
       (''d'', mk_obj
            [(''r'', result),
             (''id'', AStr command_id)])])"

definition notification_user_data :: "writer \<Rightarrow> any_element \<Rightarrow> string \<Rightarrow> string \<Rightarrow> string" where
  "notification_user_data wr user_data peer_id command_id =
    to_string wr (mk_obj
      [(''c'', AInt RESPONSE_PEER_USER_DATA),
       (''d'', mk_obj
            [(''ud'', user_data),
             (''p'', AStr peer_id),
             (''id'', AStr command_id)])])"

definition notification_tags :: "writer \<Rightarrow> any_element \<Rightarrow> string \<Rightarrow> string" where
  "notification_tags wr tags command_id =
    to_string wr (mk_obj
      [(''c'', AInt RESPONSE_LOBBY_TAGS),
       (''d'', mk_obj
            [(''t'', tags),
             (''id'', AStr command_id)])])"

definition notification_chat :: "writer \<Rightarrow> string \<Rightarrow> string \<Rightarrow> string \<Rightarrow> dict \<Rightarrow> string" where
  "notification_chat wr from_peer chat_data command_id chat_metadata =
    to_string wr (mk_obj
      [(''c'', AInt RESPONSE_PEER_CHAT),
       (''d'', mk_obj
            [(''fp'', AStr from_peer),
             (''c'', AStr chat_data),
             (''m'', AMap chat_metadata),
             (''id'', AStr command_id)])])"

definition notification_peer_reconnected :: "writer \<Rightarrow> string \<Rightarrow> string" where
  "notification_peer_reconnected wr peer_id =
    to_string wr (mk_obj
      [(''c'', AInt RESPONSE_PEER_RECONNECTED),
       (''d'', mk_obj
            [(''p'', AStr peer_id)])])"

definition notification_lobby_joined :: "writer \<Rightarrow> any_element \<Rightarrow> any_element \<Rightarrow> string \<Rightarrow> string" where
  "notification_lobby_joined wr lobby peers command_id =
    to_string wr (mk_obj
      [(''c'', AInt RESPONSE_JOINED_LOBBY),
       (''d'', mk_obj
            [(''l'', lobby),
             (''p'', peers),
             (''id'', AStr command_id)])])"

definition notification_peer_joined :: "writer \<Rightarrow> any_element \<Rightarrow> string" where
  "notification_peer_joined wr peer_json =
    to_string wr (mk_obj
      [(''c'', AInt RESPONSE_PEER_JOINED),
       (''d'', mk_obj
            [(''p'', peer_json)])])"

definition notification_peer_disconnected :: "writer \<Rightarrow> string \<Rightarrow> string" where
  "notification_peer_disconnected wr peer_id =
    to_string wr (mk_obj
      [(''c'', AInt RESPONSE_PEER_DISCONNECTED),
       (''d'', mk_obj
            [(''p'', AStr peer_id)])])"

definition notification_lobby_list :: "writer \<Rightarrow> any_element \<Rightarrow> string \<Rightarrow> string" where
  "notification_lobby_list wr lobbies command_id =
    to_string wr (mk_obj
      [(''c'', AInt RESPONSE_LOBBY_LIST),
       (''d'', mk_obj
            [(''l'', lobbies),
             (''id'', AStr command_id)])])"

definition notification_lobby_stop_listing :: "writer \<Rightarrow> string \<Rightarrow> string" where
  "notification_lobby_stop_listing wr command_id =
    to_string wr (mk_obj
      [(''c'', AInt RESPONSE_LOBBY_LIST),
       (''d'', mk_obj
            [(''l'', ANull),
             (''id'', AStr command_id)])])"

definition notification_lobby_public_data :: "writer \<Rightarrow> any_element \<Rightarrow> string \<Rightarrow> string" where
  "notification_lobby_public_data wr lobby_data command_id =
    to_string wr (mk_obj
      [(''c'', AInt RESPONSE_LOBBY_DATA),
       (''d'', mk_obj
            [(''d'', lobby_data),
             (''_p'', ABool False),
             (''id'', AStr command_id)])])"

definition notification_lobby_private_data :: "writer \<Rightarrow> any_element \<Rightarrow> string \<Rightarrow> string" where
  "notification_lobby_private_data wr lobby_data command_id =
    to_string wr (mk_obj
      [(''c'', AInt RESPONSE_LOBBY_DATA),
       (''d'', mk_obj
            [(''d'', lobby_data),
             (''_p'', ABool True),
             (''id'', AStr command_id)])])"

definition notification_peer_notify :: "writer \<Rightarrow> any_element \<Rightarrow> string \<Rightarrow> string" where
  "notification_peer_notify wr peer_data from_peer =
    to_string wr (mk_obj
      [(''c'', AInt RESPONSE_PEER_NOTIFY),
       (''d'', mk_obj
            [(''d'', peer_data),
             (''p'', AStr from_peer)])])"

definition notification_peer_public_data :: "writer \<Rightarrow> any_element \<Rightarrow> string \<Rightarrow> string \<Rightarrow> string" where
  "notification_peer_public_data wr peer_data from_peer target_peer =
    to_string wr (mk_obj
      [(''c'', AInt RESPONSE_DATA_TO),
       (''d'', mk_obj
            [(''d'', peer_data),
             (''p'', AStr from_peer),
             (''tp'', AStr target_peer),
             (''_p'', ABool False)])])"

definition notification_peer_private_data :: "writer \<Rightarrow> any_element \<Rightarrow> string \<Rightarrow> string \<Rightarrow> string" where
  "notification_peer_private_data wr peer_data from_peer target_peer =
    to_string wr (mk_obj
      [(''c'', AInt RESPONSE_DATA_TO),
       (''d'', mk_obj
            [(''d'', peer_data),
             (''p'', AStr from_peer),
             (''tp'', AStr target_peer),
             (''_p'', ABool True)])])"

definition notification_data_to_sent :: "writer \<Rightarrow> string \<Rightarrow> string" where
  "notification_data_to_sent wr command_id =
    to_string wr (mk_obj
      [(''c'', AInt RESPONSE_DATA_TO_SENT),
       (''d'', mk_obj
            [(''id'', AStr command_id)])])"

definition notification_notify_sent :: "writer \<Rightarrow> string \<Rightarrow> string" where
  "notification_notify_sent wr command_id =
    to_string wr (mk_obj
      [(''c'', AInt RESPONSE_NOTIFY_TO_SENT),
       (''d'', mk_obj
            [(''id'', AStr command_id)])])"

end
