(* ===== verification/Lua_Types.thy ===== *)
theory Lua_Types
  imports Messages
begin

text \<open>
  The border between the server and a game's Lua script: the values that cross it
  (\<^verbatim>\<open>src/src/lua/script_lua_functions.cpp\<close>, \<open>decode_luavalue\<close> and \<open>push_lua_value\<close>), the C functions
  a script can call, and the script itself. The Luau virtual machine and the scripts it runs are
  not part of the repository: a script is a tree of calls into the server (\<open>SApi\<close>, the rest of the
  run as a function of the call's result) that ends by returning or by an error, and which tree a
  call of a script function runs is a parameter (\<open>lua_pcall\<close>), as are the JSON text functions,
  the random identifiers and the other services collected in \<open>env\<close>. The state of a virtual
  machine, its globals and upvalues, is an opaque number that a run replaces.
\<close>

subsection \<open>Lua values\<close>

datatype userdata_type =
    LOBBY_ROOT | LOBBY_PUBLIC_DATA | LOBBY_PRIVATE_DATA | LOBBY_TAGS
  | PEER_ROOT | PEER_PUBLIC_DATA | PEER_PRIVATE_DATA | PEER_USER_DATA

record lobby_userdata =
  ud_type :: userdata_type
  ud_game_id :: string
  ud_lobby_id :: string
  ud_calling_peer_id :: string
  ud_peer_id :: string

text \<open>A table is the list of its entries in the order \<open>lua_next\<close> visits them.\<close>

datatype luaval =
    LNil
  | LBool bool
  | LNum f64
  | LStr string
  | LTable "(luaval \<times> luaval) list"
  | LUserdata lobby_userdata
  | LFunction string

text \<open>The C functions the server registers that read or write its state.\<close>

datatype api_fun =
    Api_index | Api_newindex | Api_start_timer | Api_stop_timer | Api_notify | Api_notify_all
  | Api_broadcast_chat | Api_kick_peer | Api_set_leaderboard | Api_get_time | Api_get_lobby

type_synonym api_result = "string + luaval list"

type_synonym lua_vm = nat

datatype script =
    SRet lua_vm "luaval list"
  | SErr lua_vm "string option"
  | SApi api_fun "luaval list" "api_result \<Rightarrow> script"

subsection \<open>The services the server relies on\<close>

text \<open>
  \<open>yyjson_read\<close>/\<open>yyjson_mut_write\<close> parse and print JSON; \<open>double_to_int\<close> is the compiled code's
  conversion of a double that does not fit an \<open>int\<close>, and \<open>double_to_long\<close> the same for
  \<open>int64_t\<close>; \<open>uuid_gen n\<close> is the \<open>n\<close>-th random UUID;
  \<open>bucket_order\<close> the order in which an unordered map visits its keys. \<open>lua_main\<close> is the table the
  script's main file returned (kept in the registry), \<open>lua_has_function\<close> and \<open>lua_pcall\<close> look up and
  run its functions, \<open>lua_tostring\<close>/\<open>lua_tonumber\<close> convert between numbers and strings,
  \<open>lua_argerror\<close> is the text of an argument error, and \<open>lua_newstate\<close> opens a script folder: the machine, or \<open>None\<close> when out of memory, and the
  callbacks that \<open>run_lua_file\<close> found. \<open>lua_c_depth\<close> is how deep Luau lets C calls nest.
\<close>

record env =
  yyjson_read :: "string \<Rightarrow> yyval option"
  yyjson_mut_write :: writer
  double_to_int :: "f64 \<Rightarrow> i32"
  double_to_long :: "f64 \<Rightarrow> i64"
  uuid_gen :: "nat \<Rightarrow> string"
  bucket_order :: "string list \<Rightarrow> string list"
  lua_main :: "lua_vm \<Rightarrow> luaval option"
  lua_has_function :: "lua_vm \<Rightarrow> string \<Rightarrow> bool"
  lua_pcall :: "lua_vm \<Rightarrow> string \<Rightarrow> luaval list \<Rightarrow> script"
  lua_tostring :: "f64 \<Rightarrow> string"
  lua_tonumber :: "string \<Rightarrow> f64 option"
  lua_argerror :: string
  lua_newstate :: "string \<Rightarrow> (lua_vm \<times> flat_set) option"
  lua_c_depth :: nat

subsection \<open>From Lua to the server\<close>

definition is_digit :: "char \<Rightarrow> bool" where
  "is_digit ch \<longleftrightarrow> of_char CHR ''0'' \<le> (of_char ch :: nat) \<and> (of_char ch :: nat) \<le> of_char CHR ''9''"

text \<open>\<open>std::stoi\<close> of a string that starts with a digit; \<open>None\<close> is \<open>std::out_of_range\<close>.\<close>

definition stoi :: "string \<Rightarrow> nat option" where
  "stoi s =
    (let n = foldl (\<lambda>n ch. 10 * n + (of_char ch - of_char CHR ''0'')) (0 :: nat) (takeWhile is_digit s)
     in if n < 2 ^ 31 then Some n else None)"

definition decode_number :: "f64 \<Rightarrow> any_element" where
  "decode_number d =
    (if f64_integral d \<and> - (2 ^ 63) \<le> f64_trunc d \<and> f64_trunc d < 2 ^ 63
     then AInt (word_of_int (f64_trunc d)) else AReal d)"

text \<open>
  \<open>decode_luavalue\<close> and the loop of \<open>decode_luatable\<close>, over the entries still to visit, with the
  dictionary, the array and the flag built so far; \<open>None\<close> is a Lua error. A key counts as a
  number if it is one or is a string that converts to one.
\<close>

fun decode_luavalue :: "env \<Rightarrow> luaval \<Rightarrow> any_element option"
  and decode_luatable ::
    "env \<Rightarrow> (luaval \<times> luaval) list \<Rightarrow> dict \<Rightarrow> any_element list \<Rightarrow> bool \<Rightarrow> any_element option" where
  "decode_luavalue E LNil = Some ANull"
| "decode_luavalue E (LBool b) = Some (ABool b)"
| "decode_luavalue E (LNum d) = Some (decode_number d)"
| "decode_luavalue E (LStr s) = Some (AStr (c_str s))"
| "decode_luavalue E (LTable kvs) = decode_luatable E kvs [] [] True"
| "decode_luavalue E (LUserdata u) = Some ANull"
| "decode_luavalue E (LFunction f) = Some ANull"
| "decode_luatable E [] rd ra is_dict = Some (if is_dict then AMap rd else AArr ra)"
| "decode_luatable E ((k, v) # kvs) rd ra is_dict =
     (case k of
        LNum _ \<Rightarrow>
          (case decode_luavalue E v of None \<Rightarrow> None
           | Some x \<Rightarrow> decode_luatable E kvs rd (ra @ [x]) False)
      | LStr s \<Rightarrow>
          (if lua_tonumber E s \<noteq> None then
             (case decode_luavalue E v of None \<Rightarrow> None
              | Some x \<Rightarrow> decode_luatable E kvs rd (ra @ [x]) False)
           else if c_str s = [] then None
           else if is_digit (hd (c_str s)) \<and> \<not> is_dict then
             (case stoi (c_str s) of None \<Rightarrow> None
              | Some n \<Rightarrow>
                  if 1 \<le> n then
                    (case decode_luavalue E v of None \<Rightarrow> None
                     | Some x \<Rightarrow> decode_luatable E kvs rd (ra @ [x]) False)
                  else decode_luatable E kvs rd ra False)
           else
             (case decode_luavalue E v of None \<Rightarrow> None
              | Some x \<Rightarrow>
                  if x \<noteq> ANull then decode_luatable E kvs (fm_emplace (c_str s) x rd) ra is_dict
                  else decode_luatable E kvs rd ra is_dict))
      | _ \<Rightarrow> None)"

subsection \<open>From the server to Lua\<close>

function bit_len :: "int \<Rightarrow> nat" where
  "bit_len n = (if n \<le> 0 then 0 else Suc (bit_len (n div 2)))"
  by pat_completeness auto
termination
  by (relation "measure nat") auto

declare bit_len.simps [simp del]

text \<open>
  An integer as a double, rounded to nearest, ties to even: with \<open>n\<close> significant bits the
  mantissa is the integer shifted to 53 bits and the exponent field is \<open>n - 1 + 1023\<close>.
\<close>

definition f64_of_int :: "int \<Rightarrow> f64" where
  "f64_of_int i =
    (let a = \<bar>i\<bar>; n = bit_len a; sign = (if i < 0 then 2 ^ 63 else 0)
     in if a = 0 then 0
        else if n \<le> 53
        then word_of_int (sign + (int n + 1022) * 2 ^ 52 + (a * 2 ^ (53 - n) - 2 ^ 52))
        else (let q = a div 2 ^ (n - 53); r = a mod 2 ^ (n - 53); half = 2 ^ (n - 54);
                  m = (if half < r \<or> (r = half \<and> odd q) then q + 1 else q)
              in if m = 2 ^ 53 then word_of_int (sign + (int n + 1023) * 2 ^ 52)
                 else word_of_int (sign + (int n + 1022) * 2 ^ 52 + (m - 2 ^ 52))))"

text \<open>Setting a table entry to \<open>nil\<close> leaves it absent.\<close>

fun push_lua_value :: "any_element \<Rightarrow> luaval" where
  "push_lua_value ANull = LNil"
| "push_lua_value (ABool b) = LBool b"
| "push_lua_value (AInt n) = LNum (f64_of_int (sint n))"
| "push_lua_value (AReal d) = LNum d"
| "push_lua_value (AStr s) = LStr s"
| "push_lua_value (AArr xs) =
     LTable (filter (\<lambda>e. snd e \<noteq> LNil)
       (zip (map (\<lambda>i. LNum (f64_of_int (int i))) [1..<Suc (length xs)]) (map push_lua_value xs)))"
| "push_lua_value (AMap m) =
     LTable (filter (\<lambda>e. snd e \<noteq> LNil) (map (\<lambda>(k, v). (LStr (c_str k), push_lua_value v)) m))"

subsection \<open>Arithmetic on a timer's duration\<close>

definition f64_lt :: "f64 \<Rightarrow> f64 \<Rightarrow> bool" where
  "f64_lt a b \<longleftrightarrow> \<not> f64_is_nan a \<and> \<not> f64_is_nan b \<and> \<not> (f64_is_zero a \<and> f64_is_zero b) \<and>
    (if f64_neg a then (if f64_neg b then uint b < uint a else True)
     else \<not> f64_neg b \<and> uint a < uint b)"

text \<open>A positive integer rounded to 53 significant bits, to nearest, ties to even.\<close>

definition rn53 :: "int \<Rightarrow> int" where
  "rn53 a =
    (let n = bit_len a; k = n - 53; q = a div 2 ^ k; r = a mod 2 ^ k; half = 2 ^ (k - 1)
     in if n \<le> 53 then a
        else if half < r \<or> (r = half \<and> odd q) then (q + 1) * 2 ^ k else q * 2 ^ k)"

text \<open>
  \<open>int(duration * 1000)\<close> for a duration between 0.1 and 600 (or NaN, which passes the range
  check of \<open>start_timer\<close>): the product is rounded to a double, then cut to an integer.
\<close>

definition duration_ms :: "env \<Rightarrow> f64 \<Rightarrow> i32" where
  "duration_ms E d =
    (if f64_finite d
     then word_of_int (rn53 ((2 ^ 52 + f64_frac d) * 1000) div 2 ^ nat (1075 - f64_exp d))
     else double_to_int E d)"

definition f64_0_1 :: f64 where
  "f64_0_1 = 0x3FB999999999999A"

definition f64_600 :: f64 where
  "f64_600 = 0x4082C00000000000"

definition f64_to_i64 :: "env \<Rightarrow> f64 \<Rightarrow> i64" where
  "f64_to_i64 E d =
    (if f64_finite d \<and> - (2 ^ 63) \<le> f64_trunc d \<and> f64_trunc d < 2 ^ 63
     then word_of_int (f64_trunc d) else double_to_long E d)"

subsection \<open>Reading the arguments of a C function\<close>

text \<open>
  \<open>luaL_checkstring\<close> takes a string or a number (converted), \<open>luaL_checknumber\<close> a number or a
  numeric string; \<open>None\<close> is the argument error both raise. A missing argument is \<open>none\<close>.
\<close>

definition lua_arg :: "luaval list \<Rightarrow> nat \<Rightarrow> luaval" where
  "lua_arg args i = (if 1 \<le> i \<and> i \<le> length args then args ! (i - 1) else LNil)"

definition lua_to_cstring :: "env \<Rightarrow> luaval \<Rightarrow> string option" where
  "lua_to_cstring E v =
    (case v of LStr s \<Rightarrow> Some (c_str s) | LNum d \<Rightarrow> Some (lua_tostring E d) | _ \<Rightarrow> None)"

definition lua_to_number :: "env \<Rightarrow> luaval \<Rightarrow> f64 option" where
  "lua_to_number E v = (case v of LNum d \<Rightarrow> Some d | LStr s \<Rightarrow> lua_tonumber E s | _ \<Rightarrow> None)"

definition lua_to_int :: "env \<Rightarrow> luaval \<Rightarrow> i32" where
  "lua_to_int E v =
    (case lua_to_number E v of Some d \<Rightarrow> f64_to_i32 (double_to_int E) d | None \<Rightarrow> 0)"

definition lua_toboolean :: "luaval \<Rightarrow> bool" where
  "lua_toboolean v \<longleftrightarrow> v \<noteq> LNil \<and> v \<noteq> LBool False"

end
