(* ===== verification/Game_State.thy ===== *)
theory Game_State
  imports Lua_Types
begin

text \<open>
  The data of one game (\<^verbatim>\<open>peer_data.h\<close>, \<^verbatim>\<open>lobby_data.h\<close>, \<^verbatim>\<open>game_data.h\<close>, \<^verbatim>\<open>script_lua.h\<close> under
  \<^verbatim>\<open>src/src/game\<close> and \<^verbatim>\<open>src/src/lua\<close>), the context a handler of the game thread runs in, and the
  message queue towards the clients (\<open>GameThread::send\<close>, \<open>on_error\<close>). A C++ reference to a peer or
  a lobby is the key it was looked up with. \<open>operator[]\<close> of a map inserts a default entry when the
  key is missing: \<open>touch_peer\<close> and \<open>touch_lobby\<close> are that operator, and they record a fault when
  they insert, because the code then goes on with a record nobody created (and a flat map that
  inserts moves the records that live references point to). The faults of a run are a list in the
  context; a run with no fault never relied on an implicit record or on undefined behaviour.
\<close>

subsection \<open>PeerData\<close>

record peer_data =
  p_id :: string
  p_order_id :: i32
  p_last_message_time :: i64
  p_game_id :: string
  p_reconnection_token :: string
  p_lobby_id :: string
  p_platform :: string
  p_platform_id :: string
  p_public_data :: dict
  p_private_data :: dict
  p_user_data :: dict
  p_disconnected :: bool
  p_ready :: bool
  p_public_data_diff :: dict
  p_public_data_dirty :: bool
  p_private_data_diff :: dict
  p_private_data_dirty :: bool
  p_user_data_diff :: dict
  p_user_data_dirty :: bool

definition default_peer :: peer_data where
  "default_peer =
    \<lparr>p_id = [], p_order_id = 0, p_last_message_time = 0, p_game_id = [],
     p_reconnection_token = [], p_lobby_id = [], p_platform = [], p_platform_id = [],
     p_public_data = [], p_private_data = [], p_user_data = [], p_disconnected = False,
     p_ready = False, p_public_data_diff = [], p_public_data_dirty = False,
     p_private_data_diff = [], p_private_data_dirty = False, p_user_data_diff = [],
     p_user_data_dirty = False\<rparr>"

definition leave_lobby :: "peer_data \<Rightarrow> peer_data" where
  "leave_lobby p =
    p\<lparr>p_lobby_id := [], p_ready := False, p_order_id := 0, p_public_data := [],
      p_private_data := [], p_disconnected := False\<rparr>"

definition peer_to_dict :: "bool \<Rightarrow> bool \<Rightarrow> peer_data \<Rightarrow> dict" where
  "peer_to_dict include_private include_reconnection p =
    (let d = fm_put ''oi'' (AInt (to_i64 (p_order_id p))) (fm_put ''id'' (AStr (p_id p)) []);
         d = (if include_reconnection then fm_put ''rt'' (AStr (p_reconnection_token p)) d else d);
         d = fm_put ''l'' (AStr (p_lobby_id p)) d;
         d = fm_put ''d'' (AMap (p_public_data p)) d;
         d = fm_put ''p'' (AStr (p_platform p)) d;
         d = (if include_private then fm_put ''_d'' (AMap (p_private_data p)) d else d);
         d = fm_put ''ud'' (AMap (p_user_data p)) d;
         d = fm_put ''dc'' (ABool (p_disconnected p)) d
     in fm_put ''r'' (ABool (p_ready p)) d)"

subsection \<open>LobbyData\<close>

record lobby_data =
  l_id :: string
  l_name :: string
  l_host :: string
  l_password :: string
  l_max_players :: i64
  l_peer_ids :: flat_set
  l_peer_ordered_ids :: "string list"
  l_create_time :: i64
  l_game_id :: string
  l_sealed :: bool
  l_disband_on_leave :: bool
  l_public_data :: dict
  l_private_data :: dict
  l_tags :: dict
  l_order_id_counter :: i64
  l_public_data_diff :: dict
  l_public_data_dirty :: bool
  l_private_data_diff :: dict
  l_private_data_dirty :: bool
  l_tags_diff :: dict
  l_tags_dirty :: bool
  l_max_players_dirty :: bool
  l_sealed_dirty :: bool
  l_name_dirty :: bool

definition default_lobby :: lobby_data where
  "default_lobby =
    \<lparr>l_id = [], l_name = [], l_host = [], l_password = [], l_max_players = 0, l_peer_ids = [],
     l_peer_ordered_ids = [], l_create_time = 0, l_game_id = [], l_sealed = False,
     l_disband_on_leave = False, l_public_data = [], l_private_data = [], l_tags = [],
     l_order_id_counter = 0, l_public_data_diff = [], l_public_data_dirty = False,
     l_private_data_diff = [], l_private_data_dirty = False, l_tags_diff = [],
     l_tags_dirty = False, l_max_players_dirty = False, l_sealed_dirty = False,
     l_name_dirty = False\<rparr>"

definition lobby_to_dict :: "bool \<Rightarrow> lobby_data \<Rightarrow> dict" where
  "lobby_to_dict include_private l =
    (let d = fm_put ''n'' (AStr (l_name l)) (fm_put ''id'' (AStr (l_id l)) []);
         d = fm_put ''h'' (AStr (l_host l)) d;
         d = fm_put ''s'' (ABool (l_sealed l)) d;
         d = fm_put ''m'' (AInt (l_max_players l)) d;
         d = fm_put ''p'' (AInt (to_i64 (of_nat (length (l_peer_ids l))))) d;
         d = fm_put ''c'' (AInt (l_create_time l)) d;
         d = fm_put ''_p'' (ABool (l_password l \<noteq> [])) d;
         d = fm_put ''t'' (AMap (l_tags l)) d;
         d = fm_put ''d'' (AMap (l_public_data l)) d
     in if include_private then fm_put ''_p'' (AMap (l_private_data l)) d else d)"

subsection \<open>TimerData, ScriptLua and GameData\<close>

record timer =
  t_id :: string
  t_lobby_id :: string
  t_game_id :: string
  t_peer_id :: string
  t_end_time :: i64
  t_args :: "any_element list"

text \<open>\<open>lua_L\<close> is the machine (\<open>None\<close> for \<open>nullptr\<close>); the registry fields are written before a call.\<close>

record script_lua =
  lua_L :: "lua_vm option"
  lua_scripts_folder :: string
  lua_folder_name :: string
  lua_script_entrypoint :: string
  lua_enabled :: bool
  lua_reg_peer_id :: string
  lua_reg_lobby_id :: string
  lua_reg_game_id :: string

definition default_lua :: script_lua where
  "default_lua =
    \<lparr>lua_L = None, lua_scripts_folder = [], lua_folder_name = [], lua_script_entrypoint = [],
     lua_enabled = False, lua_reg_peer_id = [], lua_reg_lobby_id = [], lua_reg_game_id = []\<rparr>"

text \<open>
  \<open>g_lobbies\<close> is a \<open>std::unordered_map\<close>: a finite map, kept here in key order; the order in which
  the code visits it is \<open>bucket_order\<close>.
\<close>

record game_data =
  g_last_send_time :: i64
  g_last_tick_time :: i64
  g_id :: string
  g_lobby_control :: string
  g_tick_rate :: i32
  g_send_rate :: i32
  g_max_afk_time :: i32
  g_seal :: bool
  g_disband_on_leave :: bool
  g_folder_name :: string
  g_peers_send_data :: "(string list) flat_map"
  g_peers :: "peer_data flat_map"
  g_disconnected_peers :: "i64 flat_map"
  g_lobbies :: "lobby_data flat_map"
  g_lobby_listing_peers :: flat_set
  g_lobbies_updated :: flat_set
  g_timer_data :: "timer flat_map"
  g_enabled_callbacks :: flat_set
  g_lua :: script_lua

definition new_game :: "string \<Rightarrow> string \<Rightarrow> game_data" where
  "new_game gid control =
    \<lparr>g_last_send_time = 0, g_last_tick_time = 0, g_id = gid, g_lobby_control = control,
     g_tick_rate = 0, g_send_rate = 0, g_max_afk_time = 0, g_seal = False,
     g_disband_on_leave = False, g_folder_name = [], g_peers_send_data = [], g_peers = [],
     g_disconnected_peers = [], g_lobbies = [], g_lobby_listing_peers = [],
     g_lobbies_updated = [], g_timer_data = [], g_enabled_callbacks = [], g_lua = default_lua\<rparr>"

subsection \<open>The context of a handler\<close>

datatype op_code = OpText | OpClose

text \<open>What the game thread defers to the web server's loop.\<close>

datatype deferred =
    DSend string string op_code
  | DBatch "(string list) flat_map"
  | DClear flat_set

record db_message =
  db_game_id :: string
  db_peer_id :: string
  db_score :: i64
  db_leaderboard_id :: string
  db_leaderboard_type :: string

datatype fault =
    MissingPeer string    \<comment> \<open>\<open>peers[k]\<close> created a record, or a reference to it dangles\<close>
  | MissingLobby string   \<comment> \<open>the same for \<open>lobbies[k]\<close>\<close>
  | IteratorInvalidated   \<comment> \<open>a container changed under a range-for loop\<close>
  | BadVariantAccess      \<comment> \<open>\<open>std::get\<close> of the wrong alternative throws\<close>
  | NullString            \<comment> \<open>a \<open>std::string\<close> read from a null pointer\<close>
  | LuaPanic              \<comment> \<open>a Lua error outside a protected call\<close>

record base =
  now :: i64
  defers :: "deferred list"
  messages_sent :: i32
  database_queue :: "db_message list"
  uuid_count :: nat
  faults :: "fault list"

record ctx = base +
  game :: game_data

definition upd_game :: "(game_data \<Rightarrow> game_data) \<Rightarrow> ctx \<Rightarrow> ctx" where
  "upd_game f c = c\<lparr>game := f (game c)\<rparr>"

definition fault_add :: "fault \<Rightarrow> ctx \<Rightarrow> ctx" where
  "fault_add x c = c\<lparr>faults := faults c @ [x]\<rparr>"

definition peer_at :: "ctx \<Rightarrow> string \<Rightarrow> peer_data" where
  "peer_at c k = (case map_of (g_peers (game c)) k of Some p \<Rightarrow> p | None \<Rightarrow> default_peer)"

definition lobby_at :: "ctx \<Rightarrow> string \<Rightarrow> lobby_data" where
  "lobby_at c k = (case map_of (g_lobbies (game c)) k of Some l \<Rightarrow> l | None \<Rightarrow> default_lobby)"

definition has_peer :: "ctx \<Rightarrow> string \<Rightarrow> bool" where
  "has_peer c k \<longleftrightarrow> fm_has k (g_peers (game c))"

definition has_lobby :: "ctx \<Rightarrow> string \<Rightarrow> bool" where
  "has_lobby c k \<longleftrightarrow> fm_has k (g_lobbies (game c))"

text \<open>Writing through a reference whose record is gone is undefined: it is a fault as well.\<close>

definition set_peer :: "string \<Rightarrow> (peer_data \<Rightarrow> peer_data) \<Rightarrow> ctx \<Rightarrow> ctx" where
  "set_peer k f c =
    (case map_of (g_peers (game c)) k of
       Some p \<Rightarrow> upd_game (\<lambda>g. g\<lparr>g_peers := fm_put k (f p) (g_peers g)\<rparr>) c
     | None \<Rightarrow> fault_add (MissingPeer k) c)"

definition set_lobby :: "string \<Rightarrow> (lobby_data \<Rightarrow> lobby_data) \<Rightarrow> ctx \<Rightarrow> ctx" where
  "set_lobby k f c =
    (case map_of (g_lobbies (game c)) k of
       Some l \<Rightarrow> upd_game (\<lambda>g. g\<lparr>g_lobbies := fm_put k (f l) (g_lobbies g)\<rparr>) c
     | None \<Rightarrow> fault_add (MissingLobby k) c)"

definition touch_peer :: "string \<Rightarrow> ctx \<Rightarrow> ctx" where
  "touch_peer k c =
    (if has_peer c k then c
     else fault_add (MissingPeer k)
            (upd_game (\<lambda>g. g\<lparr>g_peers := fm_put k default_peer (g_peers g)\<rparr>) c))"

definition touch_lobby :: "string \<Rightarrow> ctx \<Rightarrow> ctx" where
  "touch_lobby k c =
    (if has_lobby c k then c
     else fault_add (MissingLobby k)
            (upd_game (\<lambda>g. g\<lparr>g_lobbies := fm_put k default_lobby (g_lobbies g)\<rparr>) c))"

definition mark_updated :: "string \<Rightarrow> ctx \<Rightarrow> ctx" where
  "mark_updated k = upd_game (\<lambda>g. g\<lparr>g_lobbies_updated := fs_insert k (g_lobbies_updated g)\<rparr>)"

definition has_callback :: "ctx \<Rightarrow> string \<Rightarrow> bool" where
  "has_callback c f \<longleftrightarrow> f \<in> set (g_enabled_callbacks (game c))"

subsection \<open>Sending\<close>

definition send :: "string \<Rightarrow> string \<Rightarrow> op_code \<Rightarrow> ctx \<Rightarrow> ctx" where
  "send pid msg op c =
    (if fm_has pid (g_disconnected_peers (game c)) \<and> op \<noteq> OpClose then c
     else
       let c = (if g_send_rate (game c) = 0 \<or> op = OpClose
                then c\<lparr>defers := defers c @ [DSend pid msg op]\<rparr>
                else upd_game (\<lambda>g. g\<lparr>g_peers_send_data :=
                       fm_put pid ((case map_of (g_peers_send_data g) pid of None \<Rightarrow> [] | Some q \<Rightarrow> q) @ [msg])
                         (g_peers_send_data g)\<rparr>) c)
       in c\<lparr>messages_sent := messages_sent c + 1\<rparr>)"

definition on_error ::
  "env \<Rightarrow> string \<Rightarrow> string \<Rightarrow> string \<Rightarrow> bool \<Rightarrow> bool \<Rightarrow> ctx \<Rightarrow> ctx" where
  "on_error E command_id peer_id message close logical_error c =
    (if close then send peer_id message OpClose c
     else send peer_id (notification_error (yyjson_mut_write E) message command_id logical_error)
            OpText c)"

text \<open>
  The two loops over a lobby's peers: everyone, and everyone but one. \<open>send_loop\<close> takes the ids
  in the order of the flat set.
\<close>

definition send_loop :: "string list \<Rightarrow> string \<Rightarrow> ctx \<Rightarrow> ctx" where
  "send_loop ids msg c = fold (\<lambda>k c. send k msg OpText c) ids c"

definition send_others :: "string \<Rightarrow> string list \<Rightarrow> string \<Rightarrow> ctx \<Rightarrow> ctx" where
  "send_others self ids msg c = fold (\<lambda>k c. if k = self then c else send k msg OpText c) ids c"

end
