(* ===== verification/Lobby_Core.thy ===== *)
theory Lobby_Core
  imports Game_State
begin

text \<open>
  What every lobby operation rests on, from \<^verbatim>\<open>src/src/game/game_thread.cpp\<close>: taking a peer out of a
  lobby (\<open>remove_peer_from_lobby\<close>), flushing the changes a script made (\<open>notify_lobby_changes\<close>), and
  calling a script (\<open>scripted_function_call\<close> and \<open>ScriptLua::func_call\<close>), with the C functions of
  \<^verbatim>\<open>script_lua.cpp\<close> and \<^verbatim>\<open>script_lua_functions.cpp\<close> that a script calls back. A script can kick a peer,
  and kicking calls scripts again: \<open>remove_peer_from_lobby\<close> and \<open>kick_peer\<close> take the script call
  they make as an argument, and \<open>scripted_function_call\<close> ties the knot by recursion on the number
  of nested calls that Luau still allows; with none left the call fails with \<open>stack overflow\<close>.
\<close>

text \<open>A script call: calling peer, lobby, function name, arguments; value, \<open>has_error\<close>, context.\<close>

type_synonym script_call =
  "string \<Rightarrow> string \<Rightarrow> string \<Rightarrow> any_element list \<Rightarrow> ctx \<Rightarrow> any_element \<times> bool \<times> ctx"

type_synonym kick_fun = "string \<Rightarrow> string \<Rightarrow> ctx \<Rightarrow> ctx"

subsection \<open>remove\_peer\_from\_lobby\<close>

text \<open>The host leaves and the lobby is disbanded.\<close>

definition remove_disband :: "env \<Rightarrow> string \<Rightarrow> string \<Rightarrow> string \<Rightarrow> ctx \<Rightarrow> ctx" where
  "remove_disband E lid pid command_id c =
    (let others = notification_lobby_kicked (yyjson_mut_write E);
         c = fold (\<lambda>k c.
               let c = set_peer k leave_lobby (touch_peer k c)
               in if k = pid then c else send k others OpText c)
             (l_peer_ids (lobby_at c lid)) c
     in send pid (notification_lobby_left (yyjson_mut_write E) command_id) OpText c)"

text \<open>The host leaves and the first of the other peers becomes the host.\<close>

definition first_other :: "string \<Rightarrow> string list \<Rightarrow> string" where
  "first_other pid ids = (case filter (\<lambda>k. k \<noteq> pid) ids of [] \<Rightarrow> [] | k # _ \<Rightarrow> k)"

definition remove_host_left :: "env \<Rightarrow> string \<Rightarrow> string \<Rightarrow> string \<Rightarrow> ctx \<Rightarrow> ctx" where
  "remove_host_left E lid pid command_id c =
    (let ids = l_peer_ids (lobby_at c lid);
         others = notification_peer_left (yyjson_mut_write E) pid [];
         c = fold (\<lambda>k c.
               let c = touch_peer k c
               in if k = pid then set_peer k leave_lobby c else send k others OpText c) ids c;
         c = send pid (notification_lobby_left (yyjson_mut_write E) command_id) OpText c;
         new_host = first_other pid ids;
         c = set_lobby lid (\<lambda>l. l\<lparr>l_host := new_host\<rparr>) c;
         host_changed = notification_lobby_host_changed (yyjson_mut_write E) new_host
     in fold (\<lambda>k c.
          let c = touch_peer k c
          in if k \<noteq> pid then send k host_changed OpText c else c) ids c)"

text \<open>Someone other than the host leaves or is kicked.\<close>

definition remove_member :: "env \<Rightarrow> string \<Rightarrow> string \<Rightarrow> string \<Rightarrow> bool \<Rightarrow> ctx \<Rightarrow> ctx" where
  "remove_member E lid pid command_id kicked c =
    (let wr = yyjson_mut_write E;
         lobby = lobby_at c lid;
         others = (if kicked then notification_peer_kicked wr pid []
                   else notification_peer_left wr pid []);
         c = fold (\<lambda>k c.
               let c = touch_peer k c;
                   c = (if k = pid then set_peer k leave_lobby c else c)
               in if kicked \<and> k = l_host lobby then c
                  else if k = pid then c
                  else send k others OpText c)
             (l_peer_ids lobby) c;
         left = (if kicked then notification_lobby_kicked wr
                 else notification_lobby_left wr command_id);
         c = send pid left OpText c
     in if kicked then send (l_host lobby) (notification_peer_kicked wr pid command_id) OpText c
        else c)"

text \<open>The end of the function: the peer is detached, and the lobby goes if that leaves it empty.\<close>

definition detach_peer :: "bool \<Rightarrow> string \<Rightarrow> string \<Rightarrow> ctx \<Rightarrow> ctx" where
  "detach_peer is_host lid pid c =
    (let c = touch_peer pid c;
         c = set_peer pid (\<lambda>p. p\<lparr>p_lobby_id := [], p_ready := False\<rparr>) c;
         c = set_lobby lid (\<lambda>l. l\<lparr>l_peer_ids := fs_erase pid (l_peer_ids l),
               l_peer_ordered_ids := filter (\<lambda>k. k \<noteq> pid) (l_peer_ordered_ids l)\<rparr>) c;
         lobby = lobby_at c lid;
         c = mark_updated (l_id lobby) c
     in if (is_host \<and> (l_disband_on_leave lobby \<or> g_disband_on_leave (game c))) \<or>
           l_peer_ids lobby = []
        then upd_game (\<lambda>g. g\<lparr>g_lobbies := fm_erase (l_id lobby) (g_lobbies g)\<rparr>) c
        else c)"

definition remove_peer_from_lobby ::
  "script_call \<Rightarrow> env \<Rightarrow> string \<Rightarrow> string \<Rightarrow> string \<Rightarrow> bool \<Rightarrow> ctx \<Rightarrow> ctx" where
  "remove_peer_from_lobby call E lid pid command_id kicked c =
    (let lobby = lobby_at c lid;
         is_host = (pid = l_host lobby);
         c = (if is_host then
                if g_disband_on_leave (game c) \<or> g_lobby_control (game c) = ''relay'' \<or>
                   length (l_peer_ids lobby) = 1
                then remove_disband E lid pid command_id c
                else remove_host_left E lid pid command_id c
              else remove_member E lid pid command_id kicked c);
         c = (if has_callback c ''_on_peer_leave'' then
                let (result, has_error, c) =
                      call pid (l_id (lobby_at c lid)) ''_on_peer_leave'' [] c
                in (case result of
                      AStr s \<Rightarrow> if has_error then on_error E command_id pid s False has_error c else c
                    | _ \<Rightarrow> c)
              else c)
     in detach_peer is_host lid pid c)"

subsection \<open>notify\_lobby\_changes\<close>

definition notify_peer_changes :: "env \<Rightarrow> string \<Rightarrow> string \<Rightarrow> ctx \<Rightarrow> ctx" where
  "notify_peer_changes E lid k c =
    (let wr = yyjson_mut_write E;
         c = touch_peer k c;
         c = (if p_private_data_dirty (peer_at c k) then
                let c = set_peer k (\<lambda>p. p\<lparr>p_private_data_dirty := False\<rparr>) c;
                    msg = notification_peer_private_data wr
                            (AMap (p_private_data_diff (peer_at c k))) [] k;
                    c = send k msg OpText c
                in set_peer k (\<lambda>p. p\<lparr>p_private_data_diff := []\<rparr>) c
              else c)
     in if p_public_data_dirty (peer_at c k) then
          let c = set_peer k (\<lambda>p. p\<lparr>p_public_data_dirty := False\<rparr>) c;
              msg = notification_peer_public_data wr
                      (AMap (p_public_data_diff (peer_at c k))) [] k;
              c = send_loop (l_peer_ids (lobby_at c lid)) msg c
          in set_peer k (\<lambda>p. p\<lparr>p_public_data_diff := []\<rparr>) c
        else c)"

definition notify_tags_changes :: "env \<Rightarrow> string \<Rightarrow> ctx \<Rightarrow> ctx" where
  "notify_tags_changes E lid c =
    (if l_tags_dirty (lobby_at c lid) then
       let c = set_lobby lid (\<lambda>l. l\<lparr>l_tags_dirty := False\<rparr>) c;
           msg = notification_tags (yyjson_mut_write E) (AMap (l_tags_diff (lobby_at c lid))) [];
           c = send_loop (l_peer_ids (lobby_at c lid)) msg c;
           c = set_lobby lid (\<lambda>l. l\<lparr>l_tags_diff := []\<rparr>) c
       in mark_updated (l_id (lobby_at c lid)) c
     else c)"

definition notify_name_changes :: "env \<Rightarrow> string \<Rightarrow> ctx \<Rightarrow> ctx" where
  "notify_name_changes E lid c =
    (if l_name_dirty (lobby_at c lid) then
       let c = set_lobby lid (\<lambda>l. l\<lparr>l_name_dirty := False\<rparr>) c;
           msg = notification_lobby_title (yyjson_mut_write E) (l_name (lobby_at c lid)) [];
           c = send_loop (l_peer_ids (lobby_at c lid)) msg c
       in mark_updated (l_id (lobby_at c lid)) c
     else c)"

definition notify_max_players_changes :: "env \<Rightarrow> string \<Rightarrow> ctx \<Rightarrow> ctx" where
  "notify_max_players_changes E lid c =
    (if l_max_players_dirty (lobby_at c lid) then
       let c = set_lobby lid (\<lambda>l. l\<lparr>l_max_players_dirty := False\<rparr>) c;
           msg = notification_lobby_max_players (yyjson_mut_write E)
                   (to_i32 (l_max_players (lobby_at c lid))) [];
           c = send_loop (l_peer_ids (lobby_at c lid)) msg c
       in mark_updated (l_id (lobby_at c lid)) c
     else c)"

definition notify_sealed_changes :: "env \<Rightarrow> string \<Rightarrow> ctx \<Rightarrow> ctx" where
  "notify_sealed_changes E lid c =
    (if l_sealed_dirty (lobby_at c lid) then
       let c = set_lobby lid (\<lambda>l. l\<lparr>l_sealed_dirty := False\<rparr>) c;
           msg = (if l_sealed (lobby_at c lid) then notification_lobby_sealed (yyjson_mut_write E) []
                  else notification_lobby_unsealed (yyjson_mut_write E) []);
           c = send_loop (l_peer_ids (lobby_at c lid)) msg c
       in mark_updated (l_id (lobby_at c lid)) c
     else c)"

definition notify_lobby_public_changes :: "env \<Rightarrow> string \<Rightarrow> ctx \<Rightarrow> ctx" where
  "notify_lobby_public_changes E lid c =
    (if l_public_data_dirty (lobby_at c lid) then
       let c = set_lobby lid (\<lambda>l. l\<lparr>l_public_data_dirty := False\<rparr>) c;
           msg = notification_lobby_public_data (yyjson_mut_write E)
                   (AMap (l_public_data_diff (lobby_at c lid))) [];
           c = send_loop (l_peer_ids (lobby_at c lid)) msg c
       in set_lobby lid (\<lambda>l. l\<lparr>l_public_data_diff := []\<rparr>) c
     else c)"

definition notify_lobby_private_changes :: "env \<Rightarrow> string \<Rightarrow> ctx \<Rightarrow> ctx" where
  "notify_lobby_private_changes E lid c =
    (if l_private_data_dirty (lobby_at c lid) \<and> g_lobby_control (game c) = ''relay'' then
       let c = set_lobby lid (\<lambda>l. l\<lparr>l_private_data_dirty := False\<rparr>) c;
           msg = notification_lobby_private_data (yyjson_mut_write E)
                   (AMap (l_private_data_diff (lobby_at c lid))) [];
           c = send_loop (l_peer_ids (lobby_at c lid)) msg c
       in set_lobby lid (\<lambda>l. l\<lparr>l_private_data_diff := []\<rparr>) c
     else c)"

definition notify_lobby_changes :: "env \<Rightarrow> string \<Rightarrow> ctx \<Rightarrow> ctx" where
  "notify_lobby_changes E lid c =
    (if lid = [] then c
     else
       let c = touch_lobby lid c;
           c = fold (notify_peer_changes E lid) (l_peer_ids (lobby_at c lid)) c;
           c = notify_tags_changes E lid c;
           c = notify_name_changes E lid c;
           c = notify_max_players_changes E lid c;
           c = notify_sealed_changes E lid c;
           c = notify_lobby_public_changes E lid c
       in notify_lobby_private_changes E lid c)"

end
