(* ===== verification/Lua_Api.thy ===== *)
theory Lua_Api
  imports Lobby_Core
begin

text \<open>
  The server's side of a script: property writes (\<open>lobby_newindex\<close>) and reads (\<open>lobby_index\<close>) on
  the userdata a script holds, from \<^verbatim>\<open>src/src/lua/script_lua.cpp\<close>; the C functions of
  \<^verbatim>\<open>script_lua_functions.cpp\<close> (timers, notifications, chat, kicks, leaderboards); the run of a script
  over these; and \<open>ScriptLua::func_call\<close>, \<open>GameThread::kick_peer\<close> and \<open>scripted_function_call\<close>. A C
  function returns its results, or the message of the Lua error it raises.
\<close>

definition api_error :: "string \<Rightarrow> ctx \<Rightarrow> api_result \<times> ctx" where
  "api_error msg c = (Inl msg, c)"

definition api_ok :: "luaval list \<Rightarrow> ctx \<Rightarrow> api_result \<times> ctx" where
  "api_ok vs c = (Inr vs, c)"

subsection \<open>Property writes\<close>

definition set_lobby_host :: "env \<Rightarrow> string \<Rightarrow> string \<Rightarrow> ctx \<Rightarrow> ctx" where
  "set_lobby_host E lid new_host c =
    (if l_host (lobby_at c lid) = new_host then c
     else
       let c = set_lobby lid (\<lambda>l. l\<lparr>l_host := new_host\<rparr>) c
       in send_loop (l_peer_ids (lobby_at c lid))
            (notification_lobby_host_changed (yyjson_mut_write E) new_host) c)"

text \<open>Whole dictionaries: only a table that decodes to a dictionary is stored.\<close>

definition lobby_replace_public :: "dict \<Rightarrow> lobby_data \<Rightarrow> lobby_data" where
  "lobby_replace_public d l =
    (if l_public_data_dirty l \<or> \<not> map_eq (l_public_data l) d
     then l\<lparr>l_public_data := d, l_public_data_diff := d, l_public_data_dirty := True\<rparr> else l)"

definition lobby_replace_private :: "dict \<Rightarrow> lobby_data \<Rightarrow> lobby_data" where
  "lobby_replace_private d l =
    (if l_private_data_dirty l \<or> \<not> map_eq (l_private_data l) d
     then l\<lparr>l_private_data := d, l_private_data_diff := d, l_private_data_dirty := True\<rparr> else l)"

definition lobby_replace_tags :: "dict \<Rightarrow> lobby_data \<Rightarrow> lobby_data" where
  "lobby_replace_tags d l =
    (if l_tags_dirty l \<or> \<not> map_eq (l_tags l) d
     then l\<lparr>l_tags := d, l_tags_diff := d, l_tags_dirty := True\<rparr> else l)"

definition peer_replace_public :: "dict \<Rightarrow> peer_data \<Rightarrow> peer_data" where
  "peer_replace_public d p =
    (if p_public_data_dirty p \<or> \<not> map_eq (p_public_data p) d
     then p\<lparr>p_public_data := d, p_public_data_dirty := True, p_public_data_diff := d\<rparr> else p)"

definition peer_replace_private :: "dict \<Rightarrow> peer_data \<Rightarrow> peer_data" where
  "peer_replace_private d p =
    (if p_private_data_dirty p \<or> \<not> map_eq (p_private_data p) d
     then p\<lparr>p_private_data := d, p_private_data_dirty := True, p_private_data_diff := d\<rparr> else p)"

definition newindex_lobby_root :: "env \<Rightarrow> string \<Rightarrow> string \<Rightarrow> luaval \<Rightarrow> ctx \<Rightarrow> api_result \<times> ctx" where
  "newindex_lobby_root E lid key v c =
    (let lobby = lobby_at c lid;
         store = (\<lambda>f. case decode_luavalue E v of
             None \<Rightarrow> api_error (lua_argerror E) c
           | Some (AMap d) \<Rightarrow> api_ok [] (set_lobby lid (f d) c)
           | Some _ \<Rightarrow> api_ok [] c)
     in if key = ''sealed'' then
          let new_sealed = lua_toboolean v
          in api_ok [] (if new_sealed \<noteq> l_sealed lobby
               then set_lobby lid (\<lambda>l. l\<lparr>l_sealed := new_sealed, l_sealed_dirty := True\<rparr>) c else c)
        else if key = ''name'' then
          (case lua_to_cstring E v of
             None \<Rightarrow> api_ok [] (fault_add NullString c)
           | Some new_name \<Rightarrow> api_ok [] (if new_name \<noteq> l_name lobby
               then set_lobby lid (\<lambda>l. l\<lparr>l_name := new_name, l_name_dirty := True\<rparr>) c else c))
        else if key = ''host'' then
          (case lua_to_cstring E v of
             None \<Rightarrow> api_ok [] (fault_add NullString c)
           | Some new_host \<Rightarrow> api_ok [] (if new_host \<noteq> l_host lobby
               then set_lobby_host E lid new_host c else c))
        else if key = ''max_players'' then
          let new_max = to_i64 (lua_to_int E v)
          in api_ok [] (if new_max \<noteq> l_max_players lobby
               then set_lobby lid (\<lambda>l. l\<lparr>l_max_players := new_max, l_max_players_dirty := True\<rparr>) c
               else c)
        else if key = ''public_data'' then store lobby_replace_public
        else if key = ''private_data'' then store lobby_replace_private
        else if key = ''tags'' then store lobby_replace_tags
        else api_ok [] c)"

definition newindex_peer_root :: "env \<Rightarrow> string \<Rightarrow> string \<Rightarrow> luaval \<Rightarrow> ctx \<Rightarrow> api_result \<times> ctx" where
  "newindex_peer_root E pid key v c =
    (let c = touch_peer pid c;
         store = (\<lambda>f. case decode_luavalue E v of
             None \<Rightarrow> api_error (lua_argerror E) c
           | Some (AMap d) \<Rightarrow> api_ok [] (set_peer pid (f d) c)
           | Some _ \<Rightarrow> api_ok [] c)
     in if key = ''public_data'' then store peer_replace_public
        else if key = ''private_data'' then store peer_replace_private
        else api_ok [] c)"

definition newindex_entry ::
  "lobby_userdata \<Rightarrow> string \<Rightarrow> any_element \<Rightarrow> ctx \<Rightarrow> ctx" where
  "newindex_entry u key x c =
    (let lid = ud_lobby_id u; pid = ud_peer_id u in
     case ud_type u of
       LOBBY_TAGS \<Rightarrow> set_lobby lid (\<lambda>l. l\<lparr>l_tags := fm_put key x (l_tags l),
         l_tags_dirty := True, l_tags_diff := fm_put key x (l_tags_diff l)\<rparr>) c
     | LOBBY_PUBLIC_DATA \<Rightarrow> set_lobby lid (\<lambda>l. l\<lparr>l_public_data := fm_put key x (l_public_data l),
         l_public_data_dirty := True, l_public_data_diff := fm_put key x (l_public_data_diff l)\<rparr>) c
     | LOBBY_PRIVATE_DATA \<Rightarrow> set_lobby lid (\<lambda>l. l\<lparr>l_private_data := fm_put key x (l_private_data l),
         l_private_data_dirty := True, l_private_data_diff := fm_put key x (l_private_data_diff l)\<rparr>) c
     | PEER_PUBLIC_DATA \<Rightarrow> set_peer pid (\<lambda>p. p\<lparr>p_public_data := fm_put key x (p_public_data p),
         p_public_data_dirty := True, p_public_data_diff := fm_put key x (p_public_data_diff p)\<rparr>) c
     | PEER_PRIVATE_DATA \<Rightarrow> set_peer pid (\<lambda>p. p\<lparr>p_private_data := fm_put key x (p_private_data p),
         p_private_data_dirty := True, p_private_data_diff := fm_put key x (p_private_data_diff p)\<rparr>) c
     | PEER_USER_DATA \<Rightarrow> set_peer pid (\<lambda>p. p\<lparr>p_user_data := fm_put key x (p_user_data p),
         p_user_data_dirty := True, p_user_data_diff := fm_put key x (p_user_data_diff p)\<rparr>) c
     | _ \<Rightarrow> c)"

definition lobby_newindex :: "env \<Rightarrow> luaval list \<Rightarrow> ctx \<Rightarrow> api_result \<times> ctx" where
  "lobby_newindex E args c =
    (case lua_arg args 1 of
       LUserdata u \<Rightarrow>
         (let c = touch_lobby (ud_lobby_id u) c; v = lua_arg args 3 in
          case lua_to_cstring E (lua_arg args 2) of
            None \<Rightarrow> api_error (lua_argerror E) c
          | Some key \<Rightarrow>
              (case ud_type u of
                 LOBBY_ROOT \<Rightarrow> newindex_lobby_root E (ud_lobby_id u) key v c
               | PEER_ROOT \<Rightarrow> newindex_peer_root E (ud_peer_id u) key v c
               | _ \<Rightarrow>
                   (let c = (if ud_type u \<in> {PEER_PUBLIC_DATA, PEER_PRIVATE_DATA, PEER_USER_DATA}
                             then touch_peer (ud_peer_id u) c else c) in
                    case decode_luavalue E v of
                      None \<Rightarrow> api_error (lua_argerror E) c
                    | Some x \<Rightarrow> api_ok [] (newindex_entry u key x c))))
     | _ \<Rightarrow> api_error ''Expected light userdata as first argument.'' c)"

subsection \<open>Property reads\<close>

definition lua_int :: "int \<Rightarrow> luaval" where
  "lua_int i = LNum (f64_of_int i)"

definition lua_field :: "dict \<Rightarrow> string \<Rightarrow> luaval list" where
  "lua_field d key = (case map_of d key of Some x \<Rightarrow> [push_lua_value x] | None \<Rightarrow> [])"

definition peer_userdata :: "lobby_userdata \<Rightarrow> string \<Rightarrow> userdata_type \<Rightarrow> luaval" where
  "peer_userdata u pid t = LUserdata (u\<lparr>ud_type := t, ud_peer_id := pid\<rparr>)"

definition index_lobby_root :: "lobby_userdata \<Rightarrow> string \<Rightarrow> ctx \<Rightarrow> luaval list \<times> ctx" where
  "index_lobby_root u key c =
    (let lobby = lobby_at c (ud_lobby_id u) in
     if key = ''calling_peer_id'' then ([LStr (c_str (ud_calling_peer_id u))], c)
     else if key = ''id'' then ([LStr (c_str (ud_lobby_id u))], c)
     else if key = ''tick_rate'' then ([lua_int (sint (g_tick_rate (game c)))], c)
     else if key = ''name'' then ([LStr (c_str (l_name lobby))], c)
     else if key = ''host'' then ([LStr (c_str (l_host lobby))], c)
     else if key = ''max_players'' then ([lua_int (sint (l_max_players lobby))], c)
     else if key = ''create_time'' then ([lua_int (sint (l_create_time lobby))], c)
     else if key = ''sealed'' then ([LBool (l_sealed lobby)], c)
     else if key = ''tags'' then ([peer_userdata u [] LOBBY_TAGS], c)
     else if key = ''public_data'' then ([peer_userdata u [] LOBBY_PUBLIC_DATA], c)
     else if key = ''private_data'' then ([peer_userdata u [] LOBBY_PRIVATE_DATA], c)
     else if key = ''peers'' then
       ([LTable (map (\<lambda>k. (LStr (c_str k), peer_userdata u k PEER_ROOT)) (l_peer_ids lobby))],
        fold touch_peer (l_peer_ids lobby) c)
     else if key = ''peers_count'' then ([lua_int (int (length (l_peer_ids lobby)))], c)
     else if key = ''peers_ordered'' then
       ([LTable (zip (map (\<lambda>i. lua_int (int i)) [1..<Suc (length (l_peer_ordered_ids lobby))])
          (map (\<lambda>k. peer_userdata u k PEER_ROOT) (l_peer_ordered_ids lobby)))],
        fold touch_peer (l_peer_ordered_ids lobby) c)
     else ([], c))"

definition index_peer_root :: "lobby_userdata \<Rightarrow> string \<Rightarrow> ctx \<Rightarrow> luaval list" where
  "index_peer_root u key c =
    (let peer = peer_at c (ud_peer_id u) in
     if key = ''id'' then [LStr (c_str (p_id peer))]
     else if key = ''order_id'' then [lua_int (sint (p_order_id peer))]
     else if key = ''platform'' then [LStr (c_str (p_platform peer))]
     else if key = ''platform_id'' then [LStr (c_str (p_platform_id peer))]
     else if key = ''ready'' then [LBool (p_ready peer)]
     else if key = ''disconnected'' then [LBool (p_disconnected peer)]
     else if key = ''public_data'' then [peer_userdata u (p_id peer) PEER_PUBLIC_DATA]
     else if key = ''private_data'' then [peer_userdata u (p_id peer) PEER_PRIVATE_DATA]
     else if key = ''user_data'' then [peer_userdata u (p_id peer) PEER_USER_DATA]
     else [])"

definition index_methods :: "string list" where
  "index_methods = [''start_timer'', ''stop_timer'', ''notify'', ''notify_all'', ''kick_peer'',
     ''set_leaderboard'', ''broadcast_chat'']"

definition lobby_index :: "env \<Rightarrow> luaval list \<Rightarrow> ctx \<Rightarrow> api_result \<times> ctx" where
  "lobby_index E args c =
    (case lua_arg args 1 of
       LUserdata u \<Rightarrow>
         (let c = touch_lobby (ud_lobby_id u) c; lobby = lobby_at c (ud_lobby_id u) in
          case lua_to_cstring E (lua_arg args 2) of
            None \<Rightarrow> api_error (lua_argerror E) c
          | Some key \<Rightarrow>
              (if key \<in> set index_methods then api_ok [LFunction key] c
               else (case ud_type u of
                   LOBBY_ROOT \<Rightarrow> (let (vs, c) = index_lobby_root u key c in api_ok vs c)
                 | LOBBY_TAGS \<Rightarrow> api_ok (lua_field (l_tags lobby) key) c
                 | LOBBY_PUBLIC_DATA \<Rightarrow> api_ok (lua_field (l_public_data lobby) key) c
                 | LOBBY_PRIVATE_DATA \<Rightarrow> api_ok (lua_field (l_private_data lobby) key) c
                 | PEER_ROOT \<Rightarrow>
                     (let c = touch_peer (ud_peer_id u) c in api_ok (index_peer_root u key c) c)
                 | PEER_PUBLIC_DATA \<Rightarrow> (let c = touch_peer (ud_peer_id u) c
                     in api_ok (lua_field (p_public_data (peer_at c (ud_peer_id u))) key) c)
                 | PEER_PRIVATE_DATA \<Rightarrow> (let c = touch_peer (ud_peer_id u) c
                     in api_ok (lua_field (p_private_data (peer_at c (ud_peer_id u))) key) c)
                 | PEER_USER_DATA \<Rightarrow> (let c = touch_peer (ud_peer_id u) c
                     in api_ok (lua_field (p_user_data (peer_at c (ud_peer_id u))) key) c))))
     | _ \<Rightarrow> api_error ''Expected light userdata as first argument.'' c)"


subsection \<open>C functions\<close>

definition update_lua :: "(script_lua \<Rightarrow> script_lua) \<Rightarrow> ctx \<Rightarrow> ctx" where
  "update_lua f = upd_game (\<lambda>g. g\<lparr>g_lua := f (g_lua g)\<rparr>)"

definition decode_args :: "env \<Rightarrow> luaval list \<Rightarrow> any_element list option" where
  "decode_args E vs =
    (let xs = map (decode_luavalue E) vs
     in if None \<in> set xs then None else Some (List.map_filter (\<lambda>x. x) xs))"

definition start_timer :: "env \<Rightarrow> luaval list \<Rightarrow> ctx \<Rightarrow> api_result \<times> ctx" where
  "start_timer E args c =
    (if length args < 2 then api_error ''Expected at least 2 arguments.'' c
     else
       (case (lua_to_cstring E (lua_arg args 1), lua_to_number E (lua_arg args 2)) of
          (Some timer_id, Some duration) \<Rightarrow>
            (if f64_lt duration f64_0_1 \<or> f64_lt f64_600 duration
             then api_error ''Timer duration must be between 0.1 second and 10 minutes.'' c
             else
               (case decode_args E (drop 2 args) of
                  None \<Rightarrow> api_error (lua_argerror E) c
                | Some xs \<Rightarrow>
                    (let lua = g_lua (game c);
                         td = \<lparr>t_id = timer_id, t_lobby_id = lua_reg_lobby_id lua,
                               t_game_id = lua_reg_game_id lua, t_peer_id = lua_reg_peer_id lua,
                               t_end_time = to_i64 (duration_ms E duration) + now c,
                               t_args = xs\<rparr>
                     in api_ok [] (upd_game
                          (\<lambda>g. g\<lparr>g_timer_data := fm_put timer_id td (g_timer_data g)\<rparr>) c))))
        | _ \<Rightarrow> api_error (lua_argerror E) c))"

definition stop_timer :: "env \<Rightarrow> luaval list \<Rightarrow> ctx \<Rightarrow> api_result \<times> ctx" where
  "stop_timer E args c =
    (if length args < 1 then api_error ''Expected 1 argument.'' c
     else
       (case lua_to_cstring E (lua_arg args 1) of
          None \<Rightarrow> api_error (lua_argerror E) c
        | Some timer_id \<Rightarrow>
            api_ok [] (upd_game (\<lambda>g. g\<lparr>g_timer_data := fm_erase timer_id (g_timer_data g)\<rparr>) c)))"

definition notify_peer :: "env \<Rightarrow> string \<Rightarrow> string \<Rightarrow> any_element \<Rightarrow> ctx \<Rightarrow> ctx" where
  "notify_peer E lid peer_id notification c =
    (let c = touch_lobby lid c
     in send peer_id (notification_peer_notify (yyjson_mut_write E) notification peer_id) OpText c)"

definition notify_all :: "env \<Rightarrow> string \<Rightarrow> any_element \<Rightarrow> ctx \<Rightarrow> ctx" where
  "notify_all E lid notification c =
    (let msg = notification_peer_notify (yyjson_mut_write E) notification [];
         c = touch_lobby lid c
     in send_loop (l_peer_ids (lobby_at c lid)) msg c)"

definition send_message :: "env \<Rightarrow> string \<Rightarrow> string \<Rightarrow> dict \<Rightarrow> ctx \<Rightarrow> ctx" where
  "send_message E lid message chat_metadata c =
    (let msg = notification_chat (yyjson_mut_write E) [] message [] chat_metadata;
         c = touch_lobby lid c
     in send_loop (l_peer_ids (lobby_at c lid)) msg c)"

definition leaderboards_set_score ::
  "string \<Rightarrow> string \<Rightarrow> i64 \<Rightarrow> string \<Rightarrow> ctx \<Rightarrow> ctx" where
  "leaderboards_set_score peer_id leaderboard_id score leaderboard_type c =
    c\<lparr>database_queue := database_queue c @
      [\<lparr>db_game_id = g_id (game c), db_peer_id = peer_id, db_score = score,
        db_leaderboard_id = leaderboard_id, db_leaderboard_type = leaderboard_type\<rparr>]\<rparr>"

definition api_notify :: "env \<Rightarrow> luaval list \<Rightarrow> ctx \<Rightarrow> api_result \<times> ctx" where
  "api_notify E args c =
    (if length args < 2 then api_error ''Expected 2 arguments.'' c
     else
       (case (lua_to_cstring E (lua_arg args 1), decode_luavalue E (lua_arg args 2)) of
          (Some peer_id, Some x) \<Rightarrow>
            api_ok [] (notify_peer E (lua_reg_lobby_id (g_lua (game c))) peer_id x c)
        | _ \<Rightarrow> api_error (lua_argerror E) c))"

definition api_notify_all :: "env \<Rightarrow> luaval list \<Rightarrow> ctx \<Rightarrow> api_result \<times> ctx" where
  "api_notify_all E args c =
    (if length args < 1 then api_error ''Expected 1 arguments.'' c
     else
       (case decode_luavalue E (lua_arg args 1) of
          Some x \<Rightarrow> api_ok [] (notify_all E (lua_reg_lobby_id (g_lua (game c))) x c)
        | None \<Rightarrow> api_error (lua_argerror E) c))"

definition broadcast_chat :: "env \<Rightarrow> luaval list \<Rightarrow> ctx \<Rightarrow> api_result \<times> ctx" where
  "broadcast_chat E args c =
    (if length args < 1 then api_error ''Expected 1 arguments.'' c
     else
       (case lua_to_cstring E (lua_arg args 1) of
          None \<Rightarrow> api_error (lua_argerror E) c
        | Some message \<Rightarrow>
            (let lid = lua_reg_lobby_id (g_lua (game c)) in
             if 2 \<le> length args then
               (case decode_luavalue E (lua_arg args 2) of
                  Some (AMap d) \<Rightarrow> api_ok [] (send_message E lid message d c)
                | Some _ \<Rightarrow> api_error ''Expected a dictionary for chat metadata.'' c
                | None \<Rightarrow> api_error (lua_argerror E) c)
             else api_ok [] (send_message E lid message [] c))))"

definition api_kick_peer :: "env \<Rightarrow> kick_fun \<Rightarrow> luaval list \<Rightarrow> ctx \<Rightarrow> api_result \<times> ctx" where
  "api_kick_peer E kick args c =
    (if length args < 1 then api_error ''Expected 1 arguments.'' c
     else
       (case lua_to_cstring E (lua_arg args 1) of
          None \<Rightarrow> api_error (lua_argerror E) c
        | Some peer_id \<Rightarrow> api_ok [] (kick (lua_reg_lobby_id (g_lua (game c))) peer_id c)))"

definition set_leaderboard :: "env \<Rightarrow> luaval list \<Rightarrow> ctx \<Rightarrow> api_result \<times> ctx" where
  "set_leaderboard E args c =
    (if length args < 2 then api_error ''Expected 2 arguments.'' c
     else
       (case (lua_to_cstring E (lua_arg args 1), lua_to_number E (lua_arg args 2),
              if 3 \<le> length args then lua_to_cstring E (lua_arg args 3) else Some ''best'') of
          (Some peer_id, Some score, Some leaderboard_type) \<Rightarrow>
            (if leaderboard_type \<notin> {''best'', ''set'', ''inc'', ''dec''}
             then api_error ''Invalid leaderboard type. Expected 'best' or 'set' or 'inc' or 'dec'.'' c
             else
               (case (if 4 \<le> length args then lua_to_cstring E (lua_arg args 4) else Some []) of
                  None \<Rightarrow> api_error (lua_argerror E) c
                | Some leaderboard_id \<Rightarrow>
                    api_ok [] (leaderboards_set_score peer_id leaderboard_id (f64_to_i64 E score)
                      leaderboard_type c)))
        | _ \<Rightarrow> api_error (lua_argerror E) c))"

definition get_time :: "ctx \<Rightarrow> luaval" where
  "get_time c = lua_int (sint (now c))"

definition get_lobby :: "ctx \<Rightarrow> luaval" where
  "get_lobby c =
    (let lua = g_lua (game c) in
     if lua_reg_game_id lua = [] \<or> lua_reg_lobby_id lua = [] then LNil
     else LUserdata \<lparr>ud_type = LOBBY_ROOT, ud_game_id = lua_reg_game_id lua,
       ud_lobby_id = lua_reg_lobby_id lua, ud_calling_peer_id = lua_reg_peer_id lua,
       ud_peer_id = []\<rparr>)"

definition api_step ::
  "env \<Rightarrow> kick_fun \<Rightarrow> api_fun \<Rightarrow> luaval list \<Rightarrow> ctx \<Rightarrow> api_result \<times> ctx" where
  "api_step E kick f args c =
    (case f of
       Api_index \<Rightarrow> lobby_index E args c
     | Api_newindex \<Rightarrow> lobby_newindex E args c
     | Api_start_timer \<Rightarrow> start_timer E args c
     | Api_stop_timer \<Rightarrow> stop_timer E args c
     | Api_notify \<Rightarrow> api_notify E args c
     | Api_notify_all \<Rightarrow> api_notify_all E args c
     | Api_broadcast_chat \<Rightarrow> broadcast_chat E args c
     | Api_kick_peer \<Rightarrow> api_kick_peer E kick args c
     | Api_set_leaderboard \<Rightarrow> set_leaderboard E args c
     | Api_get_time \<Rightarrow> api_ok [get_time c] c
     | Api_get_lobby \<Rightarrow> api_ok [get_lobby c] c)"

subsection \<open>Running a script\<close>

text \<open>The results of a run, or its error message if it has one, and the machine it leaves.\<close>

type_synonym run_result = "(string option + luaval list) \<times> ctx"

primrec run_script :: "env \<Rightarrow> kick_fun \<Rightarrow> script \<Rightarrow> ctx \<Rightarrow> run_result" where
  "run_script E kick (SRet vm vs) = (\<lambda>c. (Inr vs, update_lua (\<lambda>s. s\<lparr>lua_L := Some vm\<rparr>) c))"
| "run_script E kick (SErr vm msg) = (\<lambda>c. (Inl msg, update_lua (\<lambda>s. s\<lparr>lua_L := Some vm\<rparr>) c))"
| "run_script E kick (SApi f args k) =
     (\<lambda>c. let (r, c) = api_step E kick f args c in run_script E kick (k r) c)"

definition set_registry :: "string \<Rightarrow> string \<Rightarrow> ctx \<Rightarrow> ctx" where
  "set_registry peer_id lobby_id c =
    update_lua (\<lambda>s. s\<lparr>lua_reg_peer_id := c_str peer_id, lua_reg_lobby_id := c_str lobby_id,
      lua_reg_game_id := c_str (g_id (game c))\<rparr>) c"

text \<open>The main table as the run left it.\<close>

definition main_table :: "env \<Rightarrow> luaval \<Rightarrow> ctx \<Rightarrow> luaval" where
  "main_table E old_main c =
    (case lua_L (g_lua (game c)) of None \<Rightarrow> old_main
     | Some vm \<Rightarrow> (case lua_main E vm of None \<Rightarrow> old_main | Some m \<Rightarrow> m))"

text \<open>
  \<open>ScriptLua::func_call\<close>. The main table stays below the results on the Lua stack, so a function
  that returns nothing makes the call decode the main table. \<open>run\<close> runs the script, or fails
  where the C stack is exhausted.
\<close>

definition func_call ::
  "env \<Rightarrow> (script \<Rightarrow> ctx \<Rightarrow> run_result) \<Rightarrow> string \<Rightarrow> any_element list \<Rightarrow> string \<Rightarrow> string \<Rightarrow>
   ctx \<Rightarrow> any_element \<times> bool \<times> ctx" where
  "func_call E run func_name args peer_id lobby_id c =
    (if \<not> lua_enabled (g_lua (game c)) then (AStr ''Lua script is not enabled'', False, c)
     else
       (case lua_L (g_lua (game c)) of
          None \<Rightarrow> (AStr ''Lua state is nullptr'', False, c)
        | Some vm \<Rightarrow>
            (let c = set_registry peer_id lobby_id c in
             case lua_main E vm of
               Some (LTable main) \<Rightarrow>
                 (if \<not> lua_has_function E vm func_name
                  then (AStr (''Function not found. '' @ func_name), True, c)
                  else
                    (case run (lua_pcall E vm func_name (map push_lua_value args)) c of
                       (Inl msg, c) \<Rightarrow>
                         (AStr (case msg of None \<Rightarrow> ''Unknown Lua error'' | Some m \<Rightarrow> m), True, c)
                     | (Inr vs, c) \<Rightarrow>
                         (case decode_luavalue E (last (main_table E (LTable main) c # vs)) of
                            None \<Rightarrow> (ANull, False, fault_add LuaPanic c)
                          | Some x \<Rightarrow> (x, False, c))))
             | _ \<Rightarrow> (AStr ''Main is not a table. '', False, c))))"

definition scripted_call ::
  "env \<Rightarrow> (script \<Rightarrow> ctx \<Rightarrow> run_result) \<Rightarrow> script_call" where
  "scripted_call E run peer_id lobby_id funcname args c =
    (if lua_enabled (g_lua (game c)) then
       (let (result, has_error, c) = func_call E run funcname args peer_id lobby_id c in
        case result of
          AMap d \<Rightarrow>
            (case map_of d ''error'' of
               Some x \<Rightarrow> (x, True, notify_lobby_changes E lobby_id c)
             | None \<Rightarrow> (result, has_error, notify_lobby_changes E lobby_id c))
        | _ \<Rightarrow> (result, has_error, notify_lobby_changes E lobby_id c))
     else (ANull, False, c))"

definition kick_peer :: "env \<Rightarrow> script_call \<Rightarrow> string \<Rightarrow> string \<Rightarrow> ctx \<Rightarrow> ctx" where
  "kick_peer E call lobby_id peer_id c =
    (if \<not> has_lobby c lobby_id then c
     else if has_callback c ''_can_host_kick'' then
       (let (result, has_error, c) = call [] lobby_id ''_can_host_kick'' [AStr peer_id] c in
        case result of
          AStr s \<Rightarrow> on_error E [] [] s False has_error c
        | _ \<Rightarrow> remove_peer_from_lobby call E lobby_id peer_id [] True c)
     else remove_peer_from_lobby call E lobby_id peer_id [] True c)"

text \<open>\<open>n\<close> counts the nested script calls Luau still allows.\<close>

fun scripted_function_call :: "env \<Rightarrow> nat \<Rightarrow> script_call" where
  "scripted_function_call E 0 peer_id lobby_id funcname args c =
     scripted_call E (\<lambda>s c. (Inl (Some ''stack overflow''), c)) peer_id lobby_id funcname args c"
| "scripted_function_call E (Suc n) peer_id lobby_id funcname args c =
     scripted_call E (run_script E (kick_peer E (scripted_function_call E n)))
       peer_id lobby_id funcname args c"

definition call_script :: "env \<Rightarrow> script_call" where
  "call_script E = scripted_function_call E (lua_c_depth E)"

end
