(* ===== verification/Lobby_Handlers.thy ===== *)
theory Lobby_Handlers
  imports Lua_Api
begin

text \<open>
  The life cycle of peers and lobbies, from \<^verbatim>\<open>src/src/game/game_thread.cpp\<close>: connecting and
  closing, creating, joining, leaving and listing lobbies, quick join, and script calls by a
  client. A handler takes the command id, the key of the calling peer, the \<open>d\<close> object of the
  command and the context.
\<close>

text \<open>
  The repeated test of a callback's verdict: the callback is called if the script has it, and a
  string it returns is reported to the peer and rejects the command. Some callers react only to a
  string that comes with an error (\<open>only_errors\<close>).
\<close>

definition ask_script ::
  "env \<Rightarrow> bool \<Rightarrow> string \<Rightarrow> string \<Rightarrow> string \<Rightarrow> string \<Rightarrow> any_element list \<Rightarrow> ctx \<Rightarrow> bool \<times> ctx" where
  "ask_script E only_errors funcname command_id peer_id lobby_id args c =
    (if has_callback c funcname then
       (let (result, has_error, c) = call_script E peer_id lobby_id funcname args c in
        case result of
          AStr s \<Rightarrow>
            if only_errors \<and> \<not> has_error then (True, c)
            else (False, on_error E command_id peer_id s False has_error c)
        | _ \<Rightarrow> (True, c))
     else (True, c))"

subsection \<open>Connections\<close>

definition on_connect ::
  "env \<Rightarrow> string \<Rightarrow> string \<Rightarrow> string \<Rightarrow> string \<Rightarrow> string \<Rightarrow> string \<Rightarrow> ctx \<Rightarrow> ctx" where
  "on_connect E peer_id game_id reconnection_token platform platform_id name c =
    (let c = (if has_peer c peer_id then
                upd_game (\<lambda>g. g\<lparr>g_disconnected_peers := fm_erase peer_id (g_disconnected_peers g)\<rparr>)
                  (set_peer peer_id (\<lambda>p. p\<lparr>p_reconnection_token := reconnection_token\<rparr>) c)
              else
                upd_game (\<lambda>g. g\<lparr>g_peers := fm_emplace peer_id
                  (default_peer\<lparr>p_id := peer_id, p_game_id := game_id,
                     p_reconnection_token := reconnection_token, p_platform := platform,
                     p_platform_id := platform_id\<rparr>) (g_peers g)\<rparr>) c);
         c = (if platform \<noteq> ''anon''
              then set_peer peer_id (\<lambda>p. p\<lparr>p_user_data := fm_put ''n'' (AStr name) (p_user_data p)\<rparr>) c
              else c);
         msg = notification_peer_state (yyjson_mut_write E)
                 (AMap (peer_to_dict True True (peer_at c peer_id)));
         c = send (p_id (peer_at c peer_id)) msg OpText c
     in snd (ask_script E True ''_on_peer_connected'' [] peer_id [] [] c))"

definition on_close :: "env \<Rightarrow> string \<Rightarrow> ctx \<Rightarrow> ctx" where
  "on_close E peer_id c =
    (let c = upd_game (\<lambda>g. g\<lparr>g_lobby_listing_peers := fs_erase peer_id (g_lobby_listing_peers g)\<rparr>) c
     in if \<not> has_peer c peer_id then c
        else
          let c = set_peer peer_id (\<lambda>p. p\<lparr>p_ready := False, p_disconnected := True\<rparr>) c;
              c = upd_game (\<lambda>g. g\<lparr>g_disconnected_peers :=
                    fm_emplace peer_id (now c) (g_disconnected_peers g)\<rparr>) c;
              lid = p_lobby_id (peer_at c peer_id)
          in if has_lobby c lid then
               let c = send_others peer_id (l_peer_ids (lobby_at c lid))
                         (notification_peer_disconnected (yyjson_mut_write E) peer_id) c
               in snd (ask_script E True ''_on_peer_disconnected'' [] peer_id lid [] c)
             else c)"

subsection \<open>Script calls by a client\<close>

definition on_lobby_call :: "env \<Rightarrow> string \<Rightarrow> string \<Rightarrow> yyval option \<Rightarrow> ctx \<Rightarrow> ctx" where
  "on_lobby_call E command_id pid data c =
    (let peer = peer_at c pid; me = p_id peer in
     if p_lobby_id peer = [] then on_error E command_id me ERROR_PEER_NOT_IN_A_LOBBY False False c
     else if g_lobby_control (game c) = ''relay''
     then on_error E command_id me ERROR_GAME_NOT_SCRIPTED False False c
     else
       let func_name = decode_string_or_default data ''f'' [] in
       if func_name = [] then on_error E command_id me ERROR_INVALID_FUNCTION_MSG False False c
       else
         let args = (case yy_obj_get data ''i'' of
                       Some (YArr xs) \<Rightarrow>
                         (case decode_array (Some (YArr xs)) of Inr (AArr ys) \<Rightarrow> ys | _ \<Rightarrow> [])
                     | _ \<Rightarrow> []);
             (result, has_error, c) = call_script E me (p_lobby_id peer) func_name args c
         in (case result of
               AStr s \<Rightarrow>
                 if has_error then on_error E command_id me s False has_error c
                 else send me (notification_lobby_call (yyjson_mut_write E) result command_id) OpText c
             | _ \<Rightarrow> send me (notification_lobby_call (yyjson_mut_write E) result command_id) OpText c))"

subsection \<open>Creating\<close>

definition peers_to_array :: "string \<Rightarrow> ctx \<Rightarrow> any_element list \<times> ctx" where
  "peers_to_array lid c =
    (let c = touch_lobby lid c;
         ids = l_peer_ids (lobby_at c lid);
         c = fold touch_peer ids c
     in (map (\<lambda>k. AMap (peer_to_dict False False (peer_at c k))) ids, c))"

definition erase_lobby :: "string \<Rightarrow> ctx \<Rightarrow> ctx" where
  "erase_lobby lid = upd_game (\<lambda>g. g\<lparr>g_lobbies := fm_erase lid (g_lobbies g)\<rparr>)"

text \<open>The second half of \<open>on_create_lobby\<close>, once the lobby exists and was not refused.\<close>

definition finish_create :: "env \<Rightarrow> string \<Rightarrow> string \<Rightarrow> string \<Rightarrow> ctx \<Rightarrow> ctx" where
  "finish_create E command_id pid small_uuid c =
    (let c = set_peer pid (\<lambda>p. p\<lparr>p_disconnected := False\<rparr>) c;
         me = p_id (peer_at c pid);
         c = touch_lobby small_uuid c;
         (peers, c) = peers_to_array small_uuid c;
         msg = notification_lobby_created (yyjson_mut_write E)
                 (AMap (lobby_to_dict False (lobby_at c small_uuid))) (AArr peers) command_id;
         c = send me msg OpText c;
         (_, c) = ask_script E True ''_on_lobby_created'' command_id me (p_lobby_id (peer_at c pid)) [] c
     in mark_updated (p_lobby_id (peer_at c pid)) c)"

text \<open>The record of a new lobby, and the script's verdict on it.\<close>

definition new_lobby ::
  "peer_data \<Rightarrow> yyval option \<Rightarrow> string \<Rightarrow> i64 \<Rightarrow> dict \<Rightarrow> ctx \<Rightarrow> lobby_data" where
  "new_lobby peer data small_uuid max_players tags c =
    default_lobby\<lparr>l_id := small_uuid,
      l_name := decode_string_or_default data ''n'' [], l_host := p_id peer,
      l_password := decode_string_or_default data ''_p'' [],
      l_max_players := max_players, l_peer_ids := [p_id peer],
      l_peer_ordered_ids := [p_id peer], l_create_time := now c,
      l_game_id := p_game_id peer,
      l_sealed := decode_bool_or_default data ''s'' (g_seal (game c)),
      l_tags := tags\<rparr>"

definition ask_create :: "env \<Rightarrow> string \<Rightarrow> string \<Rightarrow> string \<Rightarrow> string \<Rightarrow> ctx \<Rightarrow> ctx" where
  "ask_create E command_id pid me small_uuid c =
    (if has_callback c ''_can_create_lobby'' then
       let (result, has_error, c) =
             call_script E me small_uuid ''_can_create_lobby'' [] c
       in (case result of
             AStr s \<Rightarrow>
               if has_error then
                 on_error E command_id me s False has_error
                   (erase_lobby small_uuid (set_peer pid leave_lobby c))
               else finish_create E command_id pid small_uuid c
           | _ \<Rightarrow> finish_create E command_id pid small_uuid c)
     else finish_create E command_id pid small_uuid c)"

definition on_create_lobby ::
  "env \<Rightarrow> string \<Rightarrow> string \<Rightarrow> yyval option \<Rightarrow> dict option \<Rightarrow> ctx \<Rightarrow> ctx" where
  "on_create_lobby E command_id pid data previous_tags c =
    (let peer = peer_at c pid; me = p_id peer in
     if p_lobby_id peer \<noteq> [] then on_error E command_id me ERROR_PEER_IS_IN_A_LOBBY False False c
     else
       let small_uuid = take 8 (uuid_gen E (uuid_count c));
           c = c\<lparr>uuid_count := Suc (uuid_count c)\<rparr>;
           max_players = decode_int_or_default (double_to_int E) data ''m'' 0
       in if sint max_players < 1 then on_error E command_id me ERROR_LOBBY_FULL False False c
          else
            let (decode_error, tags) =
                  (case previous_tags of Some t \<Rightarrow> ([], t)
                   | None \<Rightarrow> decode_object (yy_obj_get data ''t'') [])
            in if decode_error \<noteq> [] then on_error E command_id me ERROR_INVALID_TAGS False False c
               else
                 let c = set_peer pid (\<lambda>p. p\<lparr>p_lobby_id := small_uuid\<rparr>) c;
                     lobby = new_lobby peer data small_uuid max_players tags c;
                     c = upd_game (\<lambda>g. g\<lparr>g_lobbies := fm_emplace small_uuid lobby (g_lobbies g)\<rparr>) c
                 in ask_create E command_id pid me small_uuid c)"

subsection \<open>Joining\<close>

text \<open>Why a join is refused before any script is asked; \<open>None\<close> if it is not.\<close>

definition join_refusal :: "bool \<Rightarrow> yyval option \<Rightarrow> peer_data \<Rightarrow> lobby_data \<Rightarrow> string option" where
  "join_refusal reconnecting data peer lobby =
    (if reconnecting then None
     else if p_lobby_id peer \<noteq> [] then Some ERROR_PEER_IS_IN_A_LOBBY
     else if l_password lobby \<noteq> decode_string_or_default data ''_p'' []
     then Some ERROR_LOBBY_WRONG_PASSWORD
     else if l_max_players lobby \<noteq> 0 \<and> \<not> size_lt (length (l_peer_ids lobby)) (l_max_players lobby)
     then Some ERROR_LOBBY_FULL
     else None)"

definition sort_ordered :: "string \<Rightarrow> ctx \<Rightarrow> ctx" where
  "sort_ordered lid c =
    (let ids = l_peer_ordered_ids (lobby_at c lid);
         c = fold touch_peer ids c
     in set_lobby lid (\<lambda>l. l\<lparr>l_peer_ordered_ids :=
          sort_key (\<lambda>k. sint (p_order_id (peer_at c k))) ids\<rparr>) c)"

definition join_changes :: "string \<Rightarrow> string \<Rightarrow> string \<Rightarrow> ctx \<Rightarrow> ctx" where
  "join_changes pid me lid c =
    (let c = set_lobby lid (\<lambda>l. l\<lparr>l_order_id_counter := l_order_id_counter l + 1\<rparr>) c;
         n = l_order_id_counter (lobby_at c lid);
         c = set_peer pid (\<lambda>p. p\<lparr>p_order_id := to_i32 n, p_lobby_id := lid\<rparr>) c;
         c = set_lobby lid (\<lambda>l. l\<lparr>l_peer_ids := fs_insert me (l_peer_ids l),
               l_peer_ordered_ids := l_peer_ordered_ids l @ [me]\<rparr>) c
     in mark_updated lid (sort_ordered lid c))"

definition join_notify :: "env \<Rightarrow> bool \<Rightarrow> string \<Rightarrow> string \<Rightarrow> string \<Rightarrow> ctx \<Rightarrow> ctx" where
  "join_notify E reconnecting command_id pid lid c =
    (let wr = yyjson_mut_write E;
         me = p_id (peer_at c pid);
         lobby = lobby_at c lid;
         others = (if reconnecting then notification_peer_reconnected wr me
                   else notification_peer_joined wr (AMap (peer_to_dict False False (peer_at c pid))));
         c = send_others me (l_peer_ids lobby) others c;
         private = (g_lobby_control (game c) = ''relay'' \<and> l_host lobby = me);
         (peers, c) = peers_to_array (l_id lobby) c;
         self = notification_lobby_joined wr (AMap (lobby_to_dict private (lobby_at c lid)))
                  (AArr peers) command_id
     in send me self OpText c)"

definition on_join_lobby ::
  "env \<Rightarrow> string \<Rightarrow> string \<Rightarrow> yyval option \<Rightarrow> string \<Rightarrow> ctx \<Rightarrow> bool \<times> ctx" where
  "on_join_lobby E command_id pid data lobby_id_override c =
    (let peer = peer_at c pid; me = p_id peer;
         reconnecting = (p_disconnected peer \<and> p_lobby_id peer \<noteq> []);
         lid = (if reconnecting then p_lobby_id peer
                else if lobby_id_override = [] then decode_string_or_default data ''l'' []
                else lobby_id_override)
     in if lid = [] \<or> \<not> has_lobby c lid
        then (False, on_error E command_id me ERROR_LOBBY_NOT_FOUND False False c)
        else
          case join_refusal reconnecting data peer (lobby_at c lid) of
            Some err \<Rightarrow> (False, on_error E command_id me err False False c)
          | None \<Rightarrow>
              let (allowed, c) = ask_script E True ''_can_peer_join'' command_id me lid [] c
              in if \<not> allowed then (False, c)
                 else
                   let c = (if reconnecting then set_peer pid (\<lambda>p. p\<lparr>p_ready := False\<rparr>) c
                            else join_changes pid me lid c);
                       c = set_peer pid (\<lambda>p. p\<lparr>p_disconnected := False\<rparr>) c;
                       c = join_notify E reconnecting command_id pid lid c;
                       c = (if reconnecting then c
                            else snd (ask_script E True ''_on_peer_joined'' command_id me lid [] c))
                   in (True, c))"

subsection \<open>Quick join\<close>

definition lobby_contains_tags :: "dict \<Rightarrow> dict \<Rightarrow> bool" where
  "lobby_contains_tags joining_tags tags \<longleftrightarrow>
    (\<forall>(k, v) \<in> set joining_tags. case map_of tags k of None \<Rightarrow> False | Some w \<Rightarrow> any_eq w v)"

fun quick_join_loop ::
  "env \<Rightarrow> string \<Rightarrow> string \<Rightarrow> yyval option \<Rightarrow> dict \<Rightarrow> string list \<Rightarrow> ctx \<Rightarrow> bool \<times> ctx" where
  "quick_join_loop E command_id pid data tags [] c = (False, c)"
| "quick_join_loop E command_id pid data tags (k # ks) c =
     (if \<not> has_lobby c k then quick_join_loop E command_id pid data tags ks c
      else
        let lobby = lobby_at c k in
        if size_lt (length (l_peer_ids lobby)) (l_max_players lobby) \<and> \<not> l_sealed lobby \<and>
           l_password lobby = []
        then
          let c = (if l_host lobby = [] then c else touch_peer (l_host lobby) c) in
          if (l_host lobby = [] \<or> \<not> p_disconnected (peer_at c (l_host lobby))) \<and>
             lobby_contains_tags tags (l_tags lobby)
          then
            let (joined, c) = on_join_lobby E command_id pid data (l_id lobby) c
            in if joined then (True, c)
               else if \<not> has_lobby c k then (False, fault_add IteratorInvalidated c)
               else quick_join_loop E command_id pid data tags ks c
          else quick_join_loop E command_id pid data tags ks c
        else quick_join_loop E command_id pid data tags ks c)"

definition on_quick_join :: "env \<Rightarrow> string \<Rightarrow> string \<Rightarrow> yyval option \<Rightarrow> ctx \<Rightarrow> ctx" where
  "on_quick_join E command_id pid data c =
    (let (joined, c) = (if p_lobby_id (peer_at c pid) \<noteq> []
                        then on_join_lobby E command_id pid data [] c else (False, c))
     in if joined then c
        else
          let (decode_error, tags) = decode_object (yy_obj_get data ''t'') []
          in if decode_error \<noteq> []
             then on_error E command_id (p_id (peer_at c pid)) ERROR_INVALID_TAGS False False c
             else
               let (joined, c) = quick_join_loop E command_id pid data tags
                                   (bucket_order E (map fst (g_lobbies (game c)))) c
               in if joined then c else on_create_lobby E command_id pid data (Some tags) c)"

subsection \<open>Leaving and listing\<close>

definition on_leave_lobby :: "env \<Rightarrow> string \<Rightarrow> string \<Rightarrow> yyval option \<Rightarrow> ctx \<Rightarrow> ctx" where
  "on_leave_lobby E command_id pid data c =
    (let peer = peer_at c pid in
     if p_lobby_id peer = []
     then on_error E command_id (p_id peer) ERROR_PEER_NOT_IN_A_LOBBY False False c
     else
       let c = touch_lobby (p_lobby_id peer) c
       in remove_peer_from_lobby (call_script E) E (p_lobby_id peer) (p_id peer) command_id False c)"

definition on_list_lobby :: "env \<Rightarrow> string \<Rightarrow> string \<Rightarrow> yyval option \<Rightarrow> ctx \<Rightarrow> ctx" where
  "on_list_lobby E command_id pid data c =
    (let wr = yyjson_mut_write E; peer = peer_at c pid; me = p_id peer in
     if me \<in> set (g_lobby_listing_peers (game c))
     then send me (notification_lobby_list wr (AArr []) command_id) OpText c
     else
       let c = upd_game (\<lambda>g. g\<lparr>g_lobby_listing_peers := fs_insert me (g_lobby_listing_peers g)\<rparr>) c;
           visible = filter (\<lambda>l. \<not> l_sealed l \<or> p_lobby_id peer = l_id l)
                       (map (lobby_at c) (bucket_order E (map fst (g_lobbies (game c)))));
           selected = map l_id (take 100 (sort_key (\<lambda>l. sint (l_create_time l)) visible));
           c = fold touch_lobby selected c;
           lobbies = map (\<lambda>k. AMap (lobby_to_dict False (lobby_at c k))) selected
       in send me (notification_lobby_list wr (AArr lobbies) command_id) OpText c)"

definition on_stop_list_lobby :: "env \<Rightarrow> string \<Rightarrow> string \<Rightarrow> yyval option \<Rightarrow> ctx \<Rightarrow> ctx" where
  "on_stop_list_lobby E command_id pid data c =
    (let wr = yyjson_mut_write E; me = p_id (peer_at c pid) in
     if me \<notin> set (g_lobby_listing_peers (game c))
     then send me (notification_lobby_list wr (AArr []) command_id) OpText c
     else
       let c = upd_game (\<lambda>g. g\<lparr>g_lobby_listing_peers := fs_erase me (g_lobby_listing_peers g)\<rparr>) c
       in send me (notification_lobby_stop_listing wr command_id) OpText c)"

end
