(* ===== verification/Host_Handlers.thy ===== *)
theory Host_Handlers
  imports Lobby_Handlers
begin

text \<open>
  The commands a member or the host of a lobby sends, from \<^verbatim>\<open>src/src/game/game_thread.cpp\<close>: chat,
  tags, kicking, user data, ready state, sealing, resizing, title and password. Each is written in
  the order of the code: refusals, the script's verdict, the change, the notifications.
\<close>

subsection \<open>Chat\<close>

text \<open>
  \<open>strip_BBCode\<close> removes every match of the regular expression \<open>\[.*?\]\<close>: from an opening bracket
  to the nearest closing one with no line end between. \<open>after_close\<close> is what follows that closing
  bracket.
\<close>

fun after_close :: "string \<Rightarrow> string option" where
  "after_close [] = None"
| "after_close (ch # s) =
     (if ch = CHR '']'' then Some s
      else if ch = CHR 0x0A \<or> ch = CHR 0x0D then None
      else after_close s)"

lemma after_close_length: "after_close s = Some r \<Longrightarrow> length r < length s"
  by (induction s rule: after_close.induct) (auto split: if_splits)

function strip_BBCode :: "string \<Rightarrow> string" where
  "strip_BBCode [] = []"
| "strip_BBCode (ch # s) =
     (if ch = CHR ''['' then
        (case after_close s of Some r \<Rightarrow> strip_BBCode r | None \<Rightarrow> ch # strip_BBCode s)
      else ch # strip_BBCode s)"
  by pat_completeness auto
termination
  by (relation "measure length") (auto dest: after_close_length)

definition on_chat_lobby :: "env \<Rightarrow> string \<Rightarrow> string \<Rightarrow> yyval option \<Rightarrow> ctx \<Rightarrow> ctx" where
  "on_chat_lobby E command_id pid data c =
    (let wr = yyjson_mut_write E; peer = peer_at c pid; me = p_id peer in
     if p_lobby_id peer = [] then on_error E command_id me ERROR_PEER_NOT_IN_A_LOBBY False False c
     else
       let c = touch_lobby (p_lobby_id peer) c;
           message = strip_BBCode (decode_string_or_default data ''c'' [])
       in if message = [] \<or> 256 < length message
          then on_error E command_id me ''Invalid chat message'' False False c
          else
            let (err, chat_metadata) = decode_object (yy_obj_get data ''m'') [];
                c = (if err \<noteq> [] then on_error E command_id me ERROR_CANNOT_PARSE_JSON False False c
                     else c);
                (allowed, c) = ask_script E False ''_can_peer_chat'' command_id me (p_lobby_id peer)
                                 [AStr message] c
            in if \<not> allowed then c
               else
                 let lid = p_lobby_id (peer_at c pid);
                     c = touch_lobby lid c;
                     c = send_others me (l_peer_ids (lobby_at c lid))
                           (notification_chat wr me message [] chat_metadata) c
                 in send me (notification_chat wr me message command_id chat_metadata) OpText c)"

subsection \<open>Tags\<close>

text \<open>The update loop of the data commands: \<open>null\<close> erases an entry.\<close>

definition merge_dict :: "dict \<Rightarrow> dict \<Rightarrow> dict" where
  "merge_dict new old =
    fold (\<lambda>(k, v) m. if v = ANull then fm_erase k m else fm_put k v m) new old"

text \<open>\<open>yyjson_obj_get\<close> and \<open>yyjson_is_obj\<close> on the entry a command needs, then \<open>decode_object\<close>.\<close>

definition decode_entry :: "yyval option \<Rightarrow> string \<Rightarrow> string + dict" where
  "decode_entry data key =
    (case yy_obj_get data key of
       Some (YObj kvs) \<Rightarrow>
         (let (err, d) = decode_object (Some (YObj kvs)) []
          in if err \<noteq> [] then Inl err else Inr d)
     | _ \<Rightarrow> Inl ERROR_CANNOT_PARSE_JSON)"

definition on_lobby_tags :: "env \<Rightarrow> string \<Rightarrow> string \<Rightarrow> yyval option \<Rightarrow> ctx \<Rightarrow> ctx" where
  "on_lobby_tags E command_id pid data c =
    (let wr = yyjson_mut_write E; peer = peer_at c pid; me = p_id peer; lid = p_lobby_id peer in
     if lid = [] then on_error E command_id me ERROR_PEER_NOT_IN_A_LOBBY False False c
     else
       let c = touch_lobby lid c in
       if l_host (lobby_at c lid) \<noteq> me then on_error E command_id me ERROR_PEER_NOT_HOST False False c
       else
         case decode_entry data ''t'' of
           Inl err \<Rightarrow> on_error E command_id me err False False c
         | Inr new_tags \<Rightarrow>
             let (allowed, c) = ask_script E False ''_can_host_set_tags'' command_id me lid
                                  [AMap new_tags] c
             in if \<not> allowed then c
                else
                  let c = set_lobby lid (\<lambda>l. l\<lparr>l_tags := merge_dict new_tags (l_tags l)\<rparr>) c;
                      tags = l_tags (lobby_at c lid);
                      here = p_lobby_id (peer_at c pid);
                      c = touch_lobby here c;
                      c = send_others me (l_peer_ids (lobby_at c here))
                            (notification_tags wr (AMap tags) []) c;
                      c = send me (notification_tags wr (AMap tags) command_id) OpText c
                  in mark_updated (p_lobby_id (peer_at c pid)) c)"

subsection \<open>Kicking\<close>

definition on_kick_peer :: "env \<Rightarrow> string \<Rightarrow> string \<Rightarrow> yyval option \<Rightarrow> ctx \<Rightarrow> ctx" where
  "on_kick_peer E command_id pid data c =
    (let peer = peer_at c pid; me = p_id peer; lid = p_lobby_id peer in
     if lid = [] then on_error E command_id me ERROR_PEER_NOT_IN_A_LOBBY False False c
     else
       let c = touch_lobby lid c; lobby = lobby_at c lid in
       if l_host lobby \<noteq> me then on_error E command_id me ERROR_PEER_NOT_HOST False False c
       else
         let kicked = decode_string_or_default data ''p'' [] in
         if kicked = [] \<or> kicked \<notin> set (l_peer_ids lobby)
         then on_error E command_id me ERROR_PEER_NOT_IN_A_LOBBY False False c
         else if me = kicked then on_error E command_id me ERROR_CANNOT_KICK_SELF False False c
         else
           let (allowed, c) = ask_script E False ''_can_host_kick'' command_id me lid [AStr kicked] c
           in if \<not> allowed then c
              else remove_peer_from_lobby (call_script E) E lid kicked command_id True c)"

subsection \<open>User data\<close>

definition on_user_data :: "env \<Rightarrow> string \<Rightarrow> string \<Rightarrow> yyval option \<Rightarrow> ctx \<Rightarrow> ctx" where
  "on_user_data E command_id pid data c =
    (let wr = yyjson_mut_write E; me = p_id (peer_at c pid) in
     case decode_entry data ''ud'' of
       Inl err \<Rightarrow> on_error E command_id me err False False c
     | Inr new_userdata \<Rightarrow>
         let c = set_peer pid (\<lambda>p. p\<lparr>p_user_data := merge_dict new_userdata (p_user_data p)\<rparr>) c;
             peer = peer_at c pid;
             c = (if p_lobby_id peer \<noteq> [] then
                    let c = touch_lobby (p_lobby_id peer) c
                    in send_others me (l_peer_ids (lobby_at c (p_lobby_id peer)))
                         (notification_user_data wr (AMap (p_user_data peer)) me []) c
                  else c)
         in send me (notification_user_data wr (AMap (p_user_data peer)) me command_id) OpText c)"

subsection \<open>Ready state\<close>

definition set_lobby_ready :: "env \<Rightarrow> string \<Rightarrow> string \<Rightarrow> string \<Rightarrow> bool \<Rightarrow> ctx \<Rightarrow> ctx" where
  "set_lobby_ready E lid pid command_id ready c =
    (let wr = yyjson_mut_write E;
         me = p_id (peer_at c pid);
         c = set_peer pid (\<lambda>p. p\<lparr>p_ready := ready\<rparr>) c;
         note = (\<lambda>command_id. if ready then notification_peer_ready wr me command_id
                              else notification_peer_unready wr me command_id);
         c = send_others me (l_peer_ids (lobby_at c lid)) (note []) c
     in send me (note command_id) OpText c)"

text \<open>
  \<open>on_lobby_ready\<close> and \<open>on_lobby_unready\<close> differ in the wanted state only: the flag is set before
  the script is asked and put back if the script refuses.
\<close>

definition change_ready :: "env \<Rightarrow> bool \<Rightarrow> string \<Rightarrow> string \<Rightarrow> ctx \<Rightarrow> ctx" where
  "change_ready E ready command_id pid c =
    (let me = p_id (peer_at c pid);
         old_ready = p_ready (peer_at c pid);
         (allowed, c) =
           (if has_callback c ''_can_peer_ready'' then
              let c = set_peer pid (\<lambda>p. p\<lparr>p_ready := ready\<rparr>) c;
                  (result, has_error, c) = call_script E me (p_lobby_id (peer_at c pid))
                    ''_can_peer_ready'' [ABool ready] c
              in (case result of
                    AStr s \<Rightarrow> (False, on_error E command_id me s False has_error
                      (set_peer pid (\<lambda>p. p\<lparr>p_ready := old_ready\<rparr>) c))
                  | _ \<Rightarrow> (True, c))
            else (True, c))
     in if \<not> allowed then c
        else
          let lid = p_lobby_id (peer_at c pid)
          in set_lobby_ready E lid pid command_id ready (touch_lobby lid c))"

definition on_lobby_ready :: "env \<Rightarrow> string \<Rightarrow> string \<Rightarrow> yyval option \<Rightarrow> ctx \<Rightarrow> ctx" where
  "on_lobby_ready E command_id pid data c =
    (let peer = peer_at c pid in
     if p_lobby_id peer = []
     then on_error E command_id (p_id peer) ERROR_PEER_NOT_IN_A_LOBBY False False c
     else if p_ready peer then on_error E command_id (p_id peer) ERROR_PEER_IS_READY False False c
     else change_ready E True command_id pid c)"

definition on_lobby_unready :: "env \<Rightarrow> string \<Rightarrow> string \<Rightarrow> yyval option \<Rightarrow> ctx \<Rightarrow> ctx" where
  "on_lobby_unready E command_id pid data c =
    (let peer = peer_at c pid in
     if p_lobby_id peer = []
     then on_error E command_id (p_id peer) ERROR_PEER_NOT_IN_A_LOBBY False False c
     else if \<not> p_ready peer
     then on_error E command_id (p_id peer) ERROR_PEER_IS_NOT_READY False False c
     else change_ready E False command_id pid c)"

subsection \<open>Sealing\<close>

definition set_lobby_sealed :: "env \<Rightarrow> string \<Rightarrow> string \<Rightarrow> string \<Rightarrow> bool \<Rightarrow> ctx \<Rightarrow> ctx" where
  "set_lobby_sealed E lid peer_id command_id sealed c =
    (let wr = yyjson_mut_write E;
         updated = (l_sealed (lobby_at c lid) \<noteq> sealed);
         c = set_lobby lid (\<lambda>l. l\<lparr>l_sealed := sealed\<rparr>) c;
         note = (\<lambda>command_id. if sealed then notification_lobby_sealed wr command_id
                              else notification_lobby_unsealed wr command_id);
         c = (if updated then
                let c = send_others peer_id (l_peer_ids (lobby_at c lid)) (note []) c
                in mark_updated (l_id (lobby_at c lid)) c
              else c)
     in send peer_id (note command_id) OpText c)"

text \<open>\<open>on_seal_lobby\<close> and \<open>on_unseal_lobby\<close> differ in the wanted state only.\<close>

definition change_seal :: "env \<Rightarrow> bool \<Rightarrow> string \<Rightarrow> string \<Rightarrow> ctx \<Rightarrow> ctx" where
  "change_seal E sealed command_id pid c =
    (let peer = peer_at c pid; me = p_id peer; lid = p_lobby_id peer in
     if lid = [] then on_error E command_id me ERROR_PEER_NOT_IN_A_LOBBY False False c
     else
       let c = touch_lobby lid c in
       if l_host (lobby_at c lid) \<noteq> me then on_error E command_id me ERROR_PEER_NOT_HOST False False c
       else if l_sealed (lobby_at c lid) = sealed
       then set_lobby_sealed E lid me command_id sealed c
       else
         let (allowed, c) = ask_script E False ''_can_host_seal'' command_id me lid [ABool sealed] c
         in if \<not> allowed then c else set_lobby_sealed E lid me command_id sealed c)"

definition on_seal_lobby :: "env \<Rightarrow> string \<Rightarrow> string \<Rightarrow> yyval option \<Rightarrow> ctx \<Rightarrow> ctx" where
  "on_seal_lobby E command_id pid data c = change_seal E True command_id pid c"

definition on_unseal_lobby :: "env \<Rightarrow> string \<Rightarrow> string \<Rightarrow> yyval option \<Rightarrow> ctx \<Rightarrow> ctx" where
  "on_unseal_lobby E command_id pid data c = change_seal E False command_id pid c"

subsection \<open>Size, title, password\<close>

definition on_lobby_max_players :: "env \<Rightarrow> string \<Rightarrow> string \<Rightarrow> yyval option \<Rightarrow> ctx \<Rightarrow> ctx" where
  "on_lobby_max_players E command_id pid data c =
    (let wr = yyjson_mut_write E; peer = peer_at c pid; me = p_id peer; lid = p_lobby_id peer in
     if lid = [] then on_error E command_id me ERROR_PEER_NOT_IN_A_LOBBY False False c
     else
       let c = touch_lobby lid c;
           max_players = decode_int_or_default (double_to_int E) data ''m'' 0
       in if \<not> size_le (length (l_peer_ids (lobby_at c lid))) max_players
          then on_error E command_id me ERROR_LOBBY_FULL False False c
          else
            let (allowed, c) = ask_script E False ''_can_host_resize'' command_id me lid
                                 [AInt max_players] c
            in if \<not> allowed then c
               else
                 let c = set_lobby lid (\<lambda>l. l\<lparr>l_max_players := max_players\<rparr>) c;
                     note = notification_lobby_max_players wr (to_i32 max_players);
                     c = send_others me (l_peer_ids (lobby_at c lid)) (note []) c;
                     c = send me (note command_id) OpText c
                 in mark_updated (l_id (lobby_at c lid)) c)"

definition on_lobby_title :: "env \<Rightarrow> string \<Rightarrow> string \<Rightarrow> yyval option \<Rightarrow> ctx \<Rightarrow> ctx" where
  "on_lobby_title E command_id pid data c =
    (let wr = yyjson_mut_write E; peer = peer_at c pid; me = p_id peer; lid = p_lobby_id peer in
     if lid = [] then on_error E command_id me ERROR_PEER_NOT_IN_A_LOBBY False False c
     else
       let c = touch_lobby lid c;
           title = decode_string_or_default data ''n'' [];
           (allowed, c) = ask_script E False ''_can_host_set_title'' command_id me lid [AStr title] c
       in if \<not> allowed then c
          else
            let c = set_lobby lid (\<lambda>l. l\<lparr>l_name := title\<rparr>) c;
                c = send_others me (l_peer_ids (lobby_at c lid)) (notification_lobby_title wr title []) c;
                c = send me (notification_lobby_title wr title command_id) OpText c
            in mark_updated (l_id (lobby_at c lid)) c)"

definition on_lobby_password :: "env \<Rightarrow> string \<Rightarrow> string \<Rightarrow> yyval option \<Rightarrow> ctx \<Rightarrow> ctx" where
  "on_lobby_password E command_id pid data c =
    (let wr = yyjson_mut_write E; peer = peer_at c pid; me = p_id peer; lid = p_lobby_id peer in
     if lid = [] then on_error E command_id me ERROR_PEER_NOT_IN_A_LOBBY False False c
     else
       let c = touch_lobby lid c;
           password = decode_string_or_default data ''_p'' [];
           c = set_lobby lid (\<lambda>l. l\<lparr>l_password := password\<rparr>) c;
           note = notification_lobby_password_protected wr (password \<noteq> []);
           c = send_others me (l_peer_ids (lobby_at c lid)) (note []) c;
           c = send me (note command_id) OpText c
       in mark_updated (l_id (lobby_at c lid)) c)"

end
