(* ===== verification/Relay_Handlers.thy ===== *)
theory Relay_Handlers
  imports Host_Handlers
begin

text \<open>
  The commands of games without a script, from \<^verbatim>\<open>src/src/game/game_thread.cpp\<close>: the host stores
  data on the lobby or on its peers, and peers and host exchange notifications.
\<close>

subsection \<open>Storing one entry\<close>

definition lobby_store :: "bool \<Rightarrow> string \<times> any_element \<Rightarrow> lobby_data \<Rightarrow> lobby_data" where
  "lobby_store is_private kv l =
    (let (k, v) = kv in
     if v = ANull then
       (if is_private then
          l\<lparr>l_private_data_dirty := True, l_private_data_diff := fm_put k ANull (l_private_data_diff l),
            l_private_data := fm_erase k (l_private_data l)\<rparr>
        else
          l\<lparr>l_public_data_dirty := True, l_public_data_diff := fm_put k ANull (l_public_data_diff l),
            l_public_data := fm_erase k (l_public_data l)\<rparr>)
     else
       (if is_private then
          l\<lparr>l_private_data_dirty := True, l_private_data_diff := fm_put k v (l_private_data_diff l),
            l_private_data := fm_put k v (l_private_data l)\<rparr>
        else
          l\<lparr>l_public_data_dirty := True, l_public_data_diff := fm_put k v (l_public_data_diff l),
            l_public_data := fm_put k v (l_public_data l)\<rparr>))"

definition peer_store :: "bool \<Rightarrow> string \<times> any_element \<Rightarrow> peer_data \<Rightarrow> peer_data" where
  "peer_store is_private kv p =
    (let (k, v) = kv in
     if v = ANull then
       (if is_private then
          p\<lparr>p_private_data_dirty := True, p_private_data_diff := fm_put k ANull (p_private_data_diff p),
            p_private_data := fm_erase k (p_private_data p)\<rparr>
        else
          p\<lparr>p_public_data_dirty := True, p_public_data_diff := fm_put k ANull (p_public_data_diff p),
            p_public_data := fm_erase k (p_public_data p)\<rparr>)
     else
       (if is_private then
          p\<lparr>p_private_data_dirty := True, p_private_data_diff := fm_put k v (p_private_data_diff p),
            p_private_data := fm_put k v (p_private_data p)\<rparr>
        else
          p\<lparr>p_public_data_dirty := True, p_public_data_diff := fm_put k v (p_public_data_diff p),
            p_public_data := fm_put k v (p_public_data p)\<rparr>))"

subsection \<open>on\_lobby\_data\<close>

definition lobby_data_notify :: "env \<Rightarrow> string \<Rightarrow> string \<Rightarrow> string \<Rightarrow> ctx \<Rightarrow> ctx" where
  "lobby_data_notify E command_id me lid c =
    (let wr = yyjson_mut_write E;
         c = (if l_public_data_dirty (lobby_at c lid) then
                let c = set_lobby lid (\<lambda>l. l\<lparr>l_public_data_dirty := False\<rparr>) c;
                    diff = AMap (l_public_data_diff (lobby_at c lid));
                    c = send_others me (l_peer_ids (lobby_at c lid))
                          (notification_lobby_public_data wr diff []) c;
                    c = send me (notification_lobby_public_data wr diff command_id) OpText c
                in set_lobby lid (\<lambda>l. l\<lparr>l_public_data_diff := []\<rparr>) c
              else c)
     in if l_private_data_dirty (lobby_at c lid) then
          let c = set_lobby lid (\<lambda>l. l\<lparr>l_private_data_dirty := False\<rparr>) c;
              diff = AMap (l_private_data_diff (lobby_at c lid));
              c = send me (notification_lobby_private_data wr diff command_id) OpText c
          in set_lobby lid (\<lambda>l. l\<lparr>l_private_data_diff := []\<rparr>) c
        else c)"

text \<open>
  The refusals the data commands of the host share: in a lobby, its host, a relay game. The
  lobby is looked up with \<open>operator[]\<close> before the second.
\<close>

definition host_relay_refusal :: "ctx \<Rightarrow> peer_data \<Rightarrow> string option" where
  "host_relay_refusal c peer =
    (if p_lobby_id peer = [] then Some ERROR_PEER_NOT_IN_A_LOBBY
     else if l_host (lobby_at c (p_lobby_id peer)) \<noteq> p_id peer then Some ERROR_PEER_NOT_HOST
     else if g_lobby_control (game c) \<noteq> ''relay'' then Some ERROR_GAME_NOT_RELAY
     else None)"

definition touch_own_lobby :: "peer_data \<Rightarrow> ctx \<Rightarrow> ctx" where
  "touch_own_lobby peer c = (if p_lobby_id peer = [] then c else touch_lobby (p_lobby_id peer) c)"

definition on_lobby_data :: "env \<Rightarrow> string \<Rightarrow> string \<Rightarrow> yyval option \<Rightarrow> ctx \<Rightarrow> ctx" where
  "on_lobby_data E command_id pid data c =
    (let peer = peer_at c pid; me = p_id peer; lid = p_lobby_id peer; c = touch_own_lobby peer c in
     case host_relay_refusal c peer of
       Some err \<Rightarrow> on_error E command_id me err False False c
     | None \<Rightarrow>
         (case decode_entry data ''d'' of
            Inl err \<Rightarrow> on_error E command_id me err False False c
          | Inr new_lobbydata \<Rightarrow>
              let is_private = decode_bool_or_default data ''_p'' False;
                  c = set_lobby lid (fold (lobby_store is_private) new_lobbydata) c
              in lobby_data_notify E command_id me lid c))"

subsection \<open>on\_data\_to, on\_data\_to\_all\<close>

text \<open>\<open>name\<close> is the id the notification carries and is sent to, \<open>target\<close> the key of the record.\<close>

definition peer_data_notify ::
  "env \<Rightarrow> string \<Rightarrow> string \<Rightarrow> string \<Rightarrow> string \<Rightarrow> ctx \<Rightarrow> ctx" where
  "peer_data_notify E me lid target name c =
    (let wr = yyjson_mut_write E;
         c = (if p_public_data_dirty (peer_at c target) then
                let c = set_peer target (\<lambda>p. p\<lparr>p_public_data_dirty := False\<rparr>) c;
                    msg = notification_peer_public_data wr
                            (AMap (p_public_data_diff (peer_at c target))) me name;
                    c = send_loop (l_peer_ids (lobby_at c lid)) msg c
                in set_peer target (\<lambda>p. p\<lparr>p_public_data_diff := []\<rparr>) c
              else c)
     in if p_private_data_dirty (peer_at c target) then
          let c = set_peer target (\<lambda>p. p\<lparr>p_private_data_dirty := False\<rparr>) c;
              msg = notification_peer_private_data wr
                      (AMap (p_private_data_diff (peer_at c target))) me name;
              c = send name msg OpText c
          in set_peer target (\<lambda>p. p\<lparr>p_private_data_diff := []\<rparr>) c
        else c)"

definition on_data_to :: "env \<Rightarrow> string \<Rightarrow> string \<Rightarrow> yyval option \<Rightarrow> ctx \<Rightarrow> ctx" where
  "on_data_to E command_id pid data c =
    (let peer = peer_at c pid; me = p_id peer; lid = p_lobby_id peer; c = touch_own_lobby peer c in
     case host_relay_refusal c peer of
       Some err \<Rightarrow> on_error E command_id me err False False c
     | None \<Rightarrow>
         let target = decode_string_or_default data ''tp'' [] in
         if target = [] \<or> target \<notin> set (l_peer_ids (lobby_at c lid))
         then on_error E command_id me ERROR_PEER_NOT_FOUND False False c
         else
           let c = touch_peer target c in
           case decode_entry data ''d'' of
             Inl err \<Rightarrow> on_error E command_id me err False False c
           | Inr new_data \<Rightarrow>
               let is_private = decode_bool_or_default data ''_p'' False;
                   c = set_peer target (fold (peer_store is_private) new_data) c;
                   c = peer_data_notify E me lid target target c
               in send me (notification_data_to_sent (yyjson_mut_write E) command_id) OpText c)"

definition on_data_to_all :: "env \<Rightarrow> string \<Rightarrow> string \<Rightarrow> yyval option \<Rightarrow> ctx \<Rightarrow> ctx" where
  "on_data_to_all E command_id pid data c =
    (let peer = peer_at c pid; me = p_id peer; lid = p_lobby_id peer; c = touch_own_lobby peer c in
     case host_relay_refusal c peer of
       Some err \<Rightarrow> on_error E command_id me err False False c
     | None \<Rightarrow>
         (case decode_entry data ''d'' of
            Inl err \<Rightarrow> on_error E command_id me err False False c
          | Inr new_data \<Rightarrow>
              let is_private = decode_bool_or_default data ''_p'' False;
                  c = fold (\<lambda>k c.
                        let c = touch_peer k c;
                            c = set_peer k (fold (peer_store is_private) new_data) c
                        in peer_data_notify E me lid k (p_id (peer_at c k)) c)
                      (l_peer_ids (lobby_at c lid)) c
              in send me (notification_data_to_sent (yyjson_mut_write E) command_id) OpText c))"

subsection \<open>on\_notify\_to, on\_lobby\_notify\<close>

definition on_notify_to :: "env \<Rightarrow> string \<Rightarrow> string \<Rightarrow> yyval option \<Rightarrow> ctx \<Rightarrow> ctx" where
  "on_notify_to E command_id pid data c =
    (let wr = yyjson_mut_write E; peer = peer_at c pid; me = p_id peer; lid = p_lobby_id peer;
         c = touch_own_lobby peer c in
     case host_relay_refusal c peer of
       Some err \<Rightarrow> on_error E command_id me err False False c
     | None \<Rightarrow>
         let target = decode_string_or_default data ''tp'' [] in
         if target = [] \<or> target \<notin> set (l_peer_ids (lobby_at c lid))
         then on_error E command_id me ERROR_PEER_NOT_FOUND False False c
         else
           let c = touch_peer target c in
           case decode_entry data ''d'' of
             Inl err \<Rightarrow> on_error E command_id me err False False c
           | Inr new_data \<Rightarrow>
               let c = send target (notification_peer_notify wr (AMap new_data) me) OpText c
               in send me (notification_notify_sent wr command_id) OpText c)"

definition on_lobby_notify :: "env \<Rightarrow> string \<Rightarrow> string \<Rightarrow> yyval option \<Rightarrow> ctx \<Rightarrow> ctx" where
  "on_lobby_notify E command_id pid data c =
    (let wr = yyjson_mut_write E; peer = peer_at c pid; me = p_id peer; lid = p_lobby_id peer in
     if lid = [] then on_error E command_id me ERROR_PEER_NOT_IN_A_LOBBY False False c
     else
       let c = touch_lobby lid c in
       if g_lobby_control (game c) \<noteq> ''relay''
       then on_error E command_id me ERROR_GAME_NOT_RELAY False False c
       else
         case decode_entry data ''d'' of
           Inl err \<Rightarrow> on_error E command_id me err False False c
         | Inr new_data \<Rightarrow>
             let lobby = lobby_at c lid;
                 note = notification_peer_notify wr (AMap new_data) me;
                 c = (if l_host lobby = me then send_loop (l_peer_ids lobby) note c
                      else send (l_host lobby) note OpText c)
             in send me (notification_notify_sent wr command_id) OpText c)"

end
