(* ===== verification/Game_Thread.thy ===== *)
theory Game_Thread
  imports Relay_Handlers "HOL-Library.Signed_Division"
begin

text \<open>
  The game thread itself, from \<^verbatim>\<open>src/src/game/game_thread.cpp\<close>: reading one message from the web
  server's queue and dispatching its command (\<open>handle_events\<close>), the periodic work (ticks, batched
  sends, timers, disconnects, AFK, lobby lists), loading, unloading and reloading games, and one
  round of the main loop. The thread's state holds every game; a handler runs in the context of
  one of them and the effects are written back (\<open>in_game\<close>). A container that changes under a
  range-for loop is recorded as a fault at the moment it happens.
\<close>

datatype ws_event = OPEN | MESSAGE | CLOSE

record ws_message =
  m_id :: string
  m_event :: ws_event
  m_message :: string
  m_game_id :: string
  m_reconnection_token :: string
  m_platform :: string
  m_name :: string
  m_platform_id :: string

record gthread = base +
  games :: "game_data flat_map"
  messages_received :: i32
  receive_queue :: "ws_message list"
  check_time :: i32
  listing_interval :: i32
  max_reconnection_time :: i32
  scripts_folder :: string
  file_watcher_queue :: "string list"

subsection \<open>One game of the thread\<close>

definition enter_game :: "gthread \<Rightarrow> game_data \<Rightarrow> ctx" where
  "enter_game t g =
    \<lparr>now = now t, defers = defers t, messages_sent = messages_sent t,
     database_queue = database_queue t, uuid_count = uuid_count t, faults = faults t, game = g\<rparr>"

definition leave_game :: "string \<Rightarrow> ctx \<Rightarrow> gthread \<Rightarrow> gthread" where
  "leave_game gid c t =
    t\<lparr>now := now c, defers := defers c, messages_sent := messages_sent c,
      database_queue := database_queue c, uuid_count := uuid_count c, faults := faults c,
      games := fm_put gid (game c) (games t)\<rparr>"

definition in_game :: "string \<Rightarrow> (ctx \<Rightarrow> ctx) \<Rightarrow> gthread \<Rightarrow> gthread" where
  "in_game gid f t =
    (case map_of (games t) gid of None \<Rightarrow> t | Some g \<Rightarrow> leave_game gid (f (enter_game t g)) t)"

definition for_games :: "(ctx \<Rightarrow> ctx) \<Rightarrow> gthread \<Rightarrow> gthread" where
  "for_games f t = fold (\<lambda>gid. in_game gid f) (map fst (games t)) t"

subsection \<open>Events\<close>

definition dispatch :: "env \<Rightarrow> i64 \<Rightarrow> string \<Rightarrow> string \<Rightarrow> yyval option \<Rightarrow> ctx \<Rightarrow> ctx" where
  "dispatch E command command_id pid data c =
    (if command = COMMAND_LOBBY_DATA then on_lobby_data E command_id pid data c
     else if command = COMMAND_LOBBY_DATA_TO then on_data_to E command_id pid data c
     else if command = COMMAND_LOBBY_DATA_TO_ALL then on_data_to_all E command_id pid data c
     else if command = COMMAND_LOBBY_NOTIFY_TO then on_notify_to E command_id pid data c
     else if command = COMMAND_LOBBY_NOTIFY then on_lobby_notify E command_id pid data c
     else if command = COMMAND_LOBBY_CALL then on_lobby_call E command_id pid data c
     else if command = COMMAND_LOBBY_QUICK_JOIN then on_quick_join E command_id pid data c
     else if command = COMMAND_CREATE_LOBBY then on_create_lobby E command_id pid data None c
     else if command = COMMAND_JOIN_LOBBY then snd (on_join_lobby E command_id pid data [] c)
     else if command = COMMAND_LEAVE_LOBBY then on_leave_lobby E command_id pid data c
     else if command = COMMAND_LIST_LOBBY then on_list_lobby E command_id pid data c
     else if command = COMMAND_STOP_LISTING then on_stop_list_lobby E command_id pid data c
     else if command = COMMAND_CHAT_LOBBY then on_chat_lobby E command_id pid data c
     else if command = COMMAND_LOBBY_TAGS then on_lobby_tags E command_id pid data c
     else if command = COMMAND_KICK_PEER then on_kick_peer E command_id pid data c
     else if command = COMMAND_USER_DATA then on_user_data E command_id pid data c
     else if command = COMMAND_LOBBY_READY then on_lobby_ready E command_id pid data c
     else if command = COMMAND_LOBBY_UNREADY then on_lobby_unready E command_id pid data c
     else if command = COMMAND_LOBBY_SEAL then on_seal_lobby E command_id pid data c
     else if command = COMMAND_LOBBY_UNSEAL then on_unseal_lobby E command_id pid data c
     else if command = COMMAND_LOBBY_MAX_PLAYERS then on_lobby_max_players E command_id pid data c
     else if command = COMMAND_LOBBY_TITLE then on_lobby_title E command_id pid data c
     else if command = COMMAND_LOBBY_PASSWORD then on_lobby_password E command_id pid data c
     else on_error E command_id pid ERROR_UNKOWN_COMMAND True False c)"

definition handle_message :: "env \<Rightarrow> string \<Rightarrow> string \<Rightarrow> ctx \<Rightarrow> ctx" where
  "handle_message E pid message c =
    (case yyjson_read E message of
       Some (YObj kvs) \<Rightarrow>
         (let root = Some (YObj kvs);
              command = decode_int_or_default (double_to_int E) root ''c'' (- 1);
              data = yy_obj_get root ''d'';
              command_id = decode_string_or_default data ''id'' []
          in if \<not> has_peer c pid then on_error E command_id pid ERROR_PEER_NOT_FOUND True False c
             else
               let c = set_peer pid (\<lambda>p. p\<lparr>p_last_message_time := now c\<rparr>) c
               in dispatch E command command_id pid data c)
     | _ \<Rightarrow> on_error E [] pid ERROR_CANNOT_PARSE_JSON True False c)"

definition handle_event :: "env \<Rightarrow> ws_message \<Rightarrow> ctx \<Rightarrow> ctx" where
  "handle_event E m c =
    (case m_event m of
       OPEN \<Rightarrow> on_connect E (m_id m) (m_game_id m) (m_reconnection_token m) (m_platform m)
                 (m_platform_id m) (m_name m) c
     | CLOSE \<Rightarrow> on_close E (m_id m) c
     | MESSAGE \<Rightarrow> handle_message E (m_id m) (m_message m) c)"

definition handle_events :: "env \<Rightarrow> gthread \<Rightarrow> bool \<times> gthread" where
  "handle_events E t =
    (case receive_queue t of
       [] \<Rightarrow> (False, t)
     | m # ms \<Rightarrow>
         (let t = t\<lparr>receive_queue := ms, messages_received := messages_received t + 1\<rparr>;
              t = t\<lparr>games := fm_emplace (m_game_id m) (new_game (m_game_id m) ''relay'') (games t)\<rparr>
          in (True, in_game (m_game_id m) (handle_event E m) t)))"

subsection \<open>Ticks, batches, timers\<close>

text \<open>The error report of the loops that call \<open>std::get<std::string>\<close> on any error value.\<close>

definition report_script_error ::
  "env \<Rightarrow> string \<Rightarrow> any_element \<Rightarrow> bool \<Rightarrow> ctx \<Rightarrow> ctx" where
  "report_script_error E peer_id result has_error c =
    (case result of
       AStr s \<Rightarrow> on_error E [] peer_id s False True c
     | _ \<Rightarrow> if has_error then fault_add BadVariantAccess c else c)"

text \<open>
  A lobby erased before the loop reaches it is not visited; one erased while it is visited leaves
  the loop with a dead iterator.
\<close>

definition tick_lobby :: "env \<Rightarrow> any_element list \<Rightarrow> string \<Rightarrow> ctx \<Rightarrow> ctx" where
  "tick_lobby E args lid c =
    (if \<not> has_lobby c lid then c
     else
       let (result, has_error, c) = call_script E [] lid ''_on_lobby_tick'' args c;
           c = report_script_error E [] result has_error c
       in if has_lobby c lid then c else fault_add IteratorInvalidated c)"

definition tick_game :: "env \<Rightarrow> i64 \<Rightarrow> ctx \<Rightarrow> ctx" where
  "tick_game E previous_tick c =
    (let rate = to_i64 (g_tick_rate (game c)) in
     if g_tick_rate (game c) = 0 \<or> sint previous_tick < sint (g_last_tick_time (game c) + rate) then c
     else
       let c = upd_game (\<lambda>g. g\<lparr>g_last_tick_time := g_last_tick_time g + rate\<rparr>) c;
           c = c\<lparr>now := g_last_tick_time (game c)\<rparr>
       in if \<not> has_callback c ''_on_lobby_tick'' then c
          else fold (tick_lobby E [AInt rate]) (bucket_order E (map fst (g_lobbies (game c)))) c)"

definition handle_tick :: "env \<Rightarrow> gthread \<Rightarrow> gthread" where
  "handle_tick E t = (for_games (tick_game E (now t)) t)\<lparr>now := now t\<rparr>"

definition send_game :: "ctx \<Rightarrow> ctx" where
  "send_game c =
    (let rate = to_i64 (g_send_rate (game c)) in
     if g_send_rate (game c) = 0 \<or> sint (now c) < sint (g_last_send_time (game c) + rate) then c
     else
       let c = upd_game (\<lambda>g. g\<lparr>g_last_send_time := g_last_send_time g + rate\<rparr>) c;
           c = c\<lparr>defers := defers c @ [DBatch (g_peers_send_data (game c))]\<rparr>
       in upd_game (\<lambda>g. g\<lparr>g_peers_send_data := []\<rparr>) c)"

definition handle_send :: "gthread \<Rightarrow> gthread" where
  "handle_send t = for_games send_game t"

definition erase_timer :: "string \<Rightarrow> ctx \<Rightarrow> ctx" where
  "erase_timer tid c =
    fault_add IteratorInvalidated
      (upd_game (\<lambda>g. g\<lparr>g_timer_data := fm_erase tid (g_timer_data g)\<rparr>) c)"

definition timer_step :: "env \<Rightarrow> string \<Rightarrow> ctx \<Rightarrow> ctx" where
  "timer_step E tid c =
    (case map_of (g_timer_data (game c)) tid of
       None \<Rightarrow> c
     | Some td \<Rightarrow>
         if sint (t_end_time td) < sint (now c) then
           if \<not> has_lobby c (t_lobby_id td) then
             erase_timer tid (on_error E [] (t_peer_id td) ERROR_LOBBY_NOT_FOUND False True c)
           else
             let c = erase_timer tid c;
                 (result, has_error, c) = call_script E (t_peer_id td) (t_lobby_id td) (t_id td)
                   (t_args td) c
             in report_script_error E (t_peer_id td) result has_error c
         else c)"

definition handle_timers :: "env \<Rightarrow> gthread \<Rightarrow> gthread" where
  "handle_timers E t =
    for_games (\<lambda>c. fold (timer_step E) (map fst (g_timer_data (game c))) c) t"

subsection \<open>Disconnects and AFK\<close>

definition disconnect_step ::
  "env \<Rightarrow> i32 \<Rightarrow> string \<times> i64 \<Rightarrow> flat_set \<times> ctx \<Rightarrow> flat_set \<times> ctx" where
  "disconnect_step E max_time kt s =
    (let (k, since) = kt; (to_erase, c) = s in
     if \<not> has_peer c k then (fs_insert k to_erase, c)
     else
       let lid = p_lobby_id (peer_at c k) in
       if \<not> has_lobby c lid then (fs_insert k to_erase, set_peer k leave_lobby c)
       else if sint (to_i64 max_time) < sint (now c - since) then
         (fs_insert k to_erase,
          remove_peer_from_lobby (call_script E) E lid (p_id (peer_at c k)) [] True c)
       else (to_erase, c))"

definition disconnect_game :: "env \<Rightarrow> i32 \<Rightarrow> ctx \<Rightarrow> ctx" where
  "disconnect_game E max_time c =
    (let (to_erase, c) = fold (disconnect_step E max_time) (g_disconnected_peers (game c)) ([], c);
         c = c\<lparr>defers := defers c @ [DClear to_erase]\<rparr>
     in fold (\<lambda>k. upd_game (\<lambda>g. g\<lparr>
          g_disconnected_peers := fm_erase k (g_disconnected_peers g),
          g_peers := fm_erase k (g_peers g),
          g_lobby_listing_peers := fs_erase k (g_lobby_listing_peers g)\<rparr>)) to_erase c)"

definition handle_disconnects :: "env \<Rightarrow> gthread \<Rightarrow> gthread" where
  "handle_disconnects E t = for_games (disconnect_game E (max_reconnection_time t)) t"

text \<open>
  The inner loop of \<open>handle_afk\<close> compares the outer loop's peer every time. Removing a peer
  erases it from the set the loop runs over, and the id handed to \<open>remove_peer_from_lobby\<close> is a
  reference into that set.
\<close>

fun afk_all_idle :: "i64 \<Rightarrow> i32 \<Rightarrow> string \<Rightarrow> string list \<Rightarrow> ctx \<Rightarrow> bool \<times> ctx" where
  "afk_all_idle t max_afk pid [] c = (True, c)"
| "afk_all_idle t max_afk pid (k # ks) c =
     (let c = touch_peer k c in
      if sint (t - p_last_message_time (peer_at c pid)) < sint (to_i64 max_afk) then (False, c)
      else afk_all_idle t max_afk pid ks c)"

definition afk_step :: "env \<Rightarrow> string \<Rightarrow> ctx \<Rightarrow> ctx" where
  "afk_step E pid c =
    (let lid = p_lobby_id (peer_at c pid) in
     if \<not> has_lobby c lid then c
     else
       let ids = l_peer_ids (lobby_at c lid);
           (destroy_lobby, c) = afk_all_idle (now c) (g_max_afk_time (game c)) pid ids c
       in if destroy_lobby then
            fold (\<lambda>k c. fault_add IteratorInvalidated
                (remove_peer_from_lobby (call_script E) E lid k [] False (touch_lobby lid c))) ids c
          else c)"

fun afk_games :: "env \<Rightarrow> string list \<Rightarrow> gthread \<Rightarrow> gthread" where
  "afk_games E [] t = t"
| "afk_games E (gid # gids) t =
     (case map_of (games t) gid of
        None \<Rightarrow> t
      | Some g \<Rightarrow>
          if sint (g_max_afk_time g) \<le> 0 then t
          else afk_games E gids
                 (in_game gid (\<lambda>c. fold (afk_step E) (map fst (g_peers (game c))) c) t))"

definition handle_afk :: "env \<Rightarrow> gthread \<Rightarrow> gthread" where
  "handle_afk E t = afk_games E (map fst (games t)) t"

subsection \<open>Lobby lists\<close>

definition list_entry :: "string \<Rightarrow> ctx \<Rightarrow> any_element" where
  "list_entry lid c =
    (if \<not> has_lobby c lid \<or> l_sealed (lobby_at c lid) then mk_obj [(''id'', AStr lid)]
     else AMap (lobby_to_dict False (lobby_at c lid)))"

definition list_game :: "env \<Rightarrow> ctx \<Rightarrow> ctx" where
  "list_game E c =
    (if g_lobbies_updated (game c) = [] \<or> g_lobby_listing_peers (game c) = []
     then upd_game (\<lambda>g. g\<lparr>g_lobbies_updated := []\<rparr>) c
     else
       let lobbies = map (\<lambda>k. list_entry k c) (g_lobbies_updated (game c));
           msg = notification_lobby_list (yyjson_mut_write E) (AArr lobbies) [];
           c = send_loop (g_lobby_listing_peers (game c)) msg c
       in upd_game (\<lambda>g. g\<lparr>g_lobbies_updated := []\<rparr>) c)"

definition handle_lobby_list :: "env \<Rightarrow> gthread \<Rightarrow> gthread" where
  "handle_lobby_list E t = for_games (list_game E) t"

subsection \<open>Loading, unloading and reloading games\<close>

text \<open>
  What \<open>load_games\<close> reads of a folder: its name, whether it holds a \<open>main.lua\<close>, and the values of
  its \<open>config.ini\<close> (read by INIReader, with the defaults of the code).
\<close>

record game_folder =
  gf_name :: string
  gf_has_main :: bool
  gf_tickrate :: i32
  gf_sendrate :: i32
  gf_max_afk_time :: i32
  gf_seal :: bool
  gf_disband_on_leave :: bool

definition lua_close :: "script_lua \<Rightarrow> script_lua" where
  "lua_close s = s\<lparr>lua_L := None\<rparr>"

definition game_close :: "game_data \<Rightarrow> game_data" where
  "game_close g = (if lua_enabled (g_lua g) then g\<lparr>g_lua := lua_close (g_lua g)\<rparr> else g)"

text \<open>\<open>ScriptLua::open\<close>: the machine is used before the test for \<open>nullptr\<close>.\<close>

definition lua_open :: "env \<Rightarrow> ctx \<Rightarrow> flat_set \<times> ctx" where
  "lua_open E c =
    (let c = (if lua_enabled (g_lua (game c)) then update_lua lua_close c else c);
         s = g_lua (game c)
     in if lua_folder_name s = [] then ([], c)
        else
          (case lua_newstate E (lua_scripts_folder s @ ''/'' @ lua_folder_name s) of
             None \<Rightarrow> ([], fault_add LuaPanic (update_lua (\<lambda>s. s\<lparr>lua_L := None, lua_enabled := False\<rparr>) c))
           | Some (vm, callbacks) \<Rightarrow>
               (callbacks, update_lua (\<lambda>s. s\<lparr>lua_L := Some vm, lua_enabled := True\<rparr>) c)))"

definition round_down :: "i64 \<Rightarrow> i32 \<Rightarrow> i64" where
  "round_down t rate = word_of_int (sint t sdiv sint rate) * to_i64 rate"

definition game_open :: "env \<Rightarrow> i64 \<Rightarrow> ctx \<Rightarrow> ctx" where
  "game_open E t c =
    (let c = (if lua_enabled (g_lua (game c)) then
                let (callbacks, c) = lua_open E c
                in upd_game (\<lambda>g. g\<lparr>g_enabled_callbacks := callbacks\<rparr>) c
              else c);
         c = (if 0 < sint (g_send_rate (game c))
              then upd_game (\<lambda>g. g\<lparr>g_last_send_time := round_down t (g_send_rate g)\<rparr>) c else c)
     in if 0 < sint (g_tick_rate (game c))
        then upd_game (\<lambda>g. g\<lparr>g_last_tick_time := round_down t (g_tick_rate g)\<rparr>) c else c)"

definition signed_min :: "i32 \<Rightarrow> i32 \<Rightarrow> i32" where
  "signed_min a b = (if sint b < sint a then b else a)"

definition folder_tickrate :: "game_folder \<Rightarrow> i32" where
  "folder_tickrate f = (if sint (gf_tickrate f) < 16 then 0 else gf_tickrate f)"

definition folder_game :: "string \<Rightarrow> game_folder \<Rightarrow> game_data" where
  "folder_game folder f =
    (let control = (if gf_has_main f then ''lua'' else ''relay'')
     in (new_game (gf_name f) control)\<lparr>g_tick_rate := folder_tickrate f, g_send_rate := gf_sendrate f,
          g_max_afk_time := gf_max_afk_time f, g_seal := gf_seal f,
          g_disband_on_leave := gf_disband_on_leave f, g_folder_name := gf_name f,
          g_lua := default_lua\<lparr>lua_scripts_folder := folder,
            lua_folder_name := gf_name f, lua_script_entrypoint := ''main.lua'',
            lua_enabled := (control = ''lua'')\<rparr>\<rparr>)"

definition load_folder :: "game_folder \<Rightarrow> string list \<times> gthread \<Rightarrow> string list \<times> gthread" where
  "load_folder f s =
    (let (to_open, t) = s; name = gf_name f in
     if name = [] then s
     else
       let tickrate = folder_tickrate f;
           t = (if 0 < sint tickrate then t\<lparr>check_time := signed_min (check_time t) tickrate\<rparr> else t);
           t = (if 0 < sint (gf_sendrate f)
                then t\<lparr>check_time := signed_min (check_time t) (gf_sendrate f)\<rparr> else t)
       in if fm_has name (games t) then (to_open, t)
          else (name # to_open,
                t\<lparr>games := fm_emplace name (folder_game (scripts_folder t) f) (games t)\<rparr>))"

definition load_games :: "env \<Rightarrow> game_folder list \<Rightarrow> gthread \<Rightarrow> gthread" where
  "load_games E folders t =
    (let (to_open, t) = fold load_folder folders ([], t) in
     fold (\<lambda>gid t.
        if gid \<notin> set to_open then t
        else in_game gid (\<lambda>c.
          let c = game_open E (now c) c
          in if has_callback c ''_on_server_init''
             then snd (snd (call_script E [] [] ''_on_server_init'' [] c)) else c) t)
       (map fst (games t)) t)"

definition unload_game :: "env \<Rightarrow> string \<Rightarrow> gthread \<Rightarrow> gthread" where
  "unload_game E gid t =
    (if gid = [] then t
     else
       let t = t\<lparr>games := fm_emplace gid (new_game [] ''relay'') (games t)\<rparr>
       in in_game gid (\<lambda>c. upd_game game_close
            (fold (\<lambda>kp. on_error E ''on_disconnect'' (p_id (snd kp)) ERROR_GAME_IS_UNLOADED True False)
               (g_peers (game c)) c)) t)"

definition reload_game :: "env \<Rightarrow> i64 \<Rightarrow> string \<Rightarrow> gthread \<Rightarrow> gthread" where
  "reload_game E time_now folder t =
    for_games (\<lambda>c.
      if g_folder_name (game c) = folder \<and> lua_enabled (g_lua (game c)) then
        let c = game_open E time_now (upd_game game_close c)
        in if has_callback c ''_on_server_reload''
           then snd (snd (call_script E [] [] ''_on_server_reload'' [] c)) else c
      else c) t"

subsection \<open>The main loop\<close>

record run_state =
  last_listing :: i64
  last_disconnect :: i64
  last_timers :: i64

fun process_messages :: "env \<Rightarrow> nat \<Rightarrow> gthread \<Rightarrow> gthread" where
  "process_messages E 0 t = t"
| "process_messages E (Suc n) t =
     (let (more, t) = handle_events E t in if more then process_messages E n t else t)"

definition run_round :: "env \<Rightarrow> i64 \<Rightarrow> run_state \<times> gthread \<Rightarrow> run_state \<times> gthread" where
  "run_round E time_now s =
    (let (r, t) = s;
         t = handle_send (handle_tick E (process_messages E 50 t));
         disconnect_interval = sint (max_reconnection_time t) sdiv 10;
         (r, t) = (if disconnect_interval < sint (now t - last_disconnect r)
                   then (r\<lparr>last_disconnect := now t\<rparr>, handle_afk E (handle_disconnects E t))
                   else (r, t));
         (r, t) = (if sint (listing_interval t) < sint (now t - last_listing r)
                   then (r\<lparr>last_listing := now t\<rparr>, handle_lobby_list E t) else (r, t));
         (r, t) = (if 500 < sint (now t - last_timers r)
                   then (r\<lparr>last_timers := now t\<rparr>, handle_timers E t) else (r, t))
     in (case file_watcher_queue t of
           [] \<Rightarrow> (r, t)
         | f # fs \<Rightarrow> (r, reload_game E time_now f (t\<lparr>file_watcher_queue := fs\<rparr>))))"

text \<open>\<open>time_run\<close>: the instant the clock thread sleeps until, and then stores in \<open>now\<close>.\<close>

definition next_tick_ms :: "int \<Rightarrow> int \<Rightarrow> int" where
  "next_tick_ms t check = t + (check sdiv 2 - (t smod check) sdiv 2)"

end
