(* ===== verification/Frames.thy ===== *)
theory Frames
  imports Game_Thread
begin

text \<open>
  What the basic operations on a context leave alone, as simplification rules. Sending changes
  the outgoing queue and the batches only; recording a fault changes nothing else.
\<close>

subsection \<open>Sending\<close>

lemma send_frame [simp]:
  "g_peers (game (send p m op c)) = g_peers (game c)"
  "g_lobbies (game (send p m op c)) = g_lobbies (game c)"
  "g_disconnected_peers (game (send p m op c)) = g_disconnected_peers (game c)"
  "g_lobby_control (game (send p m op c)) = g_lobby_control (game c)"
  "g_disband_on_leave (game (send p m op c)) = g_disband_on_leave (game c)"
  "g_enabled_callbacks (game (send p m op c)) = g_enabled_callbacks (game c)"
  "g_lobby_listing_peers (game (send p m op c)) = g_lobby_listing_peers (game c)"
  "g_lobbies_updated (game (send p m op c)) = g_lobbies_updated (game c)"
  "g_timer_data (game (send p m op c)) = g_timer_data (game c)"
  "g_send_rate (game (send p m op c)) = g_send_rate (game c)"
  "g_lua (game (send p m op c)) = g_lua (game c)"
  "g_id (game (send p m op c)) = g_id (game c)"
  "g_tick_rate (game (send p m op c)) = g_tick_rate (game c)"
  "g_max_afk_time (game (send p m op c)) = g_max_afk_time (game c)"
  "g_seal (game (send p m op c)) = g_seal (game c)"
  "g_folder_name (game (send p m op c)) = g_folder_name (game c)"
  "now (send p m op c) = now c"
  "database_queue (send p m op c) = database_queue c"
  "uuid_count (send p m op c) = uuid_count c"
  "faults (send p m op c) = faults c"
  by (simp_all add: send_def upd_game_def Let_def)

text \<open>Everything but the outgoing messages.\<close>

definition state_of :: "ctx \<Rightarrow> ctx" where
  "state_of c = c\<lparr>defers := [], messages_sent := 0, game := (game c)\<lparr>g_peers_send_data := []\<rparr>\<rparr>"

lemma state_of_send [simp]: "state_of (send p m op c) = state_of c"
  by (simp add: state_of_def send_def upd_game_def Let_def)

lemma state_of_on_error [simp]: "state_of (on_error E i p m cl le c) = state_of c"
  by (simp add: on_error_def)

lemma state_of_send_loop [simp]: "state_of (send_loop ids m c) = state_of c"
  by (induction ids arbitrary: c) (simp_all add: send_loop_def)

lemma state_of_send_others [simp]: "state_of (send_others me ids m c) = state_of c"
  by (induction ids arbitrary: c) (simp_all add: send_others_def)

lemma state_of_game:
  assumes "state_of c = state_of c'"
  shows "(game c)\<lparr>g_peers_send_data := []\<rparr> = (game c')\<lparr>g_peers_send_data := []\<rparr>"
  using arg_cong [OF assms, of game] by (simp add: state_of_def)

lemma state_of_fields:
  assumes "state_of c = state_of c'"
  shows
    "g_peers (game c) = g_peers (game c')"
    "g_lobbies (game c) = g_lobbies (game c')"
    "g_disconnected_peers (game c) = g_disconnected_peers (game c')"
    "g_lobby_control (game c) = g_lobby_control (game c')"
    "g_disband_on_leave (game c) = g_disband_on_leave (game c')"
    "g_enabled_callbacks (game c) = g_enabled_callbacks (game c')"
    "g_lobby_listing_peers (game c) = g_lobby_listing_peers (game c')"
    "g_lobbies_updated (game c) = g_lobbies_updated (game c')"
    "g_timer_data (game c) = g_timer_data (game c')"
    "g_send_rate (game c) = g_send_rate (game c')"
    "g_lua (game c) = g_lua (game c')"
    "g_id (game c) = g_id (game c')"
    "g_tick_rate (game c) = g_tick_rate (game c')"
    "g_max_afk_time (game c) = g_max_afk_time (game c')"
    "g_seal (game c) = g_seal (game c')"
    "g_folder_name (game c) = g_folder_name (game c')"
    "now c = now c'"
    "database_queue c = database_queue c'"
    "uuid_count c = uuid_count c'"
    "faults c = faults c'"
proof -
  note g = state_of_game [OF assms]
  show "g_peers (game c) = g_peers (game c')"
    using arg_cong [OF g, of g_peers] by simp
  show "g_lobbies (game c) = g_lobbies (game c')"
    using arg_cong [OF g, of g_lobbies] by simp
  show "g_disconnected_peers (game c) = g_disconnected_peers (game c')"
    using arg_cong [OF g, of g_disconnected_peers] by simp
  show "g_lobby_control (game c) = g_lobby_control (game c')"
    using arg_cong [OF g, of g_lobby_control] by simp
  show "g_disband_on_leave (game c) = g_disband_on_leave (game c')"
    using arg_cong [OF g, of g_disband_on_leave] by simp
  show "g_enabled_callbacks (game c) = g_enabled_callbacks (game c')"
    using arg_cong [OF g, of g_enabled_callbacks] by simp
  show "g_lobby_listing_peers (game c) = g_lobby_listing_peers (game c')"
    using arg_cong [OF g, of g_lobby_listing_peers] by simp
  show "g_lobbies_updated (game c) = g_lobbies_updated (game c')"
    using arg_cong [OF g, of g_lobbies_updated] by simp
  show "g_timer_data (game c) = g_timer_data (game c')"
    using arg_cong [OF g, of g_timer_data] by simp
  show "g_send_rate (game c) = g_send_rate (game c')"
    using arg_cong [OF g, of g_send_rate] by simp
  show "g_lua (game c) = g_lua (game c')"
    using arg_cong [OF g, of g_lua] by simp
  show "g_id (game c) = g_id (game c')"
    using arg_cong [OF g, of g_id] by simp
  show "g_tick_rate (game c) = g_tick_rate (game c')"
    using arg_cong [OF g, of g_tick_rate] by simp
  show "g_max_afk_time (game c) = g_max_afk_time (game c')"
    using arg_cong [OF g, of g_max_afk_time] by simp
  show "g_seal (game c) = g_seal (game c')"
    using arg_cong [OF g, of g_seal] by simp
  show "g_folder_name (game c) = g_folder_name (game c')"
    using arg_cong [OF g, of g_folder_name] by simp
  show "now c = now c'"
    using arg_cong [OF assms, of now] by (simp add: state_of_def)
  show "database_queue c = database_queue c'"
    using arg_cong [OF assms, of database_queue] by (simp add: state_of_def)
  show "uuid_count c = uuid_count c'"
    using arg_cong [OF assms, of uuid_count] by (simp add: state_of_def)
  show "faults c = faults c'"
    using arg_cong [OF assms, of faults] by (simp add: state_of_def)
qed

lemmas on_error_frame [simp] = state_of_fields [OF state_of_on_error]
lemmas send_loop_frame [simp] = state_of_fields [OF state_of_send_loop]
lemmas send_others_frame [simp] = state_of_fields [OF state_of_send_others]

end
