(* ===== verification/Kept.thy ===== *)
theory Kept
  imports Frames
begin

text \<open>
  The contract of a relation between contexts that an operation may rely on: \<open>kept\<close> is closed under
  faults, under writes to a peer or a lobby that leave identity and membership alone
  (\<open>quiet_peer\<close>, \<open>quiet_lobby\<close>) and under every change that touches no record. Inside the locale
  each operation that is built from these steps is shown to keep the relation, once for all
  relations: sending, flushing changes, the C functions of a script. \<open>kept_scripts\<close> adds that
  taking a peer out of a lobby keeps it, which gives every script run, however deep it nests, and
  every handler that neither creates nor joins a lobby.
\<close>

definition quiet_peer :: "(peer_data \<Rightarrow> peer_data) \<Rightarrow> bool" where
  "quiet_peer f \<longleftrightarrow>
    (\<forall>p. p_id (f p) = p_id p \<and> (p_lobby_id (f p) = p_lobby_id p \<or> p_lobby_id (f p) = []))"

definition quiet_lobby :: "(lobby_data \<Rightarrow> lobby_data) \<Rightarrow> bool" where
  "quiet_lobby f \<longleftrightarrow>
    (\<forall>l. l_id (f l) = l_id l \<and> l_peer_ids (f l) = l_peer_ids l \<and>
         l_peer_ordered_ids (f l) = l_peer_ordered_ids l \<and>
         l_disband_on_leave (f l) = l_disband_on_leave l)"

definition config ::
  "game_data \<Rightarrow> string \<times> string \<times> i32 \<times> i32 \<times> i32 \<times> bool \<times> bool \<times> string" where
  "config g = (g_id g, g_lobby_control g, g_tick_rate g, g_send_rate g, g_max_afk_time g,
     g_seal g, g_disband_on_leave g, g_folder_name g)"

lemma config_update [simp]:
  "config (g_last_send_time_update f1 g) = config g"
  "config (g_last_tick_time_update f2 g) = config g"
  "config (g_peers_send_data_update f3 g) = config g"
  "config (g_peers_update f4 g) = config g"
  "config (g_disconnected_peers_update f5 g) = config g"
  "config (g_lobbies_update f6 g) = config g"
  "config (g_lobby_listing_peers_update f7 g) = config g"
  "config (g_lobbies_updated_update f8 g) = config g"
  "config (g_timer_data_update f9 g) = config g"
  "config (g_enabled_callbacks_update f10 g) = config g"
  "config (g_lua_update f11 g) = config g"
  by (simp_all add: config_def)

definition same_links :: "ctx \<Rightarrow> ctx \<Rightarrow> bool" where
  "same_links c c' \<longleftrightarrow>
    g_peers (game c') = g_peers (game c) \<and> g_lobbies (game c') = g_lobbies (game c) \<and>
    config (game c') = config (game c) \<and>
    uuid_count c' = uuid_count c \<and> faults c' = faults c"

definition returns :: "any_element \<times> bool \<times> ctx \<Rightarrow> ctx" where
  "returns r = snd (snd r)"

lemma quiet_peer_leave: "quiet_peer leave_lobby"
  by (simp add: quiet_peer_def leave_lobby_def)

lemma quiet_lobby_replace:
  "quiet_lobby (lobby_replace_public d)" "quiet_lobby (lobby_replace_private d)"
  "quiet_lobby (lobby_replace_tags d)"
  by (simp_all add: quiet_lobby_def lobby_replace_public_def lobby_replace_private_def
      lobby_replace_tags_def)

lemma quiet_peer_replace:
  "quiet_peer (peer_replace_public d)" "quiet_peer (peer_replace_private d)"
  by (simp_all add: quiet_peer_def peer_replace_public_def peer_replace_private_def)

lemma quiet_lobby_store: "quiet_lobby (fold (lobby_store b) kvs)"
proof -
  have 1: "l_id (lobby_store b kv l) = l_id l" "l_peer_ids (lobby_store b kv l) = l_peer_ids l"
    "l_peer_ordered_ids (lobby_store b kv l) = l_peer_ordered_ids l"
    "l_disband_on_leave (lobby_store b kv l) = l_disband_on_leave l" for kv l
    by (simp_all add: lobby_store_def split: prod.split)
  show ?thesis
    unfolding quiet_lobby_def by (induction kvs) (simp_all add: 1)
qed

lemma quiet_peer_store: "quiet_peer (fold (peer_store b) kvs)"
proof -
  have 1: "p_id (peer_store b kv p) = p_id p" "p_lobby_id (peer_store b kv p) = p_lobby_id p" for kv p
    by (simp_all add: peer_store_def split: prod.split)
  have "p_id (fold (peer_store b) kvs p) = p_id p \<and>
      p_lobby_id (fold (peer_store b) kvs p) = p_lobby_id p" for p
    by (induction kvs arbitrary: p) (simp_all add: 1)
  then show ?thesis unfolding quiet_peer_def by blast
qed

locale kept =
  fixes rel :: "ctx \<Rightarrow> ctx \<Rightarrow> bool"
  assumes same: "rel c0 c \<Longrightarrow> same_links c c' \<Longrightarrow> rel c0 c'"
    and fault: "rel c0 c \<Longrightarrow> rel c0 (fault_add x c)"
    and touch_peer: "rel c0 c \<Longrightarrow> rel c0 (touch_peer k c)"
    and touch_lobby: "rel c0 c \<Longrightarrow> rel c0 (touch_lobby k c)"
    and set_peer: "rel c0 c \<Longrightarrow> quiet_peer f \<Longrightarrow> rel c0 (set_peer k f c)"
    and set_lobby: "rel c0 c \<Longrightarrow> quiet_lobby g \<Longrightarrow> rel c0 (set_lobby k g c)"
begin

lemma fold_kept: "rel c0 c \<Longrightarrow> (\<And>x c. x \<in> set xs \<Longrightarrow> rel c0 c \<Longrightarrow> rel c0 (f x c)) \<Longrightarrow> rel c0 (fold f xs c)"
  by (induction xs arbitrary: c) auto

lemma set_peer_data:
  assumes "rel c0 c" "\<And>p. p_id (f p) = p_id p" "\<And>p. p_lobby_id (f p) = p_lobby_id p"
  shows "rel c0 (set_peer k f c)"
  using assms by (auto intro: set_peer simp: quiet_peer_def)

lemma set_lobby_data:
  assumes "rel c0 c" "\<And>l. l_id (f l) = l_id l" "\<And>l. l_peer_ids (f l) = l_peer_ids l"
    "\<And>l. l_peer_ordered_ids (f l) = l_peer_ordered_ids l"
    "\<And>l. l_disband_on_leave (f l) = l_disband_on_leave l"
  shows "rel c0 (set_lobby k f c)"
  using assms by (auto intro: set_lobby simp: quiet_lobby_def)

lemma upd_game:
  assumes "rel c0 c" "\<And>g. g_peers (f g) = g_peers g" "\<And>g. g_lobbies (f g) = g_lobbies g"
    "\<And>g. config (f g) = config g"
  shows "rel c0 (upd_game f c)"
  using assms by (auto intro!: same [OF assms(1)] simp: same_links_def upd_game_def)

lemma send: "rel c0 c \<Longrightarrow> rel c0 (send p m op c)"
  by (erule same) (simp add: same_links_def config_def)

lemma on_error: "rel c0 c \<Longrightarrow> rel c0 (on_error E i p m cl le c)"
  by (erule same) (simp add: same_links_def config_def)

lemma send_loop: "rel c0 c \<Longrightarrow> rel c0 (send_loop ids m c)"
  by (erule same) (simp add: same_links_def config_def)

lemma send_others: "rel c0 c \<Longrightarrow> rel c0 (send_others me ids m c)"
  by (erule same) (simp add: same_links_def config_def)

lemma mark_updated: "rel c0 c \<Longrightarrow> rel c0 (mark_updated k c)"
  unfolding mark_updated_def by (rule upd_game) simp_all

lemma update_lua: "rel c0 c \<Longrightarrow> rel c0 (update_lua f c)"
  unfolding update_lua_def by (rule upd_game) simp_all

lemma set_leave: "rel c0 c \<Longrightarrow> rel c0 (set_peer k leave_lobby c)"
  by (intro set_peer quiet_peer_leave)

lemmas basics = fault touch_peer touch_lobby send on_error send_loop send_others mark_updated
  update_lua set_leave fold_kept

lemma remove_disband: "rel c0 c \<Longrightarrow> rel c0 (remove_disband E lid pid i c)"
  unfolding remove_disband_def Let_def by (auto intro!: basics)

lemma remove_host_left: "rel c0 c \<Longrightarrow> rel c0 (remove_host_left E lid pid i c)"
  unfolding remove_host_left_def Let_def by (auto intro!: basics set_lobby_data)

lemma remove_member: "rel c0 c \<Longrightarrow> rel c0 (remove_member E lid pid i k c)"
  unfolding remove_member_def Let_def by (auto intro!: basics)

lemma notify_peer_changes: "rel c0 c \<Longrightarrow> rel c0 (notify_peer_changes E lid k c)"
  unfolding notify_peer_changes_def Let_def by (auto intro!: basics set_peer_data)

lemma notify_parts:
  assumes "rel c0 c"
  shows "rel c0 (notify_tags_changes E lid c)" "rel c0 (notify_name_changes E lid c)"
    "rel c0 (notify_max_players_changes E lid c)" "rel c0 (notify_sealed_changes E lid c)"
    "rel c0 (notify_lobby_public_changes E lid c)" "rel c0 (notify_lobby_private_changes E lid c)"
  unfolding notify_tags_changes_def notify_name_changes_def notify_max_players_changes_def
    notify_sealed_changes_def notify_lobby_public_changes_def notify_lobby_private_changes_def Let_def
  using assms by (auto intro!: basics set_lobby_data)

lemma notify_lobby_changes: "rel c0 c \<Longrightarrow> rel c0 (notify_lobby_changes E lid c)"
  unfolding notify_lobby_changes_def Let_def
  by (auto intro!: basics notify_peer_changes notify_parts)




end

lemma snd_api [simp]: "snd (api_error m c) = c" "snd (api_ok vs c) = c"
  by (simp_all add: api_error_def api_ok_def)

context kept
begin

lemma set_lobby_host: "rel c0 c \<Longrightarrow> rel c0 (set_lobby_host E lid h c)"
  unfolding set_lobby_host_def Let_def by (auto intro!: basics set_lobby_data)

lemma snd_if: "rel c0 (snd x) \<Longrightarrow> rel c0 (snd y) \<Longrightarrow> rel c0 (snd (if b then x else y))"
  by simp

lemma ctx_if: "rel c0 x \<Longrightarrow> rel c0 y \<Longrightarrow> rel c0 (if b then x else y)"
  by simp

lemma newindex_lobby_root:
  assumes c: "rel c0 c"
  shows "rel c0 (snd (newindex_lobby_root E lid key v c))"
proof -
  have store: "rel c0 (snd (case decode_luavalue E v of None \<Rightarrow> api_error (lua_argerror E) c
      | Some (AMap d) \<Rightarrow> api_ok [] (set_lobby lid (f d) c) | Some _ \<Rightarrow> api_ok [] c))"
    if "\<And>d. quiet_lobby (f d)" for f
    using c that by (simp add: set_lobby split: option.split any_element.split)
  have str: "rel c0 (snd (case lua_to_cstring E v of None \<Rightarrow> api_ok [] (fault_add NullString c)
      | Some s \<Rightarrow> api_ok [] (if P s then f s else c)))"
    if "\<And>s. rel c0 (f s)" for P f
    using c that by (simp add: fault split: option.split)
  show ?thesis
    unfolding newindex_lobby_root_def Let_def
    by (intro snd_if store str; (simp only: snd_api)?;
        (intro ctx_if set_lobby_data set_lobby_host quiet_lobby_replace c)?) simp_all
qed

lemma newindex_peer_root: "rel c0 c \<Longrightarrow> rel c0 (snd (newindex_peer_root E pid key v c))"
  unfolding newindex_peer_root_def Let_def
  by (auto intro!: basics set_peer quiet_peer_replace split: option.split any_element.split)

lemma newindex_entry: "rel c0 c \<Longrightarrow> rel c0 (newindex_entry u key x c)"
  unfolding newindex_entry_def Let_def
  by (auto intro!: set_lobby_data set_peer_data split: userdata_type.split)

lemma lobby_newindex:
  assumes "rel c0 c"
  shows "rel c0 (snd (lobby_newindex E args c))"
proof (cases "lua_arg args 1")
  case (LUserdata u)
  then show ?thesis
    using assms unfolding lobby_newindex_def Let_def
    by (auto intro!: basics newindex_lobby_root newindex_peer_root newindex_entry
        split: option.split userdata_type.split)
qed (use assms in \<open>simp_all add: lobby_newindex_def\<close>)

lemma index_lobby_root: "rel c0 c \<Longrightarrow> rel c0 (snd (index_lobby_root u key c))"
  unfolding index_lobby_root_def Let_def by (auto intro!: basics)

lemma lobby_index:
  assumes "rel c0 c"
  shows "rel c0 (snd (lobby_index E args c))"
proof (cases "lua_arg args 1")
  case (LUserdata u)
  have "rel c0 (snd (index_lobby_root u key (touch_lobby k c)))" for key k
    using assms by (intro index_lobby_root touch_lobby)
  then show ?thesis
    using assms LUserdata unfolding lobby_index_def Let_def
    by (auto intro!: basics split: option.split userdata_type.split prod.split)
       (metis snd_conv)
qed (use assms in \<open>simp_all add: lobby_index_def\<close>)

lemma start_timer: "rel c0 c \<Longrightarrow> rel c0 (snd (start_timer E args c))"
  unfolding start_timer_def Let_def by (auto intro!: upd_game split: option.split)

lemma stop_timer: "rel c0 c \<Longrightarrow> rel c0 (snd (stop_timer E args c))"
  unfolding stop_timer_def by (auto intro!: upd_game split: option.split)

lemma api_notify: "rel c0 c \<Longrightarrow> rel c0 (snd (api_notify E args c))"
  unfolding api_notify_def notify_peer_def Let_def by (auto intro!: basics split: option.split)

lemma api_notify_all: "rel c0 c \<Longrightarrow> rel c0 (snd (api_notify_all E args c))"
  unfolding api_notify_all_def notify_all_def Let_def by (auto intro!: basics split: option.split)

lemma broadcast_chat: "rel c0 c \<Longrightarrow> rel c0 (snd (broadcast_chat E args c))"
  unfolding broadcast_chat_def send_message_def Let_def
  by (auto intro!: basics split: option.split any_element.split)

lemma set_leaderboard: "rel c0 c \<Longrightarrow> rel c0 (snd (set_leaderboard E args c))"
  unfolding set_leaderboard_def leaderboards_set_score_def
  by (auto split: option.split elim!: same simp: same_links_def config_def)

end

locale kept_scripts = kept +
  assumes remove: "(\<And>c0 c p l f args. rel c0 c \<Longrightarrow> rel c0 (snd (snd (call p l f args c)))) \<Longrightarrow>
      rel c0 c \<Longrightarrow> rel c0 (remove_peer_from_lobby call E lid pid i kicked c)"
begin

lemma kick_peer:
  assumes call: "\<And>c0 c p l f args. rel c0 c \<Longrightarrow> rel c0 (snd (snd (call p l f args c)))"
    and "rel c0 c"
  shows "rel c0 (kick_peer E call lid pid c)"
proof -
  obtain result has_error c' where r: "call [] lid ''_can_host_kick'' [AStr pid] c = (result, has_error, c')"
    by (metis prod_cases3)
  have "rel c0 c'" using call[OF assms(2), of "[]" lid "''_can_host_kick''" "[AStr pid]"] r by simp
  then show ?thesis
    using r assms(2) unfolding kick_peer_def
    by (auto intro!: remove basics call split: any_element.split)
qed

lemma api_kick_peer:
  assumes "\<And>c0 c l p. rel c0 c \<Longrightarrow> rel c0 (kick l p c)" "rel c0 c"
  shows "rel c0 (snd (api_kick_peer E kick args c))"
  using assms unfolding api_kick_peer_def by (auto split: option.split)

lemma api_step:
  assumes "\<And>c0 c l p. rel c0 c \<Longrightarrow> rel c0 (kick l p c)" "rel c0 c"
  shows "rel c0 (snd (api_step E kick f args c))"
  using assms by (cases f) (auto simp: api_step_def intro!: lobby_index lobby_newindex start_timer stop_timer
      api_notify api_notify_all broadcast_chat api_kick_peer set_leaderboard)

lemma run_script:
  assumes kick: "\<And>c0 c l p. rel c0 c \<Longrightarrow> rel c0 (kick l p c)"
  shows "rel c0 c \<Longrightarrow> rel c0 (snd (run_script E kick s c))"
proof (induction s arbitrary: c)
  case (SApi f args k)
  have "rel c0 (snd (api_step E kick f args c))"
    using SApi.prems kick by (intro api_step)
  then show ?case
    using SApi.IH by (auto simp: split_beta)
qed (simp_all add: update_lua)

lemma func_call:
  assumes run: "\<And>s c. rel c0 c \<Longrightarrow> rel c0 (snd (run s c))" and "rel c0 c"
  shows "rel c0 (snd (snd (func_call E run f args p l c)))"
proof -
  have reg: "rel c0 (set_registry p l c)"
    using assms(2) unfolding set_registry_def by (rule update_lua)
  have "rel c0 c'" if "run s (set_registry p l c) = (r, c')" for s r c'
    using run[OF reg, of s] that by simp
  then show ?thesis
    using reg assms(2) unfolding func_call_def Let_def
    by (auto split: option.split luaval.split prod.split sum.split intro!: fault)
qed

lemma scripted_call:
  assumes run: "\<And>s c. rel c0 c \<Longrightarrow> rel c0 (snd (run s c))" and "rel c0 c"
  shows "rel c0 (snd (snd (scripted_call E run p l f args c)))"
proof -
  obtain x e c' where r: "func_call E run f args p l c = (x, e, c')"
    by (metis prod_cases3)
  have "rel c0 (snd (snd (func_call E run f args p l c)))"
    by (intro func_call run assms(2))
  then have "rel c0 c'" using r by simp
  then show ?thesis
    using r assms(2) unfolding scripted_call_def
    by (auto split: option.split any_element.split intro!: notify_lobby_changes)
qed

lemma scripted_function_call:
  "rel c0 c \<Longrightarrow> rel c0 (snd (snd (scripted_function_call E n p l f args c)))"
proof (induction n arbitrary: c0 c p l f args)
  case 0
  then show ?case by (simp add: scripted_call)
next
  case (Suc n)
  then show ?case by (simp add: scripted_call run_script kick_peer)
qed

lemma call_script: "rel c0 c \<Longrightarrow> rel c0 (snd (snd (call_script E p l f args c)))"
  unfolding call_script_def by (rule scripted_function_call)

lemma ask_script: "rel c0 c \<Longrightarrow> rel c0 (snd (ask_script E oe f i p l args c))"
  using call_script[of c0 c E p l f args]
  unfolding ask_script_def by (auto split: prod.split any_element.split intro!: on_error)

lemma call_result: "call_script E p l f args c = (r, e, c') \<Longrightarrow> rel c0 c \<Longrightarrow> rel c0 c'"
  using call_script by (metis snd_conv)

lemma on_lobby_call: "rel c0 c \<Longrightarrow> rel c0 (on_lobby_call E i pid data c)"
  unfolding on_lobby_call_def Let_def
  by (auto intro!: send on_error split: prod.split any_element.split intro: call_result)

lemma on_chat_lobby: "rel c0 c \<Longrightarrow> rel c0 (on_chat_lobby E i pid data c)"
  unfolding on_chat_lobby_def Let_def split_beta
  by (simp add: basics ask_script)

lemma on_lobby_tags: "rel c0 c \<Longrightarrow> rel c0 (on_lobby_tags E i pid data c)"
  unfolding on_lobby_tags_def Let_def split_beta
  by (auto intro!: basics ask_script set_lobby_data split: sum.split)

lemma on_kick_peer: "rel c0 c \<Longrightarrow> rel c0 (on_kick_peer E i pid data c)"
  unfolding on_kick_peer_def Let_def split_beta
  by (auto intro!: basics ask_script remove call_script)

lemma on_user_data: "rel c0 c \<Longrightarrow> rel c0 (on_user_data E i pid data c)"
  unfolding on_user_data_def Let_def
  by (auto intro!: basics set_peer_data split: sum.split)

lemma set_lobby_ready: "rel c0 c \<Longrightarrow> rel c0 (set_lobby_ready E lid pid i b c)"
  unfolding set_lobby_ready_def Let_def by (auto intro!: basics set_peer_data)

lemma change_ready:
  assumes c: "rel c0 c"
  shows "rel c0 (change_ready E b i pid c)"
proof -
  let ?c = "set_peer pid (\<lambda>p. p\<lparr>p_ready := b\<rparr>) c"
  obtain r e c' where r: "call_script E (p_id (peer_at c pid)) (p_lobby_id (peer_at ?c pid))
      ''_can_peer_ready'' [ABool b] ?c = (r, e, c')"
    by (metis prod_cases3)
  have "rel c0 ?c" using c by (rule set_peer_data) simp_all
  then have "rel c0 c'" by (rule call_result [OF r])
  then show ?thesis
    using c r unfolding change_ready_def Let_def
    by (auto intro!: basics set_peer_data set_lobby_ready split: any_element.split)
qed

lemma on_lobby_ready: "rel c0 c \<Longrightarrow> rel c0 (on_lobby_ready E i pid data c)"
  unfolding on_lobby_ready_def Let_def by (auto intro!: on_error change_ready)

lemma on_lobby_unready: "rel c0 c \<Longrightarrow> rel c0 (on_lobby_unready E i pid data c)"
  unfolding on_lobby_unready_def Let_def by (auto intro!: on_error change_ready)

lemma set_lobby_sealed: "rel c0 c \<Longrightarrow> rel c0 (set_lobby_sealed E lid p i b c)"
  unfolding set_lobby_sealed_def Let_def by (auto intro!: basics set_lobby_data)

lemma change_seal: "rel c0 c \<Longrightarrow> rel c0 (change_seal E b i pid c)"
  unfolding change_seal_def Let_def split_beta
  by (auto intro!: basics ask_script set_lobby_sealed)

lemma on_lobby_max_players: "rel c0 c \<Longrightarrow> rel c0 (on_lobby_max_players E i pid data c)"
  unfolding on_lobby_max_players_def Let_def split_beta
  by (auto intro!: basics ask_script set_lobby_data)

lemma on_lobby_title: "rel c0 c \<Longrightarrow> rel c0 (on_lobby_title E i pid data c)"
  unfolding on_lobby_title_def Let_def split_beta
  by (auto intro!: basics ask_script set_lobby_data)

lemma on_lobby_password: "rel c0 c \<Longrightarrow> rel c0 (on_lobby_password E i pid data c)"
  unfolding on_lobby_password_def Let_def by (auto intro!: basics set_lobby_data)

lemma touch_own_lobby: "rel c0 c \<Longrightarrow> rel c0 (touch_own_lobby p c)"
  unfolding touch_own_lobby_def by (auto intro: touch_lobby)

lemma lobby_data_notify: "rel c0 c \<Longrightarrow> rel c0 (lobby_data_notify E i me lid c)"
  unfolding lobby_data_notify_def Let_def by (auto intro!: basics set_lobby_data)

lemma on_lobby_data: "rel c0 c \<Longrightarrow> rel c0 (on_lobby_data E i pid data c)"
  unfolding on_lobby_data_def Let_def
  by (auto intro!: on_error touch_own_lobby lobby_data_notify set_lobby quiet_lobby_store
      split: option.split sum.split)

lemma peer_data_notify: "rel c0 c \<Longrightarrow> rel c0 (peer_data_notify E me lid k n c)"
  unfolding peer_data_notify_def Let_def by (auto intro!: basics set_peer_data)

lemma on_data_to: "rel c0 c \<Longrightarrow> rel c0 (on_data_to E i pid data c)"
  unfolding on_data_to_def Let_def
  by (auto intro!: send on_error touch_peer touch_own_lobby peer_data_notify set_peer quiet_peer_store
      split: option.split sum.split)

lemma on_data_to_all: "rel c0 c \<Longrightarrow> rel c0 (on_data_to_all E i pid data c)"
  unfolding on_data_to_all_def Let_def
  by (auto intro!: send on_error touch_peer touch_own_lobby peer_data_notify set_peer quiet_peer_store
      fold_kept split: option.split sum.split)

lemma on_notify_to: "rel c0 c \<Longrightarrow> rel c0 (on_notify_to E i pid data c)"
  unfolding on_notify_to_def Let_def
  by (auto intro!: send on_error touch_peer touch_own_lobby split: option.split sum.split)

lemma on_lobby_notify: "rel c0 c \<Longrightarrow> rel c0 (on_lobby_notify E i pid data c)"
  unfolding on_lobby_notify_def Let_def
  by (auto intro!: basics split: sum.split)

lemma on_leave_lobby: "rel c0 c \<Longrightarrow> rel c0 (on_leave_lobby E i pid data c)"
  unfolding on_leave_lobby_def Let_def
  by (auto intro!: basics remove call_script)

lemma on_list_lobby: "rel c0 c \<Longrightarrow> rel c0 (on_list_lobby E i pid data c)"
  unfolding on_list_lobby_def Let_def
  by (auto intro!: basics upd_game)

lemma on_stop_list_lobby: "rel c0 c \<Longrightarrow> rel c0 (on_stop_list_lobby E i pid data c)"
  unfolding on_stop_list_lobby_def Let_def
  by (auto intro!: basics upd_game)

lemma on_close: "rel c0 c \<Longrightarrow> rel c0 (on_close E pid c)"
  unfolding on_close_def Let_def
  by (auto intro!: upd_game ask_script send_others set_peer_data)

lemma peers_to_array: "rel c0 c \<Longrightarrow> rel c0 (snd (peers_to_array lid c))"
  unfolding peers_to_array_def Let_def by (auto intro!: basics)

lemma finish_create: "rel c0 c \<Longrightarrow> rel c0 (finish_create E i pid lid c)"
  unfolding finish_create_def Let_def split_beta
  by (auto intro!: basics ask_script peers_to_array set_peer_data)

lemma join_notify: "rel c0 c \<Longrightarrow> rel c0 (join_notify E b i pid lid c)"
  unfolding join_notify_def Let_def split_beta
  by (auto intro!: basics peers_to_array)

lemma report_script_error: "rel c0 c \<Longrightarrow> rel c0 (report_script_error E p r e c)"
  unfolding report_script_error_def by (auto intro!: basics split: any_element.split)

lemma tick_lobby: "rel c0 c \<Longrightarrow> rel c0 (tick_lobby E args lid c)"
  unfolding tick_lobby_def Let_def
  by (auto intro!: fault report_script_error split: prod.split intro: call_result)

lemma set_now: "rel c0 c \<Longrightarrow> rel c0 (c\<lparr>now := t\<rparr>)"
  by (erule same) (simp add: same_links_def config_def)

lemma set_defers: "rel c0 c \<Longrightarrow> rel c0 (c\<lparr>defers := ds\<rparr>)"
  by (erule same) (simp add: same_links_def config_def)

lemma tick_game: "rel c0 c \<Longrightarrow> rel c0 (tick_game E t c)"
  unfolding tick_game_def Let_def
  by (auto intro!: fold_kept tick_lobby set_now upd_game)

lemma send_game: "rel c0 c \<Longrightarrow> rel c0 (send_game c)"
  unfolding send_game_def Let_def by (auto intro!: set_defers upd_game)

lemma erase_timer: "rel c0 c \<Longrightarrow> rel c0 (erase_timer k c)"
  unfolding erase_timer_def by (auto intro!: fault upd_game)

lemma timer_step: "rel c0 c \<Longrightarrow> rel c0 (timer_step E k c)"
  unfolding timer_step_def Let_def
  by (auto intro!: erase_timer on_error report_script_error split: option.split prod.split
      intro: call_result)

lemma list_game: "rel c0 c \<Longrightarrow> rel c0 (list_game E c)"
  unfolding list_game_def Let_def by (auto intro!: send_loop upd_game)

lemma afk_all_idle: "rel c0 c \<Longrightarrow> rel c0 (snd (afk_all_idle t m pid ids c))"
  by (induction ids arbitrary: c) (auto simp: Let_def touch_peer)

lemma afk_step: "rel c0 c \<Longrightarrow> rel c0 (afk_step E pid c)"
  unfolding afk_step_def Let_def split_beta
  by (auto intro!: basics remove call_script afk_all_idle)

lemma lua_open: "rel c0 c \<Longrightarrow> rel c0 (snd (lua_open E c))"
  unfolding lua_open_def Let_def
  by (auto intro!: fault update_lua split: option.split)

lemma game_open: "rel c0 c \<Longrightarrow> rel c0 (game_open E t c)"
  unfolding game_open_def Let_def split_beta
  by (auto intro!: upd_game lua_open)

end

end
