(* ===== verification/Consistency.thy ===== *)
theory Consistency
  imports Kept
begin

text \<open>
  The links between the records of a game. \<open>wf_game\<close>: every record is stored under its own id, a
  peer that says it is in a lobby is a member of an existing lobby, a lobby has members, its id
  is one of the UUID prefixes drawn so far, and its two member lists hold the same peers.
  \<open>consistent\<close> states this of a run without a fault and without a collision of UUID prefixes;
  \<open>steps\<close> is the relation of \<open>Kept\<close> that carries it through an operation, scripts included.
\<close>

definition fresh_uuids :: "env \<Rightarrow> nat \<Rightarrow> bool" where
  "fresh_uuids E n \<longleftrightarrow>
    distinct (map (\<lambda>i. take 8 (uuid_gen E i)) [0..<n]) \<and> (\<forall>i < n. uuid_gen E i \<noteq> [])"

definition lobby_key :: "env \<Rightarrow> nat \<Rightarrow> string \<Rightarrow> bool" where
  "lobby_key E n k \<longleftrightarrow> k \<in> set (map (\<lambda>i. take 8 (uuid_gen E i)) [0..<n])"

definition wf_lobby :: "env \<Rightarrow> nat \<Rightarrow> string \<Rightarrow> lobby_data \<Rightarrow> bool" where
  "wf_lobby E n k l \<longleftrightarrow>
    lobby_key E n k \<and> l_id l = k \<and> l_peer_ids l \<noteq> [] \<and> fs_wf (l_peer_ids l) \<and>
    set (l_peer_ordered_ids l) = set (l_peer_ids l) \<and> \<not> l_disband_on_leave l"

definition wf_peer :: "lobby_data flat_map \<Rightarrow> string \<Rightarrow> peer_data \<Rightarrow> bool" where
  "wf_peer ls k p \<longleftrightarrow>
    p_id p = k \<and>
    (p_lobby_id p \<noteq> [] \<longrightarrow>
      (case map_of ls (p_lobby_id p) of None \<Rightarrow> False | Some l \<Rightarrow> k \<in> set (l_peer_ids l)))"

definition wf_game :: "env \<Rightarrow> nat \<Rightarrow> game_data \<Rightarrow> bool" where
  "wf_game E n g \<longleftrightarrow>
    fm_wf (g_peers g) \<and> fm_wf (g_lobbies g) \<and>
    (\<forall>(k, p) \<in> set (g_peers g). wf_peer (g_lobbies g) k p) \<and>
    (\<forall>(k, l) \<in> set (g_lobbies g). wf_lobby E n k l)"

definition consistent :: "env \<Rightarrow> ctx \<Rightarrow> bool" where
  "consistent E c \<longleftrightarrow>
    (faults c = [] \<longrightarrow> fresh_uuids E (uuid_count c) \<longrightarrow> wf_game E (uuid_count c) (game c))"

definition shrinks :: "ctx \<Rightarrow> ctx \<Rightarrow> bool" where
  "shrinks c0 c \<longleftrightarrow>
    uuid_count c = uuid_count c0 \<and>
    config (game c) = config (game c0) \<and>
    (\<forall>k. rel_option (\<lambda>p q. p_lobby_id q = p_lobby_id p \<or> p_lobby_id q = [])
       (map_of (g_peers (game c0)) k) (map_of (g_peers (game c)) k))"

definition steps :: "env \<Rightarrow> ctx \<Rightarrow> ctx \<Rightarrow> bool" where
  "steps E c0 c \<longleftrightarrow> consistent E c \<and> (faults c = [] \<longrightarrow> faults c0 = [] \<and> shrinks c0 c)"

lemma wf_peer_iff:
  "wf_peer ls k p \<longleftrightarrow>
    p_id p = k \<and>
    (p_lobby_id p \<noteq> [] \<longrightarrow> (\<exists>l. map_of ls (p_lobby_id p) = Some l \<and> k \<in> set (l_peer_ids l)))"
  by (auto simp: wf_peer_def split: option.splits)

lemma ball_map_of:
  assumes "fm_wf m"
  shows "(\<forall>(k, v) \<in> set m. P k v) \<longleftrightarrow> (\<forall>k v. map_of m k = Some v \<longrightarrow> P k v)"
  using map_of_eq_Some_iff [OF fm_wf_distinct [OF assms]] by blast

lemma wf_game_iff:
  "wf_game E n g \<longleftrightarrow>
    fm_wf (g_peers g) \<and> fm_wf (g_lobbies g) \<and>
    (\<forall>k p. map_of (g_peers g) k = Some p \<longrightarrow> wf_peer (g_lobbies g) k p) \<and>
    (\<forall>k l. map_of (g_lobbies g) k = Some l \<longrightarrow> wf_lobby E n k l)"
  unfolding wf_game_def by (simp add: ball_map_of cong: conj_cong)

lemma wf_game_cong:
  "g_peers g' = g_peers g \<Longrightarrow> g_lobbies g' = g_lobbies g \<Longrightarrow> wf_game E n g' = wf_game E n g"
  by (simp add: wf_game_def)

lemma wf_game_peer: "wf_game E n g \<Longrightarrow> map_of (g_peers g) k = Some p \<Longrightarrow> wf_peer (g_lobbies g) k p"
  by (simp add: wf_game_iff)

lemma wf_game_lobby: "wf_game E n g \<Longrightarrow> map_of (g_lobbies g) k = Some l \<Longrightarrow> wf_lobby E n k l"
  by (simp add: wf_game_iff)

lemma wf_game_put_peer:
  "wf_game E n g \<Longrightarrow> wf_peer (g_lobbies g) k p \<Longrightarrow>
   wf_game E n (g\<lparr>g_peers := fm_put k p (g_peers g)\<rparr>)"
  by (simp add: wf_game_iff fm_wf_put)

lemma wf_game_erase_peer: "wf_game E n g \<Longrightarrow> wf_game E n (g\<lparr>g_peers := fm_erase k (g_peers g)\<rparr>)"
  by (simp add: wf_game_iff fm_wf_erase)

lemma wf_game_put_lobby:
  assumes g: "wf_game E n g" and l: "wf_lobby E n k l"
    and members: "\<And>j p. map_of (g_peers g) j = Some p \<Longrightarrow> p_lobby_id p = k \<Longrightarrow> k \<noteq> [] \<Longrightarrow>
      j \<in> set (l_peer_ids l)"
  shows "wf_game E n (g\<lparr>g_lobbies := fm_put k l (g_lobbies g)\<rparr>)"
proof -
  have "wf_peer (fm_put k l (g_lobbies g)) j p" if "map_of (g_peers g) j = Some p" for j p
    using wf_game_peer [OF g that] members [OF that] by (auto simp: wf_peer_iff)
  then show ?thesis
    using g l by (simp add: wf_game_iff fm_wf_put)
qed

lemma wf_game_erase_lobby:
  assumes g: "wf_game E n g"
    and nobody: "\<And>j p. map_of (g_peers g) j = Some p \<Longrightarrow> p_lobby_id p = k \<Longrightarrow> k = []"
  shows "wf_game E n (g\<lparr>g_lobbies := fm_erase k (g_lobbies g)\<rparr>)"
proof -
  have "wf_peer (fm_erase k (g_lobbies g)) j p" if "map_of (g_peers g) j = Some p" for j p
    using wf_game_peer [OF g that] nobody [OF that] by (auto simp: wf_peer_iff)
  then show ?thesis
    using g by (simp add: wf_game_iff fm_wf_erase)
qed

lemma lobby_key_mono:
  assumes "lobby_key E n k" "n \<le> m"
  shows "lobby_key E m k"
proof -
  have "set [0..<n] \<subseteq> set [0..<m]" using assms(2) by auto
  then show ?thesis using assms(1) unfolding lobby_key_def set_map by blast
qed

lemma fresh_uuids_mono: "fresh_uuids E m \<Longrightarrow> n \<le> m \<Longrightarrow> fresh_uuids E n"
  by (auto simp: fresh_uuids_def distinct_map inj_on_def)

lemma wf_game_mono: "wf_game E n g \<Longrightarrow> n \<le> m \<Longrightarrow> wf_game E m g"
  unfolding wf_game_iff wf_lobby_def by (blast intro: lobby_key_mono)

lemma shrinks_refl: "shrinks c c"
  by (auto simp: shrinks_def intro: option.rel_refl)

lemma steps_refl: "consistent E c \<Longrightarrow> steps E c c"
  by (simp add: steps_def shrinks_refl)

lemma steps_inv: "steps E c0 c \<Longrightarrow> consistent E c"
  by (simp add: steps_def)

lemma steps_fault: "faults c \<noteq> [] \<Longrightarrow> steps E c0 c"
  by (simp add: steps_def consistent_def)

lemma faults_fault_add [simp]: "faults (fault_add x c) = faults c @ [x]"
  by (simp add: fault_add_def)

lemma upd_game_fields [simp]:
  "game (upd_game f c) = f (game c)" "faults (upd_game f c) = faults c"
  "uuid_count (upd_game f c) = uuid_count c"
  by (simp_all add: upd_game_def)

lemma shrinks_trans:
  assumes "shrinks c0 c" "shrinks c c'"
  shows "shrinks c0 c'"
proof -
  let ?R = "\<lambda>p q. p_lobby_id q = p_lobby_id p \<or> p_lobby_id q = []"
  have trans: "rel_option ?R a b \<Longrightarrow> rel_option ?R b d \<Longrightarrow> rel_option ?R a d" for a b d
    by (cases a; cases b; cases d) auto
  have "rel_option ?R (map_of (g_peers (game c0)) k) (map_of (g_peers (game c')) k)" for k
    by (rule trans [of _ "map_of (g_peers (game c)) k"]) (use assms in \<open>simp_all add: shrinks_def\<close>)
  then show ?thesis
    using assms by (simp add: shrinks_def)
qed

lemma steps_step_fresh:
  assumes "steps E c0 c" "faults c' = faults c" "uuid_count c' = uuid_count c"
    and "faults c = [] \<Longrightarrow> fresh_uuids E (uuid_count c) \<Longrightarrow>
      wf_game E (uuid_count c) (game c) \<Longrightarrow> wf_game E (uuid_count c) (game c')"
    and "shrinks c c'"
  shows "steps E c0 c'"
  using assms(1,2,3,4) shrinks_trans [OF _ assms(5)] by (simp add: steps_def consistent_def)

lemma steps_step:
  assumes "steps E c0 c" "faults c' = faults c" "uuid_count c' = uuid_count c"
    and "\<And>n. wf_game E n (game c) \<Longrightarrow> wf_game E n (game c')" and "shrinks c c'"
  shows "steps E c0 c'"
  using assms by (rule steps_step_fresh)

lemma steps_same:
  assumes "steps E c0 c" "same_links c c'"
  shows "steps E c0 c'"
proof (rule steps_step [OF assms(1)])
  show "wf_game E n (game c) \<Longrightarrow> wf_game E n (game c')" for n
    using assms(2) wf_game_cong [of "game c'" "game c"] by (simp add: same_links_def)
  show "shrinks c c'"
    using assms(2) by (auto simp: same_links_def shrinks_def intro: option.rel_refl)
qed (use assms(2) in \<open>simp_all add: same_links_def\<close>)

lemma steps_set_peer:
  assumes c: "steps E c0 c" and f: "quiet_peer f"
  shows "steps E c0 (set_peer k f c)"
proof (cases "map_of (g_peers (game c)) k")
  case None
  then show ?thesis by (simp add: set_peer_def steps_fault)
next
  case (Some p)
  let ?c = "upd_game (\<lambda>g. g\<lparr>g_peers := fm_put k (f p) (g_peers g)\<rparr>) c"
  have fp: "p_id (f p) = p_id p" "p_lobby_id (f p) = p_lobby_id p \<or> p_lobby_id (f p) = []"
    using f by (simp_all add: quiet_peer_def)
  have "steps E c0 ?c"
  proof (rule steps_step [OF c])
    show "wf_game E n (game ?c)" if "wf_game E n (game c)" for n
    proof -
      have "wf_peer (g_lobbies (game c)) k (f p)"
        using fp wf_game_peer [OF that Some] by (auto simp: wf_peer_iff)
      then show ?thesis using that by (simp add: wf_game_put_peer)
    qed
    show "shrinks c ?c"
      using fp Some by (simp add: shrinks_def option.rel_refl)
  qed simp_all
  then show ?thesis
    using Some by (simp add: set_peer_def)
qed

lemma steps_set_lobby:
  assumes c: "steps E c0 c" and f: "quiet_lobby f"
  shows "steps E c0 (set_lobby k f c)"
proof (cases "map_of (g_lobbies (game c)) k")
  case None
  then show ?thesis by (simp add: set_lobby_def steps_fault)
next
  case (Some l)
  let ?c = "upd_game (\<lambda>g. g\<lparr>g_lobbies := fm_put k (f l) (g_lobbies g)\<rparr>) c"
  have fl: "l_id (f l) = l_id l" "l_peer_ids (f l) = l_peer_ids l"
      "l_peer_ordered_ids (f l) = l_peer_ordered_ids l"
      "l_disband_on_leave (f l) = l_disband_on_leave l"
    using f by (simp_all add: quiet_lobby_def)
  have "steps E c0 ?c"
  proof (rule steps_step [OF c])
    show "wf_game E n (game ?c)" if g: "wf_game E n (game c)" for n
      unfolding upd_game_fields
    proof (rule wf_game_put_lobby [OF g])
      show "wf_lobby E n k (f l)"
        using wf_game_lobby [OF g Some] fl by (simp add: wf_lobby_def)
      show "j \<in> set (l_peer_ids (f l))"
        if "map_of (g_peers (game c)) j = Some p" "p_lobby_id p = k" "k \<noteq> []" for j p
        using wf_game_peer [OF g that(1)] that Some fl by (auto simp: wf_peer_iff)
    qed
  qed (simp_all add: shrinks_def option.rel_refl)
  then show ?thesis
    using Some by (simp add: set_lobby_def)
qed

lemma steps_touch:
  assumes "steps E c0 c"
  shows "steps E c0 (touch_peer k c)" "steps E c0 (touch_lobby k c)"
  using assms by (auto simp: touch_peer_def touch_lobby_def intro: steps_fault)

interpretation steps: kept "steps E" for E
  by unfold_locales
     (simp_all add: steps_same steps_fault steps_touch steps_set_peer steps_set_lobby)


subsection \<open>Taking a peer out of a lobby\<close>

definition nobody :: "string \<Rightarrow> ctx \<Rightarrow> bool" where
  "nobody lid c \<longleftrightarrow>
    (\<forall>j p. map_of (g_peers (game c)) j = Some p \<longrightarrow> p_lobby_id p = lid \<longrightarrow> lid = [])"

lemma nobody_shrinks: 
  assumes "shrinks c c'" "nobody lid c"
  shows "nobody lid c'"
  unfolding nobody_def
proof (intro allI impI)
  fix j q assume q: "map_of (g_peers (game c')) j = Some q" "p_lobby_id q = lid"
  have "rel_option (\<lambda>p q. p_lobby_id q = p_lobby_id p \<or> p_lobby_id q = [])
      (map_of (g_peers (game c)) j) (map_of (g_peers (game c')) j)"
    using assms(1) by (simp add: shrinks_def)
  then obtain p where "map_of (g_peers (game c)) j = Some p"
      "p_lobby_id q = p_lobby_id p \<or> p_lobby_id q = []"
    using q by (auto simp: option_rel_Some2)
  then show "lid = []" using assms(2) q by (auto simp: nobody_def)
qed

lemma peers_clear:
  "g_peers (game (set_peer k leave_lobby (touch_peer k c))) =
    fm_put k (leave_lobby (peer_at c k)) (g_peers (game c)) \<or>
   \<not> has_peer c k \<and> g_peers (game (set_peer k leave_lobby (touch_peer k c))) =
    fm_put k (leave_lobby default_peer) (fm_put k default_peer (g_peers (game c)))"
  by (auto simp: set_peer_def touch_peer_def has_peer_def fm_has_def peer_at_def fault_add_def upd_game_def
      split: option.split)

lemma remove_disband_nobody:
  assumes "wf_game E n (game c)"
  shows "nobody lid (remove_disband E' lid pid i c)"
proof (cases "lid = []")
  case True
  then show ?thesis by (simp add: nobody_def)
next
  case False
  define f where "f = (\<lambda>k c. let c = set_peer k leave_lobby (touch_peer k c)
      in if k = pid then c else send k (notification_lobby_kicked (yyjson_mut_write E')) OpText c)"
  have step: "map_of (g_peers (game (f k c))) j = Some p \<Longrightarrow> p_lobby_id p = lid \<Longrightarrow>
      j \<noteq> k \<and> map_of (g_peers (game c)) j = Some p" for k c j p
    using peers_clear [of k c] False
    by (auto simp: f_def Let_def leave_lobby_def split: if_splits)
  have all: "map_of (g_peers (game (fold f ids c))) j = Some p \<Longrightarrow> p_lobby_id p = lid \<Longrightarrow>
      j \<notin> set ids \<and> map_of (g_peers (game c)) j = Some p" for ids c j p
  proof (induction ids arbitrary: c)
    case (Cons k ids)
    then show ?case using step [of k c j p] by simp
  qed simp
  have members: "j \<in> set (l_peer_ids (lobby_at c lid))"
    if "map_of (g_peers (game c)) j = Some p" "p_lobby_id p = lid" for j p
    using wf_game_peer [OF assms that(1)] that(2) False by (auto simp: wf_peer_iff lobby_at_def)
  show ?thesis
    unfolding nobody_def remove_disband_def Let_def send_frame
    using all [where ids = "l_peer_ids (lobby_at c lid)" and c = c] members
    by (auto simp: f_def Let_def)
qed

lemma detach_peer_missing:
  assumes "map_of (g_peers (game c)) pid = None \<or> map_of (g_lobbies (game c)) lid = None"
  shows "faults (detach_peer is_host lid pid c) \<noteq> []"
  using assms
  by (cases "map_of (g_peers (game c)) pid")
     (auto simp: detach_peer_def Let_def touch_peer_def set_peer_def set_lobby_def has_peer_def
       fm_has_def mark_updated_def fault_add_def split: option.split)

definition without :: "string \<Rightarrow> lobby_data \<Rightarrow> lobby_data" where
  "without k l = l\<lparr>l_peer_ids := fs_erase k (l_peer_ids l),
     l_peer_ordered_ids := filter (\<lambda>j. j \<noteq> k) (l_peer_ordered_ids l)\<rparr>"

lemma detach_peer_present:
  assumes p: "map_of (g_peers (game c)) pid = Some p"
    and l: "map_of (g_lobbies (game c)) lid = Some l"
  shows "faults (detach_peer is_host lid pid c) = faults c"
    "uuid_count (detach_peer is_host lid pid c) = uuid_count c"
    "g_peers (game (detach_peer is_host lid pid c)) =
      fm_put pid (p\<lparr>p_lobby_id := [], p_ready := False\<rparr>) (g_peers (game c))"
    "config (game (detach_peer is_host lid pid c)) = config (game c)"
    "g_lobbies (game (detach_peer is_host lid pid c)) =
      (if is_host \<and> (l_disband_on_leave l \<or> g_disband_on_leave (game c)) \<or>
          fs_erase pid (l_peer_ids l) = []
       then fm_erase (l_id l) (fm_put lid (without pid l) (g_lobbies (game c)))
       else fm_put lid (without pid l) (g_lobbies (game c)))"
  using p l
  by (auto simp: detach_peer_def Let_def touch_peer_def set_peer_def set_lobby_def
      has_peer_def fm_has_def mark_updated_def lobby_at_def without_def)

lemma steps_detach:
  assumes c: "steps E c0 c"
    and gone: "is_host \<Longrightarrow> g_disband_on_leave (game c) \<Longrightarrow> faults c = [] \<Longrightarrow>
      fresh_uuids E (uuid_count c) \<Longrightarrow> nobody lid c"
  shows "steps E c0 (detach_peer is_host lid pid c)"
proof (cases "map_of (g_peers (game c)) pid = None \<or> map_of (g_lobbies (game c)) lid = None")
  case True
  then have "faults (detach_peer is_host lid pid c) \<noteq> []" by (rule detach_peer_missing)
  then show ?thesis by (rule steps_fault)
next
  case False
  then obtain p l where p: "map_of (g_peers (game c)) pid = Some p"
    and l: "map_of (g_lobbies (game c)) lid = Some l" by auto
  let ?p = "p\<lparr>p_lobby_id := [], p_ready := False\<rparr>"
  let ?l = "without pid l"
  let ?g1 = "(game c)\<lparr>g_peers := fm_put pid ?p (g_peers (game c))\<rparr>"
  let ?c = "detach_peer is_host lid pid c"
  define drop where "drop \<longleftrightarrow>
    is_host \<and> (l_disband_on_leave l \<or> g_disband_on_leave (game c)) \<or> fs_erase pid (l_peer_ids l) = []"
  note c' = detach_peer_present [OF p l, of is_host, folded drop_def]
  show ?thesis
  proof (rule steps_step_fresh [OF c])
    assume ok: "faults c = []" "fresh_uuids E (uuid_count c)" and g: "wf_game E (uuid_count c) (game c)"
    let ?n = "uuid_count c"
    have wl: "wf_lobby E ?n lid l" using wf_game_lobby [OF g l] .
    have "wf_peer (g_lobbies (game c)) pid ?p"
      using wf_game_peer [OF g p] by (simp add: wf_peer_iff)
    then have g1: "wf_game E ?n ?g1"
      using wf_game_put_peer [OF g] by simp
    have members: "j \<in> set (l_peer_ids l) \<and> j \<noteq> pid \<and> map_of (g_peers (game c)) j = Some q"
      if "map_of (g_peers ?g1) j = Some q" "p_lobby_id q = lid" "lid \<noteq> []" for j q
      using that wf_game_peer [OF g, of j q] l by (auto simp: wf_peer_iff split: if_splits)
    have "wf_game E ?n (?g1\<lparr>g_lobbies := g_lobbies (game ?c)\<rparr>)"
    proof (cases drop)
      case True
      have "lid = []" if q: "map_of (g_peers ?g1) j = Some q" "p_lobby_id q = lid" for j q
      proof (rule ccontr)
        assume ne: "lid \<noteq> []"
        note m = members [OF q ne]
        then have "\<not> set (l_peer_ids l) \<subseteq> {pid}" by blast
        then have "is_host" "g_disband_on_leave (game c)"
          using True wl by (simp_all add: drop_def wf_lobby_def fs_erase_Nil_iff)
        then have "nobody lid c" using gone ok by blast
        then show False using m q(2) ne unfolding nobody_def by blast
      qed
      then have "wf_game E ?n (?g1\<lparr>g_lobbies := fm_erase lid (g_lobbies ?g1)\<rparr>)"
        by (intro wf_game_erase_lobby [OF g1])
      moreover have "g_lobbies (game ?c) = fm_erase lid (g_lobbies ?g1)"
        using True wl by (simp add: c'(5) wf_lobby_def fm_erase_put_same)
      ultimately show ?thesis by simp
    next
      case False
      have "wf_lobby E ?n lid ?l"
        using wl False by (auto simp: drop_def wf_lobby_def without_def fs_wf_erase)
      moreover have "j \<in> set (l_peer_ids ?l)"
        if "map_of (g_peers ?g1) j = Some q" "p_lobby_id q = lid" "lid \<noteq> []" for j q
        using members [OF that] by (simp add: without_def)
      ultimately have "wf_game E ?n (?g1\<lparr>g_lobbies := fm_put lid ?l (g_lobbies ?g1)\<rparr>)"
        by (intro wf_game_put_lobby [OF g1])
      then show ?thesis using False by (simp add: c'(5))
    qed
    then show "wf_game E ?n (game ?c)"
      using c'(3) by (simp add: wf_game_def)
  next
    show "shrinks c ?c"
      using p by (simp add: shrinks_def c'(2,3,4) option.rel_refl)
  qed (use c' in simp_all)
qed

lemma steps_chain: "steps E c0 c \<Longrightarrow> steps E c c' \<Longrightarrow> steps E c0 c'"
  using shrinks_trans unfolding steps_def by blast

lemma steps_remove:
  assumes call: "\<And>c0 c p l f args. steps E c0 c \<Longrightarrow> steps E c0 (snd (snd (call p l f args c)))"
    and c: "steps E c0 c"
  shows "steps E c0 (remove_peer_from_lobby call E' lid pid i kicked c)"
proof -
  define is_host where "is_host = (pid = l_host (lobby_at c lid))"
  define c1 where "c1 = (if is_host then
      if g_disband_on_leave (game c) \<or> g_lobby_control (game c) = ''relay'' \<or>
         length (l_peer_ids (lobby_at c lid)) = 1
      then remove_disband E' lid pid i c else remove_host_left E' lid pid i c
    else remove_member E' lid pid i kicked c)"
  define c2 where "c2 = (if has_callback c1 ''_on_peer_leave'' then
      let (result, has_error, c) = call pid (l_id (lobby_at c1 lid)) ''_on_peer_leave'' [] c1
      in (case result of
            AStr s \<Rightarrow> if has_error then on_error E' i pid s False has_error c else c
          | _ \<Rightarrow> c)
    else c1)"
  have rc: "steps E c c" using c steps_inv steps_refl by blast
  have c1: "steps E c c1"
    using rc unfolding c1_def by (simp add: steps.remove_disband steps.remove_host_left steps.remove_member)
  have c12: "steps E c1 c2"
  proof -
    have r1: "steps E c1 c1" using c1 steps_inv steps_refl by blast
    obtain r e c' where r: "call pid (l_id (lobby_at c1 lid)) ''_on_peer_leave'' [] c1 = (r, e, c')"
      by (metis prod_cases3)
    have "steps E c1 c'" using call [OF r1] r by (metis snd_conv)
    then show ?thesis
      using r1 r unfolding c2_def by (auto intro!: steps.on_error split: any_element.split)
  qed
  have "steps E c0 (detach_peer is_host lid pid c2)"
  proof (rule steps_detach)
    show "steps E c0 c2" using c c1 c12 steps_chain by blast
    show "nobody lid c2"
      if h: "is_host" "g_disband_on_leave (game c2)" "faults c2 = []" "fresh_uuids E (uuid_count c2)"
    proof -
      have s: "shrinks c1 c2" "faults c1 = []" using c12 h by (simp_all add: steps_def)
      then have s': "shrinks c c1" "faults c = []" using c1 by (simp_all add: steps_def)
      have "wf_game E (uuid_count c) (game c)"
      proof -
        have "uuid_count c2 = uuid_count c" using s s' by (simp add: shrinks_def)
        with steps_inv [OF c] s'(2) h(4) show ?thesis by (simp add: consistent_def)
      qed
      moreover have "g_disband_on_leave (game c)"
        using h s s' by (simp add: shrinks_def config_def)
      ultimately have "nobody lid c1"
        using h remove_disband_nobody unfolding c1_def by simp
      then show ?thesis using s nobody_shrinks by blast
    qed
  qed
  then show ?thesis
    unfolding remove_peer_from_lobby_def Let_def c2_def c1_def is_host_def .
qed

interpretation steps: kept_scripts "steps E" for E
  by unfold_locales (rule steps_remove)

end
