(* ===== verification/Handlers_Keep.thy ===== *)
theory Handlers_Keep
  imports Consistency
begin

text \<open>
  \<open>consistent\<close> through the operations that change membership or the set of records: joining,
  quick join, creating a lobby (with the script's verdict on it), connecting, and the sweep over
  disconnected peers; then through \<open>dispatch\<close> and \<open>handle_event\<close> as a whole.
\<close>

lemma inv_wf: "consistent E c \<Longrightarrow> faults c = [] \<Longrightarrow> fresh_uuids E (uuid_count c) \<Longrightarrow>
    wf_game E (uuid_count c) (game c)"
  by (simp add: consistent_def)

lemma inv_fault: "faults c \<noteq> [] \<Longrightarrow> consistent E c"
  by (simp add: consistent_def)

lemma set_lobby_missing: "map_of (g_lobbies (game c)) k = None \<Longrightarrow> faults (set_lobby k f c) \<noteq> []"
  by (simp add: set_lobby_def)

lemma set_peer_missing: "map_of (g_peers (game c)) k = None \<Longrightarrow> faults (set_peer k f c) \<noteq> []"
  by (simp add: set_peer_def)

lemma inv_set_lobby:
  assumes c: "consistent E c"
    and f: "\<And>l. map_of (g_lobbies (game c)) k = Some l \<Longrightarrow> wf_lobby E (uuid_count c) k l \<Longrightarrow>
      wf_lobby E (uuid_count c) k (f l) \<and> set (l_peer_ids l) \<subseteq> set (l_peer_ids (f l))"
  shows "consistent E (set_lobby k f c)"
proof (cases "map_of (g_lobbies (game c)) k")
  case None
  then show ?thesis by (intro inv_fault set_lobby_missing)
next
  case (Some l)
  have "wf_game E (uuid_count c) ((game c)\<lparr>g_lobbies := fm_put k (f l) (g_lobbies (game c))\<rparr>)"
    if g: "wf_game E (uuid_count c) (game c)"
  proof (rule wf_game_put_lobby [OF g])
    show "wf_lobby E (uuid_count c) k (f l)" using f [OF Some wf_game_lobby [OF g Some]] by simp
    show "j \<in> set (l_peer_ids (f l))"
      if "map_of (g_peers (game c)) j = Some p" "p_lobby_id p = k" "k \<noteq> []" for j p
      using that Some wf_game_peer [OF g that(1)] f [OF Some wf_game_lobby [OF g Some]]
      by (auto simp: wf_peer_iff)
  qed
  then show ?thesis
    using c Some by (simp add: consistent_def set_lobby_def)
qed

lemma inv_set_peer:
  assumes c: "consistent E c"
    and f: "\<And>p. map_of (g_peers (game c)) k = Some p \<Longrightarrow> faults c = [] \<Longrightarrow>
      wf_game E (uuid_count c) (game c) \<Longrightarrow> wf_peer (g_lobbies (game c)) k (f p)"
  shows "consistent E (set_peer k f c)"
proof (cases "map_of (g_peers (game c)) k")
  case None
  then show ?thesis by (intro inv_fault set_peer_missing)
next
  case (Some p)
  then show ?thesis
    using c f [OF Some] by (simp add: consistent_def set_peer_def wf_game_put_peer)
qed

lemma set_peer_lobby_commute:
  assumes "map_of (g_lobbies (game c)) lid \<noteq> None"
  shows "set_lobby lid g (set_peer pid f c) = set_peer pid f (set_lobby lid g c)"
  using assms by (auto simp: set_peer_def set_lobby_def upd_game_def fault_add_def split: option.split)

lemma set_peer_frame [simp]:
  "g_lobbies (game (set_peer k f c)) = g_lobbies (game c)"
  "uuid_count (set_peer k f c) = uuid_count c"
  "g_disconnected_peers (game (set_peer k f c)) = g_disconnected_peers (game c)"
  by (simp_all add: set_peer_def fault_add_def split: option.split)

lemma set_lobby_frame [simp]:
  "g_peers (game (set_lobby k f c)) = g_peers (game c)"
  "uuid_count (set_lobby k f c) = uuid_count c"
  "g_disconnected_peers (game (set_lobby k f c)) = g_disconnected_peers (game c)"
  by (simp_all add: set_lobby_def fault_add_def split: option.split)

lemma steps_inv_rule: "(steps E c c \<Longrightarrow> steps E c c') \<Longrightarrow> consistent E c \<Longrightarrow> consistent E c'"
  using steps_refl steps_inv by blast

lemma inv_touch_peer: "consistent E c \<Longrightarrow> consistent E (touch_peer k c)"
  by (rule steps_inv_rule) (rule steps.touch_peer)

lemma set_key_same: "set (sort_key f xs) = set xs"
  by simp

lemma inv_sort_ordered: "consistent E c \<Longrightarrow> consistent E (sort_ordered lid c)"
proof -
  assume c: "consistent E c"
  let ?ids = "l_peer_ordered_ids (lobby_at c lid)"
  let ?c = "fold touch_peer ?ids c"
  have t: "consistent E ?c"
    using c by (rule steps_inv_rule [rotated]) (auto intro: steps.fold_kept steps.touch_peer)
  have "g_lobbies (game (fold touch_peer ks c)) = g_lobbies (game c)" for ks
    by (induction ks arbitrary: c) (simp_all add: touch_peer_def fault_add_def)
  then have "?ids = l_peer_ordered_ids (lobby_at ?c lid)" by (simp add: lobby_at_def)
  then show ?thesis
    unfolding sort_ordered_def Let_def
    by (intro inv_set_lobby [OF t]) (auto simp: wf_lobby_def lobby_at_def)
qed

lemma faults_prims:
  "faults (touch_peer k c) = [] \<Longrightarrow> faults c = []"
  "faults (touch_lobby k c) = [] \<Longrightarrow> faults c = []"
  "faults (set_peer k f c) = [] \<Longrightarrow> faults c = []"
  "faults (set_lobby k h c) = [] \<Longrightarrow> faults c = []"
  "faults (fold touch_peer ks c) = [] \<Longrightarrow> faults c = []"
proof -
  show p: "faults (touch_peer k c) = [] \<Longrightarrow> faults c = []" for k c
    by (simp add: touch_peer_def split: if_splits)
  show "faults (fold touch_peer ks c) = [] \<Longrightarrow> faults c = []"
    by (induction ks arbitrary: c) (auto dest: p)
qed (simp_all add: touch_lobby_def set_peer_def set_lobby_def split: if_splits option.splits)

lemma uuid_touch [simp]:
  "uuid_count (touch_peer k c) = uuid_count c" "uuid_count (touch_lobby k c) = uuid_count c"
  "uuid_count (fold touch_peer ks c) = uuid_count c"
proof -
  show p: "uuid_count (touch_peer k c) = uuid_count c" for k c
    by (simp add: touch_peer_def fault_add_def)
  show "uuid_count (fold touch_peer ks c) = uuid_count c"
    by (induction ks arbitrary: c) (simp_all add: p)
qed (simp add: touch_lobby_def fault_add_def)

lemma mark_updated_frame [simp]:
  "faults (mark_updated k c) = faults c" "uuid_count (mark_updated k c) = uuid_count c"
  "g_peers (game (mark_updated k c)) = g_peers (game c)"
  "g_lobbies (game (mark_updated k c)) = g_lobbies (game c)"
  by (simp_all add: mark_updated_def)

lemma faults_sort_ordered: "faults (sort_ordered lid c) = [] \<Longrightarrow> faults c = []"
  unfolding sort_ordered_def Let_def by (drule faults_prims(4), drule faults_prims(5))

lemma faults_join_changes:
  assumes "faults (join_changes pid me lid c) = []"
  shows "faults c = []"
proof -
  have *: "faults (sort_ordered lid (set_lobby lid h (set_peer pid f (set_lobby lid h' c)))) = [] \<Longrightarrow>
      faults c = []" for h f h'
    by (drule faults_sort_ordered, drule faults_prims(4), drule faults_prims(3), drule faults_prims(4))
  show ?thesis
    by (rule *) (rule assms [unfolded join_changes_def Let_def mark_updated_frame])
qed

lemma uuid_sort_ordered [simp]: "uuid_count (sort_ordered lid c) = uuid_count c"
  by (simp add: sort_ordered_def Let_def)

lemma uuid_join_changes: "uuid_count (join_changes pid me lid c) = uuid_count c"
  by (simp add: join_changes_def Let_def)

lemma inv_join_changes:
  assumes c: "consistent E c" and me: "me = pid"
  shows "consistent E (join_changes pid me lid c)"
proof (cases "map_of (g_lobbies (game c)) lid")
  case None
  have f: "faults (sort_ordered lid c) \<noteq> []" if "faults c \<noteq> []" for c
  proof -
    have "faults (fold touch_peer ks c) \<noteq> []" for ks
      using that by (induction ks arbitrary: c) (auto simp: touch_peer_def)
    then show ?thesis by (auto simp: sort_ordered_def Let_def set_lobby_def split: option.split)
  qed
  then show ?thesis
    using None by (intro inv_fault) (auto simp: join_changes_def Let_def mark_updated_def set_lobby_def set_peer_def
        intro!: f split: option.split)
next
  case (Some l)
  let ?c1 = "set_lobby lid (\<lambda>l. l\<lparr>l_order_id_counter := l_order_id_counter l + 1\<rparr>) c"
  let ?n = "l_order_id_counter (lobby_at ?c1 lid)"
  let ?f = "\<lambda>p. p\<lparr>p_order_id := to_i32 ?n, p_lobby_id := lid\<rparr>"
  let ?h = "\<lambda>l. l\<lparr>l_peer_ids := fs_insert me (l_peer_ids l),
      l_peer_ordered_ids := l_peer_ordered_ids l @ [me]\<rparr>"
  have some: "map_of (g_lobbies (game ?c1)) lid \<noteq> None"
    using Some by (simp add: set_lobby_def)
  have "consistent E ?c1"
    using c by (rule inv_set_lobby) (simp add: wf_lobby_def)
  then have "consistent E (set_lobby lid ?h ?c1)"
    by (rule inv_set_lobby) (auto simp: wf_lobby_def fs_wf_insert neq_Nil_conv dest: arg_cong [where f = set])
  then have "consistent E (set_peer pid ?f (set_lobby lid ?h ?c1))"
  proof (rule inv_set_peer)
    fix p assume p: "map_of (g_peers (game (set_lobby lid ?h ?c1))) pid = Some p"
      and g: "wf_game E (uuid_count (set_lobby lid ?h ?c1)) (game (set_lobby lid ?h ?c1))"
    show "wf_peer (g_lobbies (game (set_lobby lid ?h ?c1))) pid (?f p)"
      using wf_game_peer [OF g p] Some me by (auto simp: wf_peer_iff set_lobby_def)
  qed
  then have "consistent E (set_lobby lid ?h (set_peer pid ?f ?c1))"
    using set_peer_lobby_commute [OF some] by simp
  then have "consistent E (sort_ordered lid (set_lobby lid ?h (set_peer pid ?f ?c1)))"
    by (rule inv_sort_ordered)
  then show ?thesis
    unfolding join_changes_def Let_def
    by (rule steps_inv_rule [rotated]) (rule steps.mark_updated)
qed


lemma steps_has_peer: "steps E c0 c \<Longrightarrow> faults c = [] \<Longrightarrow> has_peer c k = has_peer c0 k"
  by (auto simp: steps_def shrinks_def has_peer_def fm_has_def option_rel_Some1 option_rel_Some2
      dest!: spec [of _ k])

lemma peer_at_id:
  assumes "consistent E c" "has_peer c pid" "faults c = []" "fresh_uuids E (uuid_count c)"
  shows "p_id (peer_at c pid) = pid"
proof -
  obtain p where p: "map_of (g_peers (game c)) pid = Some p"
    using assms(2) by (auto simp: has_peer_def fm_has_def)
  show ?thesis
    using wf_game_peer [OF inv_wf [OF assms(1,3,4)] p] p by (simp add: wf_peer_iff peer_at_def)
qed

text \<open>A call that only shrinks keeps the caller's record, whatever it does to the rest.\<close>

lemma inv_then:
  assumes "consistent E c" "\<And>c0 c. steps E c0 c \<Longrightarrow> steps E c0 (f c)"
  shows "consistent E (f c)"
  using assms steps_refl steps_inv by blast

lemma has_peer_touch [simp]: "has_peer (touch_peer j c) k \<longleftrightarrow> k = j \<or> has_peer c k"
  by (auto simp: touch_peer_def has_peer_def fm_has_def fault_add_def)

lemma has_peer_set [simp]: "has_peer (set_peer j f c) k = has_peer c k"
  by (auto simp: set_peer_def has_peer_def fm_has_def fault_add_def split: option.split)

lemma has_peer_same: "g_peers (game c') = g_peers (game c) \<Longrightarrow> has_peer c' k = has_peer c k"
  by (simp add: has_peer_def)

lemma has_peer_frame [simp]:
  "has_peer (set_lobby j f c) k = has_peer c k" "has_peer (on_error E i p m cl le c) k = has_peer c k"
  "has_peer (send p m op c) k = has_peer c k" "has_peer (send_others me ids m c) k = has_peer c k"
  "has_peer (send_loop ids m c) k = has_peer c k" "has_peer (fault_add x c) k = has_peer c k"
  "has_peer (mark_updated j c) k = has_peer c k"
  by (rule has_peer_same; simp add: fault_add_def)+

definition keeps_peer :: "env \<Rightarrow> string \<Rightarrow> ctx \<Rightarrow> bool" where
  "keeps_peer E pid c \<longleftrightarrow> consistent E c \<and> (faults c = [] \<longrightarrow> has_peer c pid)"

lemma keeps_peer_steps: "keeps_peer E pid c \<Longrightarrow> steps E c c' \<Longrightarrow> keeps_peer E pid c'"
  by (auto simp: keeps_peer_def steps_has_peer dest: steps_inv) (simp add: steps_def)

lemma keeps_peer_then:
  assumes "keeps_peer E pid c" "\<And>c0 c. steps E c0 c \<Longrightarrow> steps E c0 (f c)"
  shows "keeps_peer E pid (f c)"
  using assms keeps_peer_steps steps_refl unfolding keeps_peer_def by blast

lemma inv_on_join_lobby:
  assumes k: "keeps_peer E pid c"
  shows "consistent E (snd (on_join_lobby E i pid data ov c))"
proof -
  have c: "consistent E c" using k by (simp add: keeps_peer_def)
  have rc: "steps E c c" using c by (rule steps_refl)
  have join: "consistent E (join_changes pid (p_id (peer_at c pid)) lid c1)" if s: "steps E c c1" for lid c1
  proof (cases "faults c1 = [] \<and> fresh_uuids E (uuid_count c1)")
    case True
    then have "faults c = []" "fresh_uuids E (uuid_count c)"
      using s by (simp_all add: steps_def shrinks_def)
    then have "p_id (peer_at c pid) = pid" using k peer_at_id [OF c] by (simp add: keeps_peer_def)
    then show ?thesis using steps_inv [OF s] by (rule inv_join_changes [rotated])
  next
    case False
    moreover have "faults (join_changes pid me lid c1) = [] \<Longrightarrow> faults c1 = []" for me
      using faults_join_changes by blast
    ultimately show ?thesis
      by (auto simp: consistent_def uuid_join_changes)
  qed
  have rest: "consistent E c2 \<Longrightarrow> consistent E (snd (ask_script E True f i me l args
      (join_notify E b i pid lid (set_peer pid (\<lambda>p. p\<lparr>p_disconnected := False\<rparr>) c2))))" for c2 f me l args b lid
    by (rule steps_inv_rule)
       (auto intro!: steps.ask_script steps.join_notify steps.set_peer_data)
  have rest': "consistent E c2 \<Longrightarrow> consistent E (join_notify E b i pid lid (set_peer pid (\<lambda>p. p\<lparr>p_disconnected := False\<rparr>) c2))" for c2 b lid
    by (rule steps_inv_rule)
       (auto intro!: steps.join_notify steps.set_peer_data)
  have unready: "consistent E c2 \<Longrightarrow> consistent E (set_peer pid (\<lambda>p. p\<lparr>p_ready := False\<rparr>) c2)" for c2
    by (rule steps_inv_rule) (auto intro!: steps.set_peer_data)
  have err: "consistent E (on_error E i p m cl le c)" for p m cl le
    using rc steps.on_error steps_inv by blast
  have ask: "steps E c (snd (ask_script E True f i me l args c))" for f me l args
    using rc by (rule steps.ask_script)
  show ?thesis
    unfolding on_join_lobby_def Let_def split_beta
    using ask [THEN steps_inv] ask [THEN join]
    by (simp add: err rest rest' unready split: option.split)
qed



lemma join_refused:
  assumes c: "steps E c0 c" and r: "on_join_lobby E i pid data ov c = (False, c')"
  shows "steps E c0 c'"
proof -
  have "on_join_lobby E i pid data ov c = (False, c') \<Longrightarrow>
      (\<exists>p m cl le. c' = on_error E i p m cl le c) \<or>
      (\<exists>f p l args. c' = snd (ask_script E True f i p l args c))"
    unfolding on_join_lobby_def Let_def by (auto split: option.splits prod.splits if_splits) (metis snd_conv)+
  then show ?thesis
    using r c by (auto intro: steps.on_error steps.ask_script)
qed

definition settled :: "env \<Rightarrow> string \<Rightarrow> bool \<times> ctx \<Rightarrow> bool" where
  "settled E pid r \<longleftrightarrow> consistent E (snd r) \<and> (\<not> fst r \<longrightarrow> keeps_peer E pid (snd r))"

lemma settled_not: "keeps_peer E pid c \<Longrightarrow> settled E pid (False, c)"
  by (simp add: settled_def keeps_peer_def)

lemma settled_join: "keeps_peer E pid c \<Longrightarrow> settled E pid (on_join_lobby E i pid data ov c)"
proof -
  assume c: "keeps_peer E pid c"
  have "keeps_peer E pid c'" if "on_join_lobby E i pid data ov c = (False, c')" for c'
    using join_refused [OF steps_refl that] keeps_peer_steps [OF c] c by (simp add: keeps_peer_def)
  then show ?thesis
    using inv_on_join_lobby [OF c, of i data ov]
    by (cases "on_join_lobby E i pid data ov c") (auto simp: settled_def)
qed

lemma settled_quick_join_loop:
  "keeps_peer E pid c \<Longrightarrow> settled E pid (quick_join_loop E i pid data tags ks c)"
proof (induction ks arbitrary: c)
  case Nil
  then show ?case by (simp add: settled_not)
next
  case (Cons k ks)
  let ?l = "lobby_at c k"
  let ?c = "if l_host ?l = [] then c else touch_peer (l_host ?l) c"
  have c1: "keeps_peer E pid ?c"
    using Cons.prems by (auto intro: keeps_peer_then steps.touch_peer)
  obtain joined c' where r: "on_join_lobby E i pid data (l_id ?l) ?c = (joined, c')"
    by (cases "on_join_lobby E i pid data (l_id ?l) ?c")
  have s: "settled E pid (joined, c')"
    using settled_join [OF c1, of i data "l_id ?l"] r by simp
  have "settled E pid (False, fault_add IteratorInvalidated c')"
    by (simp add: settled_def keeps_peer_def inv_fault)
  then have "settled E pid (if joined then (True, c')
      else if \<not> has_lobby c' k then (False, fault_add IteratorInvalidated c')
      else quick_join_loop E i pid data tags ks c')"
    using s Cons.IH [of c'] by (auto simp: settled_def)
  moreover note Cons.IH [OF Cons.prems] Cons.IH [OF c1]
  ultimately show ?case
    unfolding quick_join_loop.simps Let_def r prod.case by (simp split del: if_split split: if_split)
qed


subsection \<open>Creating a lobby\<close>

lemma inv_erase_lobby:
  assumes "consistent E c" "faults c = [] \<Longrightarrow> fresh_uuids E (uuid_count c) \<Longrightarrow> nobody k c"
  shows "consistent E (erase_lobby k c)"
  using assms by (auto simp: consistent_def erase_lobby_def nobody_def intro!: wf_game_erase_lobby)

lemma fresh_not_key:
  assumes "fresh_uuids E (Suc n)" "lobby_key E n k"
  shows "k \<noteq> take 8 (uuid_gen E n)"
  using assms by (auto simp: fresh_uuids_def lobby_key_def simp del: set_map set_upt)

definition only :: "string \<Rightarrow> string \<Rightarrow> ctx \<Rightarrow> bool" where
  "only pid lid c \<longleftrightarrow>
    (\<forall>j p. map_of (g_peers (game c)) j = Some p \<longrightarrow> p_lobby_id p = lid \<longrightarrow> lid = [] \<or> j = pid)"

lemma only_shrinks:
  assumes "shrinks c c'" "only pid lid c"
  shows "only pid lid c'"
  unfolding only_def
proof (intro allI impI)
  fix j q assume q: "map_of (g_peers (game c')) j = Some q" "p_lobby_id q = lid"
  have "rel_option (\<lambda>p q. p_lobby_id q = p_lobby_id p \<or> p_lobby_id q = [])
      (map_of (g_peers (game c)) j) (map_of (g_peers (game c')) j)"
    using assms(1) by (simp add: shrinks_def)
  then obtain p where "map_of (g_peers (game c)) j = Some p"
      "p_lobby_id q = p_lobby_id p \<or> p_lobby_id q = []"
    using q by (auto simp: option_rel_Some2)
  then show "lid = [] \<or> j = pid" using assms(2) q unfolding only_def by metis
qed

text \<open>The state in which the creator sits alone in a lobby under a key nobody used.\<close>

lemma created:
  assumes k: "keeps_peer E pid c" and me: "me = p_id (peer_at c pid)"
    and lobby: "l_id l = small" "l_peer_ids l = [me]" "l_peer_ordered_ids l = [me]"
      "\<not> l_disband_on_leave l"
    and small: "small = take 8 (uuid_gen E (uuid_count c))"
    and c3: "c3 = upd_game (\<lambda>g. g\<lparr>g_lobbies := fm_emplace small l (g_lobbies g)\<rparr>)
      (set_peer pid (\<lambda>p. p\<lparr>p_lobby_id := small\<rparr>) (c\<lparr>uuid_count := Suc (uuid_count c)\<rparr>))"
  shows "consistent E c3" and "faults c3 = [] \<Longrightarrow> fresh_uuids E (uuid_count c3) \<Longrightarrow> only pid small c3"
proof -
  let ?n = "uuid_count c"
  have "wf_game E (Suc ?n) (game c3) \<and> only pid small c3"
    if f: "faults c3 = []" and fr: "fresh_uuids E (uuid_count c3)"
  proof -
    have ok: "faults c = []" "fresh_uuids E (Suc ?n)"
      using f fr faults_prims(3) by (force simp: c3)+
    then have fresh: "fresh_uuids E ?n" using fresh_uuids_mono by force
    have c: "consistent E c" and hp: "has_peer c pid" using k ok by (simp_all add: keeps_peer_def)
    have g: "wf_game E ?n (game c)" using c ok(1) fresh by (rule inv_wf)
    have mep: "me = pid" using peer_at_id [OF c hp ok(1) fresh] me by simp
    obtain p where p: "map_of (g_peers (game c)) pid = Some p"
      using hp by (auto simp: has_peer_def fm_has_def)
    have unused: "map_of (g_lobbies (game c)) small = None"
    proof (rule ccontr)
      assume "map_of (g_lobbies (game c)) small \<noteq> None"
      then obtain l0 where "map_of (g_lobbies (game c)) small = Some l0" by auto
      then have "lobby_key E ?n small" using wf_game_lobby [OF g] by (simp add: wf_lobby_def)
      then show False using fresh_not_key [OF ok(2)] small by blast
    qed
    have none: "lid = [] \<or> lid \<noteq> small" if "map_of (g_peers (game c)) j = Some q" "p_lobby_id q = lid" for j q lid
      using wf_game_peer [OF g that(1)] that(2) unused by (auto simp: wf_peer_iff)
    let ?p = "p\<lparr>p_lobby_id := small\<rparr>"
    let ?g = "(game c)\<lparr>g_lobbies := fm_put small l (g_lobbies (game c))\<rparr>"
    have c3': "game c3 = ?g\<lparr>g_peers := fm_put pid ?p (g_peers ?g)\<rparr>"
      using p unused by (simp add: c3 set_peer_def fm_emplace_def fm_has_def)
    have "lobby_key E (Suc ?n) small"
      by (simp add: lobby_key_def small)
    then have "wf_lobby E (Suc ?n) small l"
      using lobby by (simp add: wf_lobby_def)
    then have "wf_game E (Suc ?n) ?g"
      using none wf_game_mono [OF g] by (intro wf_game_put_lobby) auto
    moreover have "wf_peer (g_lobbies ?g) pid ?p"
      using wf_game_peer [OF g p] lobby mep by (simp add: wf_peer_iff)
    ultimately have "wf_game E (Suc ?n) (game c3)"
      unfolding c3' by (rule wf_game_put_peer)
    moreover have "only pid small c3"
      using none by (auto simp: only_def c3')
    ultimately show ?thesis by blast
  qed
  moreover have "uuid_count c3 = Suc ?n" by (simp add: c3)
  ultimately show "consistent E c3" "faults c3 = [] \<Longrightarrow> fresh_uuids E (uuid_count c3) \<Longrightarrow> only pid small c3"
    by (simp_all add: consistent_def)
qed

lemma refused_creation:
  assumes c3: "consistent E c3" "faults c3 = [] \<Longrightarrow> fresh_uuids E (uuid_count c3) \<Longrightarrow> only pid small c3"
    and c4: "steps E c3 c4"
  shows "consistent E (erase_lobby small (set_peer pid leave_lobby c4))"
proof (rule inv_erase_lobby)
  have "steps E c3 (set_peer pid leave_lobby c4)" using c4 by (rule steps.set_leave)
  then show "consistent E (set_peer pid leave_lobby c4)" by (rule steps_inv)
  show "nobody small (set_peer pid leave_lobby c4)"
    if f: "faults (set_peer pid leave_lobby c4) = []"
      "fresh_uuids E (uuid_count (set_peer pid leave_lobby c4))"
  proof -
    have f4: "faults c4 = []" using f faults_prims(3) by blast
    then have "faults c3 = []" "shrinks c3 c4" using c4 by (simp_all add: steps_def)
    then have "only pid small c3" using c3(2) f by (simp add: shrinks_def)
    then have "only pid small c4" using only_shrinks \<open>shrinks c3 c4\<close> by blast
    then show ?thesis
      using f by (auto simp: nobody_def only_def set_peer_def leave_lobby_def split: option.splits)
  qed
qed

lemma created_tail:
  assumes c3: "consistent E c3" "faults c3 = [] \<Longrightarrow> fresh_uuids E (uuid_count c3) \<Longrightarrow> only pid small c3"
  shows "consistent E (ask_create E i pid me small c3)"
proof -
  obtain r e c4 where r: "call_script E me small ''_can_create_lobby'' [] c3 = (r, e, c4)"
    by (metis prod_cases3)
  have c4: "steps E c3 c4" using steps.call_result [OF r] steps_refl [OF c3(1)] by blast
  have err: "consistent E (on_error E i p m cl le (erase_lobby small (set_peer pid leave_lobby c4)))" for p m cl le
    using refused_creation [OF c3 c4] by (rule inv_then) (auto intro: steps.on_error)
  have fin: "consistent E (finish_create E i pid small c')" if "consistent E c'" for c'
    using that by (rule inv_then) (auto intro: steps.finish_create)
  have "(case r of AStr s \<Rightarrow> if e then on_error E i me s False e
        (erase_lobby small (set_peer pid leave_lobby c4)) else finish_create E i pid small c4
      | _ \<Rightarrow> finish_create E i pid small c4) \<in> {c. consistent E c}"
    using err fin [OF steps_inv [OF c4]] by (cases r) auto
  then show ?thesis
    unfolding ask_create_def r Let_def prod.case using fin [OF c3(1)] by simp
qed

lemma inv_if: "consistent E x \<Longrightarrow> consistent E y \<Longrightarrow> consistent E (if b then x else y)"
  by simp

lemma inv_on_create_lobby:
  assumes k: "keeps_peer E pid c"
  shows "consistent E (on_create_lobby E i pid data prev c)"
proof -
  have c: "consistent E c" using k by (simp add: keeps_peer_def)
  let ?c1 = "c\<lparr>uuid_count := Suc (uuid_count c)\<rparr>"
  have c1: "consistent E ?c1"
    using c by (auto simp: consistent_def intro: wf_game_mono fresh_uuids_mono)
  have err: "consistent E (on_error E i p m cl le c')" if "consistent E c'" for c' p m cl le
    using that by (rule inv_then) (auto intro: steps.on_error)
  have new: "consistent E (ask_create E i pid me small (upd_game
      (\<lambda>g. g\<lparr>g_lobbies := fm_emplace small (new_lobby (peer_at c pid) data small mp tags c') (g_lobbies g)\<rparr>)
      (set_peer pid (\<lambda>p. p\<lparr>p_lobby_id := small\<rparr>) ?c1)))"
    if "small = take 8 (uuid_gen E (uuid_count c))" for small me mp tags c'
    by (rule created_tail; rule created [OF k refl _ _ _ _ that refl])
       (simp_all add: new_lobby_def default_lobby_def)
  show ?thesis
    unfolding on_create_lobby_def Let_def prod.case_eq_if
    by (intro inv_if err c c1 new refl)
qed


lemma keeps_quick_join_loop:
  "keeps_peer E pid c \<Longrightarrow> keeps_peer E pid (snd (quick_join_loop E i pid data tags ks c)) \<or>
     fst (quick_join_loop E i pid data tags ks c)"
  using settled_quick_join_loop [of E pid c i data tags ks] by (auto simp: settled_def)

lemma inv_on_quick_join:
  assumes k: "keeps_peer E pid c"
  shows "consistent E (on_quick_join E i pid data c)"
proof -
  define r where "r = (if p_lobby_id (peer_at c pid) \<noteq> [] then on_join_lobby E i pid data [] c else (False, c))"
  have r: "settled E pid r"
    using k settled_join settled_not unfolding r_def by simp
  have err: "consistent E (on_error E i p m cl le (snd r))" for p m cl le
    using r by (auto simp: settled_def intro: inv_then steps.on_error)
  have loop: "\<not> fst r \<Longrightarrow> settled E pid (quick_join_loop E i pid data tags ks (snd r))" for tags ks
    using r settled_quick_join_loop by (simp add: settled_def)
  have create: "settled E pid q \<Longrightarrow> consistent E (if fst q then snd q else on_create_lobby E i pid data prev (snd q))"
    for q prev
    using inv_on_create_lobby by (simp add: settled_def)
  have base: "fst r \<Longrightarrow> consistent E (snd r)" using r by (simp add: settled_def)
  show ?thesis
    unfolding on_quick_join_def Let_def prod.case_eq_if r_def [symmetric]
    using base err create [OF loop] by (auto simp del: split_paired_All)
qed

subsection \<open>Connections\<close>

lemma inv_add_peer:
  assumes "consistent E c" "p_id p = k" "p_lobby_id p = []"
  shows "consistent E (upd_game (\<lambda>g. g\<lparr>g_peers := fm_emplace k p (g_peers g)\<rparr>) c)"
proof -
  have "wf_game E n (game c) \<Longrightarrow>
      wf_game E n ((game c)\<lparr>g_peers := fm_emplace k p (g_peers (game c))\<rparr>)" for n
    using assms(2,3) wf_game_put_peer [of E n "game c" k p] by (simp add: fm_emplace_def wf_peer_iff)
  then show ?thesis using assms(1) by (simp add: consistent_def)
qed

lemma inv_on_connect:
  assumes c: "consistent E c"
  shows "consistent E (on_connect E pid gid rt pl plid nm c)"
proof -
  let ?p = "default_peer\<lparr>p_id := pid, p_game_id := gid, p_reconnection_token := rt, p_platform := pl,
      p_platform_id := plid\<rparr>"
  define c1 where "c1 = (if has_peer c pid then
      upd_game (\<lambda>g. g\<lparr>g_disconnected_peers := fm_erase pid (g_disconnected_peers g)\<rparr>)
        (set_peer pid (\<lambda>p. p\<lparr>p_reconnection_token := rt\<rparr>) c)
    else upd_game (\<lambda>g. g\<lparr>g_peers := fm_emplace pid ?p (g_peers g)\<rparr>) c)"
  have "consistent E (upd_game (\<lambda>g. g\<lparr>g_disconnected_peers := fm_erase pid (g_disconnected_peers g)\<rparr>)
      (set_peer pid (\<lambda>p. p\<lparr>p_reconnection_token := rt\<rparr>) c))"
    using c by (rule inv_then) (auto intro!: steps.upd_game steps.set_peer_data)
  moreover have "consistent E (upd_game (\<lambda>g. g\<lparr>g_peers := fm_emplace pid ?p (g_peers g)\<rparr>) c)"
    by (rule inv_add_peer [OF c]) (simp_all add: default_peer_def)
  ultimately have c1: "consistent E c1" by (simp add: c1_def)
  show ?thesis
    unfolding on_connect_def c1_def [symmetric] Let_def
    using c1 by (rule inv_then) (auto intro!: steps.ask_script steps.send steps.set_peer_data)
qed

subsection \<open>Disconnects\<close>

lemma inv_erase_peer:
  "consistent E c \<Longrightarrow> consistent E (upd_game (\<lambda>g. g\<lparr>g_disconnected_peers := fm_erase k (g_disconnected_peers g),
     g_peers := fm_erase k (g_peers g), g_lobby_listing_peers := fs_erase k (g_lobby_listing_peers g)\<rparr>) c)"
  using wf_game_erase_peer [of E "uuid_count c" "game c" k] by (simp add: consistent_def wf_game_def)

lemma steps_disconnect_step: "steps E c0 (snd s) \<Longrightarrow> steps E c0 (snd (disconnect_step E m kt s))"
  unfolding disconnect_step_def Let_def split_beta
  by (auto intro!: steps.set_leave steps.remove steps.call_script)

lemma inv_disconnect_game:
  assumes c: "consistent E c"
  shows "consistent E (disconnect_game E m c)"
proof -
  let ?r = "fold (disconnect_step E m) (g_disconnected_peers (game c)) ([], c)"
  have fold: "steps E c0 (snd s) \<Longrightarrow> steps E c0 (snd (fold (disconnect_step E m) kts s))" for c0 s kts
    by (induction kts arbitrary: s) (auto simp: steps_disconnect_step)
  have "consistent E (snd ?r)"
    using fold [of c "([], c)"] steps_refl [OF c] steps_inv by force
  then have "consistent E ((snd ?r)\<lparr>defers := ds\<rparr>)" for ds
    by (rule inv_then) (rule steps.set_defers)
  moreover have "consistent E c' \<Longrightarrow> consistent E (fold (\<lambda>k. upd_game (\<lambda>g. g\<lparr>
      g_disconnected_peers := fm_erase k (g_disconnected_peers g), g_peers := fm_erase k (g_peers g),
      g_lobby_listing_peers := fs_erase k (g_lobby_listing_peers g)\<rparr>)) ks c')" for ks c'
    by (induction ks arbitrary: c') (auto intro: inv_erase_peer)
  ultimately show ?thesis
    unfolding disconnect_game_def Let_def prod.case_eq_if by blast
qed

subsection \<open>One event\<close>

lemma inv_dispatch:
  assumes k: "keeps_peer E pid c"
  shows "consistent E (dispatch E cmd i pid data c)"
proof -
  have c: "consistent E c" using k by (simp add: keeps_peer_def)
  have quiet: "consistent E (on_lobby_data E i pid data c)" "consistent E (on_data_to E i pid data c)"
    "consistent E (on_data_to_all E i pid data c)" "consistent E (on_notify_to E i pid data c)"
    "consistent E (on_lobby_notify E i pid data c)" "consistent E (on_lobby_call E i pid data c)"
    "consistent E (on_leave_lobby E i pid data c)" "consistent E (on_list_lobby E i pid data c)"
    "consistent E (on_stop_list_lobby E i pid data c)" "consistent E (on_chat_lobby E i pid data c)"
    "consistent E (on_lobby_tags E i pid data c)" "consistent E (on_kick_peer E i pid data c)"
    "consistent E (on_user_data E i pid data c)" "consistent E (on_lobby_ready E i pid data c)"
    "consistent E (on_lobby_unready E i pid data c)" "consistent E (on_seal_lobby E i pid data c)"
    "consistent E (on_unseal_lobby E i pid data c)" "consistent E (on_lobby_max_players E i pid data c)"
    "consistent E (on_lobby_title E i pid data c)" "consistent E (on_lobby_password E i pid data c)"
    "consistent E (on_error E i pid ERROR_UNKOWN_COMMAND True False c)"
    by (rule inv_then [OF c];
        (rule steps.on_lobby_data steps.on_data_to steps.on_data_to_all steps.on_notify_to
          steps.on_lobby_notify steps.on_lobby_call steps.on_leave_lobby steps.on_list_lobby
          steps.on_stop_list_lobby steps.on_chat_lobby steps.on_lobby_tags steps.on_kick_peer
          steps.on_user_data steps.on_lobby_ready steps.on_lobby_unready
          steps.on_lobby_max_players
          steps.on_lobby_title steps.on_lobby_password steps.on_error |
          unfold on_seal_lobby_def on_unseal_lobby_def, rule steps.change_seal); assumption)+
  show ?thesis
    unfolding dispatch_def
    by (intro inv_if quiet inv_on_quick_join inv_on_create_lobby inv_on_join_lobby k)
qed

lemma inv_handle_event: "consistent E c \<Longrightarrow> consistent E (handle_event E m c)"
proof -
  assume c: "consistent E c"
  have err: "consistent E (on_error E i p msg cl le c)" for i p msg cl le
    using c by (rule inv_then) (rule steps.on_error)
  have alive: "keeps_peer E k (set_peer k (\<lambda>p. p\<lparr>p_last_message_time := now c\<rparr>) c)" if "has_peer c k" for k
  proof -
    have "consistent E (set_peer k (\<lambda>p. p\<lparr>p_last_message_time := now c\<rparr>) c)"
      using c by (rule inv_then) (rule steps.set_peer_data; simp)
    then show ?thesis using that by (simp add: keeps_peer_def)
  qed
  have msg: "consistent E (handle_message E k msg c)" for k msg
    unfolding handle_message_def Let_def
    by (auto split: option.split yyval.split intro: err inv_dispatch alive)
  have close: "consistent E (on_close E k c)" for k
    using c by (rule inv_then) (rule steps.on_close)
  show ?thesis
    unfolding handle_event_def using inv_on_connect [OF c] close msg by (cases "m_event m") auto
qed

end
