(* ===== verification/Growth.thy ===== *)
theory Growth
  imports Handlers_Keep
begin

text \<open>
  Relations that every operation on the records keeps, whatever it writes: \<open>kept_any\<close> extends
  the contract of \<open>Kept\<close> with the operations that change membership, so that it covers every
  handler, \<open>on_join_lobby\<close> and \<open>on_create_lobby\<close> included. It is interpreted twice: faults are
  never taken back and identifiers never drawn again (\<open>grows\<close>), and the configuration a game was
  loaded with never changes (\<open>same_config\<close>).
\<close>

locale kept_any =
  fixes rel :: "ctx \<Rightarrow> ctx \<Rightarrow> bool"
  assumes any_same: "rel c0 c \<Longrightarrow> same_links c c' \<Longrightarrow> rel c0 c'"
    and any_fault: "rel c0 c \<Longrightarrow> rel c0 (fault_add x c)"
    and any_upd: "rel c0 c \<Longrightarrow> (\<And>g. config (f g) = config g) \<Longrightarrow> rel c0 (upd_game f c)"
    and any_uuid: "rel c0 c \<Longrightarrow> rel c0 (c\<lparr>uuid_count := Suc (uuid_count c)\<rparr>)"
begin

lemma any_set_peer: "rel c0 c \<Longrightarrow> rel c0 (set_peer k f c)"
  by (auto simp: set_peer_def intro!: any_upd any_fault split: option.split)

lemma any_set_lobby: "rel c0 c \<Longrightarrow> rel c0 (set_lobby k f c)"
  by (auto simp: set_lobby_def intro!: any_upd any_fault split: option.split)

lemma any_touch: "rel c0 c \<Longrightarrow> rel c0 (touch_peer k c)" "rel c0 c \<Longrightarrow> rel c0 (touch_lobby k c)"
  by (auto simp: touch_peer_def touch_lobby_def intro!: any_upd any_fault)

end

sublocale kept_any \<subseteq> kept rel
  by unfold_locales (auto intro: any_same any_fault any_touch any_set_peer any_set_lobby)

context kept_any
begin

lemma any_detach: "rel c0 c \<Longrightarrow> rel c0 (detach_peer h lid pid c)"
  unfolding detach_peer_def Let_def
  by (auto intro!: any_upd any_set_lobby any_set_peer basics)

end

text \<open>Taking a peer out of a lobby is a chain of basic steps and \<open>detach_peer\<close> at the end.\<close>

locale kept_detach = kept +
  assumes detach: "rel c0 c \<Longrightarrow> rel c0 (detach_peer h lid pid c)"
begin

lemma remove_by_detach:
  assumes call: "\<And>c0 c p l f args. rel c0 c \<Longrightarrow> rel c0 (snd (snd (call p l f args c)))"
    and c: "rel c0 c"
  shows "rel c0 (remove_peer_from_lobby call E lid pid i kicked c)"
proof -
  have told: "rel c0 (if has_callback c1 f then
      let (result, has_error, c) = call p l f args c1
      in (case result of AStr s \<Rightarrow> if has_error then on_error E i pid s False has_error c else c
          | _ \<Rightarrow> c)
    else c1)" if "rel c0 c1" for c1 p l f args
  proof -
    obtain r e c' where r: "call p l f args c1 = (r, e, c')" by (metis prod_cases3)
    have "rel c0 c'" using call [OF that, of p l f args] r by simp
    then show ?thesis using that by (cases r) (simp_all add: r on_error)
  qed
  show ?thesis
    unfolding remove_peer_from_lobby_def Let_def
    by (intro detach told [unfolded Let_def] ctx_if remove_disband
        remove_host_left remove_member c)
qed

end

sublocale kept_detach \<subseteq> kept_scripts rel
  by unfold_locales (rule remove_by_detach)

sublocale kept_any \<subseteq> kept_detach rel
  by unfold_locales (rule any_detach)

context kept_any
begin

lemma join_changes: "rel c0 c \<Longrightarrow> rel c0 (join_changes pid me lid c)"
  unfolding join_changes_def sort_ordered_def Let_def
  by (auto intro!: any_set_lobby any_set_peer basics)

lemma on_join_lobby: "rel c0 c \<Longrightarrow> rel c0 (snd (on_join_lobby E i pid data ov c))"
  unfolding on_join_lobby_def Let_def prod.case_eq_if
  by (auto intro!: ask_script join_notify any_set_peer join_changes on_error
      split: option.split)

lemma quick_join_loop: "rel c0 c \<Longrightarrow> rel c0 (snd (quick_join_loop E i pid data tags ks c))"
proof (induction ks arbitrary: c)
  case (Cons k ks)
  then show ?case
    by (simp add: Let_def prod.case_eq_if fault touch_peer on_join_lobby)
qed simp

lemma ask_create: "rel c0 c \<Longrightarrow> rel c0 (ask_create E i pid me small c)"
  unfolding ask_create_def erase_lobby_def Let_def
  by (auto intro!: on_error finish_create any_upd any_set_peer
      split: prod.split any_element.split elim: call_result)

lemma on_create_lobby: "rel c0 c \<Longrightarrow> rel c0 (on_create_lobby E i pid data prev c)"
proof -
  assume c: "rel c0 c"
  then have "rel c0 (c\<lparr>uuid_count := Suc (uuid_count c)\<rparr>)" by (rule any_uuid)
  then show ?thesis
    unfolding on_create_lobby_def Let_def prod.case_eq_if
    using c by (simp add: on_error ask_create any_upd any_set_peer)
qed

lemma on_quick_join: "rel c0 c \<Longrightarrow> rel c0 (on_quick_join E i pid data c)"
  unfolding on_quick_join_def Let_def prod.case_eq_if
  by (simp add: on_join_lobby quick_join_loop on_create_lobby on_error)

lemma on_connect: "rel c0 c \<Longrightarrow> rel c0 (on_connect E pid gid rt pl plid nm c)"
  unfolding on_connect_def Let_def
  by (simp add: ask_script send any_set_peer any_upd)

lemma disconnect_game: "rel c0 c \<Longrightarrow> rel c0 (disconnect_game E m c)"
proof -
  assume c: "rel c0 c"
  have step: "rel c0 (snd s) \<Longrightarrow> rel c0 (snd (disconnect_step E m kt s))" for s kt
    unfolding disconnect_step_def Let_def split_beta
    by (auto intro!: set_leave remove call_script)
  have "rel c0 (snd s) \<Longrightarrow> rel c0 (snd (fold (disconnect_step E m) kts s))" for s kts
    by (induction kts arbitrary: s) (auto simp: step)
  then show ?thesis
    unfolding disconnect_game_def Let_def prod.case_eq_if
    using c by (auto intro!: fold_kept any_upd set_defers)
qed

lemma dispatch: "rel c0 c \<Longrightarrow> rel c0 (dispatch E cmd i pid data c)"
  unfolding dispatch_def on_seal_lobby_def on_unseal_lobby_def
  by (intro ctx_if on_lobby_data on_data_to on_data_to_all on_notify_to
      on_lobby_notify on_lobby_call on_leave_lobby on_list_lobby
      on_stop_list_lobby on_chat_lobby on_lobby_tags on_kick_peer
      on_user_data on_lobby_ready on_lobby_unready
      on_lobby_max_players on_lobby_title on_lobby_password on_error
      change_seal on_quick_join on_create_lobby on_join_lobby)

lemma handle_event: "rel c0 c \<Longrightarrow> rel c0 (handle_event E m c)"
  unfolding handle_event_def handle_message_def Let_def
  by (auto intro!: on_connect on_close on_error dispatch any_set_peer
      split: ws_event.split option.split yyval.split)

end

subsection \<open>Faults and identifiers\<close>

definition grows :: "ctx \<Rightarrow> ctx \<Rightarrow> bool" where
  "grows c0 c \<longleftrightarrow> (\<exists>xs. faults c = faults c0 @ xs) \<and> uuid_count c0 \<le> uuid_count c"

lemma grows_refl: "grows c c"
  by (simp add: grows_def)

interpretation grows: kept_any grows
  by unfold_locales (auto simp: grows_def same_links_def fault_add_def)

subsection \<open>The configuration of a game\<close>

definition same_config :: "ctx \<Rightarrow> ctx \<Rightarrow> bool" where
  "same_config c0 c \<longleftrightarrow> config (game c) = config (game c0)"

interpretation same_config: kept_any same_config
  by unfold_locales (auto simp: same_config_def same_links_def fault_add_def)

end
