(* ===== verification/Reachable.thy ===== *)
theory Reachable
  imports Growth
begin

text \<open>
  The thread as a state machine: \<open>reachable\<close> holds of every state that loading and unloading
  games, received messages, changed files, the clock and rounds of the main loop can lead to. The
  invariant \<open>thread_ok\<close> (every game is well formed) is carried by each of these.
\<close>

definition thread_ok :: "env \<Rightarrow> gthread \<Rightarrow> bool" where
  "thread_ok E t \<longleftrightarrow>
    fm_wf (games t) \<and>
    (faults t = [] \<longrightarrow> fresh_uuids E (uuid_count t) \<longrightarrow>
       (\<forall>gid g. map_of (games t) gid = Some g \<longrightarrow> wf_game E (uuid_count t) g))"

definition good_op :: "env \<Rightarrow> (ctx \<Rightarrow> ctx) \<Rightarrow> bool" where
  "good_op E f \<longleftrightarrow> (\<forall>c. (consistent E c \<longrightarrow> consistent E (f c)) \<and> grows c (f c))"

lemma good_opI:
  "(\<And>c. consistent E c \<Longrightarrow> consistent E (f c)) \<Longrightarrow> (\<And>c. grows c (f c)) \<Longrightarrow> good_op E f"
  by (simp add: good_op_def)

lemma good_op_steps:
  assumes "\<And>c0 c. steps E c0 c \<Longrightarrow> steps E c0 (f c)" "\<And>c0 c. grows c0 c \<Longrightarrow> grows c0 (f c)"
  shows "good_op E f"
  using assms(2) by (intro good_opI) (auto intro: inv_then assms(1) grows_refl)

lemma enter_game_fields [simp]:
  "game (enter_game t g) = g" "faults (enter_game t g) = faults t"
  "uuid_count (enter_game t g) = uuid_count t" "now (enter_game t g) = now t"
  "defers (enter_game t g) = defers t"
  by (simp_all add: enter_game_def)

lemma leave_game_fields [simp]:
  "games (leave_game gid c t) = fm_put gid (game c) (games t)"
  "faults (leave_game gid c t) = faults c" "uuid_count (leave_game gid c t) = uuid_count c"
  by (simp_all add: leave_game_def)

lemma thread_ok_in_game:
  assumes t: "thread_ok E t" and f: "good_op E f"
  shows "thread_ok E (in_game gid f t)"
proof (cases "map_of (games t) gid")
  case None
  then show ?thesis using t by (simp add: in_game_def)
next
  case (Some g)
  let ?c = "enter_game t g"
  have gr: "grows ?c (f ?c)" and keep: "consistent E ?c \<Longrightarrow> consistent E (f ?c)"
    using f by (simp_all add: good_op_def)
  have "wf_game E (uuid_count (f ?c)) h"
    if ok: "faults (f ?c) = []" "fresh_uuids E (uuid_count (f ?c))"
      and h: "map_of (fm_put gid (game (f ?c)) (games t)) j = Some h" for j h
  proof -
    have t0: "faults t = []" "uuid_count t \<le> uuid_count (f ?c)"
      using gr ok(1) by (auto simp: grows_def)
    then have all: "\<And>j h. map_of (games t) j = Some h \<Longrightarrow> wf_game E (uuid_count t) h"
      using t ok(2) fresh_uuids_mono by (simp add: thread_ok_def)
    show ?thesis
    proof (cases "j = gid")
      case True
      have "consistent E ?c" using all [OF Some] by (simp add: consistent_def)
      then have "consistent E (f ?c)" by (rule keep)
      then show ?thesis using ok h True by (simp add: consistent_def)
    next
      case False
      then show ?thesis using h all t0(2) by (auto intro: wf_game_mono)
    qed
  qed
  then show ?thesis
    using t Some by (simp add: in_game_def thread_ok_def fm_wf_put)
qed

lemma thread_ok_for_games: "thread_ok E t \<Longrightarrow> good_op E f \<Longrightarrow> thread_ok E (for_games f t)"
proof -
  assume t: "thread_ok E t" and f: "good_op E f"
  have "thread_ok E t \<Longrightarrow> thread_ok E (fold (\<lambda>gid. in_game gid f) gids t)" for gids
    using f by (induction gids arbitrary: t) (simp_all add: thread_ok_in_game)
  then show ?thesis using t by (simp add: for_games_def)
qed

lemma thread_ok_same:
  "thread_ok E t \<Longrightarrow> games t' = games t \<Longrightarrow> faults t' = faults t \<Longrightarrow> uuid_count t' = uuid_count t \<Longrightarrow>
   thread_ok E t'"
  by (simp add: thread_ok_def)

lemma wf_game_new: "g_peers g = [] \<Longrightarrow> g_lobbies g = [] \<Longrightarrow> wf_game E n g"
  by (simp add: wf_game_def)

lemma thread_ok_add_game:
  assumes "thread_ok E t" "games t' = fm_emplace gid g (games t)"
    and "faults t' = faults t" "uuid_count t' = uuid_count t" "g_peers g = []" "g_lobbies g = []"
  shows "thread_ok E t'"
  using assms wf_game_new [OF assms(5,6)]
  by (auto simp: thread_ok_def fm_wf_emplace map_of_fm_emplace split: if_splits)

subsection \<open>The parts of a round\<close>

lemma good_handle_event: "good_op E (handle_event E m)"
  by (intro good_opI inv_handle_event grows.handle_event grows_refl)

lemma thread_ok_handle_events: "thread_ok E t \<Longrightarrow> thread_ok E (snd (handle_events E t))"
proof (cases "receive_queue t")
  case (Cons m ms)
  assume t: "thread_ok E t"
  have "thread_ok E (t\<lparr>receive_queue := ms, messages_received := messages_received t + 1,
      games := fm_emplace (m_game_id m) (new_game (m_game_id m) ''relay'') (games t)\<rparr>)"
    by (rule thread_ok_add_game [OF t]; (simp; fail)?) (simp_all add: new_game_def)
  then have "thread_ok E (in_game (m_game_id m) (handle_event E m)
      (t\<lparr>receive_queue := ms, messages_received := messages_received t + 1,
        games := fm_emplace (m_game_id m) (new_game (m_game_id m) ''relay'') (games t)\<rparr>))"
    using good_handle_event by (rule thread_ok_in_game)
  then show ?thesis
    using Cons by (simp add: handle_events_def Let_def)
qed (simp add: handle_events_def)

lemma thread_ok_process_messages: "thread_ok E t \<Longrightarrow> thread_ok E (process_messages E n t)"
proof (induction n arbitrary: t)
  case (Suc n)
  then show ?case
    using thread_ok_handle_events [OF Suc.prems] by (simp add: prod.case_eq_if)
qed simp

lemma thread_ok_handle_tick: "thread_ok E t \<Longrightarrow> thread_ok E (handle_tick E t)"
proof -
  assume "thread_ok E t"
  then have "thread_ok E (for_games (tick_game E (now t)) t)"
    by (rule thread_ok_for_games) (intro good_op_steps steps.tick_game grows.tick_game)
  then show ?thesis unfolding handle_tick_def by (rule thread_ok_same) simp_all
qed

lemma thread_ok_handle_send: "thread_ok E t \<Longrightarrow> thread_ok E (handle_send t)"
  unfolding handle_send_def
  by (erule thread_ok_for_games) (intro good_op_steps steps.send_game grows.send_game)

lemma thread_ok_handle_timers: "thread_ok E t \<Longrightarrow> thread_ok E (handle_timers E t)"
  unfolding handle_timers_def
  by (erule thread_ok_for_games)
     (intro good_op_steps steps.fold_kept steps.timer_step grows.fold_kept grows.timer_step)

lemma thread_ok_handle_disconnects: "thread_ok E t \<Longrightarrow> thread_ok E (handle_disconnects E t)"
  unfolding handle_disconnects_def
  by (erule thread_ok_for_games)
     (intro good_opI inv_disconnect_game grows.disconnect_game grows_refl)

lemma thread_ok_handle_lobby_list: "thread_ok E t \<Longrightarrow> thread_ok E (handle_lobby_list E t)"
  unfolding handle_lobby_list_def
  by (erule thread_ok_for_games) (intro good_op_steps steps.list_game grows.list_game)

lemma thread_ok_handle_afk: "thread_ok E t \<Longrightarrow> thread_ok E (handle_afk E t)"
proof -
  have step: "good_op E (\<lambda>c. fold (afk_step E) (map fst (g_peers (game c))) c)"
    by (intro good_op_steps steps.fold_kept steps.afk_step grows.fold_kept grows.afk_step)
  have "thread_ok E t \<Longrightarrow> thread_ok E (afk_games E gids t)" for gids
    by (induction gids arbitrary: t) (auto split: option.split intro: thread_ok_in_game step)
  then show "thread_ok E t \<Longrightarrow> thread_ok E (handle_afk E t)" by (simp add: handle_afk_def)
qed

lemma thread_ok_reload_game: "thread_ok E t \<Longrightarrow> thread_ok E (reload_game E n folder t)"
proof -
  have close: "steps E c0 c \<Longrightarrow> steps E c0 (upd_game game_close c)"
    "grows c0 c \<Longrightarrow> grows c0 (upd_game game_close c)" for c0 c
    by (auto intro!: steps.upd_game grows.any_upd simp: game_close_def)
  show "thread_ok E t \<Longrightarrow> thread_ok E (reload_game E n folder t)"
    unfolding reload_game_def Let_def
    by (erule thread_ok_for_games)
       (intro good_op_steps steps.ctx_if steps.call_script steps.game_open grows.ctx_if
         grows.call_script grows.game_open close; assumption)
qed

lemma thread_ok_load_games: "thread_ok E t \<Longrightarrow> thread_ok E (load_games E folders t)"
proof -
  assume t: "thread_ok E t"
  have folder: "thread_ok E (snd (load_folder f s))" if s: "thread_ok E (snd s)" for f s
  proof -
    have check: "thread_ok E ((snd s)\<lparr>check_time := a\<rparr>)" for a
      using s by (rule thread_ok_same) simp_all
    have new: "g_peers (folder_game d f) = []" "g_lobbies (folder_game d f) = []" for d
      by (simp_all add: folder_game_def Let_def new_game_def)
    have add: "thread_ok E ((snd s)\<lparr>check_time := a,
        games := fm_emplace n (folder_game d f) (games (snd s))\<rparr>)"
      "thread_ok E ((snd s)\<lparr>games := fm_emplace n (folder_game d f) (games (snd s))\<rparr>)" for a n d
      by (rule thread_ok_add_game [OF s _ _ _ new], simp_all)+
    show ?thesis
      unfolding load_folder_def Let_def prod.case_eq_if
      using s by (simp add: check add)
  qed
  have "thread_ok E (snd (fold load_folder fs s))" if "thread_ok E (snd s)" for fs s
    using that by (induction fs arbitrary: s) (auto simp: folder)
  then have loaded: "thread_ok E (snd (fold load_folder folders ([], t)))"
    using t by simp
  have op: "good_op E (\<lambda>c. let c = game_open E (now c) c in if has_callback c ''_on_server_init''
      then snd (snd (call_script E [] [] ''_on_server_init'' [] c)) else c)"
    unfolding Let_def
    by (intro good_op_steps steps.ctx_if steps.call_script steps.game_open grows.ctx_if
         grows.call_script grows.game_open; assumption)
  have "thread_ok E t \<Longrightarrow> thread_ok E (fold (\<lambda>gid t. if gid \<notin> S then t else in_game gid f t) gids t)"
    if "good_op E f" for S f gids t
    using that by (induction gids arbitrary: t) (auto intro: thread_ok_in_game)
  then show ?thesis
    unfolding load_games_def prod.case_eq_if Let_def
    using loaded op [unfolded Let_def] by blast
qed

lemma thread_ok_unload_game: "thread_ok E t \<Longrightarrow> thread_ok E (unload_game E gid t)"
proof -
  assume t: "thread_ok E t"
  have op: "good_op E (\<lambda>c. upd_game game_close
      (fold (\<lambda>kp. on_error E i (p_id (snd kp)) m True False) (g_peers (game c)) c))" for i m
    by (intro good_op_steps steps.upd_game steps.fold_kept steps.on_error grows.any_upd
        grows.fold_kept grows.on_error) (auto simp: game_close_def)
  show ?thesis
    using t thread_ok_in_game [OF thread_ok_add_game [OF t] op]
    by (simp add: unload_game_def Let_def new_game_def)
qed

lemma thread_ok_run_round: "thread_ok E t \<Longrightarrow> thread_ok E (snd (run_round E n (r, t)))"
proof -
  assume t: "thread_ok E t"
  have queue: "thread_ok E t \<Longrightarrow> thread_ok E (reload_game E n f (t\<lparr>file_watcher_queue := fs\<rparr>))" for t f fs
    by (rule thread_ok_reload_game, erule thread_ok_same) simp_all
  show ?thesis
    unfolding run_round_def Let_def prod.case_eq_if
    using t by (auto split: list.split
        intro!: queue thread_ok_handle_timers thread_ok_handle_lobby_list thread_ok_handle_afk
          thread_ok_handle_disconnects thread_ok_handle_send thread_ok_handle_tick
          thread_ok_process_messages)
qed

subsection \<open>Reachable states\<close>

definition start_thread :: "i32 \<Rightarrow> i32 \<Rightarrow> i32 \<Rightarrow> string \<Rightarrow> i64 \<Rightarrow> gthread" where
  "start_thread check listing reconnection folder time =
    \<lparr>now = time, defers = [], messages_sent = 0, database_queue = [], uuid_count = 0, faults = [],
     games = [], messages_received = 0, receive_queue = [], check_time = check,
     listing_interval = listing, max_reconnection_time = reconnection, scripts_folder = folder,
     file_watcher_queue = []\<rparr>"

inductive reachable :: "env \<Rightarrow> run_state \<times> gthread \<Rightarrow> bool" for E where
  init: "reachable E (r, start_thread check listing reconnection folder time)"
| load: "reachable E (r, t) \<Longrightarrow> reachable E (r, load_games E folders t)"
| receive: "reachable E (r, t) \<Longrightarrow> reachable E (r, t\<lparr>receive_queue := receive_queue t @ [m]\<rparr>)"
| watch: "reachable E (r, t) \<Longrightarrow> reachable E (r, t\<lparr>file_watcher_queue := file_watcher_queue t @ [f]\<rparr>)"
| clock: "reachable E (r, t) \<Longrightarrow> reachable E (r, t\<lparr>now := time\<rparr>)"
| round: "reachable E s \<Longrightarrow> reachable E (run_round E time s)"
| unload: "reachable E (r, t) \<Longrightarrow> reachable E (r, unload_game E gid t)"
| callback: "reachable E (r, t) \<Longrightarrow> defers t = d # ds \<Longrightarrow> reachable E (r, t\<lparr>defers := ds\<rparr>)"

inductive_cases reachable_elim: "reachable E s"

lemma reachable_thread_ok: "reachable E s \<Longrightarrow> thread_ok E (snd s)"
proof (induction rule: reachable.induct)
  case init
  show ?case by (simp add: thread_ok_def start_thread_def)
next
  case (round s time)
  then show ?case by (cases s) (simp add: thread_ok_run_round)
qed (auto intro: thread_ok_load_games thread_ok_unload_game thread_ok_same)

end
