(* ===== verification/Membership.thy ===== *)
theory Membership
  imports Reachable
begin

text \<open>
  Games without a script whose configuration disbands a lobby when its host leaves. For these
  \<open>sound\<close> says more than \<open>wf_game\<close>: no fault was ever recorded, the members of a lobby are exactly
  the peers that say they are in it, its host is one of them, and it holds no more players than
  it allows. \<open>stays\<close> relates a sound context to one with the same membership; the basic
  operations keep it.
\<close>

definition unscripted :: "game_data \<Rightarrow> bool" where
  "unscripted g \<longleftrightarrow> \<not> lua_enabled (g_lua g) \<and> g_enabled_callbacks g = [] \<and> g_timer_data g = []"

definition full_lobby :: "peer_data flat_map \<Rightarrow> string \<Rightarrow> lobby_data \<Rightarrow> bool" where
  "full_lobby ps k l \<longleftrightarrow>
    k \<noteq> [] \<and> distinct (l_peer_ordered_ids l) \<and> l_host l \<in> set (l_peer_ids l) \<and>
    size_le (length (l_peer_ids l)) (l_max_players l) \<and>
    (\<forall>j \<in> set (l_peer_ids l). map_option p_lobby_id (map_of ps j) = Some k)"

definition strict_game :: "env \<Rightarrow> nat \<Rightarrow> game_data \<Rightarrow> bool" where
  "strict_game E n g \<longleftrightarrow>
    wf_game E n g \<and> (\<forall>(k, l) \<in> set (g_lobbies g). full_lobby (g_peers g) k l)"

definition sound :: "env \<Rightarrow> ctx \<Rightarrow> bool" where
  "sound E c \<longleftrightarrow>
    faults c = [] \<and> fresh_uuids E (uuid_count c) \<and> unscripted (game c) \<and> g_disband_on_leave (game c) \<and>
    strict_game E (uuid_count c) (game c)"

text \<open>The membership part of \<open>sound\<close> by itself.\<close>

definition exact_game :: "env \<Rightarrow> ctx \<Rightarrow> bool" where
  "exact_game E c \<longleftrightarrow>
    faults c = [] \<and> fresh_uuids E (uuid_count c) \<and> strict_game E (uuid_count c) (game c)"

lemma sound_iff: "sound E c \<longleftrightarrow> exact_game E c \<and> unscripted (game c) \<and> g_disband_on_leave (game c)"
  by (auto simp: sound_def exact_game_def)

lemma sound_parts:
  assumes "sound E c"
  shows "exact_game E c" "unscripted (game c)" "g_disband_on_leave (game c)"
  using assms by (simp_all add: sound_iff)

definition links :: "game_data \<Rightarrow> (string \<Rightarrow> string option) \<times> (string \<Rightarrow> (flat_set \<times> string) option)" where
  "links g = ((\<lambda>k. map_option p_lobby_id (map_of (g_peers g) k)),
     (\<lambda>k. map_option (\<lambda>l. (l_peer_ids l, l_host l)) (map_of (g_lobbies g) k)))"

definition stays :: "env \<Rightarrow> ctx \<Rightarrow> ctx \<Rightarrow> bool" where
  "stays E c0 c \<longleftrightarrow> sound E c \<and> links (game c) = links (game c0) \<and> config (game c) = config (game c0) \<and>
    uuid_count c0 = uuid_count c"

lemma strict_game_iff:
  "strict_game E n g \<longleftrightarrow>
    wf_game E n g \<and> (\<forall>k l. map_of (g_lobbies g) k = Some l \<longrightarrow> full_lobby (g_peers g) k l)"
  unfolding strict_game_def wf_game_def by (simp add: ball_map_of cong: conj_cong)

lemma strict_game_cong:
  "g_peers g' = g_peers g \<Longrightarrow> g_lobbies g' = g_lobbies g \<Longrightarrow> strict_game E n g' = strict_game E n g"
  using wf_game_cong [of g' g] by (simp add: strict_game_def)

lemma stays_refl: "sound E c \<Longrightarrow> stays E c c"
  by (simp add: stays_def)

lemma stays_sound: "stays E c0 c \<Longrightarrow> sound E c"
  by (simp add: stays_def)

lemma links_peer: "links g = links g' \<Longrightarrow>
    map_option p_lobby_id (map_of (g_peers g) k) = map_option p_lobby_id (map_of (g_peers g') k)"
  by (simp add: links_def fun_eq_iff)

lemma links_lobby: "links g = links g' \<Longrightarrow>
    map_option (\<lambda>l. (l_peer_ids l, l_host l)) (map_of (g_lobbies g) k) =
    map_option (\<lambda>l. (l_peer_ids l, l_host l)) (map_of (g_lobbies g') k)"
  by (simp add: links_def fun_eq_iff)

lemma stays_has_peer: "stays E c0 c \<Longrightarrow> has_peer c k = has_peer c0 k"
  using links_peer [of "game c" "game c0" k]
  by (cases "map_of (g_peers (game c)) k"; cases "map_of (g_peers (game c0)) k")
     (auto simp: stays_def has_peer_def fm_has_def)

lemma stays_has_lobby: "stays E c0 c \<Longrightarrow> has_lobby c k = has_lobby c0 k"
  using links_lobby [of "game c" "game c0" k]
  by (cases "map_of (g_lobbies (game c)) k"; cases "map_of (g_lobbies (game c0)) k")
     (auto simp: stays_def has_lobby_def fm_has_def)

lemma stays_lobby_id: "stays E c0 c \<Longrightarrow> p_lobby_id (peer_at c k) = p_lobby_id (peer_at c0 k)"
  using links_peer [of "game c" "game c0" k]
  by (cases "map_of (g_peers (game c)) k"; cases "map_of (g_peers (game c0)) k")
     (auto simp: stays_def peer_at_def)

lemma stays_ids: "stays E c0 c \<Longrightarrow> l_peer_ids (lobby_at c k) = l_peer_ids (lobby_at c0 k)"
  and stays_host: "stays E c0 c \<Longrightarrow> l_host (lobby_at c k) = l_host (lobby_at c0 k)"
  using links_lobby [of "game c" "game c0" k]
  by (cases "map_of (g_lobbies (game c)) k"; cases "map_of (g_lobbies (game c0)) k";
      simp add: stays_def lobby_at_def)+

lemma default_ids [simp]: "l_peer_ids default_lobby = []" "l_peer_ordered_ids default_lobby = []"
  by (simp_all add: default_lobby_def)

lemma wf_peer_id: "wf_game E n (game c) \<Longrightarrow> has_peer c k \<Longrightarrow> p_id (peer_at c k) = k"
  using wf_game_peer by (auto simp: has_peer_def fm_has_def peer_at_def wf_peer_def)

lemma wf_lobby_id: "wf_game E n (game c) \<Longrightarrow> has_lobby c k \<Longrightarrow> l_id (lobby_at c k) = k"
  using wf_game_lobby by (auto simp: has_lobby_def fm_has_def lobby_at_def wf_lobby_def)

lemma own_lobby_wf:
  assumes "wf_game E n (game c)" "has_peer c k" "p_lobby_id (peer_at c k) \<noteq> []"
  shows "has_lobby c (p_lobby_id (peer_at c k))"
proof -
  obtain p where p: "map_of (g_peers (game c)) k = Some p"
    using assms(2) by (auto simp: has_peer_def fm_has_def)
  show ?thesis
    using wf_game_peer [OF assms(1) p] assms(3) p
    by (auto simp: wf_peer_iff peer_at_def has_lobby_def fm_has_def)
qed

lemma sound_member:
  assumes "sound E c" "k \<in> set (l_peer_ids (lobby_at c lid))"
  shows "has_peer c k" "p_lobby_id (peer_at c k) = lid" "has_lobby c lid" "lid \<noteq> []"
proof -
  obtain l where l: "map_of (g_lobbies (game c)) lid = Some l"
    using assms(2) by (cases "map_of (g_lobbies (game c)) lid") (auto simp: lobby_at_def)
  have f: "full_lobby (g_peers (game c)) lid l"
    using assms(1) l by (simp add: sound_def strict_game_iff)
  then obtain p where "map_of (g_peers (game c)) k = Some p" "p_lobby_id p = lid"
    using assms(2) l by (auto simp: full_lobby_def lobby_at_def)
  then show "has_peer c k" "p_lobby_id (peer_at c k) = lid" "has_lobby c lid" "lid \<noteq> []"
    using l f by (auto simp: has_peer_def fm_has_def peer_at_def has_lobby_def full_lobby_def)
qed

lemma sound_own_lobby:
  assumes "sound E c" "p_lobby_id (peer_at c pid) \<noteq> []"
  shows "has_lobby c (p_lobby_id (peer_at c pid))"
    "pid \<in> set (l_peer_ids (lobby_at c (p_lobby_id (peer_at c pid))))"
proof -
  obtain p where p: "map_of (g_peers (game c)) pid = Some p"
    using assms(2) by (cases "map_of (g_peers (game c)) pid") (auto simp: peer_at_def default_peer_def)
  have "wf_peer (g_lobbies (game c)) pid p"
    using assms(1) p wf_game_peer by (auto simp: sound_def strict_game_def)
  then show "has_lobby c (p_lobby_id (peer_at c pid))"
    "pid \<in> set (l_peer_ids (lobby_at c (p_lobby_id (peer_at c pid))))"
    using p assms(2) by (auto simp: wf_peer_iff peer_at_def has_lobby_def fm_has_def lobby_at_def)
qed

lemma sound_peer_id: "sound E c \<Longrightarrow> has_peer c k \<Longrightarrow> p_id (peer_at c k) = k"
  using wf_game_peer
  by (auto simp: sound_def strict_game_def has_peer_def fm_has_def peer_at_def wf_peer_def)

lemma sound_lobby_id: "sound E c \<Longrightarrow> has_lobby c k \<Longrightarrow> l_id (lobby_at c k) = k"
  using wf_game_lobby
  by (auto simp: sound_def strict_game_def has_lobby_def fm_has_def lobby_at_def wf_lobby_def)

subsection \<open>Operations that leave membership alone\<close>

definition keeps_link :: "(peer_data \<Rightarrow> peer_data) \<Rightarrow> bool" where
  "keeps_link f \<longleftrightarrow> (\<forall>p. p_id (f p) = p_id p \<and> p_lobby_id (f p) = p_lobby_id p)"

definition keeps_members :: "(lobby_data \<Rightarrow> lobby_data) \<Rightarrow> bool" where
  "keeps_members f \<longleftrightarrow> (\<forall>l. l_id (f l) = l_id l \<and> l_peer_ids (f l) = l_peer_ids l \<and>
     l_peer_ordered_ids (f l) = l_peer_ordered_ids l \<and> l_host (f l) = l_host l \<and>
     l_max_players (f l) = l_max_players l \<and> l_disband_on_leave (f l) = l_disband_on_leave l)"

lemma unscripted_update [simp]:
  "unscripted (g_last_send_time_update f1 g) = unscripted g"
  "unscripted (g_last_tick_time_update f2 g) = unscripted g"
  "unscripted (g_peers_send_data_update f3 g) = unscripted g"
  "unscripted (g_peers_update f4 g) = unscripted g"
  "unscripted (g_disconnected_peers_update f5 g) = unscripted g"
  "unscripted (g_lobbies_update f6 g) = unscripted g"
  "unscripted (g_lobby_listing_peers_update f7 g) = unscripted g"
  "unscripted (g_lobbies_updated_update f8 g) = unscripted g"
  by (simp_all add: unscripted_def)

lemma stays_game:
  assumes "stays E c0 c" "faults c' = faults c" "uuid_count c' = uuid_count c"
    "unscripted (game c') = unscripted (game c)" "config (game c') = config (game c)"
    "g_peers (game c') = g_peers (game c)" "g_lobbies (game c') = g_lobbies (game c)"
  shows "stays E c0 c'"
proof -
  have "strict_game E n (game c') = strict_game E n (game c)" for n
    using assms(6,7) by (rule strict_game_cong)
  moreover have "links (game c') = links (game c)"
    using assms(6,7) by (simp add: links_def)
  moreover have "g_disband_on_leave (game c') = g_disband_on_leave (game c)"
    using assms(5) by (simp add: config_def)
  ultimately show ?thesis
    using assms(1-5) by (simp add: stays_def sound_def)
qed

lemma stays_same_state: "stays E c0 c \<Longrightarrow> state_of c' = state_of c \<Longrightarrow> stays E c0 c'"
  using state_of_fields [of c' c]
  by (elim stays_game) (simp_all add: unscripted_def config_def)

lemma stays_send: "stays E c0 c \<Longrightarrow> stays E c0 (send p m op c)"
  by (erule stays_same_state) simp

lemma stays_on_error: "stays E c0 c \<Longrightarrow> stays E c0 (on_error E' i p m cl le c)"
  by (erule stays_same_state) simp

lemma stays_send_loop: "stays E c0 c \<Longrightarrow> stays E c0 (send_loop ids m c)"
  by (erule stays_same_state) simp

lemma stays_send_others: "stays E c0 c \<Longrightarrow> stays E c0 (send_others me ids m c)"
  by (erule stays_same_state) simp

lemma stays_upd_game:
  assumes "stays E c0 c" "\<And>g. unscripted (f g) = unscripted g" "\<And>g. config (f g) = config g"
    "\<And>g. g_peers (f g) = g_peers g" "\<And>g. g_lobbies (f g) = g_lobbies g"
  shows "stays E c0 (upd_game f c)"
  using assms by (auto intro!: stays_game [OF assms(1)])

lemma stays_mark_updated: "stays E c0 c \<Longrightarrow> stays E c0 (mark_updated k c)"
  unfolding mark_updated_def by (rule stays_upd_game) simp_all

lemma stays_touch_peer: "stays E c0 c \<Longrightarrow> has_peer c0 k \<Longrightarrow> stays E c0 (touch_peer k c)"
  using stays_has_peer by (simp add: touch_peer_def)

lemma stays_touch_lobby: "stays E c0 c \<Longrightarrow> has_lobby c0 k \<Longrightarrow> stays E c0 (touch_lobby k c)"
  using stays_has_lobby by (simp add: touch_lobby_def)

lemma stays_set_peer:
  assumes c: "stays E c0 c" and k: "has_peer c0 k" and f: "keeps_link f"
  shows "stays E c0 (set_peer k f c)"
proof -
  obtain p where p: "map_of (g_peers (game c)) k = Some p"
    using stays_has_peer [OF c, of k] k by (auto simp: has_peer_def fm_has_def)
  let ?g = "(game c)\<lparr>g_peers := fm_put k (f p) (g_peers (game c))\<rparr>"
  have fp: "p_id (f p) = p_id p" "p_lobby_id (f p) = p_lobby_id p" using f by (simp_all add: keeps_link_def)
  have s: "strict_game E (uuid_count c) (game c)" using c by (simp add: stays_def sound_def)
  have "wf_game E (uuid_count c) ?g"
    using s wf_game_peer [OF _ p] fp by (intro wf_game_put_peer) (auto simp: strict_game_def wf_peer_iff)
  moreover have "full_lobby (g_peers ?g) j l" if "map_of (g_lobbies (game c)) j = Some l" for j l
  proof -
    have "map_option p_lobby_id (map_of (g_peers ?g) i) = map_option p_lobby_id (map_of (g_peers (game c)) i)" for i
      using fp p by simp
    then show ?thesis
      using s that by (simp add: strict_game_iff full_lobby_def)
  qed
  ultimately have "strict_game E (uuid_count c) ?g" by (simp add: strict_game_iff)
  moreover have "links ?g = links (game c)"
    using p fp by (auto simp: links_def fun_eq_iff)
  ultimately show ?thesis
    using c p by (simp add: stays_def sound_def set_peer_def)
qed

lemma stays_set_lobby_gen:
  assumes c: "stays E c0 c" and k: "has_lobby c0 k"
    and f: "\<And>l. l_id (f l) = l_id l" "\<And>l. l_peer_ids (f l) = l_peer_ids l"
      "\<And>l. l_peer_ordered_ids (f l) = l_peer_ordered_ids l" "\<And>l. l_host (f l) = l_host l"
      "\<And>l. l_disband_on_leave (f l) = l_disband_on_leave l"
      "\<And>l. map_of (g_lobbies (game c)) k = Some l \<Longrightarrow>
        size_le (length (l_peer_ids l)) (l_max_players l) \<Longrightarrow>
        size_le (length (l_peer_ids l)) (l_max_players (f l))"
  shows "stays E c0 (set_lobby k f c)"
proof -
  obtain l where l: "map_of (g_lobbies (game c)) k = Some l"
    using stays_has_lobby [OF c, of k] k by (auto simp: has_lobby_def fm_has_def)
  let ?g = "(game c)\<lparr>g_lobbies := fm_put k (f l) (g_lobbies (game c))\<rparr>"
  have s: "strict_game E (uuid_count c) (game c)" using c by (simp add: stays_def sound_def)
  then have w: "wf_game E (uuid_count c) (game c)" by (simp add: strict_game_def)
  have "wf_game E (uuid_count c) ?g"
  proof (rule wf_game_put_lobby [OF w])
    show "wf_lobby E (uuid_count c) k (f l)"
      using wf_game_lobby [OF w l] f by (simp add: wf_lobby_def)
    show "j \<in> set (l_peer_ids (f l))"
      if "map_of (g_peers (game c)) j = Some p" "p_lobby_id p = k" "k \<noteq> []" for j p
      using wf_game_peer [OF w that(1)] that l f by (auto simp: wf_peer_iff)
  qed
  moreover have "full_lobby (g_peers ?g) j l'" if "map_of (g_lobbies ?g) j = Some l'" for j l'
    using s that f l by (auto simp: strict_game_iff full_lobby_def split: if_splits)
  ultimately have "strict_game E (uuid_count c) ?g" by (simp add: strict_game_iff)
  moreover have "links ?g = links (game c)"
    using l f by (auto simp: links_def fun_eq_iff)
  ultimately show ?thesis
    using c l by (simp add: stays_def sound_def set_lobby_def)
qed

lemma stays_set_lobby:
  "stays E c0 c \<Longrightarrow> has_lobby c0 k \<Longrightarrow> keeps_members f \<Longrightarrow> stays E c0 (set_lobby k f c)"
  by (rule stays_set_lobby_gen) (simp_all add: keeps_members_def)

lemma stays_fold:
  "stays E c0 c \<Longrightarrow> (\<And>x c. x \<in> set xs \<Longrightarrow> stays E c0 c \<Longrightarrow> stays E c0 (f x c)) \<Longrightarrow>
   stays E c0 (fold f xs c)"
  by (induction xs arbitrary: c) auto

lemma stays_call_script: "stays E c0 c \<Longrightarrow> call_script E' p l f args c = (ANull, False, c)"
proof -
  assume "stays E c0 c"
  then have "\<not> lua_enabled (g_lua (game c))" by (simp add: stays_def sound_def unscripted_def)
  then show ?thesis
    by (cases "lua_c_depth E'") (simp_all add: call_script_def scripted_call_def)
qed

lemma stays_no_callback: "stays E c0 c \<Longrightarrow> \<not> has_callback c f"
  by (simp add: stays_def sound_def unscripted_def has_callback_def)

lemma stays_ask_script: "stays E c0 c \<Longrightarrow> ask_script E' oe f i p l args c = (True, c)"
  using stays_no_callback by (simp add: ask_script_def)

lemma stays_ask: "stays E c0 c \<Longrightarrow> stays E c0 (snd (ask_script E' oe f i p l args c))"
  by (simp add: stays_ask_script)

lemmas stays_basics = stays_send stays_on_error stays_send_loop stays_send_others
  stays_mark_updated stays_touch_peer stays_touch_lobby stays_ask

end
