(* ===== verification/Sound_Handlers.thy ===== *)
theory Sound_Handlers
  imports Membership
begin

text \<open>
  The handlers that leave membership alone, one \<open>stays\<close> lemma each: data, notifications, chat,
  tags, user data, ready state, sealing, size, title, password, listing and closing.
\<close>

lemma stays_own_lobby:
  "stays E c0 c \<Longrightarrow> sound E c0 \<Longrightarrow> p_lobby_id (peer_at c pid) \<noteq> [] \<Longrightarrow> has_lobby c0 (p_lobby_id (peer_at c pid))"
  using sound_own_lobby(1) by (simp add: stays_lobby_id)

lemma stays_member:
  "stays E c0 c \<Longrightarrow> sound E c0 \<Longrightarrow> k \<in> set (l_peer_ids (lobby_at c lid)) \<Longrightarrow> has_peer c0 k"
  using sound_member(1) by (simp add: stays_ids)

lemma keeps_link_store: "keeps_link (fold (peer_store b) kvs)"
proof -
  have 1: "p_id (peer_store b kv p) = p_id p" "p_lobby_id (peer_store b kv p) = p_lobby_id p" for kv p
    by (simp_all add: peer_store_def split: prod.split)
  have "p_id (fold (peer_store b) kvs p) = p_id p \<and>
      p_lobby_id (fold (peer_store b) kvs p) = p_lobby_id p" for p
    by (induction kvs arbitrary: p) (simp_all add: 1)
  then show ?thesis unfolding keeps_link_def by blast
qed

lemma keeps_members_store: "keeps_members (fold (lobby_store b) kvs)"
proof -
  have 1: "l_id (lobby_store b kv l) = l_id l \<and> l_peer_ids (lobby_store b kv l) = l_peer_ids l \<and>
    l_peer_ordered_ids (lobby_store b kv l) = l_peer_ordered_ids l \<and> l_host (lobby_store b kv l) = l_host l \<and>
    l_max_players (lobby_store b kv l) = l_max_players l \<and>
    l_disband_on_leave (lobby_store b kv l) = l_disband_on_leave l" for kv l
    by (simp add: lobby_store_def split: prod.split)
  show ?thesis
    unfolding keeps_members_def by (induction kvs) (simp_all add: 1)
qed

lemma stays_touch_own:
  "stays E c0 c \<Longrightarrow> sound E c0 \<Longrightarrow> stays E c0 (touch_own_lobby (peer_at c0 pid) c)"
  unfolding touch_own_lobby_def
  by (auto intro!: stays_touch_lobby simp: sound_own_lobby)

lemma stays_lobby_data_notify:
  "stays E c0 c \<Longrightarrow> has_lobby c0 lid \<Longrightarrow> stays E c0 (lobby_data_notify E' i me lid c)"
  unfolding lobby_data_notify_def Let_def
  by (auto intro!: stays_basics stays_set_lobby simp: keeps_members_def)

lemma stays_peer_data_notify:
  "stays E c0 c \<Longrightarrow> has_peer c0 k \<Longrightarrow> stays E c0 (peer_data_notify E' me lid k n c)"
  unfolding peer_data_notify_def Let_def
  by (auto intro!: stays_basics stays_set_peer simp: keeps_link_def)

lemma host_relay_ok:
  "host_relay_refusal c p = None \<Longrightarrow> p_lobby_id p \<noteq> []"
  by (auto simp: host_relay_refusal_def split: if_splits)

lemma stays_on_lobby_data: "sound E c \<Longrightarrow> stays E c (on_lobby_data E' i pid data c)"
proof -
  assume s: "sound E c"
  let ?c = "touch_own_lobby (peer_at c pid) c"
  have c1: "stays E c ?c" using stays_touch_own [OF stays_refl [OF s] s] .
  have "has_lobby c (p_lobby_id (peer_at c pid))" if "host_relay_refusal ?c (peer_at c pid) = None"
    using sound_own_lobby(1) [OF s] host_relay_ok [OF that] .
  then show ?thesis
    unfolding on_lobby_data_def Let_def
    by (auto intro!: c1 stays_on_error stays_lobby_data_notify stays_set_lobby keeps_members_store
        split: option.split sum.split)
qed

lemma stays_on_data_to: "sound E c \<Longrightarrow> stays E c (on_data_to E' i pid data c)"
proof -
  assume s: "sound E c"
  let ?c = "touch_own_lobby (peer_at c pid) c"
  have c1: "stays E c ?c" using stays_touch_own [OF stays_refl [OF s] s] .
  show ?thesis
    unfolding on_data_to_def Let_def
    by (auto intro!: c1 stays_basics stays_peer_data_notify stays_set_peer keeps_link_store
        intro: stays_member [OF c1 s] split: option.split sum.split)
qed

lemma stays_on_data_to_all: "sound E c \<Longrightarrow> stays E c (on_data_to_all E' i pid data c)"
proof -
  assume s: "sound E c"
  let ?c = "touch_own_lobby (peer_at c pid) c"
  have c1: "stays E c ?c" using stays_touch_own [OF stays_refl [OF s] s] .
  show ?thesis
    unfolding on_data_to_all_def Let_def
    by (auto intro!: c1 stays_basics stays_fold stays_peer_data_notify stays_set_peer keeps_link_store
        intro: stays_member [OF c1 s] split: option.split sum.split)
qed

lemma stays_on_notify_to: "sound E c \<Longrightarrow> stays E c (on_notify_to E' i pid data c)"
proof -
  assume s: "sound E c"
  let ?c = "touch_own_lobby (peer_at c pid) c"
  have c1: "stays E c ?c" using stays_touch_own [OF stays_refl [OF s] s] .
  show ?thesis
    unfolding on_notify_to_def Let_def
    by (auto intro!: c1 stays_basics intro: stays_member [OF c1 s] split: option.split sum.split)
qed

lemma stays_on_lobby_notify: "sound E c \<Longrightarrow> stays E c (on_lobby_notify E' i pid data c)"
  unfolding on_lobby_notify_def Let_def
  by (auto intro!: stays_refl stays_basics sound_own_lobby(1) split: sum.split)

lemma stays_on_lobby_call: "sound E c \<Longrightarrow> stays E c (on_lobby_call E' i pid data c)"
  unfolding on_lobby_call_def Let_def
  by (auto intro!: stays_refl stays_basics simp: stays_call_script [OF stays_refl] split: any_element.split)

lemma stays_on_list_lobby:
  assumes s: "sound E c" and order: "\<And>ks. set (bucket_order E' ks) \<subseteq> set ks"
  shows "stays E c (on_list_lobby E' i pid data c)"
proof -
  let ?c = "upd_game (\<lambda>g. g\<lparr>g_lobby_listing_peers := fs_insert (p_id (peer_at c pid)) (g_lobby_listing_peers g)\<rparr>) c"
  have c1: "stays E c ?c"
    by (rule stays_upd_game [OF stays_refl [OF s]]) simp_all
  have "has_lobby c (l_id (lobby_at ?c k))" if "k \<in> set (bucket_order E' (map fst (g_lobbies (game ?c))))" for k
  proof -
    have "k \<in> set (map fst (g_lobbies (game ?c)))" using subsetD [OF order that] .
    then have k: "has_lobby c k" by (simp add: has_lobby_def fm_has_iff)
    then have "l_id (lobby_at ?c k) = k"
      using sound_lobby_id [OF stays_sound [OF c1], of k] stays_has_lobby [OF c1] by simp
    then show ?thesis using k by simp
  qed
  then have sel: "has_lobby c x" if "x \<in> set (map l_id (take n (sort_key f (filter P (map (lobby_at ?c)
      (bucket_order E' (map fst (g_lobbies (game ?c)))))))))" for x n f P
    using that by (auto dest!: in_set_takeD)
  show ?thesis
    unfolding on_list_lobby_def Let_def
    by (auto intro!: stays_refl s c1 stays_basics stays_fold intro: sel simp del: upd_game_fields)
qed

lemma stays_on_stop_list_lobby: "sound E c \<Longrightarrow> stays E c (on_stop_list_lobby E' i pid data c)"
  unfolding on_stop_list_lobby_def Let_def
  by (auto intro!: stays_refl stays_basics stays_upd_game)

lemma stays_on_chat_lobby: "sound E c \<Longrightarrow> stays E c (on_chat_lobby E' i pid data c)"
proof -
  assume s: "sound E c"
  have c1: "stays E c (touch_lobby (p_lobby_id (peer_at c pid)) c)" if "p_lobby_id (peer_at c pid) \<noteq> []"
    using stays_touch_lobby stays_refl s sound_own_lobby(1) [OF s that] by blast
  have here: "stays E c (touch_lobby (p_lobby_id (peer_at c' pid)) c')"
    if "stays E c c'" "p_lobby_id (peer_at c pid) \<noteq> []" for c'
    using that stays_touch_lobby sound_own_lobby(1) [OF s that(2)] by (simp add: stays_lobby_id)
  show ?thesis
    unfolding on_chat_lobby_def Let_def split_beta
    by (auto intro!: stays_refl s c1 here stays_send stays_on_error stays_send_others stays_ask)
qed

lemma stays_on_lobby_tags: "sound E c \<Longrightarrow> stays E c (on_lobby_tags E' i pid data c)"
proof -
  assume s: "sound E c"
  have c1: "stays E c (touch_lobby (p_lobby_id (peer_at c pid)) c)" if "p_lobby_id (peer_at c pid) \<noteq> []"
    using stays_touch_lobby stays_refl s sound_own_lobby(1) [OF s that] by blast
  have here: "stays E c (touch_lobby (p_lobby_id (peer_at c' pid)) c')"
    if "stays E c c'" "p_lobby_id (peer_at c pid) \<noteq> []" for c'
    using that stays_touch_lobby sound_own_lobby(1) [OF s that(2)] by (simp add: stays_lobby_id)
  show ?thesis
    unfolding on_lobby_tags_def Let_def split_beta
    by (auto intro!: stays_refl s c1 here stays_send stays_on_error stays_send_others stays_ask
        stays_mark_updated stays_set_lobby sound_own_lobby(1) simp: keeps_members_def split: sum.split)
qed

lemma stays_on_user_data: "sound E c \<Longrightarrow> has_peer c pid \<Longrightarrow> stays E c (on_user_data E' i pid data c)"
proof -
  assume s: "sound E c" and pid: "has_peer c pid"
  have c1: "stays E c (set_peer pid (\<lambda>p. p\<lparr>p_user_data := f p\<rparr>) c)" for f
    using stays_refl [OF s] pid by (rule stays_set_peer) (simp add: keeps_link_def)
  have here: "stays E c (touch_lobby (p_lobby_id (peer_at c' pid)) c')"
    if "stays E c c'" "p_lobby_id (peer_at c' pid) \<noteq> []" for c'
    using that stays_touch_lobby sound_own_lobby(1) [OF s] by (simp add: stays_lobby_id)
  show ?thesis
    unfolding on_user_data_def Let_def
    by (auto intro!: stays_refl s c1 here stays_send stays_on_error stays_send_others split: sum.split)
qed

lemma stays_change_ready:
  "sound E c \<Longrightarrow> has_peer c pid \<Longrightarrow> p_lobby_id (peer_at c pid) \<noteq> [] \<Longrightarrow> stays E c (change_ready E' b i pid c)"
  unfolding change_ready_def set_lobby_ready_def Let_def
  by (auto intro!: stays_refl stays_basics stays_set_peer sound_own_lobby(1)
      simp: stays_no_callback [OF stays_refl] keeps_link_def)

lemma stays_on_lobby_ready:
  "sound E c \<Longrightarrow> has_peer c pid \<Longrightarrow> stays E c (on_lobby_ready E' i pid data c)"
  "sound E c \<Longrightarrow> has_peer c pid \<Longrightarrow> stays E c (on_lobby_unready E' i pid data c)"
  unfolding on_lobby_ready_def on_lobby_unready_def Let_def
  by (auto intro!: stays_refl stays_on_error stays_change_ready)

lemma stays_change_seal: "sound E c \<Longrightarrow> stays E c (change_seal E' b i pid c)"
  unfolding change_seal_def set_lobby_sealed_def Let_def split_beta
  by (auto intro!: stays_refl stays_basics stays_set_lobby sound_own_lobby(1) simp: keeps_members_def)

lemma stays_on_lobby_max_players: "sound E c \<Longrightarrow> stays E c (on_lobby_max_players E' i pid data c)"
proof -
  assume s: "sound E c"
  let ?lid = "p_lobby_id (peer_at c pid)"
  let ?m = "decode_int_or_default (double_to_int E') data ''m'' 0"
  have same: "touch_lobby ?lid c = c" if "?lid \<noteq> []"
    using sound_own_lobby(1) [OF s that] by (simp add: touch_lobby_def)
  have set: "stays E c (set_lobby ?lid (\<lambda>l. l\<lparr>l_max_players := ?m\<rparr>) c)"
    if "?lid \<noteq> []" "size_le (length (l_peer_ids (lobby_at c ?lid))) ?m"
    using that stays_refl [OF s] sound_own_lobby(1) [OF s that(1)]
    by (intro stays_set_lobby_gen) (simp_all add: lobby_at_def)
  show ?thesis
    unfolding on_lobby_max_players_def Let_def stays_ask_script [OF stays_refl [OF s]]
    by (auto simp: same stays_ask_script [OF stays_refl [OF s]]
        intro!: stays_refl s stays_send stays_on_error stays_send_others stays_mark_updated set)
qed

lemma stays_on_lobby_title: "sound E c \<Longrightarrow> stays E c (on_lobby_title E' i pid data c)"
  unfolding on_lobby_title_def Let_def split_beta
  by (auto intro!: stays_refl stays_basics stays_set_lobby sound_own_lobby(1) simp: keeps_members_def)

lemma stays_on_lobby_password: "sound E c \<Longrightarrow> stays E c (on_lobby_password E' i pid data c)"
  unfolding on_lobby_password_def Let_def
  by (auto intro!: stays_refl stays_basics stays_set_lobby sound_own_lobby(1) simp: keeps_members_def)

lemma stays_on_close:
  assumes s: "sound E c"
  shows "stays E c (on_close E' pid c)"
proof -
  have c1: "stays E c (upd_game (\<lambda>g. g\<lparr>g_lobby_listing_peers := fs_erase pid (g_lobby_listing_peers g)\<rparr>) c)"
    using stays_refl [OF s] by (rule stays_upd_game) simp_all
  show ?thesis
    unfolding on_close_def Let_def
    by (auto intro!: c1 stays_ask stays_send_others stays_upd_game stays_set_peer
        simp: keeps_link_def stays_has_peer [OF c1])
qed

end
