(* ===== verification/Sound_Moves.thy ===== *)
theory Sound_Moves
  imports Sound_Handlers
begin

text \<open>
  The operations that change membership, each with the exact shape of its result where it
  succeeds, keep \<open>sound\<close>: leaving, kicking, the sweep over disconnected peers, connecting,
  creating, joining and quick join. \<open>sound_plays\<close> puts them together for any sequence of events.
\<close>

definition only_peers :: "ctx \<Rightarrow> ctx \<Rightarrow> bool" where
  "only_peers c c' \<longleftrightarrow>
    faults c' = faults c \<and> uuid_count c' = uuid_count c \<and> config (game c') = config (game c) \<and>
    unscripted (game c') = unscripted (game c) \<and> g_lobbies (game c') = g_lobbies (game c)"

lemma only_peers_refl: "only_peers c c"
  by (simp add: only_peers_def)

lemma only_peers_trans: "only_peers a b \<Longrightarrow> only_peers b c \<Longrightarrow> only_peers a c"
  by (simp add: only_peers_def)

lemma only_peers_send: "only_peers a c \<Longrightarrow> only_peers a (send p m op c)"
  using state_of_fields [OF state_of_send [of p m op c]]
  by (simp add: only_peers_def unscripted_def config_def)

definition leavers :: "(string \<Rightarrow> bool) \<Rightarrow> ctx \<Rightarrow> ctx \<Rightarrow> bool" where
  "leavers Q c c' \<longleftrightarrow> only_peers c c' \<and>
    (\<forall>j. map_of (g_peers (game c')) j =
      (if Q j then map_option leave_lobby (map_of (g_peers (game c)) j) else map_of (g_peers (game c)) j))"

lemma leave_present:
  assumes "has_peer c k"
  shows "leavers (\<lambda>j. j = k) c (set_peer k leave_lobby c)"
  using assms
  by (auto simp: leavers_def only_peers_def has_peer_def fm_has_def set_peer_def)

lemma leavers_send: "leavers Q c c' \<Longrightarrow> leavers Q c (send p m op c')"
  by (simp add: leavers_def only_peers_send)

lemma leavers_none: "leavers (\<lambda>_. False) c c"
  by (simp add: leavers_def only_peers_refl)

lemma leavers_trans:
  assumes "leavers Q c c'" "leavers R c' c''" "\<And>j. \<not> (Q j \<and> R j)"
  shows "leavers (\<lambda>j. Q j \<or> R j) c c''"
  using assms by (auto simp: leavers_def intro: only_peers_trans)

lemma leavers_has_peer: "leavers Q c c' \<Longrightarrow> has_peer c' k = has_peer c k"
  by (auto simp: leavers_def has_peer_def fm_has_def)

lemma leavers_cong: "leavers Q c c' \<Longrightarrow> (\<And>j. Q j = R j) \<Longrightarrow> leavers R c c'"
  by (simp add: leavers_def)

text \<open>The three loops of \<open>remove_peer_from_lobby\<close>: the chosen members leave, others are told.\<close>

lemma leavers_loop:
  assumes "distinct ids" "\<And>k. k \<in> set ids \<Longrightarrow> has_peer c k"
    and "\<And>k c0. k \<in> set ids \<Longrightarrow> has_peer c0 k \<Longrightarrow> leavers (\<lambda>j. j = k \<and> Q k) c0 (f k c0)"
  shows "leavers (\<lambda>j. j \<in> set ids \<and> Q j) c (fold f ids c)"
  using assms
proof (induction ids arbitrary: c)
  case Nil
  then show ?case by (simp add: leavers_none)
next
  case (Cons k ids)
  have k: "leavers (\<lambda>j. j = k \<and> Q k) c (f k c)" using Cons.prems by simp
  have "leavers (\<lambda>j. j \<in> set ids \<and> Q j) (f k c) (fold f ids (f k c))"
    using Cons.prems leavers_has_peer [OF k] by (intro Cons.IH) auto
  with k have "leavers (\<lambda>j. (j = k \<and> Q k) \<or> (j \<in> set ids \<and> Q j)) c (fold f ids (f k c))"
    using Cons.prems(1) by (intro leavers_trans) auto
  then show ?case
    by (simp, elim leavers_cong) auto
qed

lemma touch_present: "has_peer c k \<Longrightarrow> touch_peer k c = c"
  by (simp add: touch_peer_def)

lemma leavers_disband:
  assumes "distinct (l_peer_ids (lobby_at c lid))" "\<And>k. k \<in> set (l_peer_ids (lobby_at c lid)) \<Longrightarrow> has_peer c k"
  shows "leavers (\<lambda>j. j \<in> set (l_peer_ids (lobby_at c lid))) c (remove_disband E lid pid i c)"
proof -
  have "leavers (\<lambda>j. j \<in> set (l_peer_ids (lobby_at c lid)) \<and> True) c
      (fold (\<lambda>k c. let c = set_peer k leave_lobby (touch_peer k c)
        in if k = pid then c else send k (notification_lobby_kicked (yyjson_mut_write E)) OpText c)
        (l_peer_ids (lobby_at c lid)) c)"
    by (rule leavers_loop [OF assms])
       (auto simp: Let_def touch_present leave_present intro!: leavers_send)
  then show ?thesis
    unfolding remove_disband_def Let_def by (intro leavers_send) simp
qed

lemma leavers_member:
  assumes "distinct (l_peer_ids (lobby_at c lid))" "\<And>k. k \<in> set (l_peer_ids (lobby_at c lid)) \<Longrightarrow> has_peer c k"
  shows "leavers (\<lambda>j. j \<in> set (l_peer_ids (lobby_at c lid)) \<and> j = pid) c (remove_member E lid pid i kicked c)"
proof -
  have "leavers (\<lambda>j. j \<in> set (l_peer_ids (lobby_at c lid)) \<and> j = pid) c
      (fold (\<lambda>k c. let c = touch_peer k c; c = (if k = pid then set_peer k leave_lobby c else c)
        in if kicked \<and> k = h then c else if k = pid then c else send k m OpText c)
        (l_peer_ids (lobby_at c lid)) c)" for h m
    by (rule leavers_loop [OF assms])
       (auto simp: Let_def touch_present leave_present leavers_none intro!: leavers_send)
  from this [unfolded Let_def] show ?thesis
    unfolding remove_member_def Let_def
    by (auto intro!: leavers_send)
qed


lemma sound_wf: "sound E c \<Longrightarrow> wf_game E (uuid_count c) (game c)"
  by (simp add: sound_def strict_game_def)

lemma sound_consistent: "sound E c \<Longrightarrow> consistent E c"
  by (simp add: consistent_def sound_wf)

lemma sound_full: "sound E c \<Longrightarrow> map_of (g_lobbies (game c)) k = Some l \<Longrightarrow> full_lobby (g_peers (game c)) k l"
  by (simp add: sound_def strict_game_iff)

lemma sound_wf_lobby: "sound E c \<Longrightarrow> map_of (g_lobbies (game c)) k = Some l \<Longrightarrow> wf_lobby E (uuid_count c) k l"
  using wf_game_lobby [OF sound_wf] .

lemma soundI:
  assumes "consistent E c" "faults c = []" "fresh_uuids E (uuid_count c)" "unscripted (game c)"
    "g_disband_on_leave (game c)"
    "\<And>k l. map_of (g_lobbies (game c)) k = Some l \<Longrightarrow> full_lobby (g_peers (game c)) k l"
  shows "sound E c"
  using assms by (simp add: sound_def strict_game_iff consistent_def)

text \<open>What \<open>remove_peer_from_lobby\<close> does to a member of a lobby, without scripts.\<close>

lemma remove_shape:
  assumes s: "sound E c" and l: "map_of (g_lobbies (game c)) lid = Some l"
    and pid: "pid \<in> set (l_peer_ids l)"
  obtains Q where
    "Q = (\<lambda>j. j \<in> set (l_peer_ids l) \<and> (pid = l_host l \<or> j = pid))"
    "faults (remove_peer_from_lobby call E' lid pid i kicked c) = []"
    "uuid_count (remove_peer_from_lobby call E' lid pid i kicked c) = uuid_count c"
    "unscripted (game (remove_peer_from_lobby call E' lid pid i kicked c))"
    "config (game (remove_peer_from_lobby call E' lid pid i kicked c)) = config (game c)"
    "\<And>j. map_option p_lobby_id (map_of (g_peers (game (remove_peer_from_lobby call E' lid pid i kicked c))) j) =
      (if Q j then Some [] else map_option p_lobby_id (map_of (g_peers (game c)) j))"
    "map_of (g_lobbies (game (remove_peer_from_lobby call E' lid pid i kicked c))) =
      (if pid = l_host l then (map_of (g_lobbies (game c)))(lid := None)
       else (map_of (g_lobbies (game c)))(lid \<mapsto> without pid l))"
proof -
  let ?Q = "\<lambda>j. j \<in> set (l_peer_ids l) \<and> (pid = l_host l \<or> j = pid)"
  have la: "lobby_at c lid = l" using l by (simp add: lobby_at_def)
  have wl: "wf_lobby E (uuid_count c) lid l" using sound_wf_lobby [OF s l] .
  have fl: "full_lobby (g_peers (game c)) lid l" using sound_full [OF s l] .
  have dist: "distinct (l_peer_ids (lobby_at c lid))"
    using wl by (simp add: la wf_lobby_def fs_wf_distinct)
  have there: "\<And>k. k \<in> set (l_peer_ids (lobby_at c lid)) \<Longrightarrow> has_peer c k"
    using sound_member(1) [OF s] .
  have db: "g_disband_on_leave (game c)" and uns: "unscripted (game c)" and f: "faults c = []"
    using s by (simp_all add: sound_def)
  define c1 where "c1 = (if pid = l_host l then remove_disband E' lid pid i c
    else remove_member E' lid pid i kicked c)"
  have "leavers (\<lambda>j. j \<in> set (l_peer_ids l)) c (remove_disband E' lid pid i c)"
    "leavers (\<lambda>j. j \<in> set (l_peer_ids l) \<and> j = pid) c (remove_member E' lid pid i kicked c)"
    using leavers_disband [OF dist there] leavers_member [OF dist there] by (simp_all add: la)
  then have c1: "leavers ?Q c c1"
    unfolding c1_def by (auto elim: leavers_cong)
  then have c1': "faults c1 = []" "uuid_count c1 = uuid_count c" "config (game c1) = config (game c)"
    "unscripted (game c1)" "g_lobbies (game c1) = g_lobbies (game c)"
    using uns f by (simp_all add: leavers_def only_peers_def)
  obtain p where p: "map_of (g_peers (game c)) pid = Some p"
    using there pid la by (auto simp: has_peer_def fm_has_def)
  have p1: "map_of (g_peers (game c1)) pid = Some (leave_lobby p)"
    using c1 p pid by (simp add: leavers_def)
  have nocb: "\<not> has_callback c1 ''_on_peer_leave''"
    using c1'(4) by (simp add: unscripted_def has_callback_def)
  have r: "remove_peer_from_lobby call E' lid pid i kicked c = detach_peer (pid = l_host l) lid pid c1"
    using db nocb unfolding remove_peer_from_lobby_def Let_def la c1_def by (auto simp: has_callback_def)
  have l1: "map_of (g_lobbies (game c1)) lid = Some l" using c1'(5) l by simp
  note d = detach_peer_present [OF p1 l1, of "pid = l_host l"]
  have db1: "g_disband_on_leave (game c1)" using c1'(3) db by (simp add: config_def)
  have nonempty: "fs_erase pid (l_peer_ids l) \<noteq> []" if "pid \<noteq> l_host l"
    using fl that by (auto simp: full_lobby_def fs_erase_Nil_iff)
  show thesis
  proof (rule that [OF refl])
    show "faults (remove_peer_from_lobby call E' lid pid i kicked c) = []"
      "uuid_count (remove_peer_from_lobby call E' lid pid i kicked c) = uuid_count c"
      "config (game (remove_peer_from_lobby call E' lid pid i kicked c)) = config (game c)"
      unfolding r using d c1' by simp_all
    show "map_option p_lobby_id (map_of (g_peers (game (remove_peer_from_lobby call E' lid pid i kicked c))) j) =
      (if ?Q j then Some [] else map_option p_lobby_id (map_of (g_peers (game c)) j))" for j
      unfolding r d(3) using c1 there [of j] la pid
      by (auto simp: leavers_def has_peer_def fm_has_def leave_lobby_def)
    show "map_of (g_lobbies (game (remove_peer_from_lobby call E' lid pid i kicked c))) =
      (if pid = l_host l then (map_of (g_lobbies (game c)))(lid := None)
       else (map_of (g_lobbies (game c)))(lid \<mapsto> without pid l))"
      unfolding r d(5) using db1 nonempty wl c1'(5)
      by (auto simp: wf_lobby_def fm_erase_put_same)
    have "unscripted (game (detach_peer h lid pid c1)) = unscripted (game c1)" for h
      using p1 l1 by (simp add: detach_peer_def Let_def touch_present has_peer_def fm_has_def set_peer_def
          set_lobby_def mark_updated_def)
    then show "unscripted (game (remove_peer_from_lobby call E' lid pid i kicked c))"
      unfolding r using c1'(4) by simp
  qed
qed

lemma sound_remove:
  assumes s: "sound E c" and pid: "pid \<in> set (l_peer_ids (lobby_at c lid))"
  shows "sound E (remove_peer_from_lobby (call_script E') E' lid pid i kicked c)"
proof -
  obtain l where l: "map_of (g_lobbies (game c)) lid = Some l"
    using sound_member(3) [OF s pid] by (auto simp: has_lobby_def fm_has_def)
  have pl: "pid \<in> set (l_peer_ids l)" using pid l by (simp add: lobby_at_def)
  let ?c = "remove_peer_from_lobby (call_script E') E' lid pid i kicked c"
  obtain Q where Q: "Q = (\<lambda>j. j \<in> set (l_peer_ids l) \<and> (pid = l_host l \<or> j = pid))"
    and r: "faults ?c = []" "uuid_count ?c = uuid_count c" "unscripted (game ?c)"
      "config (game ?c) = config (game c)"
      "\<And>j. map_option p_lobby_id (map_of (g_peers (game ?c)) j) =
        (if Q j then Some [] else map_option p_lobby_id (map_of (g_peers (game c)) j))"
      "map_of (g_lobbies (game ?c)) = (if pid = l_host l then (map_of (g_lobbies (game c)))(lid := None)
       else (map_of (g_lobbies (game c)))(lid \<mapsto> without pid l))"
    using remove_shape [OF s l pl] by metis
  show ?thesis
  proof (rule soundI)
    have "steps E c ?c" using steps.remove [OF steps.call_script steps_refl [OF sound_consistent [OF s]]] .
    then show "consistent E ?c" by (rule steps_inv)
    show "faults ?c = []" "unscripted (game ?c)" by (rule r)+
    show "fresh_uuids E (uuid_count ?c)" "g_disband_on_leave (game ?c)"
      using s r(2,4) by (simp_all add: sound_def config_def)
    fix k m assume m: "map_of (g_lobbies (game ?c)) k = Some m"
    have other: "\<not> Q j" if "k \<noteq> lid" "map_option p_lobby_id (map_of (g_peers (game c)) j) = Some k" for j
      using sound_full [OF s l] that by (auto simp: Q full_lobby_def)
    show "full_lobby (g_peers (game ?c)) k m"
    proof (cases "k = lid")
      case True
      then have h: "pid \<noteq> l_host l" "m = without pid l" using m r(6) by (auto split: if_splits)
      have fl: "full_lobby (g_peers (game c)) lid l" using sound_full [OF s l] .
      have "size_le (length (fs_erase pid (l_peer_ids l))) (l_max_players l)"
        using fl length_fs_erase_le [of pid "l_peer_ids l"] by (simp add: full_lobby_def size_le_def)
      then show ?thesis
        using fl h True by (auto simp: full_lobby_def without_def r(5) Q)
    next
      case False
      then have "map_of (g_lobbies (game c)) k = Some m" using m r(6) by (auto split: if_splits)
      then have "full_lobby (g_peers (game c)) k m" using sound_full [OF s] by blast
      then show ?thesis using other [OF False] by (auto simp: full_lobby_def r(5))
    qed
  qed
qed


lemma sound_on_leave_lobby:
  assumes s: "sound E c" and pid: "has_peer c pid"
  shows "sound E (on_leave_lobby E' i pid data c)"
proof -
  let ?lid = "p_lobby_id (peer_at c pid)"
  have me: "p_id (peer_at c pid) = pid" using sound_peer_id [OF s pid] .
  have in_lobby: "touch_lobby ?lid c = c" "pid \<in> set (l_peer_ids (lobby_at c ?lid))" if "?lid \<noteq> []"
    using sound_own_lobby [OF s that] by (simp_all add: touch_lobby_def)
  show ?thesis
    unfolding on_leave_lobby_def Let_def
    using stays_sound [OF stays_on_error [OF stays_refl [OF s]]]
    by (auto simp: in_lobby me sound_remove [OF s])
qed

lemma sound_on_kick_peer:
  assumes s: "sound E c"
  shows "sound E (on_kick_peer E' i pid data c)"
proof -
  let ?lid = "p_lobby_id (peer_at c pid)"
  have touch: "touch_lobby ?lid c = c" if "?lid \<noteq> []"
    using sound_own_lobby [OF s that] by (simp add: touch_lobby_def)
  show ?thesis
    unfolding on_kick_peer_def Let_def
    using stays_sound [OF stays_on_error [OF stays_refl [OF s]]]
    by (auto simp: touch stays_ask_script [OF stays_refl [OF s]] sound_remove [OF s])
qed

subsection \<open>Disconnects\<close>

text \<open>
  A peer queued for erasure is in no lobby by the time it is erased, and stays in none.
\<close>

definition idle :: "string \<Rightarrow> ctx \<Rightarrow> bool" where
  "idle k c \<longleftrightarrow> (\<forall>p. map_of (g_peers (game c)) k = Some p \<longrightarrow> p_lobby_id p = [])"

lemma idle_steps: "steps E c c' \<Longrightarrow> faults c' = [] \<Longrightarrow> idle k c \<Longrightarrow> idle k c'"
  by (auto simp: steps_def shrinks_def idle_def option_rel_Some2 dest!: spec [of _ k])

lemma sound_leave_idle:
  assumes s: "sound E c" and k: "has_peer c k" "p_lobby_id (peer_at c k) = []"
  shows "sound E (set_peer k leave_lobby c)"
proof -
  obtain p where p: "map_of (g_peers (game c)) k = Some p" "p_lobby_id p = []"
    using k by (auto simp: has_peer_def fm_has_def peer_at_def)
  have c': "consistent E (set_peer k leave_lobby c)"
    using sound_consistent [OF s] by (rule inv_then) (rule steps.set_leave)
  have same: "map_option p_lobby_id (map_of (g_peers (game (set_peer k leave_lobby c))) j) =
      map_option p_lobby_id (map_of (g_peers (game c)) j)" for j
    using p by (simp add: set_peer_def leave_lobby_def)
  show ?thesis
    using s c' p same
    by (intro soundI) (auto simp: set_peer_def sound_def strict_game_iff full_lobby_def)
qed

lemma sound_disconnect_step:
  assumes "sound E (snd s)" "\<forall>k \<in> set (fst s). idle k (snd s)"
  shows "sound E (snd (disconnect_step E' m kt s)) \<and>
    (\<forall>k \<in> set (fst (disconnect_step E' m kt s)). idle k (snd (disconnect_step E' m kt s)))"
proof -
  obtain k since where kt: "kt = (k, since)" by (cases kt)
  obtain es c where s: "s = (es, c)" by (cases s)
  let ?lid = "p_lobby_id (peer_at c k)"
  have snd: "sound E c" using assms(1) s by simp
  have gone: "\<forall>j \<in> set es. idle j c'" if "steps E c c'" "sound E c'" for c'
    using assms(2) s idle_steps [OF that(1)] that(2) by (simp add: sound_def)
  consider "\<not> has_peer c k" | "has_peer c k" "\<not> has_lobby c ?lid" | "has_peer c k" "has_lobby c ?lid" by blast
  then show ?thesis
  proof cases
    case 1
    then have "idle k c" by (auto simp: idle_def has_peer_def fm_has_def)
    then show ?thesis using 1 assms kt s by (auto simp: disconnect_step_def)
  next
    case 2
    then have "?lid = []" using sound_own_lobby(1) [OF snd] by blast
    then have l: "sound E (set_peer k leave_lobby c)" using sound_leave_idle [OF snd 2(1)] by blast
    have "steps E c (set_peer k leave_lobby c)"
      by (intro steps.set_leave steps_refl sound_consistent snd)
    then have "\<forall>j \<in> set es. idle j (set_peer k leave_lobby c)" using gone l by blast
    moreover have "idle k (set_peer k leave_lobby c)"
      using 2(1) by (auto simp: idle_def set_peer_def leave_lobby_def has_peer_def fm_has_def)
    ultimately show ?thesis using 2 l kt s by (auto simp: disconnect_step_def Let_def)
  next
    case 3
    have ne: "?lid \<noteq> []"
    proof
      assume "?lid = []"
      then obtain l where l: "map_of (g_lobbies (game c)) [] = Some l"
        using 3(2) by (auto simp: has_lobby_def fm_has_def)
      show False using sound_full [OF snd l] by (simp add: full_lobby_def)
    qed
    have me: "p_id (peer_at c k) = k" using sound_peer_id [OF snd 3(1)] .
    have mem: "k \<in> set (l_peer_ids (lobby_at c ?lid))" using sound_own_lobby(2) [OF snd ne] .
    let ?c = "remove_peer_from_lobby (call_script E') E' ?lid k [] True c"
    have l: "sound E ?c" using sound_remove [OF snd mem] .
    have st: "steps E c ?c"
      by (intro steps.remove steps.call_script steps_refl sound_consistent snd)
    have "idle k ?c"
    proof -
      obtain l where l: "map_of (g_lobbies (game c)) ?lid = Some l"
        using 3(2) by (auto simp: has_lobby_def fm_has_def)
      then have m: "k \<in> set (l_peer_ids l)" using mem by (simp add: lobby_at_def)
      obtain Q where "Q = (\<lambda>j. j \<in> set (l_peer_ids l) \<and> (k = l_host l \<or> j = k))"
        "\<And>j. map_option p_lobby_id (map_of (g_peers (game ?c)) j) =
          (if Q j then Some [] else map_option p_lobby_id (map_of (g_peers (game c)) j))"
        using remove_shape [OF snd l m] by metis
      then have "map_option p_lobby_id (map_of (g_peers (game ?c)) k) = Some []" using m by simp
      then show ?thesis by (auto simp: idle_def)
    qed
    then show ?thesis
      using 3 l gone [OF st l] assms kt s me by (auto simp: disconnect_step_def Let_def)
  qed
qed

lemma sound_erase_idle:
  assumes s: "sound E c" and k: "idle k c"
  shows "sound E (upd_game (\<lambda>g. g\<lparr>g_disconnected_peers := fm_erase k (g_disconnected_peers g),
     g_peers := fm_erase k (g_peers g), g_lobby_listing_peers := fs_erase k (g_lobby_listing_peers g)\<rparr>) c)"
    (is "sound E ?c")
proof -
  have "consistent E ?c" using inv_erase_peer [OF sound_consistent [OF s]] .
  moreover have "full_lobby (g_peers (game ?c)) j l" if "map_of (g_lobbies (game c)) j = Some l" for j l
    using sound_full [OF s that] k by (auto simp: full_lobby_def idle_def)
  ultimately show ?thesis
    using s by (intro soundI) (auto simp: sound_def)
qed

lemma sound_disconnect_game:
  assumes s: "sound E c"
  shows "sound E (disconnect_game E' m c)"
proof -
  have loop: "sound E (snd s) \<Longrightarrow> \<forall>k \<in> set (fst s). idle k (snd s) \<Longrightarrow>
      sound E (snd (fold (disconnect_step E' m) kts s)) \<and>
      (\<forall>k \<in> set (fst (fold (disconnect_step E' m) kts s)). idle k (snd (fold (disconnect_step E' m) kts s)))"
    for s kts
  proof (induction kts arbitrary: s)
    case (Cons kt kts)
    note hd = sound_disconnect_step [OF Cons.prems, of E' m kt]
    show ?case
      using Cons.IH [OF conjunct1 [OF hd] conjunct2 [OF hd]] by simp
  qed simp
  let ?r = "fold (disconnect_step E' m) (g_disconnected_peers (game c)) ([], c)"
  have r: "sound E (snd ?r)" "\<forall>k \<in> set (fst ?r). idle k (snd ?r)"
    using loop [of "([], c)"] s by simp_all
  have "sound E ((snd ?r)\<lparr>defers := ds\<rparr>)" for ds
    using stays_sound [OF stays_game [OF stays_refl [OF r(1)]]] by simp
  moreover have "\<forall>k \<in> set (fst ?r). idle k ((snd ?r)\<lparr>defers := ds\<rparr>)" for ds
    using r(2) by (simp add: idle_def)
  moreover have "sound E c' \<Longrightarrow> \<forall>k \<in> set ks. idle k c' \<Longrightarrow> sound E (fold (\<lambda>k. upd_game (\<lambda>g. g\<lparr>
      g_disconnected_peers := fm_erase k (g_disconnected_peers g), g_peers := fm_erase k (g_peers g),
      g_lobby_listing_peers := fs_erase k (g_lobby_listing_peers g)\<rparr>)) ks c')" for ks c'
  proof (induction ks arbitrary: c')
    case (Cons k ks)
    then show ?case
      by (simp, intro Cons.IH sound_erase_idle) (auto simp: idle_def)
  qed simp
  ultimately show ?thesis
    unfolding disconnect_game_def Let_def prod.case_eq_if by blast
qed


subsection \<open>Connecting\<close>

lemma sound_add_peer:
  assumes s: "sound E c" and p: "p_id p = k" "p_lobby_id p = []" and k: "\<not> has_peer c k"
  shows "sound E (upd_game (\<lambda>g. g\<lparr>g_peers := fm_emplace k p (g_peers g)\<rparr>) c)"
proof -
  have none: "map_of (g_peers (game c)) k = None"
    using k by (simp add: has_peer_def fm_has_def)
  have "full_lobby (fm_put k p (g_peers (game c))) j l" if "map_of (g_lobbies (game c)) j = Some l" for j l
    using sound_full [OF s that] none by (auto simp: full_lobby_def)
  moreover have "consistent E (upd_game (\<lambda>g. g\<lparr>g_peers := fm_emplace k p (g_peers g)\<rparr>) c)"
    using inv_add_peer [OF sound_consistent [OF s] p] .
  ultimately show ?thesis
    using s none by (intro soundI) (auto simp: sound_def fm_emplace_def fm_has_def)
qed

lemma sound_on_connect:
  assumes s: "sound E c"
  shows "sound E (on_connect E' pid gid rt pl plid nm c)"
proof -
  let ?p = "default_peer\<lparr>p_id := pid, p_game_id := gid, p_reconnection_token := rt, p_platform := pl,
      p_platform_id := plid\<rparr>"
  define c1 where "c1 = (if has_peer c pid then
      upd_game (\<lambda>g. g\<lparr>g_disconnected_peers := fm_erase pid (g_disconnected_peers g)\<rparr>)
        (set_peer pid (\<lambda>p. p\<lparr>p_reconnection_token := rt\<rparr>) c)
    else upd_game (\<lambda>g. g\<lparr>g_peers := fm_emplace pid ?p (g_peers g)\<rparr>) c)"
  have "stays E c (upd_game (\<lambda>g. g\<lparr>g_disconnected_peers := fm_erase pid (g_disconnected_peers g)\<rparr>)
      (set_peer pid (\<lambda>p. p\<lparr>p_reconnection_token := rt\<rparr>) c))" if "has_peer c pid"
    using that by (intro stays_upd_game stays_set_peer [OF stays_refl [OF s]])
      (simp_all add: keeps_link_def)
  note this [THEN stays_sound]
  moreover have "sound E (upd_game (\<lambda>g. g\<lparr>g_peers := fm_emplace pid ?p (g_peers g)\<rparr>) c)"
    if "\<not> has_peer c pid"
    using that by (intro sound_add_peer s) (simp_all add: default_peer_def)
  ultimately have c1: "sound E c1" by (simp add: c1_def)
  have there: "has_peer c1 pid"
  proof (cases "has_peer c pid")
    case True
    then have "has_peer (set_peer pid (\<lambda>p. p\<lparr>p_reconnection_token := rt\<rparr>) c) pid"
      by simp
    then show ?thesis using True by (simp add: c1_def has_peer_def)
  qed (simp add: c1_def has_peer_def fm_has_iff fm_emplace_def)
  have "stays E c1 (set_peer pid (\<lambda>p. p\<lparr>p_user_data := f p\<rparr>) c1)" for f
    using stays_refl [OF c1] there by (rule stays_set_peer) (simp add: keeps_link_def)
  then show ?thesis
    unfolding on_connect_def c1_def [symmetric] Let_def
    by (intro stays_sound [of E c1] stays_ask stays_send) (simp add: stays_refl [OF c1])
qed

subsection \<open>Creating\<close>

lemma stays_peers_to_array:
  assumes c: "stays E c0 c" and s: "sound E c0" and lid: "has_lobby c0 lid"
  shows "stays E c0 (snd (peers_to_array lid c))"
proof -
  have "touch_lobby lid c = c"
    using stays_has_lobby [OF c] lid by (simp add: touch_lobby_def)
  then show ?thesis
    unfolding peers_to_array_def Let_def
    using c by (auto intro!: stays_fold stays_touch_peer intro: stays_member [OF c s])
qed

lemma sound_finish_create:
  assumes s: "sound E c" and pid: "has_peer c pid" and lid: "has_lobby c lid"
  shows "sound E (finish_create E' i pid lid c)"
proof -
  have c1: "stays E c (set_peer pid (\<lambda>p. p\<lparr>p_disconnected := False\<rparr>) c)"
    using stays_refl [OF s] pid by (rule stays_set_peer) (simp add: keeps_link_def)
  have c2: "stays E c (touch_lobby lid (set_peer pid (\<lambda>p. p\<lparr>p_disconnected := False\<rparr>) c))"
    using c1 lid by (rule stays_touch_lobby)
  show ?thesis
    unfolding finish_create_def Let_def split_beta
    by (intro stays_sound [of E c] stays_mark_updated stays_ask stays_send stays_peers_to_array c2 s lid)
qed

lemma sound_created:
  assumes s: "sound E c" and pid: "has_peer c pid" and fresh: "fresh_uuids E (Suc (uuid_count c))"
    and lobby: "l_id l = small" "l_peer_ids l = [pid]" "l_peer_ordered_ids l = [pid]"
      "\<not> l_disband_on_leave l" "l_host l = pid" "1 \<le> sint (l_max_players l)"
    and small: "small = take 8 (uuid_gen E (uuid_count c))" and out: "p_lobby_id (peer_at c pid) = []"
    and c3: "c3 = upd_game (\<lambda>g. g\<lparr>g_lobbies := fm_emplace small l (g_lobbies g)\<rparr>)
      (set_peer pid (\<lambda>p. p\<lparr>p_lobby_id := small\<rparr>) (c\<lparr>uuid_count := Suc (uuid_count c)\<rparr>))"
  shows "sound E c3" "has_peer c3 pid" "has_lobby c3 small"
proof -
  have me: "pid = p_id (peer_at c pid)" using sound_peer_id [OF s pid] by simp
  have k: "keeps_peer E pid c" using sound_consistent [OF s] pid by (simp add: keeps_peer_def)
  obtain p where p: "map_of (g_peers (game c)) pid = Some p"
    using pid by (auto simp: has_peer_def fm_has_def)
  have unused: "map_of (g_lobbies (game c)) small = None"
  proof (rule ccontr)
    assume "map_of (g_lobbies (game c)) small \<noteq> None"
    then obtain m where "map_of (g_lobbies (game c)) small = Some m" by auto
    then have "lobby_key E (uuid_count c) small" using sound_wf_lobby [OF s] by (simp add: wf_lobby_def)
    then show False using fresh_not_key [OF fresh] small by blast
  qed
  have small_ne: "small \<noteq> []"
    using fresh small by (auto simp: fresh_uuids_def)
  have c3': "game c3 = (game c)\<lparr>g_peers := fm_put pid (p\<lparr>p_lobby_id := small\<rparr>) (g_peers (game c)),
      g_lobbies := fm_put small l (g_lobbies (game c))\<rparr>"
    using p unused by (simp add: c3 set_peer_def fm_emplace_def fm_has_def)
  have cap: "size_le (Suc 0) (l_max_players l)"
    using lobby(6) by (simp add: size_le_def) (metis One_nat_def Suc_leI gr0I sint_0 unat_eq_zero zero_neq_one
        not_one_le_zero)
  show "sound E c3"
  proof (rule soundI)
    show "consistent E c3"
      using created(1) [OF k me lobby(1,2,3,4) small c3] .
    show "faults c3 = []" "fresh_uuids E (uuid_count c3)" "unscripted (game c3)"
      "g_disband_on_leave (game c3)"
      using s p fresh by (simp_all add: c3 set_peer_def sound_def)
    fix j m assume m: "map_of (g_lobbies (game c3)) j = Some m"
    show "full_lobby (g_peers (game c3)) j m"
    proof (cases "j = small")
      case True
      then have "m = l" using m by (simp add: c3')
      then show ?thesis using True lobby cap small_ne by (simp add: full_lobby_def c3')
    next
      case False
      then have "map_of (g_lobbies (game c)) j = Some m" using m by (simp add: c3')
      then have fl: "full_lobby (g_peers (game c)) j m" using sound_full [OF s] by blast
      moreover have "pid \<notin> set (l_peer_ids m)"
        using fl out p by (auto simp: full_lobby_def peer_at_def)
      ultimately show ?thesis by (auto simp: full_lobby_def c3')
    qed
  qed
  show "has_peer c3 pid" "has_lobby c3 small"
    by (simp_all add: c3' has_peer_def has_lobby_def fm_has_def)
qed

lemma sound_on_create_lobby:
  assumes s: "sound E c" and pid: "has_peer c pid"
    and after: "fresh_uuids E (uuid_count (on_create_lobby E i pid data prev c))"
  shows "sound E (on_create_lobby E i pid data prev c)"
proof (cases "p_lobby_id (peer_at c pid) = []")
  case False
  then show ?thesis
    using stays_sound [OF stays_on_error [OF stays_refl [OF s]]] by (simp add: on_create_lobby_def Let_def)
next
  case True
  let ?c1 = "c\<lparr>uuid_count := Suc (uuid_count c)\<rparr>"
  have "grows ?c1 (on_create_lobby E i pid data prev c)"
    unfolding on_create_lobby_def Let_def prod.case_eq_if
    using grows_refl [of ?c1] True
    by (simp add: grows.on_error grows.ask_create grows.any_upd grows.any_set_peer)
  then have fresh: "fresh_uuids E (Suc (uuid_count c))"
    using after fresh_uuids_mono by (auto simp: grows_def)
  let ?n = "uuid_count c"
  have me: "p_id (peer_at c pid) = pid" using sound_peer_id [OF s pid] .
  have err: "sound E c' \<Longrightarrow> sound E (on_error E i p m cl le c')" for c' p m cl le
    using stays_sound stays_on_error stays_refl by blast
  have drawn: "sound E (c\<lparr>uuid_count := Suc ?n\<rparr>)"
    using s fresh wf_game_mono [OF sound_wf [OF s], of "Suc ?n"]
    by (simp add: sound_def strict_game_def)
  have new: "sound E (ask_create E i pid pid small (upd_game
      (\<lambda>g. g\<lparr>g_lobbies := fm_emplace small (new_lobby (peer_at c pid) data small mp tags c') (g_lobbies g)\<rparr>)
      (set_peer pid (\<lambda>p. p\<lparr>p_lobby_id := small\<rparr>) (c\<lparr>uuid_count := Suc ?n\<rparr>))))"
    if "small = take 8 (uuid_gen E ?n)" "\<not> sint mp < 1" "p_lobby_id (peer_at c pid) = []" for small mp tags c'
  proof -
    let ?l = "new_lobby (peer_at c pid) data small mp tags c'"
    have l: "l_id ?l = small" "l_peer_ids ?l = [pid]" "l_peer_ordered_ids ?l = [pid]"
      "\<not> l_disband_on_leave ?l" "l_host ?l = pid" "1 \<le> sint (l_max_players ?l)"
      using that(2) by (simp_all add: new_lobby_def default_lobby_def me)
    note c3 = sound_created [OF s pid fresh l that(1,3) refl]
    show ?thesis
      unfolding ask_create_def using sound_finish_create [OF c3]
      by (simp add: stays_no_callback [OF stays_refl [OF c3(1)]])
  qed
  show ?thesis
    unfolding on_create_lobby_def Let_def prod.case_eq_if me
    using new by (auto intro!: err s drawn)
qed


subsection \<open>Joining\<close>

lemma fm_put_put: "fm_put k a (fm_put k b m) = fm_put k a m"
  by (induction k b m rule: fm_put.induct) auto

lemma set_lobby_present:
  "map_of (g_lobbies (game c)) k = Some l \<Longrightarrow>
   set_lobby k f c = upd_game (\<lambda>g. g\<lparr>g_lobbies := fm_put k (f l) (g_lobbies g)\<rparr>) c"
  by (simp add: set_lobby_def)

lemma set_peer_present:
  "map_of (g_peers (game c)) k = Some p \<Longrightarrow>
   set_peer k f c = upd_game (\<lambda>g. g\<lparr>g_peers := fm_put k (f p) (g_peers g)\<rparr>) c"
  by (simp add: set_peer_def)

lemma touch_all_present: "\<forall>k \<in> set ks. has_peer c k \<Longrightarrow> fold touch_peer ks c = c"
  by (induction ks) (simp_all add: touch_peer_def)

text \<open>The records after \<open>join_changes\<close>, when every member of the lobby has a record.\<close>

definition joined_peer :: "string \<Rightarrow> lobby_data \<Rightarrow> peer_data \<Rightarrow> peer_data" where
  "joined_peer lid l p = p\<lparr>p_order_id := to_i32 (l_order_id_counter l + 1), p_lobby_id := lid\<rparr>"

lemma join_changes_present:
  assumes p: "map_of (g_peers (game c)) pid = Some p"
    and l: "map_of (g_lobbies (game c)) lid = Some l"
    and all: "\<forall>k \<in> set (l_peer_ordered_ids l). has_peer c k"
  shows "join_changes pid pid lid c = mark_updated lid (upd_game (\<lambda>g. g\<lparr>
      g_peers := fm_put pid (joined_peer lid l p) (g_peers g),
      g_lobbies := fm_put lid (l\<lparr>l_order_id_counter := l_order_id_counter l + 1,
        l_peer_ids := fs_insert pid (l_peer_ids l),
        l_peer_ordered_ids := sort_key
          (\<lambda>k. sint (p_order_id (if k = pid then joined_peer lid l p else peer_at c k)))
          (l_peer_ordered_ids l @ [pid])\<rparr>) (g_lobbies g)\<rparr>) c)"
proof -
  let ?l1 = "l\<lparr>l_order_id_counter := l_order_id_counter l + 1\<rparr>"
  let ?c1 = "upd_game (\<lambda>g. g\<lparr>g_lobbies := fm_put lid ?l1 (g_lobbies g)\<rparr>) c"
  let ?c2 = "upd_game (\<lambda>g. g\<lparr>g_peers := fm_put pid (joined_peer lid l p) (g_peers g)\<rparr>) ?c1"
  let ?l2 = "?l1\<lparr>l_peer_ids := fs_insert pid (l_peer_ids l), l_peer_ordered_ids := l_peer_ordered_ids l @ [pid]\<rparr>"
  let ?c3 = "upd_game (\<lambda>g. g\<lparr>g_lobbies := fm_put lid ?l2 (g_lobbies g)\<rparr>) ?c2"
  have 1: "set_lobby lid (\<lambda>l. l\<lparr>l_order_id_counter := l_order_id_counter l + 1\<rparr>) c = ?c1"
    using l by (simp add: set_lobby_def)
  have n: "l_order_id_counter (lobby_at ?c1 lid) = l_order_id_counter l + 1"
    by (simp add: lobby_at_def)
  have 2: "set_peer pid (\<lambda>p. p\<lparr>p_order_id := to_i32 (l_order_id_counter l + 1), p_lobby_id := lid\<rparr>) ?c1 = ?c2"
    using p by (simp add: set_peer_def joined_peer_def)
  have 3: "set_lobby lid (\<lambda>l. l\<lparr>l_peer_ids := fs_insert pid (l_peer_ids l),
      l_peer_ordered_ids := l_peer_ordered_ids l @ [pid]\<rparr>) ?c2 = ?c3"
    by (simp add: set_lobby_def)
  have ids: "l_peer_ordered_ids (lobby_at ?c3 lid) = l_peer_ordered_ids l @ [pid]"
    by (simp add: lobby_at_def)
  have t: "fold touch_peer (l_peer_ordered_ids l @ [pid]) ?c3 = ?c3"
    using all by (intro touch_all_present) (auto simp: has_peer_def fm_has_def)
  have key: "(\<lambda>k. sint (p_order_id (peer_at ?c3 k))) =
      (\<lambda>k. sint (p_order_id (if k = pid then joined_peer lid l p else peer_at c k)))"
    by (simp add: fun_eq_iff peer_at_def)
  show ?thesis
    unfolding join_changes_def Let_def 1 n 2 3 sort_ordered_def ids t key
    by (simp add: set_lobby_def upd_game_def fm_put_put)
qed

lemma sound_join_changes:
  assumes s: "sound E c" and pid: "has_peer c pid" and out: "p_lobby_id (peer_at c pid) = []"
    and lid: "has_lobby c lid" and room: "size_lt (length (l_peer_ids (lobby_at c lid))) (l_max_players (lobby_at c lid))"
  shows "sound E (join_changes pid pid lid c)"
    and "pid \<in> set (l_peer_ids (lobby_at (join_changes pid pid lid c) lid))"
proof -
  obtain p where p: "map_of (g_peers (game c)) pid = Some p"
    using pid by (auto simp: has_peer_def fm_has_def)
  obtain l where l: "map_of (g_lobbies (game c)) lid = Some l"
    using lid by (auto simp: has_lobby_def fm_has_def)
  have la: "lobby_at c lid = l" using l by (simp add: lobby_at_def)
  have wl: "wf_lobby E (uuid_count c) lid l" using sound_wf_lobby [OF s l] .
  have fl: "full_lobby (g_peers (game c)) lid l" using sound_full [OF s l] .
  have notin: "pid \<notin> set (l_peer_ids m)" if "map_of (g_lobbies (game c)) j = Some m" for j m
    using sound_full [OF s that] out p by (auto simp: full_lobby_def peer_at_def)
  have all: "\<forall>k \<in> set (l_peer_ordered_ids l). has_peer c k"
    using wl sound_member(1) [OF s] la by (auto simp: wf_lobby_def)
  note j = join_changes_present [OF p l all]
  have frame: "unscripted (game (mark_updated k c')) = unscripted (game c')"
    "config (game (mark_updated k c')) = config (game c')" for k c'
    by (simp_all add: mark_updated_def)
  have cap: "size_le (length (fs_insert pid (l_peer_ids l))) (l_max_players l)"
    using room la notin [OF l] wl by (simp add: size_lt_def size_le_def wf_lobby_def length_fs_insert)
  show "sound E (join_changes pid pid lid c)"
  proof (rule soundI)
    show "consistent E (join_changes pid pid lid c)"
      using sound_consistent [OF s] by (rule inv_join_changes) simp
    show "faults (join_changes pid pid lid c) = []" "fresh_uuids E (uuid_count (join_changes pid pid lid c))"
      "unscripted (game (join_changes pid pid lid c))"
      using s by (simp_all add: j frame sound_def)
    have "config (game (join_changes pid pid lid c)) = config (game c)"
      by (simp add: j frame)
    then show "g_disband_on_leave (game (join_changes pid pid lid c))"
      using s by (simp add: sound_def config_def)
    fix k m assume m: "map_of (g_lobbies (game (join_changes pid pid lid c))) k = Some m"
    show "full_lobby (g_peers (game (join_changes pid pid lid c))) k m"
    proof (cases "k = lid")
      case True
      then have "m = l\<lparr>l_order_id_counter := l_order_id_counter l + 1,
        l_peer_ids := fs_insert pid (l_peer_ids l),
        l_peer_ordered_ids := sort_key
          (\<lambda>k. sint (p_order_id (if k = pid then joined_peer lid l p else peer_at c k)))
          (l_peer_ordered_ids l @ [pid])\<rparr>"
        using m by (simp add: j)
      moreover have "pid \<notin> set (l_peer_ordered_ids l)" using notin [OF l] wl by (simp add: wf_lobby_def)
      ultimately show ?thesis
        using True fl cap by (auto simp: full_lobby_def j joined_peer_def)
    next
      case False
      then have m': "map_of (g_lobbies (game c)) k = Some m" using m by (simp add: j)
      then have "full_lobby (g_peers (game c)) k m" using sound_full [OF s] by blast
      then show ?thesis using notin [OF m'] by (auto simp: full_lobby_def j)
    qed
  qed
  show "pid \<in> set (l_peer_ids (lobby_at (join_changes pid pid lid c) lid))"
    by (simp add: j lobby_at_def)
qed

lemma stays_join_notify:
  assumes c: "stays E c0 c" and s: "sound E c0" and lid: "has_lobby c0 lid"
  shows "stays E c0 (join_notify E' b i pid lid c)"
proof -
  let ?m = "if b then notification_peer_reconnected (yyjson_mut_write E') (p_id (peer_at c pid))
    else notification_peer_joined (yyjson_mut_write E') (AMap (peer_to_dict False False (peer_at c pid)))"
  have "l_id (lobby_at c lid) = lid"
    using sound_lobby_id [OF stays_sound [OF c]] stays_has_lobby [OF c] lid by simp
  then show ?thesis
    unfolding join_notify_def Let_def split_beta
    using c by (intro stays_send stays_peers_to_array stays_send_others s) (simp_all add: lid)
qed

lemma sound_on_join_lobby:
  assumes s: "sound E c" and pid: "has_peer c pid"
  shows "sound E (snd (on_join_lobby E' i pid data ov c)) \<and>
    (\<not> fst (on_join_lobby E' i pid data ov c) \<longrightarrow> stays E c (snd (on_join_lobby E' i pid data ov c)))"
proof -
  have me: "p_id (peer_at c pid) = pid" using sound_peer_id [OF s pid] .
  have rc: "stays E c c" using stays_refl [OF s] .
  have err: "stays E c (on_error E' i p m cl le c)" for p m cl le
    using rc by (rule stays_on_error)
  have tail: "stays E c1 (join_notify E' b i pid lid (set_peer pid (\<lambda>p. p\<lparr>p_disconnected := False\<rparr>) c1))"
    if "sound E c1" "has_peer c1 pid" "has_lobby c1 lid" for b lid c1
    using that stays_refl [OF that(1)]
    by (intro stays_join_notify stays_set_peer) (simp_all add: keeps_link_def)
  have joined: "sound E (join_changes pid pid lid c)" "has_peer (join_changes pid pid lid c) pid"
      "has_lobby (join_changes pid pid lid c) lid"
    if "has_lobby c lid" "join_refusal False data (peer_at c pid) (lobby_at c lid) = None" for lid
  proof -
    have out: "p_lobby_id (peer_at c pid) = []"
      using that(2) by (auto simp: join_refusal_def split: if_splits)
    have "map_of (g_lobbies (game c)) lid \<noteq> None"
      using that(1) by (simp add: has_lobby_def fm_has_def)
    then obtain l where l: "map_of (g_lobbies (game c)) lid = Some l" by auto
    have "l_max_players l \<noteq> 0"
      using sound_full [OF s l] sound_wf_lobby [OF s l]
      by (auto simp: full_lobby_def wf_lobby_def size_le_def)
    then have room: "size_lt (length (l_peer_ids (lobby_at c lid))) (l_max_players (lobby_at c lid))"
      using that(2) l by (auto simp: join_refusal_def lobby_at_def split: if_splits)
    note jc = sound_join_changes [OF s pid out that(1) room]
    show "sound E (join_changes pid pid lid c)" by (rule jc)
    show "has_peer (join_changes pid pid lid c) pid" "has_lobby (join_changes pid pid lid c) lid"
      using sound_member(1,3) [OF jc] by blast+
  qed
  have unready: "stays E c (set_peer pid (\<lambda>p. p\<lparr>p_ready := False\<rparr>) c)"
    using rc pid by (rule stays_set_peer) (simp add: keeps_link_def)
  define b where "b \<longleftrightarrow> p_disconnected (peer_at c pid) \<and> p_lobby_id (peer_at c pid) \<noteq> []"
  define lid where "lid = (if b then p_lobby_id (peer_at c pid)
    else if ov = [] then decode_string_or_default data ''l'' [] else ov)"
  define c1 where "c1 = (if b then set_peer pid (\<lambda>p. p\<lparr>p_ready := False\<rparr>) c else join_changes pid pid lid c)"
  define c2 where "c2 = join_notify E' b i pid lid (set_peer pid (\<lambda>p. p\<lparr>p_disconnected := False\<rparr>) c1)"
  have eq: "on_join_lobby E' i pid data ov c =
    (if lid = [] \<or> \<not> has_lobby c lid then (False, on_error E' i pid ERROR_LOBBY_NOT_FOUND False False c)
     else case join_refusal b data (peer_at c pid) (lobby_at c lid) of
       Some e \<Rightarrow> (False, on_error E' i pid e False False c)
     | None \<Rightarrow> (True, if b then c2 else snd (ask_script E' True ''_on_peer_joined'' i pid lid [] c2)))"
    unfolding on_join_lobby_def Let_def me b_def [symmetric] lid_def [symmetric]
      stays_ask_script [OF rc] prod.case c1_def [symmetric] c2_def [symmetric]
    by simp
  have c2: "sound E c2" if "has_lobby c lid" "join_refusal b data (peer_at c pid) (lobby_at c lid) = None"
  proof -
    have "sound E c1 \<and> has_peer c1 pid \<and> has_lobby c1 lid"
    proof (cases b)
      case True
      then show ?thesis
        using that(1) stays_sound [OF unready] stays_has_lobby [OF unready] pid by (simp add: c1_def)
    next
      case False
      then show ?thesis using joined that by (simp add: c1_def)
    qed
    then show ?thesis using stays_sound [OF tail] by (simp add: c2_def)
  qed
  have "sound E (snd (ask_script E' True ''_on_peer_joined'' i pid lid [] c2))" if "sound E c2"
    using stays_sound [OF stays_ask [OF stays_refl [OF that]]] .
  then show ?thesis
    unfolding eq using err stays_sound [OF err] c2 by (auto split: option.split)
qed


lemma stays_trans: "stays E a b \<Longrightarrow> stays E b c \<Longrightarrow> stays E a c"
  by (simp add: stays_def)

text \<open>A result of quick join: the peer is in, or membership is as before.\<close>

definition sound_or_same :: "env \<Rightarrow> ctx \<Rightarrow> bool \<times> ctx \<Rightarrow> bool" where
  "sound_or_same E c r \<longleftrightarrow> sound E (snd r) \<and> (\<not> fst r \<longrightarrow> stays E c (snd r))"

lemma sound_or_same_trans: "stays E a b \<Longrightarrow> sound_or_same E b r \<Longrightarrow> sound_or_same E a r"
  using stays_trans by (auto simp: sound_or_same_def)

lemma sound_quick_join_loop:
  "sound E c \<Longrightarrow> has_peer c pid \<Longrightarrow> sound_or_same E c (quick_join_loop E' i pid data tags ks c)"
proof (induction ks arbitrary: c)
  case Nil
  then show ?case by (simp add: sound_or_same_def stays_refl)
next
  case (Cons k ks)
  note s = Cons.prems(1)
  note next_lobby = Cons.IH [OF Cons.prems]
  show ?case
  proof (cases "has_lobby c k")
    case False
    then show ?thesis using next_lobby by simp
  next
    case True
    then obtain l where l: "map_of (g_lobbies (game c)) k = Some l"
      by (auto simp: has_lobby_def fm_has_def)
    have "l_host (lobby_at c k) \<in> set (l_peer_ids (lobby_at c k))"
      using sound_full [OF s l] l by (simp add: full_lobby_def lobby_at_def)
    then have touch: "touch_peer (l_host (lobby_at c k)) c = c"
      using sound_member(1) [OF s] by (simp add: touch_peer_def)
    obtain joined c' where r: "on_join_lobby E' i pid data (l_id (lobby_at c k)) c = (joined, c')"
      by (cases "on_join_lobby E' i pid data (l_id (lobby_at c k)) c")
    have j: "sound E c'" "\<not> joined \<Longrightarrow> stays E c c'"
      using sound_on_join_lobby [OF Cons.prems, of E' i data "l_id (lobby_at c k)"] r by simp_all
    have "sound_or_same E c (quick_join_loop E' i pid data tags ks c')" "has_lobby c' k" if "\<not> joined"
      using sound_or_same_trans [OF j(2) [OF that] Cons.IH [OF j(1)]] stays_has_peer [OF j(2) [OF that]]
        stays_has_lobby [OF j(2) [OF that]] Cons.prems(2) True by simp_all
    then show ?thesis
      using True next_lobby j r by (auto simp: Let_def touch sound_or_same_def)
  qed
qed

lemma sound_on_quick_join:
  assumes s: "sound E c" and pid: "has_peer c pid"
    and after: "fresh_uuids E (uuid_count (on_quick_join E i pid data c))"
  shows "sound E (on_quick_join E i pid data c)"
proof -
  define r where "r = (if p_lobby_id (peer_at c pid) \<noteq> [] then on_join_lobby E i pid data [] c else (False, c))"
  have r: "sound_or_same E c r"
    using sound_on_join_lobby [OF s pid, of E i data "[]"] s stays_refl [OF s]
    by (simp add: r_def sound_or_same_def)
  have err: "sound E (on_error E i p m cl le (snd r))" for p m cl le
    using r stays_sound [OF stays_on_error [OF stays_refl]] by (auto simp: sound_or_same_def)
  have create: "sound E (if fst q then snd q else on_create_lobby E i pid data prev (snd q))"
    if q: "sound_or_same E c q"
      and after: "fresh_uuids E (uuid_count (if fst q then snd q else on_create_lobby E i pid data prev (snd q)))"
    for q prev
  proof (cases "fst q")
    case False
    then have st: "stays E c (snd q)" using q by (simp add: sound_or_same_def)
    then show ?thesis
      using False after stays_has_peer [OF st] pid sound_on_create_lobby [OF stays_sound [OF st]] by simp
  qed (use q in \<open>simp add: sound_or_same_def\<close>)
  have loop: "sound_or_same E c (quick_join_loop E i pid data tags ks (snd r))" if "\<not> fst r" for tags ks
  proof -
    have st: "stays E c (snd r)" using r that by (simp add: sound_or_same_def)
    show ?thesis
      using sound_or_same_trans [OF st sound_quick_join_loop [OF stays_sound [OF st]]]
        stays_has_peer [OF st] pid by simp
  qed
  define tags where "tags = snd (decode_object (yy_obj_get data ''t'') [])"
  define q where "q = quick_join_loop E i pid data tags (bucket_order E (map fst (g_lobbies (game (snd r))))) (snd r)"
  have eq: "on_quick_join E i pid data c =
    (if fst r then snd r
     else if fst (decode_object (yy_obj_get data ''t'') []) \<noteq> []
     then on_error E i (p_id (peer_at (snd r) pid)) ERROR_INVALID_TAGS False False (snd r)
     else if fst q then snd q else on_create_lobby E i pid data (Some tags) (snd q))"
    unfolding on_quick_join_def Let_def prod.case_eq_if r_def [symmetric] tags_def [symmetric] q_def [symmetric] ..
  show ?thesis
  proof (cases "fst r \<or> fst (decode_object (yy_obj_get data ''t'') []) \<noteq> []")
    case True
    then show ?thesis unfolding eq using r err by (auto simp: sound_or_same_def)
  next
    case False
    then have eq': "on_quick_join E i pid data c =
        (if fst q then snd q else on_create_lobby E i pid data (Some tags) (snd q))"
      by (simp add: eq)
    have "sound_or_same E c q" unfolding q_def using False by (intro loop) simp
    then show ?thesis
      unfolding eq' by (rule create) (use after eq' in simp)
  qed
qed

subsection \<open>Any event\<close>

definition orders_keys :: "env \<Rightarrow> bool" where
  "orders_keys E \<longleftrightarrow> (\<forall>ks. set (bucket_order E ks) \<subseteq> set ks)"

definition sound_if_fresh :: "env \<Rightarrow> ctx \<Rightarrow> bool" where
  "sound_if_fresh E c \<longleftrightarrow> (fresh_uuids E (uuid_count c) \<longrightarrow> sound E c)"

lemma sound_if_fresh_if: "sound_if_fresh E x \<Longrightarrow> sound_if_fresh E y \<Longrightarrow> sound_if_fresh E (if b then x else y)"
  by simp

lemma sound_if_freshI: "sound E c \<Longrightarrow> sound_if_fresh E c"
  by (simp add: sound_if_fresh_def)

lemma stays_if_fresh: "stays E c0 c \<Longrightarrow> sound_if_fresh E c"
  by (simp add: sound_if_fresh_def stays_sound)

lemma sound_dispatch:
  assumes s: "sound E c" and pid: "has_peer c pid" and order: "orders_keys E"
  shows "sound_if_fresh E (dispatch E cmd i pid data c)"
proof -
  have o: "set (bucket_order E ks) \<subseteq> set ks" for ks using order by (simp add: orders_keys_def)
  have new: "sound_if_fresh E (on_quick_join E i pid data c)"
    "sound_if_fresh E (on_create_lobby E i pid data None c)"
    using sound_on_quick_join [OF s pid] sound_on_create_lobby [OF s pid] by (simp_all add: sound_if_fresh_def)
  show ?thesis
    unfolding dispatch_def on_seal_lobby_def on_unseal_lobby_def
    by (intro sound_if_fresh_if new stays_if_fresh [OF stays_on_lobby_data [OF s]]
        stays_if_fresh [OF stays_on_data_to [OF s]]
        stays_if_fresh [OF stays_on_data_to_all [OF s]] stays_if_fresh [OF stays_on_notify_to [OF s]]
        stays_if_fresh [OF stays_on_lobby_notify [OF s]] stays_if_fresh [OF stays_on_lobby_call [OF s]]
        sound_if_freshI [OF conjunct1 [OF sound_on_join_lobby [OF s pid]]]
        sound_if_freshI [OF sound_on_leave_lobby [OF s pid]]
        stays_if_fresh [OF stays_on_list_lobby [OF s o]] stays_if_fresh [OF stays_on_stop_list_lobby [OF s]]
        stays_if_fresh [OF stays_on_chat_lobby [OF s]] stays_if_fresh [OF stays_on_lobby_tags [OF s]]
        sound_if_freshI [OF sound_on_kick_peer [OF s]] stays_if_fresh [OF stays_on_user_data [OF s pid]]
        stays_if_fresh [OF stays_on_lobby_ready(1) [OF s pid]]
        stays_if_fresh [OF stays_on_lobby_ready(2) [OF s pid]]
        stays_if_fresh [OF stays_change_seal [OF s]] stays_if_fresh [OF stays_on_lobby_max_players [OF s]]
        stays_if_fresh [OF stays_on_lobby_title [OF s]] stays_if_fresh [OF stays_on_lobby_password [OF s]]
        stays_if_fresh [OF stays_on_error [OF stays_refl [OF s]]])
qed

lemma sound_handle_event:
  assumes s: "sound E c" and order: "orders_keys E"
  shows "sound_if_fresh E (handle_event E m c)"
proof -
  have err: "sound_if_fresh E (on_error E i p msg cl le c)" for i p msg cl le
    by (rule stays_if_fresh [OF stays_on_error [OF stays_refl [OF s]]])
  have alive: "stays E c (set_peer k (\<lambda>p. p\<lparr>p_last_message_time := now c\<rparr>) c)" if "has_peer c k" for k
    using stays_refl [OF s] that by (rule stays_set_peer) (simp add: keeps_link_def)
  have "sound_if_fresh E (dispatch E cmd i k data (set_peer k (\<lambda>p. p\<lparr>p_last_message_time := now c\<rparr>) c))"
    if "has_peer c k" for cmd i k data
    using stays_sound [OF alive [OF that]] that order by (intro sound_dispatch) simp_all
  then have "sound_if_fresh E (handle_message E k msg c)" for k msg
    unfolding handle_message_def Let_def by (auto split: option.split yyval.split intro: err)
  then show ?thesis
    unfolding handle_event_def
    using sound_if_freshI [OF sound_on_connect [OF s]] stays_if_fresh [OF stays_on_close [OF s]]
    by (cases "m_event m") auto
qed

subsection \<open>Any sequence of events\<close>

text \<open>What can happen to one game between loading and unloading, in any order.\<close>

datatype game_step = Incoming ws_message | Sweep i32 | Flush | Publish | Clock i64

fun play :: "env \<Rightarrow> game_step \<Rightarrow> ctx \<Rightarrow> ctx" where
  "play E (Incoming m) c = handle_event E m c"
| "play E (Sweep max_time) c = disconnect_game E max_time c"
| "play E Flush c = send_game c"
| "play E Publish c = list_game E c"
| "play E (Clock t) c = c\<lparr>now := t\<rparr>"

lemma sound_play:
  assumes s: "sound E c" and order: "orders_keys E"
  shows "sound_if_fresh E (play E st c)"
proof (cases st)
  case (Incoming m)
  then show ?thesis using sound_handle_event [OF s order] by simp
next
  case (Sweep n)
  then show ?thesis using sound_disconnect_game [OF s] by (simp add: sound_if_freshI)
next
  case Flush
  have "stays E c (send_game c)"
    unfolding send_game_def Let_def
    by (auto intro!: stays_upd_game stays_refl s stays_game [OF stays_upd_game [OF stays_refl [OF s]]])
  then show ?thesis using Flush stays_if_fresh by simp
next
  case Publish
  have "stays E c (list_game E c)"
    unfolding list_game_def Let_def by (auto intro!: stays_upd_game stays_refl s stays_send_loop)
  then show ?thesis using Publish stays_if_fresh by simp
next
  case (Clock t)
  have "stays E c (c\<lparr>now := t\<rparr>)" by (rule stays_game [OF stays_refl [OF s]]) simp_all
  then show ?thesis using Clock stays_if_fresh by simp
qed

lemma grows_play: "grows c0 c \<Longrightarrow> grows c0 (play E st c)"
  by (cases st) (simp_all add: grows.handle_event grows.disconnect_game grows.send_game grows.list_game
      grows.set_now)

lemma grows_plays: "grows c0 c \<Longrightarrow> grows c0 (fold (play E) sts c)"
  by (induction sts arbitrary: c) (simp_all add: grows_play)

lemma sound_plays:
  "sound E c \<Longrightarrow> orders_keys E \<Longrightarrow> fresh_uuids E (uuid_count (fold (play E) sts c)) \<Longrightarrow>
   sound E (fold (play E) sts c)"
proof (induction sts arbitrary: c)
  case (Cons st sts)
  have "grows (play E st c) (fold (play E) sts (play E st c))"
    by (rule grows_plays) (rule grows_refl)
  then have "uuid_count (play E st c) \<le> uuid_count (fold (play E) (st # sts) c)"
    by (simp add: grows_def)
  then have "fresh_uuids E (uuid_count (play E st c))"
    using Cons.prems(3) fresh_uuids_mono by blast
  then have "sound E (play E st c)"
    using sound_play [OF Cons.prems(1,2)] by (simp add: sound_if_fresh_def)
  then show ?case using Cons by simp
qed simp

end
