(* ===== verification/Delivery.thy ===== *)
theory Delivery
  imports Sound_Moves
begin

text \<open>
  What reaches a client. \<open>stream q c\<close> lists the texts on their way to peer \<open>q\<close> in order: those
  handed to the web server's loop (\<open>defer\<close> in \<^verbatim>\<open>GameThread::send\<close> and \<^verbatim>\<open>handle_send\<close>), batches
  included, then those that wait for the next batch. The locale \<open>channel\<close> is the contract of a
  message channel; it is interpreted on \<open>stream\<close> and \<open>send\<close>, so that the loops of the handlers
  are reasoned about without looking at queues and batches.
\<close>

subsection \<open>A channel\<close>

locale channel =
  fixes inbox :: "'p \<Rightarrow> 'c \<Rightarrow> 'm list"
    and put :: "'p \<Rightarrow> 'm \<Rightarrow> 'c \<Rightarrow> 'c"
    and up :: "'c \<Rightarrow> 'p \<Rightarrow> bool"
    and ok :: "'c \<Rightarrow> bool"
  assumes inbox_put: "ok c \<Longrightarrow> inbox q (put p m c) = inbox q c @ (if q = p \<and> up c p then [m] else [])"
    and up_put: "up (put p m c) = up c"
    and ok_put: "ok c \<Longrightarrow> ok (put p m c)"
begin

lemma up_all: "up (fold (\<lambda>k. put k m) ids c) = up c"
  by (induction ids arbitrary: c) (simp_all add: up_put)

lemma ok_all: "ok c \<Longrightarrow> ok (fold (\<lambda>k. put k m) ids c)"
  by (induction ids arbitrary: c) (simp_all add: ok_put)

lemma inbox_all:
  "ok c \<Longrightarrow> distinct ids \<Longrightarrow>
   inbox q (fold (\<lambda>k. put k m) ids c) = inbox q c @ (if q \<in> set ids \<and> up c q then [m] else [])"
proof (induction ids arbitrary: c)
  case (Cons k ids)
  then show ?case
    using Cons.IH [OF ok_put [OF Cons.prems(1), of k m]] by (auto simp: inbox_put up_put)
qed simp

lemma others_eq: "fold (\<lambda>k c. if k = me then c else put k m c) ids c =
    fold (\<lambda>k. put k m) (filter (\<lambda>k. k \<noteq> me) ids) c"
  by (induction ids arbitrary: c) auto

lemma inbox_others:
  "ok c \<Longrightarrow> distinct ids \<Longrightarrow>
   inbox q (fold (\<lambda>k c. if k = me then c else put k m c) ids c) =
     inbox q c @ (if q \<in> set ids \<and> q \<noteq> me \<and> up c q then [m] else [])"
  by (simp add: others_eq inbox_all)

text \<open>Everyone else is told, then the one who asked gets an answer of its own.\<close>

lemma inbox_others_then_self:
  assumes "ok c" "distinct ids"
  shows "inbox q (put me m' (fold (\<lambda>k c. if k = me then c else put k m c) ids c)) =
    inbox q c @ (if \<not> up c q then [] else if q = me then [m'] else if q \<in> set ids then [m] else [])"
  using assms by (auto simp: others_eq inbox_put inbox_all ok_all up_all)

end

subsection \<open>The server's channel\<close>

definition deferred_texts :: "string \<Rightarrow> deferred \<Rightarrow> string list" where
  "deferred_texts q d =
    (case d of DSend k m op \<Rightarrow> if k = q \<and> op = OpText then [m] else []
     | DBatch b \<Rightarrow> (case map_of b q of None \<Rightarrow> [] | Some ms \<Rightarrow> ms)
     | DClear _ \<Rightarrow> [])"

definition waiting :: "string \<Rightarrow> game_data \<Rightarrow> string list" where
  "waiting q g = (case map_of (g_peers_send_data g) q of None \<Rightarrow> [] | Some ms \<Rightarrow> ms)"

definition stream :: "string \<Rightarrow> ctx \<Rightarrow> string list" where
  "stream q c = concat (map (deferred_texts q) (defers c)) @ waiting q (game c)"

definition online :: "ctx \<Rightarrow> string \<Rightarrow> bool" where
  "online c q \<longleftrightarrow> \<not> fm_has q (g_disconnected_peers (game c))"

text \<open>A game that sends at once has nothing waiting for a batch.\<close>

definition direct :: "ctx \<Rightarrow> bool" where
  "direct c \<longleftrightarrow> (g_send_rate (game c) = 0 \<longrightarrow> g_peers_send_data (game c) = [])"

lemma upd_game_base [simp]:
  "defers (upd_game f c) = defers c" "now (upd_game f c) = now c"
  "database_queue (upd_game f c) = database_queue c"
  by (simp_all add: upd_game_def)

interpretation net: channel stream "\<lambda>p m. send p m OpText" online direct
proof
  show "stream q (send p m OpText c) = stream q c @ (if q = p \<and> online c p then [m] else [])"
    if "direct c" for q p m c
    using that
    by (auto simp: stream_def send_def Let_def online_def direct_def waiting_def deferred_texts_def
        split: option.split)
  show "online (send p m OpText c) = online c" for p m c
    by (simp add: online_def fun_eq_iff)
  show "direct (send p m OpText c)" if "direct c" for p m c
    using that by (auto simp: direct_def send_def Let_def)
qed

text \<open>Handing a batch over neither loses, repeats nor reorders a text.\<close>

lemma stream_send_game: "stream q (send_game c) = stream q c"
  by (auto simp: stream_def send_game_def Let_def waiting_def deferred_texts_def split: option.split)

lemma direct_send_game: "direct c \<Longrightarrow> direct (send_game c)"
  by (auto simp: direct_def send_game_def Let_def)

end
