(* ===== verification/Scenario.thy ===== *)
theory Scenario
  imports Delivery
begin

text \<open>
  A small concrete server on which the properties are exercised: services with fixed answers
  (\<open>E0\<close>), a game without a script, and the contexts a first peer \<open>a\<close> and a second peer \<open>b\<close> lead
  to by connecting, creating a lobby and joining it.
\<close>

definition doc :: "i64 \<Rightarrow> (string \<times> yyval) list \<Rightarrow> yyval" where
  "doc command entries =
    YObj [(YStr ''c'', YSint command), (YStr ''d'', YObj (map (\<lambda>(k, v). (YStr k, v)) entries))]"

definition reader :: "string \<Rightarrow> yyval option" where
  "reader s =
    map_of [(''create'', doc COMMAND_CREATE_LOBBY [(''m'', YSint 4)]),
      (''join'', doc COMMAND_JOIN_LOBBY [(''l'', YStr ''u'')]),
      (''quick'', doc COMMAND_LOBBY_QUICK_JOIN [(''m'', YSint 4)]),
      (''leave'', doc COMMAND_LEAVE_LOBBY [])] s"

definition E0 :: env where
  "E0 = \<lparr>yyjson_read = reader, yyjson_mut_write = (\<lambda>_. Some ''{}''),
    double_to_int = (\<lambda>_. 0), double_to_long = (\<lambda>_. 0),
    uuid_gen = (\<lambda>n. replicate (Suc n) CHR ''u''), bucket_order = (\<lambda>ks. ks),
    lua_main = (\<lambda>_. None), lua_has_function = (\<lambda>_ _. False), lua_pcall = (\<lambda>vm _ _. SRet vm []),
    lua_tostring = (\<lambda>_. ''0''), lua_tonumber = (\<lambda>_. None), lua_argerror = ''bad argument'',
    lua_newstate = (\<lambda>_. None), lua_c_depth = 2\<rparr>"

definition event :: "ws_event \<Rightarrow> string \<Rightarrow> string \<Rightarrow> ws_message" where
  "event e pid text = \<lparr>m_id = pid, m_event = e, m_message = text, m_game_id = ''g'',
     m_reconnection_token = ''t'', m_platform = ''anon'', m_name = [], m_platform_id = []\<rparr>"

definition empty_thread :: gthread where
  "empty_thread = start_thread 100 1000 360000 ''s'' 5"

definition blank :: "bool \<Rightarrow> ctx" where
  "blank disband =
    enter_game empty_thread ((new_game ''g'' ''relay'')\<lparr>g_disband_on_leave := disband\<rparr>)"

definition pair_events :: "ws_message list" where
  "pair_events = [event OPEN ''a'' [], event OPEN ''b'' [], event MESSAGE ''a'' ''create'',
     event MESSAGE ''b'' ''join'']"

text \<open>Peers \<open>a\<close> and \<open>b\<close> are in the lobby \<open>u\<close>, and \<open>a\<close> is its host.\<close>

definition pair :: "bool \<Rightarrow> ctx" where
  "pair disband = fold (handle_event E0) pair_events (blank disband)"

text \<open>The same, before \<open>b\<close> joins.\<close>

definition hosted :: "bool \<Rightarrow> ctx" where
  "hosted disband = fold (handle_event E0) (take 3 pair_events) (blank disband)"

definition arrived :: "bool \<Rightarrow> ctx" where
  "arrived disband = fold (handle_event E0) (take 2 pair_events) (blank disband)"

subsection \<open>Evaluation\<close>

text \<open>
  Evaluation in the kernel simplifies under binders. These equations unfold an operation only once
  its context is a concrete record, so that the cases below evaluate in linear time.
\<close>

lemma upd_game_code [code]:
  "upd_game f (base_ext t d n q u e (ctx_ext g ())) = base_ext t d n q u e (ctx_ext (f g) ())"
  by (simp add: upd_game_def)

lemmas set_peer_code [code] =
  set_peer_def [of _ _  "base_ext t d n q u e (ctx_ext g ())"] for t d n q u e g
lemmas set_lobby_code [code] =
  set_lobby_def [of _ _  "base_ext t d n q u e (ctx_ext g ())"] for t d n q u e g
lemmas touch_peer_code [code] =
  touch_peer_def [of _  "base_ext t d n q u e (ctx_ext g ())"] for t d n q u e g
lemmas touch_lobby_code [code] =
  touch_lobby_def [of _  "base_ext t d n q u e (ctx_ext g ())"] for t d n q u e g
lemmas send_code [code] =
  send_def [of _ _ _  "base_ext t d n q u e (ctx_ext g ())"] for t d n q u e g
lemmas peers_to_array_code [code] =
  peers_to_array_def [of _  "base_ext t d n q u e (ctx_ext g ())"] for t d n q u e g
lemmas sort_ordered_code [code] =
  sort_ordered_def [of _  "base_ext t d n q u e (ctx_ext g ())"] for t d n q u e g
lemmas join_changes_code [code] =
  join_changes_def [of _ _ _  "base_ext t d n q u e (ctx_ext g ())"] for t d n q u e g
lemmas join_notify_code [code] =
  join_notify_def [of _ _ _ _ _  "base_ext t d n q u e (ctx_ext g ())"] for t d n q u e g
lemmas send_others_code [code] =
  send_others_def [of _ _ _  "base_ext t d n q u e (ctx_ext g ())"] for t d n q u e g
lemmas send_loop_code [code] =
  send_loop_def [of _ _  "base_ext t d n q u e (ctx_ext g ())"] for t d n q u e g
lemmas ask_script_code [code] =
  ask_script_def [of _ _ _ _ _ _ _  "base_ext t d n q u e (ctx_ext g ())"] for t d n q u e g
lemmas finish_create_code [code] =
  finish_create_def [of _ _ _ _  "base_ext t d n q u e (ctx_ext g ())"] for t d n q u e g
lemmas ask_create_code [code] =
  ask_create_def [of _ _ _ _ _  "base_ext t d n q u e (ctx_ext g ())"] for t d n q u e g
lemmas on_join_lobby_code [code] =
  on_join_lobby_def [of _ _ _ _ _  "base_ext t d n q u e (ctx_ext g ())"] for t d n q u e g
lemmas on_create_lobby_code [code] =
  on_create_lobby_def [of _ _ _ _ _  "base_ext t d n q u e (ctx_ext g ())"] for t d n q u e g
lemmas on_leave_lobby_code [code] =
  on_leave_lobby_def [of _ _ _ _  "base_ext t d n q u e (ctx_ext g ())"] for t d n q u e g
lemmas remove_peer_from_lobby_code [code] =
  remove_peer_from_lobby_def [of _ _ _ _ _ _  "base_ext t d n q u e (ctx_ext g ())"] for t d n q u e g
lemmas remove_disband_code [code] =
  remove_disband_def [of _ _ _ _  "base_ext t d n q u e (ctx_ext g ())"] for t d n q u e g
lemmas remove_host_left_code [code] =
  remove_host_left_def [of _ _ _ _  "base_ext t d n q u e (ctx_ext g ())"] for t d n q u e g
lemmas remove_member_code [code] =
  remove_member_def [of _ _ _ _ _  "base_ext t d n q u e (ctx_ext g ())"] for t d n q u e g
lemmas detach_peer_code [code] =
  detach_peer_def [of _ _ _  "base_ext t d n q u e (ctx_ext g ())"] for t d n q u e g
lemmas dispatch_code [code] =
  dispatch_def [of _ _ _ _ _  "base_ext t d n q u e (ctx_ext g ())"] for t d n q u e g
lemmas set_lobby_sealed_code [code] =
  set_lobby_sealed_def [of _ _ _ _ _  "base_ext t d n q u e (ctx_ext g ())"] for t d n q u e g
lemmas set_lobby_ready_code [code] =
  set_lobby_ready_def [of _ _ _ _ _  "base_ext t d n q u e (ctx_ext g ())"] for t d n q u e g
lemmas lobby_data_notify_code [code] =
  lobby_data_notify_def [of _ _ _ _  "base_ext t d n q u e (ctx_ext g ())"] for t d n q u e g
lemmas peer_data_notify_code [code] =
  peer_data_notify_def [of _ _ _ _ _  "base_ext t d n q u e (ctx_ext g ())"] for t d n q u e g
lemmas afk_step_code [code] =
  afk_step_def [of _ _  "base_ext t d n q u e (ctx_ext g ())"] for t d n q u e g
lemmas disconnect_game_code [code] =
  disconnect_game_def [of _ _  "base_ext t d n q u e (ctx_ext g ())"] for t d n q u e g
lemmas handle_message_code [code] =
  handle_message_def [of _ _ _  "base_ext t d n q u e (ctx_ext g ())"] for t d n q u e g


lemma process_messages_code [code]:
  "process_messages E n (base_ext t d k q u e (gthread_ext gs mr rq ct li mx sf fw ())) =
    (let t = base_ext t d k q u e (gthread_ext gs mr rq ct li mx sf fw ())
     in if n = 0 then t
        else let (more, t) = handle_events E t in if more then process_messages E (n - 1) t else t)"
  by (cases n; simp add: Let_def cong: prod.case_cong if_cong)

lemmas handle_events_code [code] =
  handle_events_def [of _  "base_ext t d k q u e (gthread_ext gs mr rq ct li mx sf fw ())"]
  for t d k q u e gs mr rq ct li mx sf fw
lemmas in_game_code [code] =
  in_game_def [of _ _  "base_ext t d k q u e (gthread_ext gs mr rq ct li mx sf fw ())"]
  for t d k q u e gs mr rq ct li mx sf fw
lemmas for_games_code [code] =
  for_games_def [of _  "base_ext t d k q u e (gthread_ext gs mr rq ct li mx sf fw ())"]
  for t d k q u e gs mr rq ct li mx sf fw
lemmas handle_tick_code [code] =
  handle_tick_def [of _  "base_ext t d k q u e (gthread_ext gs mr rq ct li mx sf fw ())"]
  for t d k q u e gs mr rq ct li mx sf fw
lemmas handle_send_code [code] =
  handle_send_def [of  "base_ext t d k q u e (gthread_ext gs mr rq ct li mx sf fw ())"]
  for t d k q u e gs mr rq ct li mx sf fw
lemmas handle_disconnects_code [code] =
  handle_disconnects_def [of _  "base_ext t d k q u e (gthread_ext gs mr rq ct li mx sf fw ())"]
  for t d k q u e gs mr rq ct li mx sf fw
lemmas handle_afk_code [code] =
  handle_afk_def [of _  "base_ext t d k q u e (gthread_ext gs mr rq ct li mx sf fw ())"]
  for t d k q u e gs mr rq ct li mx sf fw
lemmas handle_lobby_list_code [code] =
  handle_lobby_list_def [of _  "base_ext t d k q u e (gthread_ext gs mr rq ct li mx sf fw ())"]
  for t d k q u e gs mr rq ct li mx sf fw
lemmas handle_timers_code [code] =
  handle_timers_def [of _  "base_ext t d k q u e (gthread_ext gs mr rq ct li mx sf fw ())"]
  for t d k q u e gs mr rq ct li mx sf fw

subsection \<open>The contexts of the scenario, evaluated\<close>

definition seat :: "string \<Rightarrow> i32 \<Rightarrow> i64 \<Rightarrow> string \<Rightarrow> string \<times> peer_data" where
  "seat k order t lid = (k,
     \<lparr>p_id = k, p_order_id = order, p_last_message_time = t, p_game_id = ''g'',
      p_reconnection_token = ''t'', p_lobby_id = lid, p_platform = ''anon'', p_platform_id = [],
      p_public_data = [], p_private_data = [], p_user_data = [], p_disconnected = False,
      p_ready = False, p_public_data_diff = [], p_public_data_dirty = False,
      p_private_data_diff = [], p_private_data_dirty = False, p_user_data_diff = [],
      p_user_data_dirty = False\<rparr>)"

definition table_of :: "string list \<Rightarrow> i64 \<Rightarrow> string \<times> lobby_data" where
  "table_of ids counter = (''u'',
     \<lparr>l_id = ''u'', l_name = [], l_host = ''a'', l_password = [], l_max_players = 4,
      l_peer_ids = ids, l_peer_ordered_ids = ids, l_create_time = 5, l_game_id = ''g'',
      l_sealed = False, l_disband_on_leave = False, l_public_data = [], l_private_data = [],
      l_tags = [], l_order_id_counter = counter, l_public_data_diff = [],
      l_public_data_dirty = False, l_private_data_diff = [], l_private_data_dirty = False,
      l_tags_diff = [], l_tags_dirty = False, l_max_players_dirty = False,
      l_sealed_dirty = False, l_name_dirty = False\<rparr>)"

definition stage ::
  "bool \<Rightarrow> nat \<Rightarrow> string list \<Rightarrow> (string \<times> peer_data) list \<Rightarrow> (string \<times> lobby_data) list \<Rightarrow> ctx" where
  "stage disband n told peers lobbies =
    \<lparr>now = 5, defers = map (\<lambda>k. DSend k ''{}'' OpText) told, messages_sent = of_nat (length told),
     database_queue = [], uuid_count = n, faults = [],
     game = \<lparr>g_last_send_time = 0, g_last_tick_time = 0, g_id = ''g'', g_lobby_control = ''relay'',
       g_tick_rate = 0, g_send_rate = 0, g_max_afk_time = 0, g_seal = False,
       g_disband_on_leave = disband, g_folder_name = [], g_peers_send_data = [], g_peers = peers,
       g_disconnected_peers = [], g_lobbies = lobbies, g_lobby_listing_peers = [],
       g_lobbies_updated = map fst lobbies, g_timer_data = [], g_enabled_callbacks = [],
       g_lua = \<lparr>lua_L = None, lua_scripts_folder = [], lua_folder_name = [],
         lua_script_entrypoint = [], lua_enabled = False, lua_reg_peer_id = [],
         lua_reg_lobby_id = [], lua_reg_game_id = []\<rparr>\<rparr>\<rparr>"

lemma arrived_value [code]:
  "arrived disband = stage disband 0 [''a'', ''b''] [seat ''a'' 0 0 [], seat ''b'' 0 0 []] []"
proof (cases disband)
  case True
  have "arrived True = stage True 0 [''a'', ''b''] [seat ''a'' 0 0 [], seat ''b'' 0 0 []] []" by code_simp
  then show ?thesis by (simp only: True)
next
  case False
  have "arrived False = stage False 0 [''a'', ''b''] [seat ''a'' 0 0 [], seat ''b'' 0 0 []] []" by code_simp
  then show ?thesis by (simp only: False)
qed

lemma hosted_step: "hosted disband = handle_event E0 (event MESSAGE ''a'' ''create'') (arrived disband)"
  by (simp add: hosted_def arrived_def pair_events_def numeral_eq_Suc)

lemma hosted_value [code]:
  "hosted disband = stage disband 1 [''a'', ''b'', ''a''] [seat ''a'' 0 5 ''u'', seat ''b'' 0 0 []] [table_of [''a''] 0]"
proof (cases disband)
  case True
  have "handle_event E0 (event MESSAGE ''a'' ''create'') (arrived True) =
    stage True 1 [''a'', ''b'', ''a''] [seat ''a'' 0 5 ''u'', seat ''b'' 0 0 []] [table_of [''a''] 0]" by code_simp
  then show ?thesis by (simp only: True hosted_step)
next
  case False
  have "handle_event E0 (event MESSAGE ''a'' ''create'') (arrived False) =
    stage False 1 [''a'', ''b'', ''a''] [seat ''a'' 0 5 ''u'', seat ''b'' 0 0 []] [table_of [''a''] 0]" by code_simp
  then show ?thesis by (simp only: False hosted_step)
qed

lemma pair_step: "pair disband = handle_event E0 (event MESSAGE ''b'' ''join'') (hosted disband)"
  by (simp add: pair_def hosted_def pair_events_def numeral_eq_Suc)

lemma pair_value [code]:
  "pair disband = stage disband 1 [''a'', ''b'', ''a'', ''a'', ''b''] [seat ''a'' 0 5 ''u'', seat ''b'' 1 5 ''u'']
     [table_of [''a'', ''b''] 1]"
proof (cases disband)
  case True
  have "handle_event E0 (event MESSAGE ''b'' ''join'') (hosted True) =
    stage True 1 [''a'', ''b'', ''a'', ''a'', ''b''] [seat ''a'' 0 5 ''u'', seat ''b'' 1 5 ''u''] [table_of [''a'', ''b''] 1]"
    by code_simp
  then show ?thesis by (simp only: True pair_step)
next
  case False
  have "handle_event E0 (event MESSAGE ''b'' ''join'') (hosted False) =
    stage False 1 [''a'', ''b'', ''a'', ''a'', ''b''] [seat ''a'' 0 5 ''u'', seat ''b'' 1 5 ''u''] [table_of [''a'', ''b''] 1]"
    by code_simp
  then show ?thesis by (simp only: False pair_step)
qed

subsection \<open>The scenario is sound\<close>

lemma orders_keys_E0: "orders_keys E0"
  by (simp add: orders_keys_def E0_def)

lemma fresh_E0: "n \<le> 7 \<Longrightarrow> fresh_uuids E0 n"
proof (rule fresh_uuids_mono [of _ 7])
  have "distinct (map (\<lambda>i. take 8 (uuid_gen E0 i)) [0..<7])" by code_simp
  then show "fresh_uuids E0 7" by (simp add: fresh_uuids_def E0_def)
qed

lemma sound_blank: "sound E0 (blank True)"
  by (simp add: sound_def blank_def strict_game_def wf_game_def fresh_uuids_def unscripted_def
      new_game_def default_lua_def empty_thread_def start_thread_def enter_game_def)

lemma counts: "uuid_count (arrived True) = 0" "uuid_count (hosted True) = 1" "uuid_count (pair True) = 1"
  by code_simp+

lemma sound_events:
  assumes "uuid_count (fold (handle_event E0) ms (blank True)) \<le> 7"
  shows "sound E0 (fold (handle_event E0) ms (blank True))"
proof -
  have eq: "fold (play E0) (map Incoming ms) c = fold (handle_event E0) ms c" for c
    by (induction ms arbitrary: c) simp_all
  show ?thesis
    using sound_plays [OF sound_blank orders_keys_E0, of "map Incoming ms"] assms
    by (simp add: eq fresh_E0)
qed

lemma sound_pair: "sound E0 (pair True)"
  unfolding pair_def by (rule sound_events) (use counts(3) in \<open>simp only: pair_def\<close>)

lemma sound_hosted: "sound E0 (hosted True)"
  unfolding hosted_def by (rule sound_events) (use counts(2) in \<open>simp only: hosted_def\<close>)

lemma sound_arrived: "sound E0 (arrived True)"
  unfolding arrived_def by (rule sound_events) (use counts(1) in \<open>simp only: arrived_def\<close>)

subsection \<open>A round of the thread\<close>

definition start_times :: run_state where
  "start_times = \<lparr>last_listing = 5, last_disconnect = 5, last_timers = 5\<rparr>"

definition served :: gthread where
  "served = snd (run_round E0 6 (start_times, empty_thread\<lparr>receive_queue := pair_events\<rparr>))"

lemma served_value [code]:
  "served = leave_game ''g'' (pair False) (empty_thread\<lparr>messages_received := 4\<rparr>)"
  by code_simp

lemma served_reachable: "\<exists>r. reachable E0 (r, served)"
proof -
  have init: "reachable E0 (start_times, empty_thread)"
    unfolding empty_thread_def by (rule reachable.init)
  have queue: "reachable E0 (start_times, t\<lparr>receive_queue := receive_queue t @ ms\<rparr>)"
    if "reachable E0 (start_times, t)" for t ms
    using that
  proof (induction ms arbitrary: t)
    case (Cons m ms)
    then show ?case using Cons.IH [OF reachable.receive [OF Cons.prems, of m]] by simp
  qed simp
  have "reachable E0 (start_times, empty_thread\<lparr>receive_queue := pair_events\<rparr>)"
    using queue [OF init, of pair_events] by (simp add: empty_thread_def start_thread_def)
  then have "reachable E0 (run_round E0 6 (start_times, empty_thread\<lparr>receive_queue := pair_events\<rparr>))"
    by (rule reachable.round)
  then show ?thesis unfolding served_def by (metis prod.collapse)
qed

lemma served_clean: "faults served = []" "fresh_uuids E0 (uuid_count served)"
proof -
  show "faults served = []" by code_simp
  have "uuid_count served = 1" by code_simp
  then show "fresh_uuids E0 (uuid_count served)" by (simp add: fresh_E0)
qed

definition served_game :: game_data where
  "served_game = the (map_of (games served) ''g'')"

lemma served_games: "map_of (games served) ''g'' = Some served_game"
proof -
  have "map_of (games served) ''g'' \<noteq> None" by code_simp
  then show ?thesis by (simp add: served_game_def)
qed

end
