(* ===== verification/Effects.thy ===== *)
theory Effects
  imports Scenario
begin

text \<open>
  What the handlers do to the records and to the streams towards the clients, for a peer and a
  lobby that exist: the exact effect of a command that is accepted, and the exact answer to one
  that is refused.
\<close>

subsection \<open>A peer in its lobby\<close>

text \<open>The caller \<open>pid\<close> has the record \<open>p\<close> and is in the lobby \<open>lid\<close>, whose record is \<open>l\<close>.\<close>

definition member_of :: "ctx \<Rightarrow> string \<Rightarrow> string \<Rightarrow> bool" where
  "member_of c pid lid \<longleftrightarrow>
    has_peer c pid \<and> p_id (peer_at c pid) = pid \<and> p_lobby_id (peer_at c pid) = lid \<and> lid \<noteq> [] \<and>
    has_lobby c lid \<and> l_id (lobby_at c lid) = lid \<and> distinct (l_peer_ids (lobby_at c lid)) \<and>
    pid \<in> set (l_peer_ids (lobby_at c lid))"

lemma sound_member_of:
  assumes "sound E c" "p_lobby_id (peer_at c pid) = lid" "lid \<noteq> []"
  shows "member_of c pid lid"
proof -
  note own = sound_own_lobby [OF assms(1), of pid]
  have l: "has_lobby c lid" "pid \<in> set (l_peer_ids (lobby_at c lid))"
    using own assms by auto
  obtain m where m: "map_of (g_lobbies (game c)) lid = Some m"
    using l by (auto simp: has_lobby_def fm_has_def)
  have "wf_lobby E (uuid_count c) lid m" using sound_wf_lobby [OF assms(1) m] .
  then show ?thesis
    using l sound_member(1) [OF assms(1) l(2)] sound_peer_id [OF assms(1)] assms m
    by (simp add: member_of_def wf_lobby_def lobby_at_def fs_wf_distinct)
qed

lemma member_touch: "member_of c pid lid \<Longrightarrow> touch_lobby lid c = c"
  by (simp add: member_of_def touch_lobby_def)

lemma member_peer: "member_of c pid lid \<Longrightarrow>
    p_id (peer_at c pid) = pid \<and> p_lobby_id (peer_at c pid) = lid \<and> lid \<noteq> []"
  by (simp add: member_of_def)

lemma no_callback: "\<not> has_callback c f \<Longrightarrow> ask_script E b f i p lid args c = (True, c)"
  by (simp add: ask_script_def)

text \<open>Reading a record back through a context that differs in outgoing messages only.\<close>

lemma state_of_peer_at: "state_of c = state_of c' \<Longrightarrow> peer_at c k = peer_at c' k"
  and state_of_lobby_at: "state_of c = state_of c' \<Longrightarrow> lobby_at c k = lobby_at c' k"
  and state_of_has_lobby: "state_of c = state_of c' \<Longrightarrow> has_lobby c k = has_lobby c' k"
  and state_of_has_peer: "state_of c = state_of c' \<Longrightarrow> has_peer c k = has_peer c' k"
  using state_of_fields(1,2) [of c c'] by (simp_all add: peer_at_def lobby_at_def has_lobby_def has_peer_def)

lemma online_state: "state_of c = state_of c' \<Longrightarrow> online c = online c'"
  using state_of_fields(3) [of c c'] by (simp add: online_def fun_eq_iff)

lemma send_reads [simp]:
  "peer_at (send p m op c) k = peer_at c k" "lobby_at (send p m op c) k = lobby_at c k"
  "has_peer (send p m op c) k = has_peer c k" "has_lobby (send p m op c) k = has_lobby c k"
  "peer_at (send_others me ids m c) k = peer_at c k" "lobby_at (send_others me ids m c) k = lobby_at c k"
  "peer_at (send_loop ids m c) k = peer_at c k" "lobby_at (send_loop ids m c) k = lobby_at c k"
  by (simp_all add: peer_at_def lobby_at_def has_lobby_def has_peer_def)

text \<open>The answers every handler gives.\<close>

lemma stream_send: "direct c \<Longrightarrow> stream q (send p m OpText c) =
    stream q c @ (if q = p \<and> online c q then [m] else [])"
  by (auto simp: net.inbox_put)

lemma stream_on_error: "direct c \<Longrightarrow> stream q (on_error E i p m False le c) =
    stream q c @ (if q = p \<and> online c q then [notification_error (yyjson_mut_write E) m i le] else [])"
  by (simp add: on_error_def stream_send)

lemma stream_all: "direct c \<Longrightarrow> distinct ids \<Longrightarrow> stream q (send_loop ids m c) =
    stream q c @ (if q \<in> set ids \<and> online c q then [m] else [])"
  unfolding send_loop_def by (rule net.inbox_all)

lemma stream_others_then_self:
  "direct c \<Longrightarrow> distinct ids \<Longrightarrow> stream q (send me m' OpText (send_others me ids m c)) =
    stream q c @ (if \<not> online c q then [] else if q = me then [m'] else if q \<in> set ids then [m] else [])"
  unfolding send_others_def by (rule net.inbox_others_then_self)

subsection \<open>Chat and notifications\<close>

lemma chat_accepted:
  assumes m: "member_of c pid lid" and cb: "\<not> has_callback c ''_can_peer_chat''"
    and said: "message = strip_BBCode (decode_string_or_default data ''c'' [])"
      "message \<noteq> []" "length message \<le> 256"
    and meta: "decode_object (yy_obj_get data ''m'') [] = (err, metadata)"
    and c1: "c1 = (if err = [] then c else on_error E i pid ERROR_CANNOT_PARSE_JSON False False c)"
  shows "on_chat_lobby E i pid data c =
    send pid (notification_chat (yyjson_mut_write E) pid message i metadata) OpText
      (send_others pid (l_peer_ids (lobby_at c lid))
        (notification_chat (yyjson_mut_write E) pid message [] metadata) c1)"
proof -
  have st: "state_of c1 = state_of c" by (simp add: c1)
  have m1: "member_of c1 pid lid" unfolding member_of_def
    using m state_of_has_peer [OF st] state_of_has_lobby [OF st] state_of_peer_at [OF st] state_of_lobby_at [OF st]
    by (simp add: member_of_def)
  have cb1: "\<not> has_callback c1 ''_can_peer_chat''" using cb by (simp add: c1 on_error_def has_callback_def)
  show ?thesis
  proof (cases "err = []")
    case True
    then have "c1 = c" by (simp add: c1)
    then show ?thesis
      using member_peer [OF m] said
      by (simp add: on_chat_lobby_def Let_def meta True member_touch [OF m] no_callback [OF cb] flip: said(1))
  next
    case False
    then have "on_error E i pid ERROR_CANNOT_PARSE_JSON False False c = c1" by (simp add: c1)
    then show ?thesis
      using member_peer [OF m] member_peer [OF m1] said
      by (simp add: on_chat_lobby_def Let_def meta False member_touch [OF m] member_touch [OF m1]
          no_callback [OF cb1] state_of_lobby_at [OF st] flip: said(1))
  qed
qed

lemma chat_refused:
  assumes m: "member_of c pid lid"
    and said: "message = strip_BBCode (decode_string_or_default data ''c'' [])"
      "message = [] \<or> 256 < length message"
  shows "on_chat_lobby E i pid data c = on_error E i pid ''Invalid chat message'' False False c"
  using member_peer [OF m] said(2)
  by (simp add: on_chat_lobby_def Let_def member_touch [OF m] flip: said(1))

lemma lobby_notify_accepted:
  assumes m: "member_of c pid lid" and relay: "g_lobby_control (game c) = ''relay''"
    and data: "decode_entry data ''d'' = Inr d"
  shows "on_lobby_notify E i pid data c =
    send pid (notification_notify_sent (yyjson_mut_write E) i) OpText
      (send_loop (if l_host (lobby_at c lid) = pid then l_peer_ids (lobby_at c lid)
                  else [l_host (lobby_at c lid)])
        (notification_peer_notify (yyjson_mut_write E) (AMap d) pid) c)"
  using member_peer [OF m] relay
  by (simp add: on_lobby_notify_def Let_def member_touch [OF m] data send_loop_def)


subsection \<open>Writing a record and telling the lobby\<close>

lemma set_lobby_send: "set_lobby k f (send p m op c) = send p m op (set_lobby k f c)"
  by (auto simp: set_lobby_def send_def upd_game_def fault_add_def Let_def split: option.split)

lemma set_lobby_send_others: "set_lobby k f (send_others me ids m c) = send_others me ids m (set_lobby k f c)"
  by (induction ids arbitrary: c) (simp_all add: send_others_def set_lobby_send)

lemma set_lobby_twice: "set_lobby k f (set_lobby k g c) = set_lobby k (\<lambda>l. f (g l)) c"
  if "has_lobby c k"
  using that by (auto simp: set_lobby_def has_lobby_def fm_has_def upd_game_def fm_put_put split: option.split)

lemma set_lobby_cong: "f (lobby_at c k) = g (lobby_at c k) \<Longrightarrow> set_lobby k f c = set_lobby k g c"
  by (auto simp: set_lobby_def lobby_at_def split: option.split)

lemma set_lobby_reads:
  assumes "has_lobby c k"
  shows "lobby_at (set_lobby k f c) j = (if j = k then f (lobby_at c k) else lobby_at c j)"
    "peer_at (set_lobby k f c) j = peer_at c j" "has_peer (set_lobby k f c) j = has_peer c j"
    "has_lobby (set_lobby k f c) j = has_lobby c j" "online (set_lobby k f c) = online c"
    "stream q (set_lobby k f c) = stream q c" "direct (set_lobby k f c) = direct c"
  using assms
  by (auto simp: set_lobby_def has_lobby_def fm_has_def lobby_at_def peer_at_def has_peer_def
      online_def fun_eq_iff stream_def waiting_def direct_def split: if_splits)

lemma mark_reads [simp]:
  "lobby_at (mark_updated k c) j = lobby_at c j" "peer_at (mark_updated k c) j = peer_at c j"
  "has_peer (mark_updated k c) j = has_peer c j" "has_lobby (mark_updated k c) j = has_lobby c j"
  "online (mark_updated k c) = online c" "stream q (mark_updated k c) = stream q c"
  "direct (mark_updated k c) = direct c"
  by (simp_all add: mark_updated_def lobby_at_def peer_at_def has_peer_def has_lobby_def online_def
      fun_eq_iff stream_def waiting_def direct_def)

lemma fold_put_self:
  "fm_wf d \<Longrightarrow> \<forall>a \<in> fst ` set m. \<forall>b \<in> fst ` set d. a < b \<Longrightarrow>
   fold (\<lambda>(k, v). fm_put k v) d m = m @ d"
proof (induction d arbitrary: m)
  case (Cons e d)
  obtain k v where e: "e = (k, v)" by (cases e)
  have "fm_put k v m = m @ [(k, v)]"
    using Cons.prems e by (intro fm_put_last) auto
  moreover have "fold (\<lambda>(k, v). fm_put k v) d (m @ [(k, v)]) = (m @ [(k, v)]) @ d"
    using Cons.prems e by (intro Cons.IH) auto
  ultimately show ?case by (simp add: e)
qed simp

lemma merge_dict_Cons: "merge_dict ((k, v) # kvs) m =
    merge_dict kvs (if v = ANull then fm_erase k m else fm_put k v m)"
  by (simp add: merge_dict_def)

lemma fold_lobby_store:
  "fold (lobby_store False) kvs l = (if kvs = [] then l else
    l\<lparr>l_public_data_dirty := True, l_public_data_diff := fold (\<lambda>(k, v). fm_put k v) kvs (l_public_data_diff l),
      l_public_data := merge_dict kvs (l_public_data l)\<rparr>)"
  "fold (lobby_store True) kvs l = (if kvs = [] then l else
    l\<lparr>l_private_data_dirty := True, l_private_data_diff := fold (\<lambda>(k, v). fm_put k v) kvs (l_private_data_diff l),
      l_private_data := merge_dict kvs (l_private_data l)\<rparr>)"
  by (induction kvs arbitrary: l)
     (auto simp: lobby_store_def merge_dict_Cons merge_dict_def split: prod.split)

lemma decode_entry_wf:
  assumes "decode_entry data key = Inr d"
  shows "fm_wf d"
proof -
  have "fm_wf (snd (decode_pairs kvs []))" for kvs
    using decode_wf(3) [of "[]" kvs] by simp
  moreover obtain kvs where "d = snd (decode_pairs kvs [])"
    using assms
    by (cases "yy_obj_get data key")
       (auto simp: decode_entry_def decode_object_def Let_def split_beta split: yyval.splits if_splits)
  ultimately show ?thesis by simp
qed

definition clean_lobby :: "lobby_data \<Rightarrow> bool" where
  "clean_lobby l \<longleftrightarrow> \<not> l_public_data_dirty l \<and> \<not> l_private_data_dirty l \<and>
     l_public_data_diff l = [] \<and> l_private_data_diff l = []"

lemma lobby_data_accepted:
  assumes m: "member_of c pid lid" and host: "l_host (lobby_at c lid) = pid"
    and relay: "g_lobby_control (game c) = ''relay''"
    and data: "decode_entry data ''d'' = Inr d" and clean: "clean_lobby (lobby_at c lid)"
  shows "\<not> decode_bool_or_default data ''_p'' False \<Longrightarrow> d \<noteq> [] \<Longrightarrow> on_lobby_data E i pid data c =
      send pid (notification_lobby_public_data (yyjson_mut_write E) (AMap d) i) OpText
        (send_others pid (l_peer_ids (lobby_at c lid))
          (notification_lobby_public_data (yyjson_mut_write E) (AMap d) [])
          (set_lobby lid (\<lambda>l. l\<lparr>l_public_data := merge_dict d (l_public_data l)\<rparr>) c))"
    "decode_bool_or_default data ''_p'' False \<Longrightarrow> d \<noteq> [] \<Longrightarrow> on_lobby_data E i pid data c =
      send pid (notification_lobby_private_data (yyjson_mut_write E) (AMap d) i) OpText
        (set_lobby lid (\<lambda>l. l\<lparr>l_private_data := merge_dict d (l_private_data l)\<rparr>) c)"
proof -
  have hl: "has_lobby c lid" using m by (simp add: member_of_def)
  have d: "fold (\<lambda>(k, v). fm_put k v) d [] = d"
    using fold_put_self [OF decode_entry_wf [OF data], of "[]"] by simp
  have start: "on_lobby_data E i pid data c = lobby_data_notify E i pid lid
      (set_lobby lid (fold (lobby_store (decode_bool_or_default data ''_p'' False)) d) c)"
    using member_peer [OF m] host relay data
    by (simp add: on_lobby_data_def Let_def host_relay_refusal_def touch_own_lobby_def member_touch [OF m])
  note simps = lobby_data_notify_def Let_def set_lobby_reads hl set_lobby_send set_lobby_send_others
    set_lobby_twice fold_lobby_store d clean [unfolded clean_lobby_def]
  show "on_lobby_data E i pid data c =
      send pid (notification_lobby_public_data (yyjson_mut_write E) (AMap d) i) OpText
        (send_others pid (l_peer_ids (lobby_at c lid))
          (notification_lobby_public_data (yyjson_mut_write E) (AMap d) [])
          (set_lobby lid (\<lambda>l. l\<lparr>l_public_data := merge_dict d (l_public_data l)\<rparr>) c))"
    if "\<not> decode_bool_or_default data ''_p'' False" "d \<noteq> []"
    unfolding start using that clean
    by (simp add: simps)
       (intro arg_cong [where f = "send _ _ _"] arg_cong [where f = "send_others _ _ _"] set_lobby_cong,
        simp add: clean_lobby_def)
  show "on_lobby_data E i pid data c =
      send pid (notification_lobby_private_data (yyjson_mut_write E) (AMap d) i) OpText
        (set_lobby lid (\<lambda>l. l\<lparr>l_private_data := merge_dict d (l_private_data l)\<rparr>) c)"
    if "decode_bool_or_default data ''_p'' False" "d \<noteq> []"
    unfolding start using that clean
    by (simp add: simps)
       (intro arg_cong [where f = "send _ _ _"] set_lobby_cong, simp add: clean_lobby_def)
qed


subsection \<open>What the host may do, and what any member may\<close>

definition host_commands :: "i64 list" where
  "host_commands = [COMMAND_LOBBY_DATA, COMMAND_LOBBY_DATA_TO, COMMAND_LOBBY_DATA_TO_ALL,
     COMMAND_LOBBY_NOTIFY_TO, COMMAND_LOBBY_TAGS, COMMAND_KICK_PEER, COMMAND_LOBBY_SEAL,
     COMMAND_LOBBY_UNSEAL]"

lemma host_only:
  assumes m: "member_of c pid lid" and host: "l_host (lobby_at c lid) \<noteq> pid"
    and cmd: "cmd \<in> set host_commands"
  shows "dispatch E cmd i pid data c = on_error E i pid ERROR_PEER_NOT_HOST False False c"
proof -
  note simps = Let_def member_touch [OF m] host_relay_refusal_def touch_own_lobby_def
  have
    "on_lobby_data E i pid data c = on_error E i pid ERROR_PEER_NOT_HOST False False c"
    "on_data_to E i pid data c = on_error E i pid ERROR_PEER_NOT_HOST False False c"
    "on_data_to_all E i pid data c = on_error E i pid ERROR_PEER_NOT_HOST False False c"
    "on_notify_to E i pid data c = on_error E i pid ERROR_PEER_NOT_HOST False False c"
    "on_lobby_tags E i pid data c = on_error E i pid ERROR_PEER_NOT_HOST False False c"
    "on_kick_peer E i pid data c = on_error E i pid ERROR_PEER_NOT_HOST False False c"
    "on_seal_lobby E i pid data c = on_error E i pid ERROR_PEER_NOT_HOST False False c"
    "on_unseal_lobby E i pid data c = on_error E i pid ERROR_PEER_NOT_HOST False False c"
    using member_peer [OF m] host
    by (simp_all add: on_lobby_data_def on_data_to_def on_data_to_all_def on_notify_to_def
        on_lobby_tags_def on_kick_peer_def on_seal_lobby_def on_unseal_lobby_def change_seal_def simps)
  then show ?thesis
    using cmd by (auto simp: host_commands_def dispatch_def command_defs)
qed

lemma lobby_title_any_member:
  assumes m: "member_of c pid lid" and cb: "\<not> has_callback c ''_can_host_set_title''"
    and title: "title = decode_string_or_default data ''n'' []"
  shows "on_lobby_title E i pid data c = mark_updated lid
    (send pid (notification_lobby_title (yyjson_mut_write E) title i) OpText
      (send_others pid (l_peer_ids (lobby_at c lid)) (notification_lobby_title (yyjson_mut_write E) title [])
        (set_lobby lid (\<lambda>l. l\<lparr>l_name := title\<rparr>) c)))"
  using member_peer [OF m] m title
  by (simp add: on_lobby_title_def Let_def member_touch [OF m] no_callback [OF cb] set_lobby_reads
      member_of_def)

lemma lobby_password_any_member:
  assumes m: "member_of c pid lid" and password: "password = decode_string_or_default data ''_p'' []"
  shows "on_lobby_password E i pid data c = mark_updated lid
    (send pid (notification_lobby_password_protected (yyjson_mut_write E) (password \<noteq> []) i) OpText
      (send_others pid (l_peer_ids (lobby_at c lid))
        (notification_lobby_password_protected (yyjson_mut_write E) (password \<noteq> []) [])
        (set_lobby lid (\<lambda>l. l\<lparr>l_password := password\<rparr>) c)))"
  using member_peer [OF m] m password
  by (simp add: on_lobby_password_def Let_def member_touch [OF m] set_lobby_reads member_of_def)

lemma lobby_max_players_any_member:
  assumes m: "member_of c pid lid" and cb: "\<not> has_callback c ''_can_host_resize''"
    and n: "n = decode_int_or_default (double_to_int E) data ''m'' 0"
  shows "on_lobby_max_players E i pid data c =
    (if size_le (length (l_peer_ids (lobby_at c lid))) n then mark_updated lid
      (send pid (notification_lobby_max_players (yyjson_mut_write E) (to_i32 n) i) OpText
        (send_others pid (l_peer_ids (lobby_at c lid))
          (notification_lobby_max_players (yyjson_mut_write E) (to_i32 n) [])
          (set_lobby lid (\<lambda>l. l\<lparr>l_max_players := n\<rparr>) c)))
     else on_error E i pid ERROR_LOBBY_FULL False False c)"
  using member_peer [OF m] m n
  by (simp add: on_lobby_max_players_def Let_def member_touch [OF m] no_callback [OF cb] set_lobby_reads
      member_of_def)

lemma lobby_tags_accepted:
  assumes m: "member_of c pid lid" and host: "l_host (lobby_at c lid) = pid"
    and cb: "\<not> has_callback c ''_can_host_set_tags''" and data: "decode_entry data ''t'' = Inr new"
    and tags: "tags = merge_dict new (l_tags (lobby_at c lid))"
  shows "on_lobby_tags E i pid data c = mark_updated lid
    (send pid (notification_tags (yyjson_mut_write E) (AMap tags) i) OpText
      (send_others pid (l_peer_ids (lobby_at c lid)) (notification_tags (yyjson_mut_write E) (AMap tags) [])
        (set_lobby lid (\<lambda>l. l\<lparr>l_tags := tags\<rparr>) c)))"
proof -
  have hl: "has_lobby c lid" using m by (simp add: member_of_def)
  have "set_lobby lid (\<lambda>l. l\<lparr>l_tags := merge_dict new (l_tags l)\<rparr>) c = set_lobby lid (\<lambda>l. l\<lparr>l_tags := tags\<rparr>) c"
    by (rule set_lobby_cong) (simp add: tags)
  moreover have "touch_lobby lid (set_lobby lid f c) = set_lobby lid f c" for f
    using hl by (simp add: touch_lobby_def set_lobby_reads)
  ultimately show ?thesis
    using member_peer [OF m] host
    by (simp add: on_lobby_tags_def Let_def member_touch [OF m] data no_callback [OF cb] set_lobby_reads hl)
qed

text \<open>
  An unsigned comparison lets every negative size through, and no lobby of such a size is full.
\<close>

lemma sint_small: "uint (n :: i64) < 2 ^ 63 \<Longrightarrow> sint n = uint n"
  unfolding sint_uint by (rule signed_take_bit_int_eq_self) (simp_all add: order.trans [OF _ uint_ge_0])

lemma negative_unat:
  assumes "sint (n :: i64) < 0"
  shows "2 ^ 63 \<le> unat n"
proof (rule ccontr)
  assume "\<not> 2 ^ 63 \<le> unat n"
  then have "int (unat n) < int (2 ^ 63)" by (simp only: of_nat_less_iff not_le)
  then have "uint n < 2 ^ 63" by (simp add: of_nat_unat)
  then have "sint n = uint n" by (rule sint_small)
  then show False using assms uint_ge_0 [of n] by linarith
qed

lemma size_le_signed:
  assumes "m \<le> 2 ^ 63"
  shows "size_le m n \<longleftrightarrow> sint n < 0 \<or> int m \<le> sint (n :: i64)"
proof (cases "sint n < 0")
  case True
  then show ?thesis using order_trans [OF assms negative_unat [OF True]] by (simp only: size_le_def) simp
next
  case False
  have "int m \<le> int (unat n) \<longleftrightarrow> m \<le> unat n" by (rule of_nat_le_iff)
  then show ?thesis using False by (simp only: size_le_def sint_nonneg [OF False] of_nat_unat) simp
qed

end
