(* ===== verification/Moves_Effects.thy ===== *)
theory Moves_Effects
  imports Effects "HOL-Library.Multiset"
begin

text \<open>
  The exact effect of the handlers that change who is in which lobby, in a sound game: joining,
  creating, leaving and kicking, and of closing and reopening a connection.
\<close>

subsection \<open>Joining\<close>

lemma peers_to_array_present:
  assumes "sound E c" "has_lobby c lid" "state_of c' = state_of c"
  shows "snd (peers_to_array lid c') = c'"
proof -
  have l: "has_lobby c' lid" "l_peer_ids (lobby_at c' lid) = l_peer_ids (lobby_at c lid)"
    using assms(2) state_of_has_lobby [OF assms(3)] state_of_lobby_at [OF assms(3)] by simp_all
  have "has_peer c' k" if "k \<in> set (l_peer_ids (lobby_at c lid))" for k
    using sound_member(1) [OF assms(1) that] state_of_has_peer [OF assms(3)] by simp
  then show ?thesis
    by (simp add: peers_to_array_def Let_def touch_lobby_def l touch_all_present)
qed

lemma state_of_join_notify:
  assumes "sound E c" "has_lobby c lid"
  shows "state_of (join_notify E' b i pid lid c) = state_of c"
  using sound_lobby_id [OF assms] peers_to_array_present [OF assms state_of_send_others]
  by (simp add: join_notify_def Let_def split_beta)

definition join_target :: "bool \<Rightarrow> peer_data \<Rightarrow> yyval option \<Rightarrow> string \<Rightarrow> string" where
  "join_target reconnecting peer data ov =
    (if reconnecting then p_lobby_id peer
     else if ov = [] then decode_string_or_default data ''l'' [] else ov)"

definition reconnecting :: "peer_data \<Rightarrow> bool" where
  "reconnecting peer \<longleftrightarrow> p_disconnected peer \<and> p_lobby_id peer \<noteq> []"

text \<open>The records after a join that was let in.\<close>

definition let_in :: "bool \<Rightarrow> string \<Rightarrow> string \<Rightarrow> ctx \<Rightarrow> ctx" where
  "let_in b pid lid c = set_peer pid (\<lambda>p. p\<lparr>p_disconnected := False\<rparr>)
     (if b then set_peer pid (\<lambda>p. p\<lparr>p_ready := False\<rparr>) c else join_changes pid pid lid c)"

text \<open>Joining in any game whose records fit together.\<close>

lemma join_cases_wf:
  assumes wf: "wf_game E n (game c)" and pid: "has_peer c pid" and b: "b = reconnecting (peer_at c pid)"
    and lid: "lid = join_target b (peer_at c pid) data ov"
  shows "on_join_lobby E' i pid data ov c =
    (if lid = [] \<or> \<not> has_lobby c lid then (False, on_error E' i pid ERROR_LOBBY_NOT_FOUND False False c)
     else case join_refusal b data (peer_at c pid) (lobby_at c lid) of
       Some e \<Rightarrow> (False, on_error E' i pid e False False c)
     | None \<Rightarrow>
         (let (allowed, c) = ask_script E' True ''_can_peer_join'' i pid lid [] c
          in if \<not> allowed then (False, c)
             else (True, let c = join_notify E' b i pid lid (let_in b pid lid c)
                         in if b then c else snd (ask_script E' True ''_on_peer_joined'' i pid lid [] c))))"
proof -
  have me: "p_id (peer_at c pid) = pid" using wf_peer_id [OF wf pid] .
  show ?thesis
    unfolding on_join_lobby_def Let_def me b reconnecting_def lid join_target_def let_in_def
    by (simp split: option.split prod.split)
qed
lemma join_cases:
  assumes s: "sound E c" and pid: "has_peer c pid" and b: "b = reconnecting (peer_at c pid)"
    and lid: "lid = join_target b (peer_at c pid) data ov"
  shows "on_join_lobby E' i pid data ov c =
    (if lid = [] \<or> \<not> has_lobby c lid then (False, on_error E' i pid ERROR_LOBBY_NOT_FOUND False False c)
     else case join_refusal b data (peer_at c pid) (lobby_at c lid) of
       Some e \<Rightarrow> (False, on_error E' i pid e False False c)
     | None \<Rightarrow> (True, if b then join_notify E' b i pid lid (let_in b pid lid c)
         else snd (ask_script E' True ''_on_peer_joined'' i pid lid []
                (join_notify E' b i pid lid (let_in b pid lid c)))))"
  unfolding join_cases_wf [OF sound_wf [OF s] pid b lid] stays_ask_script [OF stays_refl [OF s]]
  by (simp add: Let_def split: option.split)

lemma sound_capacity: "sound E c \<Longrightarrow> has_lobby c lid \<Longrightarrow> l_max_players (lobby_at c lid) \<noteq> 0"
proof -
  assume s: "sound E c" and "has_lobby c lid"
  then obtain l where l: "map_of (g_lobbies (game c)) lid = Some l"
    by (auto simp: has_lobby_def fm_has_def)
  show "l_max_players (lobby_at c lid) \<noteq> 0"
    using sound_full [OF s l] sound_wf_lobby [OF s l] l
    by (auto simp: full_lobby_def wf_lobby_def size_le_def lobby_at_def)
qed

lemma sound_let_in:
  assumes s: "sound E c" and pid: "has_peer c pid" and b: "b = reconnecting (peer_at c pid)"
    and lid: "has_lobby c lid" "b \<Longrightarrow> lid = p_lobby_id (peer_at c pid)"
    and ok: "join_refusal b data (peer_at c pid) (lobby_at c lid) = None"
  shows "sound E (let_in b pid lid c)" "has_peer (let_in b pid lid c) pid" "has_lobby (let_in b pid lid c) lid"
proof -
  define c1 where "c1 = (if b then set_peer pid (\<lambda>p. p\<lparr>p_ready := False\<rparr>) c else join_changes pid pid lid c)"
  have "sound E c1 \<and> has_peer c1 pid \<and> has_lobby c1 lid"
  proof (cases b)
    case True
    have "stays E c (set_peer pid (\<lambda>p. p\<lparr>p_ready := False\<rparr>) c)"
      using stays_refl [OF s] pid by (rule stays_set_peer) (simp add: keeps_link_def)
    then show ?thesis
      using True pid lid(1) stays_sound stays_has_lobby by (simp add: c1_def)
  next
    case False
    then have room: "size_lt (length (l_peer_ids (lobby_at c lid))) (l_max_players (lobby_at c lid))"
      and out: "p_lobby_id (peer_at c pid) = []"
      using ok sound_capacity [OF s lid(1)] by (auto simp: join_refusal_def split: if_splits)
    note jc = sound_join_changes [OF s pid out lid(1) room]
    show ?thesis
      using False jc(1) sound_member(1,3) [OF jc] by (simp add: c1_def)
  qed
  moreover have "stays E c1 (set_peer pid (\<lambda>p. p\<lparr>p_disconnected := False\<rparr>) c1)" if "sound E c1" "has_peer c1 pid"
    using stays_refl [OF that(1)] that(2) by (rule stays_set_peer) (simp add: keeps_link_def)
  moreover have "let_in b pid lid c = set_peer pid (\<lambda>p. p\<lparr>p_disconnected := False\<rparr>) c1"
    by (simp add: let_in_def c1_def)
  ultimately show "sound E (let_in b pid lid c)" "has_peer (let_in b pid lid c) pid" "has_lobby (let_in b pid lid c) lid"
    using stays_sound stays_has_lobby by auto
qed

text \<open>A join succeeds or leaves every record as it was.\<close>

lemma join_state:
  assumes s: "sound E c" and pid: "has_peer c pid" and b: "b = reconnecting (peer_at c pid)"
    and lid: "lid = join_target b (peer_at c pid) data ov"
  shows "state_of (snd (on_join_lobby E' i pid data ov c)) =
    state_of (if fst (on_join_lobby E' i pid data ov c) then let_in b pid lid c else c)"
proof -
  have own: "lid = p_lobby_id (peer_at c pid)" if b using that lid by (simp add: join_target_def)
  have "state_of (join_notify E' b i pid lid (let_in b pid lid c)) = state_of (let_in b pid lid c)"
    "sound E (join_notify E' b i pid lid (let_in b pid lid c))"
    if "has_lobby c lid" "join_refusal b data (peer_at c pid) (lobby_at c lid) = None"
    using sound_let_in [OF s pid b that(1) own that(2)]
    by (auto intro: state_of_join_notify stays_sound stays_join_notify stays_refl)
  then show ?thesis
    unfolding join_cases [OF s pid b lid]
    by (auto split: option.split simp: stays_ask_script [OF stays_refl])
qed

lemma join_iff:
  assumes s: "sound E c" and pid: "has_peer c pid" and b: "b = reconnecting (peer_at c pid)"
    and lid: "lid = join_target b (peer_at c pid) data ov"
  shows "fst (on_join_lobby E' i pid data ov c) \<longleftrightarrow>
    b \<or> (p_lobby_id (peer_at c pid) = [] \<and> lid \<noteq> [] \<and> has_lobby c lid \<and>
      l_password (lobby_at c lid) = decode_string_or_default data ''_p'' [] \<and>
      size_lt (length (l_peer_ids (lobby_at c lid))) (l_max_players (lobby_at c lid)))"
proof -
  have own: "lid \<noteq> []" "has_lobby c lid" if b
    using that lid b sound_own_lobby(1) [OF s, of pid] by (simp_all add: join_target_def reconnecting_def)
  show ?thesis
    unfolding join_cases [OF s pid b lid]
    using own sound_capacity [OF s, of lid] b
    by (auto simp: join_refusal_def split: option.split)
qed

lemma let_in_records:
  assumes s: "sound E c" and pid: "has_peer c pid" and lid: "has_lobby c lid"
  shows "\<And>k. k \<noteq> pid \<Longrightarrow> peer_at (let_in False pid lid c) k = peer_at c k"
    "\<And>k. k \<noteq> lid \<Longrightarrow> lobby_at (let_in False pid lid c) k = lobby_at c k"
    "p_lobby_id (peer_at (let_in False pid lid c) pid) = lid"
    "l_peer_ids (lobby_at (let_in False pid lid c) lid) = fs_insert pid (l_peer_ids (lobby_at c lid))"
    "l_host (lobby_at (let_in False pid lid c) lid) = l_host (lobby_at c lid)"
    "mset (l_peer_ordered_ids (lobby_at (let_in False pid lid c) lid)) =
      add_mset pid (mset (l_peer_ordered_ids (lobby_at c lid)))"
    "sorted (map (\<lambda>k. sint (p_order_id (peer_at (let_in False pid lid c) k)))
      (l_peer_ordered_ids (lobby_at (let_in False pid lid c) lid)))"
proof -
  obtain p where p: "map_of (g_peers (game c)) pid = Some p"
    using pid by (auto simp: has_peer_def fm_has_def)
  obtain l where l: "map_of (g_lobbies (game c)) lid = Some l"
    using lid by (auto simp: has_lobby_def fm_has_def)
  have la: "lobby_at c lid = l" using l by (simp add: lobby_at_def)
  have all: "\<forall>k \<in> set (l_peer_ordered_ids l). has_peer c k"
    using sound_wf_lobby [OF s l] sound_member(1) [OF s] la by (auto simp: wf_lobby_def)
  note j = join_changes_present [OF p l all]
  let ?key = "\<lambda>k. sint (p_order_id (if k = pid then joined_peer lid l p else peer_at c k))"
  have c': "let_in False pid lid c = set_peer pid (\<lambda>p. p\<lparr>p_disconnected := False\<rparr>) (join_changes pid pid lid c)"
    by (simp add: let_in_def)
  have peer: "peer_at (let_in False pid lid c) k =
      (if k = pid then (joined_peer lid l p)\<lparr>p_disconnected := False\<rparr> else peer_at c k)" for k
    by (simp add: c' j set_peer_def mark_updated_def peer_at_def)
  have lobby: "lobby_at (let_in False pid lid c) k = (if k = lid then
      l\<lparr>l_order_id_counter := l_order_id_counter l + 1, l_peer_ids := fs_insert pid (l_peer_ids l),
        l_peer_ordered_ids := sort_key ?key (l_peer_ordered_ids l @ [pid])\<rparr> else lobby_at c k)" for k
    by (simp add: c' j set_peer_def mark_updated_def lobby_at_def)
  have order: "p_order_id (peer_at (let_in False pid lid c) k) =
      p_order_id (if k = pid then joined_peer lid l p else peer_at c k)" for k
    by (simp add: peer)
  show "k \<noteq> pid \<Longrightarrow> peer_at (let_in False pid lid c) k = peer_at c k"
    "k \<noteq> lid \<Longrightarrow> lobby_at (let_in False pid lid c) k = lobby_at c k" for k
    by (simp_all add: peer lobby)
  show "p_lobby_id (peer_at (let_in False pid lid c) pid) = lid"
    "l_peer_ids (lobby_at (let_in False pid lid c) lid) = fs_insert pid (l_peer_ids (lobby_at c lid))"
    "l_host (lobby_at (let_in False pid lid c) lid) = l_host (lobby_at c lid)"
    "mset (l_peer_ordered_ids (lobby_at (let_in False pid lid c) lid)) =
      add_mset pid (mset (l_peer_ordered_ids (lobby_at c lid)))"
    by (simp_all add: peer lobby la joined_peer_def)
  show "sorted (map (\<lambda>k. sint (p_order_id (peer_at (let_in False pid lid c) k)))
      (l_peer_ordered_ids (lobby_at (let_in False pid lid c) lid)))"
    unfolding order by (simp add: lobby)
qed


subsection \<open>Creating\<close>

lemma finish_create_present:
  assumes s: "sound E c" and pid: "has_peer c pid" and lid: "has_lobby c lid"
    and own: "p_lobby_id (peer_at c pid) = lid"
  obtains m where "finish_create E' i pid lid c =
    mark_updated lid (send pid m OpText (set_peer pid (\<lambda>p. p\<lparr>p_disconnected := False\<rparr>) c))"
proof -
  let ?c = "set_peer pid (\<lambda>p. p\<lparr>p_disconnected := False\<rparr>) c"
  have st: "stays E c ?c"
    using stays_refl [OF s] pid by (rule stays_set_peer) (simp add: keeps_link_def)
  note s' = stays_sound [OF st]
  have here: "has_lobby ?c lid" "has_peer ?c pid" "p_lobby_id (peer_at ?c pid) = lid"
    using stays_has_lobby [OF st] stays_has_peer [OF st] stays_lobby_id [OF st] lid pid own by simp_all
  have quiet: "touch_lobby lid ?c = ?c" "snd (peers_to_array lid ?c) = ?c" "p_id (peer_at ?c pid) = pid"
    using here peers_to_array_present [OF s' here(1) refl] sound_peer_id [OF s' here(2)]
    by (simp_all add: touch_lobby_def)
  have ask: "ask_script E' True f i pid l args (send pid m OpText ?c) = (True, send pid m OpText ?c)" for f l args m
    by (rule stays_ask_script [OF stays_send [OF st]])
  show thesis
    by (rule that) (simp add: finish_create_def Let_def split_beta quiet here ask)
qed

definition create_refusal ::
  "env \<Rightarrow> yyval option \<Rightarrow> dict option \<Rightarrow> peer_data \<Rightarrow> string option" where
  "create_refusal E data prev peer =
    (if p_lobby_id peer \<noteq> [] then Some ERROR_PEER_IS_IN_A_LOBBY
     else if sint (decode_int_or_default (double_to_int E) data ''m'' 0) < 1 then Some ERROR_LOBBY_FULL
     else if prev = None \<and> fst (decode_object (yy_obj_get data ''t'') []) \<noteq> []
     then Some ERROR_INVALID_TAGS else None)"

definition create_tags :: "yyval option \<Rightarrow> dict option \<Rightarrow> dict" where
  "create_tags data prev = (case prev of Some t \<Rightarrow> t | None \<Rightarrow> snd (decode_object (yy_obj_get data ''t'') []))"

lemma create_refused:
  assumes s: "sound E c" and pid: "has_peer c pid"
    and no: "create_refusal E' data prev (peer_at c pid) = Some err"
  shows "\<exists>n. on_create_lobby E' i pid data prev c = on_error E' i pid err False False (c\<lparr>uuid_count := n\<rparr>)"
proof -
  have me: "p_id (peer_at c pid) = pid" using sound_peer_id [OF s pid] .
  have same: "c = c\<lparr>uuid_count := uuid_count c\<rparr>" by simp
  show ?thesis
    using no unfolding on_create_lobby_def Let_def me create_refusal_def
    by (auto split: if_splits option.splits prod.splits intro: exI [of _ "uuid_count c"])
qed

lemma create_accepted:
  assumes s: "sound E c" and pid: "has_peer c pid" and fresh: "fresh_uuids E (Suc (uuid_count c))"
    and ok: "create_refusal E data prev (peer_at c pid) = None"
    and small: "small = take 8 (uuid_gen E (uuid_count c))"
    and c': "c' = on_create_lobby E i pid data prev c"
  shows "\<not> has_lobby c small" "has_lobby c' small"
    "lobby_at c' small = new_lobby (peer_at c pid) data small
      (decode_int_or_default (double_to_int E) data ''m'' 0) (create_tags data prev) c"
    "peer_at c' pid = (peer_at c pid)\<lparr>p_lobby_id := small, p_disconnected := False\<rparr>"
    "\<And>k. k \<noteq> pid \<Longrightarrow> peer_at c' k = peer_at c k"
    "\<And>k. k \<noteq> small \<Longrightarrow> lobby_at c' k = lobby_at c k"
proof -
  let ?n = "uuid_count c" and ?mp = "decode_int_or_default (double_to_int E) data ''m'' 0"
  let ?c1 = "c\<lparr>uuid_count := Suc ?n\<rparr>"
  let ?c2 = "set_peer pid (\<lambda>p. p\<lparr>p_lobby_id := small\<rparr>) ?c1"
  define l where "l = new_lobby (peer_at c pid) data small ?mp (create_tags data prev) ?c2"
  let ?c3 = "upd_game (\<lambda>g. g\<lparr>g_lobbies := fm_emplace small l (g_lobbies g)\<rparr>) ?c2"
  have me: "p_id (peer_at c pid) = pid" using sound_peer_id [OF s pid] .
  obtain p where p: "map_of (g_peers (game c)) pid = Some p"
    using pid by (auto simp: has_peer_def fm_has_def)
  have out: "p_lobby_id (peer_at c pid) = []" and mp: "\<not> sint ?mp < 1"
    and dec: "(case prev of None \<Rightarrow> decode_object (yy_obj_get data ''t'') [] | Some t \<Rightarrow> ([], t)) =
      ([], create_tags data prev)"
    using ok by (auto simp: create_refusal_def create_tags_def prod_eq_iff split: if_splits option.splits)
  have l: "l_id l = small" "l_peer_ids l = [pid]" "l_peer_ordered_ids l = [pid]"
      "\<not> l_disband_on_leave l" "l_host l = pid" "1 \<le> sint (l_max_players l)"
    using mp by (simp_all add: l_def new_lobby_def default_lobby_def me)
  note c3 = sound_created [OF s pid fresh l small out refl]
  show unused: "\<not> has_lobby c small"
  proof
    assume "has_lobby c small"
    then obtain m where "map_of (g_lobbies (game c)) small = Some m"
      by (auto simp: has_lobby_def fm_has_def)
    then have "lobby_key E ?n small" using sound_wf_lobby [OF s] by (simp add: wf_lobby_def)
    then show False using fresh_not_key [OF fresh] small by blast
  qed
  have same: "l = new_lobby (peer_at c pid) data small ?mp (create_tags data prev) c"
    using p by (simp add: l_def new_lobby_def set_peer_def)
  have reads: "lobby_at ?c3 k = (if k = small then l else lobby_at c k)"
    "peer_at ?c3 k = (if k = pid then (peer_at c pid)\<lparr>p_lobby_id := small\<rparr> else peer_at c k)" for k
    using p unused by (simp_all add: lobby_at_def peer_at_def set_peer_def fm_emplace_def has_lobby_def fm_has_def)
  obtain m where fin: "finish_create E i pid small ?c3 =
      mark_updated small (send pid m OpText (set_peer pid (\<lambda>p. p\<lparr>p_disconnected := False\<rparr>) ?c3))"
    using finish_create_present [OF c3] reads(2) [of pid] by auto
  have c'_eq: "c' = mark_updated small (send pid m OpText (set_peer pid (\<lambda>p. p\<lparr>p_disconnected := False\<rparr>) ?c3))"
    unfolding c' fin [symmetric] on_create_lobby_def Let_def dec prod.case me
    using out mp by (simp add: ask_create_def stays_no_callback [OF stays_refl [OF c3(1)]] flip: small l_def)
  obtain p3 where p3: "map_of (g_peers (game ?c3)) pid = Some p3"
    using c3(2) by (auto simp: has_peer_def fm_has_def)
  have upd: "lobby_at c' k = lobby_at ?c3 k"
    "peer_at c' k = (if k = pid then (peer_at ?c3 pid)\<lparr>p_disconnected := False\<rparr> else peer_at ?c3 k)"
    "has_lobby c' k = has_lobby ?c3 k" for k
    unfolding c'_eq by (simp_all add: set_peer_present [OF p3])
      (use p3 in \<open>simp_all add: lobby_at_def peer_at_def has_lobby_def\<close>)
  show "has_lobby c' small" using c3(3) by (simp add: upd)
  show "lobby_at c' small = new_lobby (peer_at c pid) data small ?mp (create_tags data prev) c"
    unfolding upd(1) reads(1) using same by simp
  show "peer_at c' pid = (peer_at c pid)\<lparr>p_lobby_id := small, p_disconnected := False\<rparr>"
    "\<And>k. k \<noteq> pid \<Longrightarrow> peer_at c' k = peer_at c k"
    "\<And>k. k \<noteq> small \<Longrightarrow> lobby_at c' k = lobby_at c k"
    by (simp_all add: upd reads)
qed


subsection \<open>Leaving\<close>

lemma leave_accepted:
  assumes s: "sound E c" and pid: "p_lobby_id (peer_at c pid) = lid" "lid \<noteq> []"
  shows "on_leave_lobby E' i pid data c = remove_peer_from_lobby (call_script E') E' lid pid i False c"
proof -
  have m: "member_of c pid lid" using sound_member_of [OF s pid] .
  show ?thesis
    using member_peer [OF m] by (simp add: on_leave_lobby_def Let_def member_touch [OF m])
qed

text \<open>Who is in which lobby after a peer left or was kicked.\<close>

lemma remove_effect:
  assumes s: "sound E c" and m: "member_of c pid lid"
    and c': "c' = remove_peer_from_lobby (call_script E') E' lid pid i kicked c"
  shows "\<And>k. p_lobby_id (peer_at c' k) =
      (if k = pid \<or> (pid = l_host (lobby_at c lid) \<and> k \<in> set (l_peer_ids (lobby_at c lid))) then []
       else p_lobby_id (peer_at c k))"
    "has_lobby c' lid \<longleftrightarrow> pid \<noteq> l_host (lobby_at c lid)"
    "pid \<noteq> l_host (lobby_at c lid) \<Longrightarrow> lobby_at c' lid = without pid (lobby_at c lid)"
    "\<And>k. k \<noteq> lid \<Longrightarrow> has_lobby c' k = has_lobby c k \<and> lobby_at c' k = lobby_at c k"
proof -
  obtain l where l: "map_of (g_lobbies (game c)) lid = Some l"
    using m by (auto simp: member_of_def has_lobby_def fm_has_def)
  have la: "lobby_at c lid = l" using l by (simp add: lobby_at_def)
  have pl: "pid \<in> set (l_peer_ids l)" using m la by (simp add: member_of_def)
  obtain Q where Q: "Q = (\<lambda>j. j \<in> set (l_peer_ids l) \<and> (pid = l_host l \<or> j = pid))"
    and peers: "\<And>j. map_option p_lobby_id (map_of (g_peers (game c')) j) =
        (if Q j then Some [] else map_option p_lobby_id (map_of (g_peers (game c)) j))"
    and lobbies: "map_of (g_lobbies (game c')) = (if pid = l_host l then (map_of (g_lobbies (game c)))(lid := None)
       else (map_of (g_lobbies (game c)))(lid \<mapsto> without pid l))"
    using remove_shape [OF s l pl] unfolding c' by metis
  have id: "p_lobby_id (peer_at c'' k) =
      (case map_option p_lobby_id (map_of (g_peers (game c'')) k) of Some x \<Rightarrow> x | None \<Rightarrow> [])" for c'' k
    by (simp add: peer_at_def default_peer_def split: option.split)
  show "p_lobby_id (peer_at c' k) =
      (if k = pid \<or> (pid = l_host (lobby_at c lid) \<and> k \<in> set (l_peer_ids (lobby_at c lid))) then []
       else p_lobby_id (peer_at c k))" for k
    unfolding id peers la Q using pl by auto
  show "has_lobby c' lid \<longleftrightarrow> pid \<noteq> l_host (lobby_at c lid)"
    "pid \<noteq> l_host (lobby_at c lid) \<Longrightarrow> lobby_at c' lid = without pid (lobby_at c lid)"
    "\<And>k. k \<noteq> lid \<Longrightarrow> has_lobby c' k = has_lobby c k \<and> lobby_at c' k = lobby_at c k"
    by (simp_all add: has_lobby_def fm_has_def lobby_at_def lobbies la l split: option.split)
qed

subsection \<open>Closing and reopening a connection\<close>

lemma close_present:
  assumes s: "sound E c" and pid: "has_peer c pid"
  obtains c1 where "state_of (on_close E' pid c) = state_of c1"
    "c1 = upd_game (\<lambda>g. g\<lparr>g_disconnected_peers := fm_emplace pid (now c) (g_disconnected_peers g)\<rparr>)
       (set_peer pid (\<lambda>p. p\<lparr>p_ready := False, p_disconnected := True\<rparr>)
         (upd_game (\<lambda>g. g\<lparr>g_lobby_listing_peers := fs_erase pid (g_lobby_listing_peers g)\<rparr>) c))"
proof -
  define c0 where "c0 = upd_game (\<lambda>g. g\<lparr>g_lobby_listing_peers := fs_erase pid (g_lobby_listing_peers g)\<rparr>) c"
  define c1 where "c1 = upd_game (\<lambda>g. g\<lparr>g_disconnected_peers := fm_emplace pid (now c) (g_disconnected_peers g)\<rparr>)
       (set_peer pid (\<lambda>p. p\<lparr>p_ready := False, p_disconnected := True\<rparr>) c0)"
  have st0: "stays E c c0" unfolding c0_def by (rule stays_upd_game [OF stays_refl [OF s]]) simp_all
  have p0: "has_peer c0 pid" using stays_has_peer [OF st0] pid by simp
  have st1: "stays E c c1"
    unfolding c1_def using pid
    by (intro stays_upd_game stays_set_peer st0) (simp_all add: keeps_link_def)
  have nw: "now (set_peer pid f c0) = now c" for f
    using p0 by (auto simp: has_peer_def fm_has_def set_peer_def c0_def)
  have ask: "snd (ask_script E' True f i p l args (send_others pid ids m c1)) = send_others pid ids m c1" for f i p l args ids m
    using stays_ask_script [OF stays_send_others [OF st1]] by simp
  have p0': "has_peer (upd_game (\<lambda>g. g\<lparr>g_lobby_listing_peers := fs_erase pid (g_lobby_listing_peers g)\<rparr>) c) pid"
    using p0 by (simp add: c0_def)
  show thesis
  proof (rule that)
    show "state_of (on_close E' pid c) = state_of c1"
      unfolding on_close_def Let_def c0_def [symmetric] nw c1_def [symmetric]
      using p0 by (simp add: ask)
  qed (simp add: c1_def c0_def)
qed

lemma set_peer_reads:
  assumes "has_peer c k"
  shows "peer_at (set_peer k f c) j = (if j = k then f (peer_at c k) else peer_at c j)"
    "lobby_at (set_peer k f c) j = lobby_at c j"
  using assms by (auto simp: set_peer_def has_peer_def fm_has_def peer_at_def lobby_at_def)

text \<open>A peer whose record is still there reconnects, on any platform.\<close>

lemma connect_known:
  assumes s: "sound E c" and pid: "has_peer c pid"
    and c': "c' = on_connect E' pid g token platform platform_id name c"
  shows "stays E c c'" "online c' pid" "p_disconnected (peer_at c' pid) = p_disconnected (peer_at c pid)"
proof -
  define c1 where "c1 = upd_game (\<lambda>g. g\<lparr>g_disconnected_peers := fm_erase pid (g_disconnected_peers g)\<rparr>)
      (set_peer pid (\<lambda>p. p\<lparr>p_reconnection_token := token\<rparr>) c)"
  define c2 where "c2 = (if platform \<noteq> ''anon''
    then set_peer pid (\<lambda>p. p\<lparr>p_user_data := fm_put ''n'' (AStr name) (p_user_data p)\<rparr>) c1 else c1)"
  have st1: "stays E c c1"
    unfolding c1_def using pid
    by (intro stays_upd_game stays_set_peer stays_refl s) (simp_all add: keeps_link_def)
  have st: "stays E c c2"
    unfolding c2_def using st1 pid by (auto intro!: stays_set_peer simp: keeps_link_def)
  have p1: "has_peer c1 pid" using stays_has_peer [OF st1] pid by simp
  have "p_id (peer_at c2 pid) = pid"
    using sound_peer_id [OF stays_sound [OF st]] stays_has_peer [OF st] pid by simp
  moreover have "snd (ask_script E' True f i p l args (send pid m OpText c2)) = send pid m OpText c2" for f i p l args m
    using stays_ask_script [OF stays_send [OF st]] by simp
  moreover have "c' = (let msg = notification_peer_state (yyjson_mut_write E') (AMap (peer_to_dict True True (peer_at c2 pid)))
      in snd (ask_script E' True ''_on_peer_connected'' [] pid [] [] (send (p_id (peer_at c2 pid)) msg OpText c2)))"
    using pid unfolding c' on_connect_def Let_def c2_def c1_def by simp
  ultimately obtain m where c': "c' = send pid m OpText c2" by (simp add: Let_def)
  have "online c1 pid" by (simp add: c1_def online_def fm_has_def)
  then have "online c2 pid" using p1 by (simp add: c2_def online_def set_peer_reads)
  moreover have "p_disconnected (peer_at c1 pid) = p_disconnected (peer_at c pid)"
    using set_peer_reads(1) [OF pid] by (simp add: c1_def peer_at_def)
  then have "p_disconnected (peer_at c2 pid) = p_disconnected (peer_at c pid)"
    using set_peer_reads(1) [OF p1] by (simp add: c2_def)
  ultimately show "stays E c c'" "online c' pid" "p_disconnected (peer_at c' pid) = p_disconnected (peer_at c pid)"
    using stays_send [OF st] by (simp_all add: c' online_def)
qed

end
