(* ===== verification/Flush_Effects.thy ===== *)
theory Flush_Effects
  imports Moves_Effects
begin

text \<open>
  \<open>notify_lobby_changes\<close> hands over what a script changed: afterwards nothing is marked as changed
  any more, so that a second flush does nothing. Then listing lobbies, and which lobby a quick
  join picks.
\<close>

subsection \<open>Flushing changes\<close>

lemma has_lobby_send_loop [simp]: "has_lobby (send_loop ids m c) k = has_lobby c k"
  by (simp add: has_lobby_def)

lemma control_send_loop [simp]: "g_lobby_control (game (send_loop ids m c)) = g_lobby_control (game c)"
  using state_of_fields(4) [OF state_of_send_loop] .

definition clean_peer :: "peer_data \<Rightarrow> bool" where
  "clean_peer p \<longleftrightarrow> \<not> p_private_data_dirty p \<and> \<not> p_public_data_dirty p"

definition flushed :: "string \<Rightarrow> ctx \<Rightarrow> bool" where
  "flushed lid c \<longleftrightarrow> has_lobby c lid \<and>
    (\<forall>k \<in> set (l_peer_ids (lobby_at c lid)). has_peer c k \<and> clean_peer (peer_at c k)) \<and>
    (let l = lobby_at c lid in
     \<not> l_tags_dirty l \<and> \<not> l_name_dirty l \<and> \<not> l_max_players_dirty l \<and> \<not> l_sealed_dirty l \<and>
     \<not> l_public_data_dirty l \<and> (g_lobby_control (game c) = ''relay'' \<longrightarrow> \<not> l_private_data_dirty l))"

lemma notify_peer_clean:
  "has_peer c k \<Longrightarrow> clean_peer (peer_at c k) \<Longrightarrow> notify_peer_changes E lid k c = c"
  by (simp add: notify_peer_changes_def Let_def touch_peer_def clean_peer_def)

lemma flushed_notify:
  assumes "flushed lid c"
  shows "notify_lobby_changes E lid c = c"
proof -
  have "fold (notify_peer_changes E lid) ks c = c" if "set ks \<subseteq> set (l_peer_ids (lobby_at c lid))" for ks
    using that assms by (induction ks) (simp_all add: notify_peer_clean flushed_def)
  moreover have "touch_lobby lid c = c" using assms by (simp add: flushed_def touch_lobby_def)
  ultimately show ?thesis
    using assms
    by (auto simp: notify_lobby_changes_def Let_def notify_tags_changes_def notify_name_changes_def
        notify_max_players_changes_def notify_sealed_changes_def notify_lobby_public_changes_def
        notify_lobby_private_changes_def flushed_def)
qed

text \<open>The peers' part: one step cleans its peer, and keeps the lobbies and what is clean already.\<close>

lemma touch_peer_reads:
  "has_peer (touch_peer k c) k"
  "has_peer c j \<Longrightarrow> peer_at (touch_peer k c) j = peer_at c j"
  by (auto simp: touch_peer_def has_peer_def fm_has_def peer_at_def fault_add_def)

lemma lobbies_touch_peer [simp]: "g_lobbies (game (touch_peer k c)) = g_lobbies (game c)"
  "g_lobby_control (game (touch_peer k c)) = g_lobby_control (game c)"
  by (simp_all add: touch_peer_def fault_add_def)

lemma control_set [simp]: "g_lobby_control (game (set_peer k f c)) = g_lobby_control (game c)"
  "g_lobby_control (game (set_lobby k h c)) = g_lobby_control (game c)"
  "g_lobby_control (game (mark_updated k c)) = g_lobby_control (game c)"
  by (simp_all add: set_peer_def set_lobby_def mark_updated_def fault_add_def split: option.split)

lemma notify_peer_step:
  "has_peer (notify_peer_changes E lid k c) j \<longleftrightarrow> j = k \<or> has_peer c j"
  "clean_peer (peer_at (notify_peer_changes E lid k c) k)"
  "j \<noteq> k \<Longrightarrow> has_peer c j \<Longrightarrow> peer_at (notify_peer_changes E lid k c) j = peer_at c j"
  "g_lobbies (game (notify_peer_changes E lid k c)) = g_lobbies (game c)"
  "g_lobby_control (game (notify_peer_changes E lid k c)) = g_lobby_control (game c)"
  unfolding notify_peer_changes_def Let_def
  by (auto simp: set_peer_reads touch_peer_reads clean_peer_def)

lemma notify_peers_clean:
  assumes "distinct ks" "c' = fold (notify_peer_changes E lid) ks c"
  shows "g_lobbies (game c') = g_lobbies (game c) \<and>
    g_lobby_control (game c') = g_lobby_control (game c) \<and>
    (\<forall>k \<in> set ks. has_peer c' k \<and> clean_peer (peer_at c' k)) \<and>
    (\<forall>k. k \<notin> set ks \<and> has_peer c k \<longrightarrow> has_peer c' k \<and> peer_at c' k = peer_at c k)"
  using assms
proof (induction ks arbitrary: c)
  case (Cons k ks)
  let ?c1 = "notify_peer_changes E lid k c"
  have "has_peer ?c1 k" "clean_peer (peer_at ?c1 k)" by (simp_all add: notify_peer_step)
  then show ?case
    using Cons.IH [of ?c1] Cons.prems by (auto simp: notify_peer_step)
qed simp

text \<open>The lobby's part: each step clears one mark and keeps the others.\<close>

definition marks :: "lobby_data \<Rightarrow> bool list" where
  "marks l = [l_tags_dirty l, l_name_dirty l, l_max_players_dirty l, l_sealed_dirty l,
     l_public_data_dirty l, l_private_data_dirty l]"

definition lobby_step :: "nat \<Rightarrow> string \<Rightarrow> ctx \<Rightarrow> ctx \<Rightarrow> bool" where
  "lobby_step n lid c c' \<longleftrightarrow> has_lobby c' lid \<and> g_peers (game c') = g_peers (game c) \<and>
     g_lobby_control (game c') = g_lobby_control (game c) \<and>
     l_peer_ids (lobby_at c' lid) = l_peer_ids (lobby_at c lid) \<and>
     marks (lobby_at c' lid) = (marks (lobby_at c lid))[n := False]"

lemma lobby_steps:
  assumes "has_lobby c lid"
  shows "lobby_step 0 lid c (notify_tags_changes E lid c)"
    "lobby_step 1 lid c (notify_name_changes E lid c)"
    "lobby_step 2 lid c (notify_max_players_changes E lid c)"
    "lobby_step 3 lid c (notify_sealed_changes E lid c)"
    "lobby_step 4 lid c (notify_lobby_public_changes E lid c)"
  using assms
  by (auto simp: lobby_step_def marks_def notify_tags_changes_def notify_name_changes_def
      notify_max_players_changes_def notify_sealed_changes_def notify_lobby_public_changes_def
      Let_def set_lobby_reads numeral_eq_Suc)

lemma lobby_step_private:
  assumes "has_lobby c lid"
  shows "let c' = notify_lobby_private_changes E lid c in has_lobby c' lid \<and>
    g_peers (game c') = g_peers (game c) \<and> g_lobby_control (game c') = g_lobby_control (game c) \<and>
    l_peer_ids (lobby_at c' lid) = l_peer_ids (lobby_at c lid) \<and>
    marks (lobby_at c' lid) = (if g_lobby_control (game c) = ''relay'' then (marks (lobby_at c lid))[5 := False]
      else marks (lobby_at c lid))"
  using assms
  by (auto simp: marks_def notify_lobby_private_changes_def Let_def set_lobby_reads numeral_eq_Suc)


lemma notify_flushes:
  assumes lid: "lid \<noteq> []" and d: "distinct (l_peer_ids (lobby_at c lid))"
  shows "flushed lid (notify_lobby_changes E lid c)"
proof -
  define c0 where "c0 = touch_lobby lid c"
  define c1 where "c1 = fold (notify_peer_changes E lid) (l_peer_ids (lobby_at c0 lid)) c0"
  define c2 where "c2 = notify_tags_changes E lid c1"
  define c3 where "c3 = notify_name_changes E lid c2"
  define c4 where "c4 = notify_max_players_changes E lid c3"
  define c5 where "c5 = notify_sealed_changes E lid c4"
  define c6 where "c6 = notify_lobby_public_changes E lid c5"
  define c7 where "c7 = notify_lobby_private_changes E lid c6"
  have c7: "notify_lobby_changes E lid c = c7"
    using lid by (simp add: notify_lobby_changes_def Let_def c0_def c1_def c2_def c3_def c4_def c5_def c6_def c7_def)
  have 0: "has_lobby c0 lid" "distinct (l_peer_ids (lobby_at c0 lid))"
    using d by (auto simp: c0_def touch_lobby_def has_lobby_def fm_has_def lobby_at_def fault_add_def)
  note 1 = notify_peers_clean [OF 0(2) c1_def]
  have h1: "has_lobby c1 lid" "lobby_at c1 lid = lobby_at c0 lid"
    using 0(1) 1 by (simp_all add: has_lobby_def lobby_at_def)
  have s2: "lobby_step 0 lid c1 c2" unfolding c2_def by (rule lobby_steps [OF h1(1)])
  then have s3: "lobby_step 1 lid c2 c3" unfolding c3_def lobby_step_def by (intro lobby_steps [unfolded lobby_step_def]) simp
  then have s4: "lobby_step 2 lid c3 c4" unfolding c4_def lobby_step_def by (intro lobby_steps [unfolded lobby_step_def]) simp
  then have s5: "lobby_step 3 lid c4 c5" unfolding c5_def lobby_step_def by (intro lobby_steps [unfolded lobby_step_def]) simp
  then have s6: "lobby_step 4 lid c5 c6" unfolding c6_def lobby_step_def by (intro lobby_steps [unfolded lobby_step_def]) simp
  then have "has_lobby c6 lid" by (simp add: lobby_step_def)
  note s7 = lobby_step_private [OF this, of E, folded c7_def, unfolded Let_def]
  have peers: "g_peers (game c7) = g_peers (game c1)" "l_peer_ids (lobby_at c7 lid) = l_peer_ids (lobby_at c0 lid)"
    "has_lobby c7 lid"
    using s2 s3 s4 s5 s6 s7 h1 by (simp_all add: lobby_step_def)
  have clean: "has_peer c7 k \<and> clean_peer (peer_at c7 k)" if "k \<in> set (l_peer_ids (lobby_at c7 lid))" for k
    using 1 that peers(1,2) by (simp add: has_peer_def peer_at_def)
  have "marks (lobby_at c6 lid) = [False, False, False, False, False, l_private_data_dirty (lobby_at c1 lid)]"
    using s2 s3 s4 s5 s6 by (simp add: lobby_step_def marks_def numeral_eq_Suc)
  then show ?thesis
    unfolding c7 flushed_def using clean peers(3) s7
    by (auto simp: marks_def Let_def split: if_splits)
qed


subsection \<open>Listing lobbies\<close>

definition visible :: "ctx \<Rightarrow> string \<Rightarrow> string \<Rightarrow> bool" where
  "visible c pid k \<longleftrightarrow> has_lobby c k \<and>
     (\<not> l_sealed (lobby_at c k) \<or> p_lobby_id (peer_at c pid) = k)"

lemma list_lobby_answer:
  assumes wf: "wf_game E n (game c)" and pid: "has_peer c pid"
    and order: "set (bucket_order E' (map fst (g_lobbies (game c)))) = set (map fst (g_lobbies (game c)))"
    and new: "pid \<notin> set (g_lobby_listing_peers (game c))"
  obtains ks where
    "on_list_lobby E' i pid data c = send pid (notification_lobby_list (yyjson_mut_write E')
        (AArr (map (\<lambda>k. AMap (lobby_to_dict False (lobby_at c k))) ks)) i) OpText
      (upd_game (\<lambda>g. g\<lparr>g_lobby_listing_peers := fs_insert pid (g_lobby_listing_peers g)\<rparr>) c)"
    "length ks \<le> 100" "sorted (map (\<lambda>k. sint (l_create_time (lobby_at c k))) ks)"
    "\<forall>k \<in> set ks. visible c pid k"
    "\<And>j k. j \<in> set ks \<Longrightarrow> visible c pid k \<Longrightarrow> k \<notin> set ks \<Longrightarrow>
      sint (l_create_time (lobby_at c j)) \<le> sint (l_create_time (lobby_at c k))"
    "length (filter (visible c pid) (bucket_order E' (map fst (g_lobbies (game c))))) \<le> 100 \<Longrightarrow>
      set ks = set (filter (visible c pid) (bucket_order E' (map fst (g_lobbies (game c)))))"
proof -
  let ?c = "upd_game (\<lambda>g. g\<lparr>g_lobby_listing_peers := fs_insert pid (g_lobby_listing_peers g)\<rparr>) c"
  let ?keys = "bucket_order E' (map fst (g_lobbies (game c)))"
  define vis where "vis = filter (\<lambda>l. \<not> l_sealed l \<or> p_lobby_id (peer_at c pid) = l_id l) (map (lobby_at c) ?keys)"
  define ls where "ls = take 100 (sort_key (\<lambda>l. sint (l_create_time l)) vis)"
  have me: "p_id (peer_at c pid) = pid" using wf_peer_id [OF wf pid] .
  have keys: "has_lobby c k" if "k \<in> set ?keys" for k
  proof -
    have "k \<in> set (map fst (g_lobbies (game c)))" using that by (simp only: order)
    then show ?thesis by (simp add: has_lobby_def fm_has_iff)
  qed
  have in_vis: "\<exists>k. l = lobby_at c k \<and> k = l_id l \<and> k \<in> set ?keys \<and> visible c pid k" if "l \<in> set vis" for l
    using that keys wf_lobby_id [OF wf] by (auto simp: visible_def vis_def)
  have in_ls: "l = lobby_at c (l_id l) \<and> visible c pid (l_id l)" if "l \<in> set ls" for l
    using in_vis [of l] set_take_subset [of 100 "sort_key (\<lambda>l. sint (l_create_time l)) vis"] that
    by (auto simp: ls_def)
  have reread: "lobby_at c (l_id l) = l" if "l \<in> set ls" for l
    using in_ls [OF that] by simp
  have touches: "fold touch_lobby (map l_id xs) ?c = ?c" if "\<forall>l \<in> set xs. has_lobby c (l_id l)" for xs
    using that by (induction xs) (simp_all add: touch_lobby_def has_lobby_def)
  have "\<forall>l \<in> set ls. has_lobby c (l_id l)"
    using in_ls unfolding visible_def by blast
  then have touch: "fold touch_lobby (map l_id ls) ?c = ?c" by (rule touches)
  have kept: "g_lobbies (game ?c) = g_lobbies (game c)" by simp
  have rd: "lobby_at ?c = lobby_at c" by (simp add: fun_eq_iff lobby_at_def)
  have eq: "on_list_lobby E' i pid data c = send pid (notification_lobby_list (yyjson_mut_write E')
        (AArr (map (\<lambda>k. AMap (lobby_to_dict False (lobby_at c k))) (map l_id ls))) i) OpText ?c"
    unfolding on_list_lobby_def Let_def me rd kept vis_def [symmetric] ls_def [symmetric] touch
    using new by simp
  have map_ls: "map (\<lambda>k. sint (l_create_time (lobby_at c k))) (map l_id ls) =
      map (\<lambda>l. sint (l_create_time l)) ls"
    unfolding map_map o_def by (rule map_cong [OF refl]) (simp add: reread)
  show thesis
  proof (rule that)
    show "on_list_lobby E' i pid data c = send pid (notification_lobby_list (yyjson_mut_write E')
        (AArr (map (\<lambda>k. AMap (lobby_to_dict False (lobby_at c k))) (map l_id ls))) i) OpText ?c"
      by (rule eq)
    show "length (map l_id ls) \<le> 100" by (simp add: ls_def)
    show "sorted (map (\<lambda>k. sint (l_create_time (lobby_at c k))) (map l_id ls))"
    proof -
      have "sorted (map (\<lambda>l. sint (l_create_time l)) ls)"
        unfolding ls_def take_map [symmetric] by (intro sorted_wrt_take) simp
      then show ?thesis by (simp only: map_ls)
    qed
    show "\<forall>k \<in> set (map l_id ls). visible c pid k" using in_ls by auto
    show "sint (l_create_time (lobby_at c j)) \<le> sint (l_create_time (lobby_at c k))"
      if "j \<in> set (map l_id ls)" "visible c pid k" "k \<notin> set (map l_id ls)" for j k
    proof -
      let ?sorted = "sort_key (\<lambda>l. sint (l_create_time l)) vis"
      have "j \<in> l_id ` set ls" using that(1) by simp
      then obtain l where l: "l \<in> set ls" "j = l_id l" by blast
      have "k \<in> set ?keys"
        using that(2) unfolding order visible_def by (simp add: has_lobby_def fm_has_iff)
      then have "lobby_at c k \<in> set vis"
        using that(2) wf_lobby_id [OF wf] by (auto simp: vis_def visible_def)
      moreover have "lobby_at c k \<notin> set ls"
        using that(2,3) wf_lobby_id [OF wf, of k] by (force simp: visible_def)
      ultimately have k: "lobby_at c k \<in> set (drop 100 ?sorted)"
        unfolding ls_def by (metis append_take_drop_id set_append Un_iff set_sort)
      have "sorted (map (\<lambda>l. sint (l_create_time l)) (take 100 ?sorted @ drop 100 ?sorted))" by simp
      then have "\<forall>x \<in> set (take 100 ?sorted). \<forall>y \<in> set (drop 100 ?sorted).
          sint (l_create_time x) \<le> sint (l_create_time y)"
        unfolding map_append sorted_append by simp
      then show ?thesis using l k reread by (simp add: ls_def)
    qed
    show "set (map l_id ls) = set (filter (visible c pid) ?keys)"
      if few: "length (filter (visible c pid) ?keys) \<le> 100"
    proof -
      have "vis = map (lobby_at c) (filter (visible c pid) ?keys)"
        unfolding vis_def filter_map o_def using keys wf_lobby_id [OF wf]
        by (intro arg_cong [where f = "map (lobby_at c)"] filter_cong) (auto simp: visible_def)
      moreover have "l_id ` lobby_at c ` set (filter (visible c pid) ?keys) = set (filter (visible c pid) ?keys)"
        using wf_lobby_id [OF wf] by (force simp: visible_def image_iff)
      ultimately show ?thesis using few by (simp add: ls_def)
    qed
  qed
qed

text \<open>Who is listening already gets an empty list.\<close>

lemma list_lobby_again:
  assumes "wf_game E n (game c)" "has_peer c pid" "pid \<in> set (g_lobby_listing_peers (game c))"
  shows "on_list_lobby E' i pid data c = send pid (notification_lobby_list (yyjson_mut_write E') (AArr []) i) OpText c"
  using wf_peer_id [OF assms(1,2)] assms(3) by (simp add: on_list_lobby_def Let_def)

subsection \<open>Quick join\<close>

text \<open>A lobby a quick join may pick.\<close>

definition suits :: "dict \<Rightarrow> ctx \<Rightarrow> string \<Rightarrow> bool" where
  "suits tags c k \<longleftrightarrow> has_lobby c k \<and>
     size_lt (length (l_peer_ids (lobby_at c k))) (l_max_players (lobby_at c k)) \<and>
     \<not> l_sealed (lobby_at c k) \<and> l_password (lobby_at c k) = [] \<and>
     \<not> p_disconnected (peer_at c (l_host (lobby_at c k))) \<and> lobby_contains_tags tags (l_tags (lobby_at c k))"

lemma suits_state: "state_of c = state_of c' \<Longrightarrow> suits tags c k = suits tags c' k"
  using state_of_has_lobby [of c c'] state_of_lobby_at [of c c'] state_of_peer_at [of c c']
  by (simp add: suits_def)

lemma sound_host:
  assumes "sound E c" "has_lobby c k"
  shows "l_host (lobby_at c k) \<in> set (l_peer_ids (lobby_at c k))" "l_host (lobby_at c k) \<noteq> [] \<or> has_peer c []"
    "touch_peer (l_host (lobby_at c k)) c = c"
proof -
  obtain l where l: "map_of (g_lobbies (game c)) k = Some l"
    using assms(2) by (auto simp: has_lobby_def fm_has_def)
  show h: "l_host (lobby_at c k) \<in> set (l_peer_ids (lobby_at c k))"
    using sound_full [OF assms(1) l] l by (simp add: full_lobby_def lobby_at_def)
  note p = sound_member(1) [OF assms(1) h]
  show "l_host (lobby_at c k) \<noteq> [] \<or> has_peer c []" using p by (cases "l_host (lobby_at c k)") simp_all
  show "touch_peer (l_host (lobby_at c k)) c = c" using p by (simp add: touch_peer_def)
qed

lemma quick_join_loop_spec:
  assumes "sound E c" "has_peer c pid" "\<not> has_peer c []" "p_lobby_id (peer_at c pid) = []"
    "decode_string_or_default data ''_p'' [] = []"
    "quick_join_loop E' i pid data tags ks c = (joined, c')" "[] \<notin> set ks"
  shows "if joined then \<exists>k \<in> set ks. suits tags c k \<and> p_lobby_id (peer_at c' pid) = k \<and>
      l_peer_ids (lobby_at c' k) = fs_insert pid (l_peer_ids (lobby_at c k))
    else state_of c' = state_of c \<and> (\<forall>k \<in> set ks. \<not> suits tags c k)"
  using assms
proof (induction ks arbitrary: c joined c')
  case (Cons k ks)
  note s = Cons.prems(1) and pid = Cons.prems(2)
  show ?case
  proof (cases "suits tags c k")
    case True
    then have l: "has_lobby c k" by (simp add: suits_def)
    have k: "l_id (lobby_at c k) = k" "k \<noteq> []"
      using sound_lobby_id [OF s l] Cons.prems(7) by auto
    have nr: "\<not> reconnecting (peer_at c pid)" using Cons.prems(4) by (simp add: reconnecting_def)
    have tgt: "k = join_target False (peer_at c pid) data k" using k by (simp add: join_target_def)
    obtain j c1 where r: "on_join_lobby E' i pid data k c = (j, c1)" by (cases "on_join_lobby E' i pid data k c")
    have j: j
      using join_iff [OF s pid, of False k data k E' i] nr tgt Cons.prems(4,5) True k r by (simp add: suits_def)
    have c1: "state_of c1 = state_of (let_in False pid k c)"
      using join_state [OF s pid, of False k data k E' i] nr tgt r j by simp
    have out: "quick_join_loop E' i pid data tags (k # ks) c = (True, c1)"
      using True r j k sound_host(3) [OF s l] by (auto simp: suits_def Let_def)
    then have "joined" "c' = c1" using Cons.prems(6) by simp_all
    then show ?thesis
      using True let_in_records(3,4) [OF s pid l] state_of_peer_at [OF c1] state_of_lobby_at [OF c1] by auto
  next
    case False
    have "quick_join_loop E' i pid data tags (k # ks) c = quick_join_loop E' i pid data tags ks c"
    proof (cases "has_lobby c k")
      case True
      have "l_host (lobby_at c k) \<noteq> []" using sound_host(2) [OF s True] Cons.prems(3) by simp
      then show ?thesis
        using False True sound_host(3) [OF s True] by (auto simp: suits_def Let_def)
    qed simp
    then show ?thesis
      using Cons.IH [OF Cons.prems(1-5)] Cons.prems(6,7) False by auto
  qed
qed simp

subsection \<open>Closing a connection\<close>

lemma close_effect:
  assumes "sound E c" "has_peer c pid"
  shows "\<not> online (on_close E' pid c) pid \<and> p_disconnected (peer_at (on_close E' pid c) pid)"
proof -
  define c0 where "c0 = upd_game (\<lambda>g. g\<lparr>g_lobby_listing_peers := fs_erase pid (g_lobby_listing_peers g)\<rparr>) c"
  define c1 where "c1 = upd_game (\<lambda>g. g\<lparr>g_disconnected_peers := fm_emplace pid (now c) (g_disconnected_peers g)\<rparr>)
       (set_peer pid (\<lambda>p. p\<lparr>p_ready := False, p_disconnected := True\<rparr>) c0)"
  have st: "state_of (on_close E' pid c) = state_of c1"
    by (rule close_present [OF assms, of E']) (simp only: c1_def c0_def)
  have p0: "has_peer c0 pid" using assms(2) by (simp add: c0_def has_peer_def)
  have "p_disconnected (peer_at c1 pid)" using set_peer_reads(1) [OF p0] by (simp add: c1_def peer_at_def)
  moreover have "\<not> online c1 pid" by (auto simp: c1_def online_def map_of_fm_emplace fm_has_def)
  ultimately show ?thesis using state_of_peer_at [OF st] online_state [OF st] by simp
qed

end
