(* ===== verification/Web_Server.thy ===== *)
theory Web_Server
  imports Game_Thread
begin

text \<open>
  The web server, from \<^verbatim>\<open>src/src/websocket/websocket_server.cpp\<close>: which upgrade requests are let
  through to authentication, opening with reconnection tokens, the rate limit, closing, sending,
  and clearing the users the game thread gave up on; and \<open>deliver\<close>, what the callbacks the game
  thread defers to the server's loop do (\<^verbatim>\<open>GameThread::send\<close>, \<open>handle_send\<close>, \<open>handle_disconnects\<close>).
  A \<open>uWS::WebSocket *\<close> is a number; \<open>sockets\<close> holds the \<open>PerSocketData\<close> of each, and \<open>open_sockets\<close>
  the sockets uWebSockets has opened and not yet closed. As its manual says, \<open>WebSocket::end\<close>
  calls the close handler at once. What reaches the network is appended to \<open>outbox\<close>.
\<close>

subsection \<open>Data\<close>

record per_socket_data =
  s_uid :: string
  s_id :: string
  s_game_id :: string
  s_reconnection_token :: string
  s_platform :: string
  s_name :: string
  s_platform_id :: string
  s_message_count :: i32
  s_last_message_time :: i64

definition new_socket_data :: "string \<Rightarrow> string \<Rightarrow> string \<Rightarrow> string \<Rightarrow> per_socket_data" where
  "new_socket_data uid pid gid token =
    \<lparr>s_uid = uid, s_id = pid, s_game_id = gid, s_reconnection_token = token, s_platform = ''anon'',
     s_name = [], s_platform_id = [], s_message_count = 0, s_last_message_time = 0\<rparr>"

record connection =
  k_id :: string
  k_game_id :: string
  k_reconnection_token :: string
  k_ws :: "nat option"

record reconnection =
  r_peer_id :: string
  r_timestamp :: i64

datatype web_output =
    Frame nat string
  | Ended nat int string

record web =
  max_users :: i32
  max_messages_per_second :: i32
  connected_users :: i32
  web_uuids :: nat
  connection_data :: "connection flat_map"
  reconnections :: "reconnection flat_map"
  sockets :: "nat \<Rightarrow> per_socket_data"
  open_sockets :: "nat list"
  web_queue :: "ws_message list"
  outbox :: "web_output list"

definition MAX_RECONNECTION_TIME :: i32 where
  "MAX_RECONNECTION_TIME = 6 * 60 * 1000"

definition RATE_LIMIT_WINDOW :: i64 where
  "RATE_LIMIT_WINDOW = 1000"

definition put_socket :: "nat \<Rightarrow> per_socket_data \<Rightarrow> web \<Rightarrow> web" where
  "put_socket s d w = w\<lparr>sockets := (sockets w)(s := d)\<rparr>"

definition enqueue :: "ws_message \<Rightarrow> web \<Rightarrow> web" where
  "enqueue m w = w\<lparr>web_queue := web_queue w @ [m]\<rparr>"

definition web_message :: "per_socket_data \<Rightarrow> ws_event \<Rightarrow> string \<Rightarrow> ws_message" where
  "web_message d e text =
    \<lparr>m_id = s_id d, m_event = e, m_message = text, m_game_id = s_game_id d,
     m_reconnection_token = s_reconnection_token d, m_platform = ''anon'', m_name = [],
     m_platform_id = []\<rparr>"

subsection \<open>Upgrading\<close>

definition trim :: "string \<Rightarrow> string" where
  "trim s = rev (dropWhile isspace (rev (dropWhile isspace s)))"

text \<open>The \<open>getline\<close> loop over the protocol header: one part per comma, and one more.\<close>

fun split_commas :: "string \<Rightarrow> string list" where
  "split_commas [] = [[]]"
| "split_commas (ch # s) =
     (if ch = CHR '','' then [] # split_commas s
      else (case split_commas s of p # ps \<Rightarrow> (ch # p) # ps | [] \<Rightarrow> [[ch]]))"

definition protocols_split :: "string \<Rightarrow> string list" where
  "protocols_split s = map trim (split_commas s)"

text \<open>
  \<open>on_upgrade\<close>: an error for the response, or the data handed to the authentication thread;
  \<open>room\<close> is what \<open>try_enqueue\<close> of its queue answers.
\<close>

definition on_upgrade ::
  "(nat \<Rightarrow> string) \<Rightarrow> string \<Rightarrow> bool \<Rightarrow> web \<Rightarrow> (string + per_socket_data) \<times> web" where
  "on_upgrade gen protocol room w =
    (if sint (max_users w) < sint (connected_users w) then (Inl ''ERROR_SERVER_TOO_MANY_USERS'', w)
     else
       let ps = protocols_split protocol
       in if length ps < 2 \<or> ps ! 0 \<noteq> ''appsinacup''
          then (Inl ''ERROR_SERVER_FAILED_TO_OPEN_WEBSOCKET'', w)
          else
            let uuid = gen (web_uuids w); uid = gen (web_uuids w + 1);
                w = w\<lparr>web_uuids := web_uuids w + 2\<rparr>;
                token = (if 2 < length ps then ps ! 2 else uuid);
                d = new_socket_data uid (take 8 uuid) (ps ! 1) token
            in if room then (Inr d, w) else (Inl ''ERROR_SERVER_QUEUE_FULL'', w))"

subsection \<open>Closing and sending\<close>

definition web_on_close :: "nat \<Rightarrow> string \<Rightarrow> web \<Rightarrow> web" where
  "web_on_close s message w =
    (let d = sockets w s;
         w = (case map_of (connection_data w) (s_id d) of
                None \<Rightarrow> w
              | Some k \<Rightarrow>
                  if s_reconnection_token d = k_reconnection_token k \<and> k_ws k = Some s
                  then w\<lparr>connection_data := fm_put (s_id d) (k\<lparr>k_ws := None\<rparr>) (connection_data w)\<rparr>
                  else w);
         w = w\<lparr>connected_users := connected_users w - 1\<rparr>
     in enqueue (web_message d CLOSE message) w)"

text \<open>The library closes the socket and runs the handler; it does so when the client goes away, too.\<close>

definition closed :: "nat \<Rightarrow> string \<Rightarrow> web \<Rightarrow> web" where
  "closed s message w = web_on_close s message (w\<lparr>open_sockets := filter (\<lambda>j. j \<noteq> s) (open_sockets w)\<rparr>)"

definition ws_end :: "nat \<Rightarrow> int \<Rightarrow> string \<Rightarrow> web \<Rightarrow> web" where
  "ws_end s code message w = closed s message (w\<lparr>outbox := outbox w @ [Ended s code message]\<rparr>)"

definition ws_send :: "nat \<Rightarrow> string \<Rightarrow> web \<Rightarrow> web" where
  "ws_send s message w = w\<lparr>outbox := outbox w @ [Frame s message]\<rparr>"

definition clear_ws :: "string \<Rightarrow> web \<Rightarrow> web" where
  "clear_ws pid w =
    (case map_of (connection_data w) pid of
       None \<Rightarrow> w
     | Some k \<Rightarrow> w\<lparr>connection_data := fm_put pid (k\<lparr>k_ws := None\<rparr>) (connection_data w)\<rparr>)"

definition web_send :: "string \<Rightarrow> string \<Rightarrow> op_code \<Rightarrow> web \<Rightarrow> web" where
  "web_send pid message op w =
    (case map_of (connection_data w) pid of
       None \<Rightarrow> w
     | Some k \<Rightarrow>
         (case k_ws k of
            None \<Rightarrow> w
          | Some s \<Rightarrow>
              if op = OpClose then clear_ws pid (ws_end s 1002 message w) else ws_send s message w))"

text \<open>\<open>send_all\<close> visits the connections in the order of the hash table (\<open>order\<close>).\<close>

definition web_send_all :: "(string list \<Rightarrow> string list) \<Rightarrow> string \<Rightarrow> op_code \<Rightarrow> web \<Rightarrow> web" where
  "web_send_all order message op w =
    fold (\<lambda>pid. web_send pid message op) (order (map fst (connection_data w))) w"

definition clear_user :: "string \<Rightarrow> web \<Rightarrow> web" where
  "clear_user pid w =
    (let w = web_send pid ''ERROR_SERVER_FAILED_TO_RECONNECT'' OpClose w
     in case map_of (connection_data w) pid of
          None \<Rightarrow> w
        | Some k \<Rightarrow>
            w\<lparr>reconnections := fm_erase (k_game_id k @ k_reconnection_token k) (reconnections w),
              connection_data := fm_erase pid (connection_data w)\<rparr>)"

definition clear_users :: "flat_set \<Rightarrow> web \<Rightarrow> web" where
  "clear_users users w = fold clear_user users w"

subsection \<open>Opening\<close>

text \<open>
  The first half of \<open>on_open\<close>: a known token makes the new socket take the place of the old one,
  or closes it (left, with the reason).
\<close>

definition reconnect :: "i64 \<Rightarrow> nat \<Rightarrow> web \<Rightarrow> string option \<times> web" where
  "reconnect t s w =
    (let d = sockets w s; key = s_game_id d @ s_reconnection_token d in
     case (if s_reconnection_token d = [] then None else map_of (reconnections w) key) of
       None \<Rightarrow> (None, w)
     | Some r \<Rightarrow>
         if sint (r_timestamp r) < sint (t - to_i64 MAX_RECONNECTION_TIME)
         then (Some ''ERROR_SERVER_RECONNECT_EXPIRED'',
               w\<lparr>reconnections := fm_erase key (reconnections w)\<rparr>)
         else
           (case map_of (connection_data w) (r_peer_id r) of
              None \<Rightarrow> (Some ''ERROR_SERVER_RECONNECT_PEER_ID_NOT_FOUND'',
                       w\<lparr>reconnections := fm_erase key (reconnections w)\<rparr>)
            | Some k \<Rightarrow>
                if k_game_id k \<noteq> s_game_id d then (Some ''ERROR_SERVER_WRONG_GAMEID'', w)
                else
                  let w = web_send (r_peer_id r) ''ERROR_SERVER_RECONNECT_CLOSE'' OpClose w;
                      w = put_socket s (d\<lparr>s_id := r_peer_id r\<rparr>) w
                  in (None, w\<lparr>reconnections := fm_erase key (reconnections w)\<rparr>)))"

definition settle_token :: "string \<Rightarrow> per_socket_data \<Rightarrow> per_socket_data" where
  "settle_token uuid d =
    (if s_platform d \<noteq> ''anon''
     then d\<lparr>s_reconnection_token := s_platform d @ '':'' @ s_platform_id d\<rparr>
     else d\<lparr>s_reconnection_token := (if s_reconnection_token d = [] then uuid else s_reconnection_token d),
            s_platform_id := s_id d\<rparr>)"

text \<open>The second half: the socket is registered under its id and token, and the game is told.\<close>

definition register :: "i64 \<Rightarrow> nat \<Rightarrow> web \<Rightarrow> web" where
  "register t s w =
    (let d = sockets w s;
         w = w\<lparr>reconnections := fm_emplace (s_game_id d @ s_reconnection_token d)
                 \<lparr>r_peer_id = s_id d, r_timestamp = t\<rparr> (reconnections w),
               connection_data := fm_put (s_id d)
                 \<lparr>k_id = s_id d, k_game_id = s_game_id d,
                  k_reconnection_token = s_reconnection_token d, k_ws = Some s\<rparr> (connection_data w),
               connected_users := connected_users w + 1\<rparr>
     in enqueue ((web_message d OPEN [])\<lparr>m_platform := s_platform d, m_name := s_name d,
          m_platform_id := s_platform_id d\<rparr>) w)"

definition web_on_open :: "(nat \<Rightarrow> string) \<Rightarrow> i64 \<Rightarrow> nat \<Rightarrow> web \<Rightarrow> web" where
  "web_on_open gen t s w =
    (case reconnect t s w of
       (Some err, w) \<Rightarrow> ws_end s 1002 err w
     | (None, w) \<Rightarrow>
         let uuid = gen (web_uuids w);
             w = w\<lparr>web_uuids := web_uuids w + 1\<rparr>
         in register t s (put_socket s (settle_token uuid (sockets w s)) w))"

subsection \<open>Messages\<close>

definition count_message :: "i64 \<Rightarrow> per_socket_data \<Rightarrow> per_socket_data" where
  "count_message t d =
    (if sint (t - s_last_message_time d) < sint RATE_LIMIT_WINDOW
     then d\<lparr>s_message_count := s_message_count d + 1\<rparr>
     else d\<lparr>s_last_message_time := t, s_message_count := 1\<rparr>)"

text \<open>\<open>room\<close> is what \<open>try_enqueue\<close> of the game's queue answers.\<close>

definition on_message :: "i64 \<Rightarrow> bool \<Rightarrow> nat \<Rightarrow> string \<Rightarrow> web \<Rightarrow> web" where
  "on_message t room s message w =
    (let d = count_message t (sockets w s);
         w = put_socket s d w
     in if sint (max_messages_per_second w) < sint (s_message_count d)
        then web_send (s_id d) ''ERROR_SERVER_RATE_LIMIT'' OpClose w
        else if room then enqueue (web_message d MESSAGE message) w
        else web_send (s_id d) ''ERROR_SERVER_QUEUE_FULL'' OpClose w)"

subsection \<open>What the game thread defers\<close>

text \<open>The texts joined with commas, in brackets: the frame of a batch.\<close>

definition batch_frame :: "string list \<Rightarrow> string" where
  "batch_frame ms = ''['' @ join ms @ '']''"

definition deliver :: "deferred \<Rightarrow> web \<Rightarrow> web" where
  "deliver d w =
    (case d of
       DSend pid message op \<Rightarrow> web_send pid message op w
     | DBatch b \<Rightarrow>
         fold (\<lambda>(pid, ms) w. if ms = [] then w else web_send pid (batch_frame ms) OpText w) b w
     | DClear users \<Rightarrow> clear_users users w)"

text \<open>Starting and stopping.\<close>

definition start_web :: "i32 \<Rightarrow> i32 \<Rightarrow> web" where
  "start_web messages users =
    \<lparr>max_users = users, max_messages_per_second = messages, connected_users = 0, web_uuids = 0,
     connection_data = [], reconnections = [], sockets = (\<lambda>_. new_socket_data [] [] [] []),
     open_sockets = [], web_queue = [], outbox = []\<rparr>"

definition stop_web :: "(string list \<Rightarrow> string list) \<Rightarrow> web \<Rightarrow> web" where
  "stop_web order w =
    (let w = fold (\<lambda>pid w.
           case map_of (connection_data w) pid of
             None \<Rightarrow> w
           | Some k \<Rightarrow> (case k_ws k of None \<Rightarrow> w
               | Some s \<Rightarrow> ws_end s 1000 ''ERROR_SERVER_SHUTTING_DOWN'' w))
         (order (map fst (connection_data w))) w
     in w\<lparr>connection_data := [], reconnections := []\<rparr>)"

end
