(* ===== verification/Authentication.thy ===== *)
theory Authentication
  imports Web_Server
begin

text \<open>
  Who a client is, from \<^verbatim>\<open>src/src/authentication\<close>: the callback of \<open>AuthenticationThread::run\<close> that
  upgrades or rejects a request (\<open>authenticate\<close>), the check of a token against the login service
  (\<open>verify_jwt\<close>) and the answers \<open>LoginClient\<close> reads out of text. The HTTPS request is a parameter
  \<open>http\<close> (target and session to body; the empty body after an exception), the database lookup of
  an id an optional parameter \<open>db\<close>, and a JSON document always has a root, as yyjson documents.
\<close>

subsection \<open>Reading text\<close>

definition field_start :: "string \<Rightarrow> string" where
  "field_start name = [CHR 0x22] @ name @ [CHR 0x22, CHR '':'', CHR 0x22]"

text \<open>The text between a field's opening quote and the next one, or the end.\<close>

definition text_field :: "string \<Rightarrow> string \<Rightarrow> string option" where
  "text_field name resp =
    map_option (\<lambda>p. takeWhile (\<lambda>ch. ch \<noteq> CHR 0x22) (drop (p + length (field_start name)) resp))
      (find_sub (field_start name) resp)"

definition extract_login_url :: "env \<Rightarrow> string \<Rightarrow> string" where
  "extract_login_url E resp =
    (case yyjson_read E resp of
       None \<Rightarrow> []
     | Some root \<Rightarrow>
         (case yy_obj_get (Some root) ''login_url'' of Some (YStr s) \<Rightarrow> c_str s | _ \<Rightarrow> []))"

text \<open>A response read from the socket, or the message of the exception it threw (left).\<close>

definition request_url :: "env \<Rightarrow> string + string \<Rightarrow> string + string" where
  "request_url E response =
    (case response of
       Inl e \<Rightarrow> Inl e
     | Inr resp \<Rightarrow>
         if find_sub (field_start ''login_url'') resp \<noteq> None then Inr (extract_login_url E resp)
         else Inl ''Could not parse login_url response'')"

definition wait_for_jwt :: "string + string \<Rightarrow> string + string \<times> string \<times> string" where
  "wait_for_jwt response =
    (case response of
       Inl e \<Rightarrow> Inl e
     | Inr resp \<Rightarrow>
         (case (text_field ''jwt'' resp, text_field ''type'' resp, text_field ''access_token'' resp) of
            (Some jwt, Some kind, Some access_token) \<Rightarrow> Inr (jwt, kind, access_token)
          | _ \<Rightarrow> Inl ''Could not parse jwt response''))"

subsection \<open>Asking the login service\<close>

definition verify_jwt :: "env \<Rightarrow> (string \<Rightarrow> string \<Rightarrow> string) \<Rightarrow> string \<Rightarrow> string" where
  "verify_jwt E http jwt =
    (let result = http ''/api/v1/internal/token/verify'' jwt in
     case yyjson_read E result of
       None \<Rightarrow> result
     | Some root \<Rightarrow>
         (let (decode_error, auth_result) = decode_object (Some root) [] in
          if decode_error \<noteq> [] then result
          else
            (case map_of auth_result ''success'' of
               Some (ABool success) \<Rightarrow>
                 if \<not> success then http ''/api/v1/internal/steam/verify'' jwt else result
             | _ \<Rightarrow> result)))"

subsection \<open>Upgrading a client\<close>

text \<open>\<open>Thrown\<close> is a \<open>std::get\<close> of the wrong alternative, \<open>Dropped\<close> a request that was aborted before.\<close>

datatype auth_reply = Dropped | Rejected string | Thrown | Upgraded per_socket_data

definition reject :: "string \<Rightarrow> auth_reply" where
  "reject reason = Rejected (''Failed to authenticate. '' @ reason)"

definition upgrade_anonymous ::
  "(string \<Rightarrow> string \<Rightarrow> string \<Rightarrow> string) option \<Rightarrow> bool \<Rightarrow> per_socket_data \<Rightarrow> auth_reply" where
  "upgrade_anonymous db aborted d =
    (if aborted then Dropped
     else Upgraded (case db of None \<Rightarrow> d
       | Some lookup \<Rightarrow> d\<lparr>s_id := lookup (s_reconnection_token d) (s_game_id d) (s_id d)\<rparr>))"

definition read_token :: "dict \<Rightarrow> per_socket_data \<Rightarrow> auth_reply" where
  "read_token token d =
    (if \<not> fm_has ''name'' token then reject ''Cannot find name in login result.''
     else if \<not> fm_has ''platform'' token then reject ''Cannot find platform in login result.''
     else if \<not> fm_has ''platform_id'' token then reject ''Cannot find platform_id in login result.''
     else
       (case (map_of token ''platform'', map_of token ''name'', map_of token ''platform_id'') of
          (Some (AStr platform), Some (AStr name), Some (AStr platform_id)) \<Rightarrow>
            Upgraded (d\<lparr>s_platform := platform, s_name := name, s_platform_id := platform_id,
              s_reconnection_token := platform @ '':'' @ platform_id\<rparr>)
        | _ \<Rightarrow> Thrown))"

definition read_login :: "dict \<Rightarrow> per_socket_data \<Rightarrow> auth_reply" where
  "read_login auth_result d =
    (case map_of auth_result ''success'' of
       None \<Rightarrow> reject ''Cannot find success in login result.''
     | Some (ABool False) \<Rightarrow> reject ''Failed to login.''
     | Some (ABool True) \<Rightarrow>
         (case map_of auth_result ''data'' of
            None \<Rightarrow> reject ''Cannot find data in login result.''
          | Some (AMap auth_data) \<Rightarrow>
              (case map_of auth_data ''token'' of
                 None \<Rightarrow> reject ''Cannot find token in login result.''
               | Some (AMap token) \<Rightarrow> read_token token d
               | Some _ \<Rightarrow> Upgraded d)
          | Some _ \<Rightarrow> Upgraded d)
     | Some _ \<Rightarrow> reject ''Success is not a boolean.'')"

definition upgrade_login :: "env \<Rightarrow> string \<Rightarrow> string \<Rightarrow> bool \<Rightarrow> per_socket_data \<Rightarrow> auth_reply" where
  "upgrade_login E result error_msg aborted d =
    (if aborted then Dropped
     else if error_msg \<noteq> [] then reject error_msg
     else
       (case yyjson_read E result of
          None \<Rightarrow> reject ''Cannot read login doc result.''
        | Some root \<Rightarrow>
            (let (decode_error, auth_result) = decode_object (Some root) [] in
             if decode_error \<noteq> [] then reject (''Cannot decode login result. '' @ decode_error)
             else read_login auth_result d)))"

text \<open>A token without a dot is taken for an anonymous client's; \<open>verify_jwt\<close> never sets its error.\<close>

definition authenticate ::
  "env \<Rightarrow> (string \<Rightarrow> string \<Rightarrow> string \<Rightarrow> string) option \<Rightarrow> (string \<Rightarrow> string \<Rightarrow> string) \<Rightarrow> bool \<Rightarrow>
    per_socket_data \<Rightarrow> auth_reply" where
  "authenticate E db http aborted d =
    (if CHR ''.'' \<notin> set (s_reconnection_token d) then upgrade_anonymous db aborted d
     else upgrade_login E (verify_jwt E http (s_reconnection_token d)) [] aborted d)"

subsection \<open>What an upgrade means\<close>

lemma read_token_upgraded:
  assumes "read_token token d = Upgraded d'"
  obtains platform name platform_id where
    "map_of token ''platform'' = Some (AStr platform)" "map_of token ''name'' = Some (AStr name)"
    "map_of token ''platform_id'' = Some (AStr platform_id)"
    "d' = d\<lparr>s_platform := platform, s_name := name, s_platform_id := platform_id,
       s_reconnection_token := platform @ '':'' @ platform_id\<rparr>"
  using assms
  by (auto simp: read_token_def reject_def split: if_splits option.splits any_element.splits)

lemma read_login_upgraded:
  assumes "read_login r d = Upgraded d'"
  shows "map_of r ''success'' = Some (ABool True) \<and> map_of r ''data'' \<noteq> None \<and>
    (d' = d \<or> (\<exists>auth_data token. map_of r ''data'' = Some (AMap auth_data) \<and>
      map_of auth_data ''token'' = Some (AMap token) \<and> read_token token d = Upgraded d'))"
  using assms
  by (auto simp: read_login_def reject_def split: option.splits any_element.splits bool.splits)

lemma upgrade_login_upgraded:
  assumes "upgrade_login E result e aborted d = Upgraded d'"
  obtains root r where "yyjson_read E result = Some root" "decode_object (Some root) [] = ([], r)"
    "read_login r d = Upgraded d'"
  using assms
  by (auto simp: upgrade_login_def reject_def split: if_splits option.splits prod.splits)

end
