(* ===== verification/Login_Requests.thy ===== *)
theory Login_Requests
  imports Authentication
begin

text \<open>
  The requests of the login client, from \<^verbatim>\<open>src/src/authentication/login_client.cpp\<close>: what
  \<open>send_request\<close> and \<open>LoginClient::connect\<close> send, and what they make of the outcome. The exchange
  itself (resolving, TLS, HTTP) is a parameter: it answers with a status and a body, or throws.
\<close>

record https_request =
  hr_host :: string
  hr_port :: string
  hr_verb :: string
  hr_target :: string
  hr_fields :: "(string \<times> string) list"
  hr_body :: string

type_synonym exchange = "https_request \<Rightarrow> string + int \<times> string"

text \<open>
  The host of a URL; a URL without \<open>://\<close> loses its first two characters, as \<open>npos + 3\<close> wraps to 2.
  \<open>None\<close> is the exception of \<open>substr\<close> beyond the end.
\<close>

definition url_host :: "string \<Rightarrow> string option" where
  "url_host url =
    (let start = (case find_sub ''://'' url of Some pos \<Rightarrow> pos + 3 | None \<Rightarrow> 2)
     in if length url < start then None else Some (takeWhile (\<lambda>ch. ch \<noteq> CHR ''/'') (drop start url)))"

text \<open>The body of the answer whatever its status, and the empty text after an exception.\<close>

definition send_request ::
  "exchange \<Rightarrow> string \<Rightarrow> string \<Rightarrow> string \<Rightarrow> string \<Rightarrow> (string \<times> string) list \<Rightarrow> string" where
  "send_request ex verb url target body headers =
    (case url_host url of
       None \<Rightarrow> []
     | Some host \<Rightarrow>
         (case ex \<lparr>hr_host = host, hr_port = ''443'', hr_verb = verb, hr_target = target,
                   hr_fields = [(''Host'', host), (''Content-Type'', ''application/json'')] @ headers,
                   hr_body = body\<rparr> of
            Inl what \<Rightarrow> []
          | Inr (status, answer) \<Rightarrow> answer))"

text \<open>Both requests of \<open>verify_jwt\<close> carry the session and no body.\<close>

definition verify_request :: "exchange \<Rightarrow> string \<Rightarrow> string \<Rightarrow> string" where
  "verify_request ex target jwt =
    send_request ex ''GET'' ''https://login.appsinacup.com'' target [] [(''SESSION'', jwt)]"

text \<open>\<open>LoginClient\<close>: the upgrade request it makes after resolving and the TLS handshake.\<close>

record login_client =
  lc_host :: string
  lc_game_id :: string
  lc_port :: string

record upgrade_request =
  ur_host :: string
  ur_path :: string
  ur_protocol :: string

definition connect_request :: "string \<Rightarrow> login_client \<Rightarrow> upgrade_request" where
  "connect_request port_text lc =
    \<lparr>ur_host = lc_host lc @ '':'' @ port_text, ur_path = ''/api/v1/connect'',
     ur_protocol = ''appsinacup,'' @ lc_game_id lc\<rparr>"

text \<open>\<open>connect\<close>: the port the resolver found, or the exception; then the handshake, or its exception.\<close>

definition login_connect ::
  "(string \<Rightarrow> string \<Rightarrow> string + string) \<Rightarrow> (upgrade_request \<Rightarrow> string option) \<Rightarrow> login_client \<Rightarrow> string option" where
  "login_connect resolve handshake lc =
    (case resolve (lc_host lc) (lc_port lc) of
       Inl e \<Rightarrow> Some e
     | Inr port_text \<Rightarrow> handshake (connect_request port_text lc))"

definition url_request :: "string \<Rightarrow> string" where
  "url_request kind =
    ''{'' @ [CHR 0x22] @ ''action'' @ [CHR 0x22, CHR '':'', CHR 0x22] @ ''getLogin'' @
    [CHR 0x22, CHR '','', CHR 0x22] @ ''type'' @ [CHR 0x22, CHR '':'', CHR 0x22] @ kind @ [CHR 0x22] @ ''}''"

end
