(* ===== verification/Script_Library.thy ===== *)
theory Script_Library
  imports Messages Lua_Types
begin

text \<open>
  The library functions of \<^verbatim>\<open>src/src/lua/script_lua_functions.cpp\<close> that a script calls for its own sake:
  the \<open>system\<close> package (HTTP requests, JSON, files), \<open>require\<close> with its cache of modules, and
  \<open>run_lua_file\<close>, which starts a game's script. What they read and change is the world of one
  virtual machine: the files of the server and the registry table \<open>_MODULES\<close>. The code of a chunk
  is a tree of the library calls it makes (calls into the game do not touch this world; their
  answers are part of which tree it is). Compiling and loading a text is Luau's and the exchange
  over TLS is Boost's: both are fields of \<open>lib_env\<close>.
\<close>

subsection \<open>The world of a virtual machine\<close>

datatype lib_fun =
    Lib_require | Lib_http_request | Lib_decode_json | Lib_encode_json
  | Lib_read_file | Lib_write_file

text \<open>The result of a C function or of a chunk: a Lua error, with its text if it has one, or values.\<close>

type_synonym lua_result = "string option + luaval list"

text \<open>A call notes the place it is made from, which \<open>luaL_error\<close> writes before its message.\<close>

datatype chunk =
    CRet "luaval list"
  | CErr "string option"
  | CCall string lib_fun "luaval list" "lua_result \<Rightarrow> chunk"

record lib_world =
  w_files :: "string \<Rightarrow> string option"
  w_modules :: "string \<Rightarrow> luaval option"

record http_request =
  rq_host :: string
  rq_port :: string
  rq_method :: string
  rq_target :: string
  rq_headers :: "(string \<times> string) list"
  rq_body :: string

record http_response =
  rs_status :: i32
  rs_body :: string

text \<open>
  \<open>base_path\<close> is the folder of the game, \<open>luau_load\<close> compiles and loads the text of a file, \<open>can_open\<close>
  says whether a file can be opened for writing, and \<open>https_exchange\<close> sends a request and reads the
  answer, or throws.
\<close>

record lib_env =
  base_path :: string
  luau_load :: "string \<Rightarrow> string \<Rightarrow> string option + chunk"
  can_open :: "string \<Rightarrow> bool"
  https_exchange :: "http_request \<Rightarrow> string + http_response"

type_synonym lib_step = "lua_result \<times> lib_world"

definition lua_error :: "string \<Rightarrow> lib_world \<Rightarrow> lib_step" where
  "lua_error msg w = (Inl (Some msg), w)"

definition lua_return :: "luaval list \<Rightarrow> lib_world \<Rightarrow> lib_step" where
  "lua_return vs w = (Inr vs, w)"

subsection \<open>HTTP requests\<close>

text \<open>Arrays of strings read two by two; a pair that is not two strings is left out.\<close>

fun string_pairs :: "any_element list \<Rightarrow> (string \<times> string) list" where
  "string_pairs (x # y # xs) =
     (case (x, y) of (AStr k, AStr v) \<Rightarrow> (k, v) # string_pairs xs | _ \<Rightarrow> string_pairs xs)"
| "string_pairs _ = []"

fun query_string :: "(string \<times> string) list \<Rightarrow> string" where
  "query_string [] = []"
| "query_string [(k, v)] = k @ ''='' @ v"
| "query_string ((k, v) # ps) = k @ ''='' @ v @ ''&'' @ query_string ps"

definition starts_with :: "string \<Rightarrow> string \<Rightarrow> bool" where
  "starts_with p s \<longleftrightarrow> take (length p) s = p"

text \<open>What \<open>request\<close> sends for a URL; \<open>None\<close> is the exception for another scheme.\<close>

definition request_of ::
  "string \<Rightarrow> string \<Rightarrow> (string \<times> string) list \<Rightarrow> (string \<times> string) list \<Rightarrow> string \<Rightarrow> http_request option" where
  "request_of method_name url query_params headers body =
    (let plain = starts_with ''http://'' url;
         remainder = drop (if plain then 7 else 8) url;
         host = takeWhile (\<lambda>ch. ch \<noteq> CHR ''/'') remainder;
         path = dropWhile (\<lambda>ch. ch \<noteq> CHR ''/'') remainder;
         target = (if path = [] then ''/'' else path);
         query = query_string query_params
     in if plain \<or> starts_with ''https://'' url
        then Some \<lparr>rq_host = host, rq_port = (if plain then ''80'' else ''443''), rq_method = method_name,
               rq_target = (if query = [] then target else target @ ''?'' @ query),
               rq_headers = headers, rq_body = body\<rparr>
        else None)"

definition request ::
  "lib_env \<Rightarrow> string \<Rightarrow> string \<Rightarrow> (string \<times> string) list \<Rightarrow> (string \<times> string) list \<Rightarrow> string \<Rightarrow>
   string + http_response" where
  "request L method_name url query_params headers body =
    (case request_of method_name url query_params headers body of
       None \<Rightarrow> Inl ''Invalid URL scheme''
     | Some rq \<Rightarrow> https_exchange L rq)"

definition array_pairs :: "any_element \<Rightarrow> (string \<times> string) list" where
  "array_pairs x = (case x of AArr xs \<Rightarrow> string_pairs xs | _ \<Rightarrow> [])"

text \<open>An optional argument: a default when fewer arguments were passed.\<close>

definition opt_arg :: "(luaval \<Rightarrow> 'a option) \<Rightarrow> 'a \<Rightarrow> luaval list \<Rightarrow> nat \<Rightarrow> 'a option" where
  "opt_arg conv dflt args i = (if i \<le> length args then conv (lua_arg args i) else Some dflt)"

definition http_request_call :: "env \<Rightarrow> lib_env \<Rightarrow> string \<Rightarrow> luaval list \<Rightarrow> lib_world \<Rightarrow> lib_step" where
  "http_request_call E L site args w =
    (if length args < 2 \<or> 5 < length args
     then lua_error (site @ ''Expected 2 argument min. Max 5.'') w
     else
       (case (lua_to_cstring E (lua_arg args 1), lua_to_cstring E (lua_arg args 2),
              opt_arg (decode_luavalue E) (AArr []) args 3, opt_arg (decode_luavalue E) (AArr []) args 4,
              opt_arg (lua_to_cstring E) [] args 5) of
          (Some method_name, Some url, Some query_params, Some headers, Some body) \<Rightarrow>
            (case request L method_name url (array_pairs query_params) (array_pairs headers) body of
               Inr res \<Rightarrow> lua_return [LNum (f64_of_int (sint (rs_status res))), LStr (c_str (rs_body res))] w
             | Inl what \<Rightarrow> lua_return [LNum (f64_of_int 500), LStr (c_str (''Error: '' @ what))] w)
        | _ \<Rightarrow> lua_error (lua_argerror E) w))"

subsection \<open>JSON\<close>

definition decode_json :: "env \<Rightarrow> string \<Rightarrow> luaval list \<Rightarrow> lib_world \<Rightarrow> lib_step" where
  "decode_json E site args w =
    (if length args < 1 then lua_error (site @ ''Expected 1 argument.'') w
     else
       (case lua_to_cstring E (lua_arg args 1) of
          None \<Rightarrow> lua_error (lua_argerror E) w
        | Some json \<Rightarrow>
            (case yyjson_read E json of
               None \<Rightarrow> lua_return [] w
             | Some root \<Rightarrow>
                 (case decode_value root of
                    Inl e \<Rightarrow> lua_return [] w
                  | Inr x \<Rightarrow> lua_return [push_lua_value x] w))))"

definition encode_json :: "env \<Rightarrow> string \<Rightarrow> luaval list \<Rightarrow> lib_world \<Rightarrow> lib_step" where
  "encode_json E site args w =
    (if length args < 1 then lua_error (site @ ''Expected 1 argument.'') w
     else
       (case decode_luavalue E (lua_arg args 1) of
          None \<Rightarrow> lua_error (lua_argerror E) w
        | Some x \<Rightarrow> lua_return [LStr (c_str (to_string (yyjson_mut_write E) x))] w))"

subsection \<open>Files\<close>

text \<open>A file that cannot be read is the empty string: the \<open>nil\<close> pushed first is not returned.\<close>

definition read_file_as_string :: "env \<Rightarrow> lib_env \<Rightarrow> string \<Rightarrow> luaval list \<Rightarrow> lib_world \<Rightarrow> lib_step" where
  "read_file_as_string E L site args w =
    (if length args < 1 then lua_error (site @ ''Expected 1 argument.'') w
     else
       (case lua_to_cstring E (lua_arg args 1) of
          None \<Rightarrow> lua_error (lua_argerror E) w
        | Some name \<Rightarrow>
            (case w_files w (base_path L @ ''/'' @ name) of
               None \<Rightarrow> lua_return [LStr []] w
             | Some content \<Rightarrow> lua_return [LStr (c_str content)] w)))"

definition write_file_as_string :: "env \<Rightarrow> lib_env \<Rightarrow> string \<Rightarrow> luaval list \<Rightarrow> lib_world \<Rightarrow> lib_step" where
  "write_file_as_string E L site args w =
    (if length args < 2 then lua_error (site @ ''Expected 2 arguments.'') w
     else
       (case (lua_to_cstring E (lua_arg args 1), lua_to_cstring E (lua_arg args 2)) of
          (Some name, Some content) \<Rightarrow>
            (let filename = base_path L @ ''/'' @ name in
             if can_open L filename
             then lua_return [LBool True] (w\<lparr>w_files := (w_files w)(filename \<mapsto> content)\<rparr>)
             else lua_return [LBool False] w)
        | _ \<Rightarrow> lua_error (lua_argerror E) w))"

subsection \<open>require\<close>

fun has_dots :: "string \<Rightarrow> bool" where
  "has_dots (a # b # s) \<longleftrightarrow> a = CHR ''.'' \<and> b = CHR ''.'' \<or> has_dots (b # s)"
| "has_dots _ \<longleftrightarrow> False"

definition module_path :: "lib_env \<Rightarrow> string \<Rightarrow> string" where
  "module_path L modname = base_path L @ ''/'' @ modname @ ''.lua''"

definition cached :: "lib_env \<Rightarrow> string \<Rightarrow> lib_world \<Rightarrow> luaval option" where
  "cached L modname w =
    w_modules w (if modname = ''lobby'' \<or> modname = ''system'' then modname else module_path L modname)"

definition store_module :: "string \<Rightarrow> luaval \<Rightarrow> lib_world \<Rightarrow> lib_world" where
  "store_module path v w = w\<lparr>w_modules := (w_modules w)(path \<mapsto> v)\<rparr>"

definition is_module_value :: "luaval \<Rightarrow> bool" where
  "is_module_value v \<longleftrightarrow> (case v of LTable _ \<Rightarrow> True | LFunction _ \<Rightarrow> True | _ \<Rightarrow> False)"

text \<open>\<open>lua_pcall(L, 0, 1, 0)\<close>: exactly one result.\<close>

definition one_result :: "luaval list \<Rightarrow> luaval" where
  "one_result vs = (case vs of [] \<Rightarrow> LNil | v # _ \<Rightarrow> v)"

definition error_text :: "string option \<Rightarrow> string" where
  "error_text e = (case e of None \<Rightarrow> ''unknown error'' | Some m \<Rightarrow> m)"

definition quoted :: "string \<Rightarrow> string" where
  "quoted s = CHR 0x27 # s @ [CHR 0x27]"

text \<open>
  Loading a module: the placeholder \<open>true\<close> goes into the cache first, and what the module returns
  replaces it. \<open>run\<close> runs its chunk.
\<close>

definition load_module ::
  "lib_env \<Rightarrow> (chunk \<Rightarrow> lib_world \<Rightarrow> lib_step) \<Rightarrow> string \<Rightarrow> string \<Rightarrow> lib_world \<Rightarrow> lib_step" where
  "load_module L run site path w =
    (let w = store_module path (LBool True) w in
     case w_files w path of
       None \<Rightarrow> lua_error (''require: cannot open file '' @ quoted path) w
     | Some source \<Rightarrow>
         (case luau_load L path source of
            Inl err \<Rightarrow> lua_error (site @ ''require: failed to load module '' @ quoted path @ '': '' @
                         error_text err) w
          | Inr code \<Rightarrow>
              (let (r, w) = run code w in
               case r of
                 Inl err \<Rightarrow> lua_error (site @ ''require: failed to run module '' @ quoted path @ '': '' @
                              error_text err) w
               | Inr vs \<Rightarrow>
                   (let v = one_result vs in
                    if is_module_value v then lua_return [v] (store_module path v w)
                    else lua_error (''require: module '' @ quoted path @
                           '' must return a table or function'') w))))"

definition lua_require ::
  "env \<Rightarrow> lib_env \<Rightarrow> (chunk \<Rightarrow> lib_world \<Rightarrow> lib_step) \<Rightarrow> string \<Rightarrow> luaval list \<Rightarrow> lib_world \<Rightarrow> lib_step" where
  "lua_require E L run site args w =
    (case lua_to_cstring E (lua_arg args 1) of
       None \<Rightarrow> lua_error (lua_argerror E) w
     | Some modname \<Rightarrow>
         if has_dots modname then lua_error ''require: cannot use ..'' w
         else (case cached L modname w of
                 Some v \<Rightarrow> lua_return [v] w
               | None \<Rightarrow> load_module L run site (module_path L modname) w))"

subsection \<open>Running a chunk\<close>

definition lib_step ::
  "env \<Rightarrow> lib_env \<Rightarrow> (chunk \<Rightarrow> lib_world \<Rightarrow> lib_step) \<Rightarrow> string \<Rightarrow> lib_fun \<Rightarrow> luaval list \<Rightarrow> lib_world \<Rightarrow> lib_step" where
  "lib_step E L run site f args w =
    (case f of
       Lib_require \<Rightarrow> lua_require E L run site args w
     | Lib_http_request \<Rightarrow> http_request_call E L site args w
     | Lib_decode_json \<Rightarrow> decode_json E site args w
     | Lib_encode_json \<Rightarrow> encode_json E site args w
     | Lib_read_file \<Rightarrow> read_file_as_string E L site args w
     | Lib_write_file \<Rightarrow> write_file_as_string E L site args w)"

text \<open>A call that fails raises its error in the chunk, which may catch it: the tree goes on.\<close>

primrec run_chunk ::
  "env \<Rightarrow> lib_env \<Rightarrow> (chunk \<Rightarrow> lib_world \<Rightarrow> lib_step) \<Rightarrow> chunk \<Rightarrow> lib_world \<Rightarrow> lib_step" where
  "run_chunk E L run (CRet vs) = lua_return vs"
| "run_chunk E L run (CErr msg) = (\<lambda>w. (Inl msg, w))"
| "run_chunk E L run (CCall site f args k) =
     (\<lambda>w. let (r, w) = lib_step E L run site f args w in run_chunk E L run (k r) w)"

text \<open>\<open>n\<close> counts the nested C calls Luau still allows; every \<open>require\<close> takes one.\<close>

fun run_nested :: "env \<Rightarrow> lib_env \<Rightarrow> nat \<Rightarrow> chunk \<Rightarrow> lib_world \<Rightarrow> lib_step" where
  "run_nested E L 0 code w = lua_error ''stack overflow'' w"
| "run_nested E L (Suc n) code w = run_chunk E L (run_nested E L n) code w"

subsection \<open>Opening a script\<close>

definition c_function :: "string \<Rightarrow> luaval \<times> luaval" where
  "c_function name = (LStr name, LFunction name)"

definition luaopen_lobby :: "lib_world \<Rightarrow> lib_world" where
  "luaopen_lobby w = store_module ''lobby'' (LTable [(LStr ''get'', LFunction ''get_lobby'')]) w"

definition luaopen_system :: "lib_world \<Rightarrow> lib_world" where
  "luaopen_system w = store_module ''system'' (LTable
     [c_function ''get_time_since_epoch'', c_function ''http_request'', c_function ''decode_json'',
      c_function ''encode_json'', (LStr ''read_file_as_string'', LFunction ''read_file''),
      (LStr ''write_file_as_string'', LFunction ''write_file'')]) w"

definition get_expected_functions :: "string list" where
  "get_expected_functions =
    [''_on_peer_connected'', ''_on_peer_disconnected'', ''_can_create_lobby'', ''_on_lobby_created'',
     ''_can_peer_join'', ''_on_peer_joined'', ''_can_peer_chat'', ''_can_host_set_tags'',
     ''_can_host_kick'', ''_can_peer_ready'', ''_can_host_seal'', ''_on_peer_leave'',
     ''_can_host_resize'', ''_can_host_set_title'', ''_on_lobby_tick'', ''_on_server_reload'',
     ''_on_server_init'']"

definition table_get :: "(luaval \<times> luaval) list \<Rightarrow> luaval \<Rightarrow> luaval" where
  "table_get t k = (case map_of t k of None \<Rightarrow> LNil | Some v \<Rightarrow> v)"

definition is_function :: "luaval \<Rightarrow> bool" where
  "is_function v \<longleftrightarrow> (case v of LFunction _ \<Rightarrow> True | _ \<Rightarrow> False)"

text \<open>
  The callbacks the script has, the table kept as \<open>main\<close>, and the world its run leaves. A file that
  cannot be opened reads as the empty text, which is compiled like any other.
\<close>

definition run_lua_file :: "env \<Rightarrow> lib_env \<Rightarrow> string \<Rightarrow> lib_world \<Rightarrow> (flat_set \<times> luaval option) \<times> lib_world" where
  "run_lua_file E L name w =
    (case luau_load L (CHR ''@'' # name) (case w_files w name of None \<Rightarrow> [] | Some s \<Rightarrow> s) of
       Inl err \<Rightarrow> (([], None), w)
     | Inr code \<Rightarrow>
         (let (r, w) = run_nested E L (lua_c_depth E) code w in
          case r of
            Inl err \<Rightarrow> (([], None), w)
          | Inr vs \<Rightarrow>
              (case one_result vs of
                 LTable t \<Rightarrow>
                   ((fold fs_insert (filter (\<lambda>f. is_function (table_get t (LStr f))) get_expected_functions) [],
                     Some (LTable t)), w)
               | _ \<Rightarrow> (([], None), w))))"

text \<open>A new machine on the files of the server: empty but for the two packages.\<close>

definition new_world :: "(string \<Rightarrow> string option) \<Rightarrow> lib_world" where
  "new_world files = luaopen_system (luaopen_lobby \<lparr>w_files = files, w_modules = (\<lambda>_. None)\<rparr>)"

end
