(* ===== verification/Values.thy ===== *)
theory Values
  imports Lua_Types
begin

text \<open>
  Facts about the values that travel: comparison of dynamic values, the bounds of decoded
  integers, integers as doubles and back, and the round trip of a value through a script.
\<close>

subsection \<open>Comparison\<close>

text \<open>Comparing as C++ does agrees with equality wherever no double is involved.\<close>

fun real_free :: "any_element \<Rightarrow> bool" where
  "real_free (AReal d) \<longleftrightarrow> False"
| "real_free (AMap m) \<longleftrightarrow> (\<forall>(k, v) \<in> set m. real_free v)"
| "real_free (AArr xs) \<longleftrightarrow> (\<forall>x \<in> set xs. real_free x)"
| "real_free _ \<longleftrightarrow> True"

fun nan_free :: "any_element \<Rightarrow> bool" where
  "nan_free (AReal d) \<longleftrightarrow> \<not> f64_is_nan d"
| "nan_free (AMap m) \<longleftrightarrow> (\<forall>(k, v) \<in> set m. nan_free v)"
| "nan_free (AArr xs) \<longleftrightarrow> (\<forall>x \<in> set xs. nan_free x)"
| "nan_free _ \<longleftrightarrow> True"

lemma any_eq_iff:
  "real_free x \<Longrightarrow> any_eq x y \<longleftrightarrow> x = y"
  "\<forall>(k, v) \<in> set m. real_free v \<Longrightarrow> map_eq m m' \<longleftrightarrow> m = m'"
  "\<forall>v \<in> set xs. real_free v \<Longrightarrow> arr_eq xs ys \<longleftrightarrow> xs = ys"
  by (induction x y and m m' and xs ys rule: any_eq_map_eq_arr_eq.induct) auto

lemma any_eq_refl:
  "x = y \<Longrightarrow> any_eq x y \<longleftrightarrow> nan_free x"
  "m = m' \<Longrightarrow> map_eq m m' \<longleftrightarrow> (\<forall>(k, v) \<in> set m. nan_free v)"
  "xs = ys \<Longrightarrow> arr_eq xs ys \<longleftrightarrow> (\<forall>v \<in> set xs. nan_free v)"
  by (induction x y and m m' and xs ys rule: any_eq_map_eq_arr_eq.induct) (auto simp: f64_eq_def)

lemma any_eq_sym:
  "any_eq x y \<longleftrightarrow> any_eq y x" "map_eq m m' \<longleftrightarrow> map_eq m' m" "arr_eq xs ys \<longleftrightarrow> arr_eq ys xs"
  by (induction x y and m m' and xs ys rule: any_eq_map_eq_arr_eq.induct) (auto simp: f64_eq_def)

subsection \<open>Integers\<close>

lemma sint_i32_range: "- (2 ^ 31) \<le> sint (n :: i32)" "sint (n :: i32) < 2 ^ 31"
  using sint_greater_eq [of n] sint_less [of n] by simp_all

lemma sint_to_i64: "sint (to_i64 n) = sint n"
  unfolding to_i64_def by (rule sint_up_scast) (simp add: is_up_def source_size_def target_size_def word_size)

definition yy_number :: "yyval \<Rightarrow> bool" where
  "yy_number v \<longleftrightarrow> (case v of YSint _ \<Rightarrow> True | YUint _ \<Rightarrow> True | YReal _ \<Rightarrow> True | _ \<Rightarrow> False)"

lemma decode_int_cases:
  "(\<exists>n. decode_int_or_default ub obj key d = to_i64 n) \<or> decode_int_or_default ub obj key d = d"
  by (auto simp: decode_int_or_default_def split: option.split yyval.split)

lemma to_i64_range: "- (2 ^ 31) \<le> sint (to_i64 n) \<and> sint (to_i64 n) < 2 ^ 31"
  unfolding sint_to_i64 using sint_i32_range by blast

lemma decode_int_range:
  "- (2 ^ 31) \<le> sint d \<Longrightarrow> sint d < 2 ^ 31 \<Longrightarrow>
   - (2 ^ 31) \<le> sint (decode_int_or_default ub obj key d) \<and> sint (decode_int_or_default ub obj key d) < 2 ^ 31"
  using decode_int_cases [of ub obj key d] to_i64_range by metis

subsection \<open>Integers as doubles\<close>

lemma bit_len_bounds: "0 < n \<Longrightarrow> 2 ^ (bit_len n - 1) \<le> n \<and> n < 2 ^ bit_len n \<and> 0 < bit_len n"
proof (induction n rule: bit_len.induct)
  case (1 n)
  then have eq: "bit_len n = Suc (bit_len (n div 2))" by (subst bit_len.simps) simp
  show ?case
  proof (cases "n = 1")
    case True
    then show ?thesis using eq by (simp add: bit_len.simps [of 0])
  next
    case False
    then have pos: "0 < n div 2" using 1 by simp
    then have IH: "2 ^ (bit_len (n div 2) - 1) \<le> n div 2 \<and> n div 2 < 2 ^ bit_len (n div 2) \<and> 0 < bit_len (n div 2)"
      using 1 by simp
    then obtain j where j: "bit_len (n div 2) = Suc j" by (cases "bit_len (n div 2)") auto
    show ?thesis
      using IH unfolding eq j by (simp, linarith)
  qed
qed


text \<open>The fields of a double put together from a sign, an exponent and a fraction.\<close>

lemma f64_fields:
  assumes "0 \<le> e" "e < 2 ^ 11" "0 \<le> f" "f < 2 ^ 52" "s = 0 \<or> s = (2 :: int) ^ 63"
    and d: "d = word_of_int (s + e * 2 ^ 52 + f)"
  shows "f64_exp d = e" "f64_frac d = f" "f64_neg d \<longleftrightarrow> s \<noteq> 0"
proof -
  obtain t where t: "s = t * 2 ^ 63" "t = 0 \<or> t = 1" using assms(5) by auto
  have le: "e * 2 ^ 52 + f < 2 ^ 63" using assms(1-4) by simp
  have u: "uint d = (t * 2 ^ 11 + e) * 2 ^ 52 + f"
    unfolding d uint_word_of_int using t le assms(1,3) by (auto simp: mod_pos_pos_trivial)
  have div: "uint d div 2 ^ 52 = t * 2 ^ 11 + e"
    unfolding u using assms(3,4) by (simp add: div_pos_pos_trivial)
  show "f64_frac d = f"
    unfolding f64_frac_def u using assms(3,4) by (simp only: mod_mult_self3 mod_pos_pos_trivial)
  show "f64_exp d = e"
    unfolding f64_exp_def div using assms(1,2) by (simp add: mod_pos_pos_trivial)
  show "f64_neg d \<longleftrightarrow> s \<noteq> 0"
    unfolding f64_neg_def u using t le assms(1,3) by auto
qed

lemma f64_of_int_fields:
  assumes "i \<noteq> 0" "\<bar>i\<bar> < 2 ^ 53"
  obtains k where "k \<le> 52" "f64_exp (f64_of_int i) = 1075 - int k"
    "f64_frac (f64_of_int i) = \<bar>i\<bar> * 2 ^ k - 2 ^ 52" "f64_neg (f64_of_int i) \<longleftrightarrow> i < 0"
proof -
  let ?a = "\<bar>i\<bar>" and ?n = "bit_len \<bar>i\<bar>"
  have b: "2 ^ (?n - 1) \<le> ?a" "?a < 2 ^ ?n" "0 < ?n"
    using bit_len_bounds [of ?a] assms(1) by auto
  have n: "?n \<le> 53"
  proof (rule ccontr)
    assume "\<not> ?n \<le> 53"
    then have "(2 :: int) ^ 53 \<le> 2 ^ (?n - 1)" by (intro power_increasing) simp_all
    then show False using b(1) assms(2) by linarith
  qed
  define k where "k = 53 - ?n"
  have nk: "?n + k = 53" using n by (simp add: k_def)
  have "(2 :: int) ^ (?n - 1) * 2 ^ k = 2 ^ 52" "(2 :: int) ^ ?n * 2 ^ k = 2 ^ 53"
    using b(3) nk by (simp_all flip: power_add)
  then have m: "2 ^ 52 \<le> ?a * 2 ^ k" "?a * 2 ^ k < 2 ^ 53"
    using b mult_right_mono [of "2 ^ (?n - 1)" ?a "2 ^ k"] mult_strict_right_mono [of ?a "2 ^ ?n" "2 ^ k"]
    by simp_all
  have d: "f64_of_int i = word_of_int ((if i < 0 then 2 ^ 63 else 0) + (int ?n + 1022) * 2 ^ 52 + (?a * 2 ^ k - 2 ^ 52))"
    using assms(1) n by (simp add: f64_of_int_def Let_def k_def)
  have f: "f64_exp (f64_of_int i) = int ?n + 1022" "f64_frac (f64_of_int i) = ?a * 2 ^ k - 2 ^ 52"
    "f64_neg (f64_of_int i) \<longleftrightarrow> (if i < 0 then 2 ^ 63 else (0 :: int)) \<noteq> 0"
    using f64_fields [OF _ _ _ _ _ d] n m by simp_all
  show thesis
    using that [of k] f nk b(3) by (simp split: if_splits)
qed

lemma f64_of_int_exact:
  assumes "\<bar>i\<bar> < 2 ^ 53"
  shows "f64_trunc (f64_of_int i) = i \<and> f64_integral (f64_of_int i)"
proof (cases "i = 0")
  case True
  then show ?thesis
    by (simp add: f64_of_int_def f64_trunc_def f64_integral_def f64_finite_def f64_exp_def f64_frac_def f64_neg_def)
next
  case False
  obtain k where k: "k \<le> 52" "f64_exp (f64_of_int i) = 1075 - int k"
    "f64_frac (f64_of_int i) = \<bar>i\<bar> * 2 ^ k - 2 ^ 52" "f64_neg (f64_of_int i) \<longleftrightarrow> i < 0"
    using f64_of_int_fields [OF False assms] by blast
  moreover have "- (i * 2 ^ k) div 2 ^ k = - i"
    using nonzero_mult_div_cancel_right [of "2 ^ k" "- i"] by simp
  ultimately show ?thesis
    by (auto simp: f64_trunc_def f64_integral_def f64_finite_def Let_def)
qed

lemma decode_number_of_int:
  assumes "\<bar>sint n\<bar> < 2 ^ 53"
  shows "decode_number (f64_of_int (sint n)) = AInt n"
  using f64_of_int_exact [OF assms] sint_greater_eq [of n] sint_less [of n]
  by (simp add: decode_number_def)


subsection \<open>Through a script and back\<close>

text \<open>
  The values that survive being handed to a script and taken back: integers a double can hold,
  doubles that are not integers, no \<open>null\<close>, no empty array, and keys that Lua does not take for
  numbers.
\<close>

fun lua_safe :: "env \<Rightarrow> any_element \<Rightarrow> bool" where
  "lua_safe E ANull \<longleftrightarrow> False"
| "lua_safe E (ABool b) \<longleftrightarrow> True"
| "lua_safe E (AInt n) \<longleftrightarrow> \<bar>sint n\<bar> < 2 ^ 53"
| "lua_safe E (AReal d) \<longleftrightarrow> \<not> f64_integral d"
| "lua_safe E (AStr s) \<longleftrightarrow> CHR 0x00 \<notin> set s"
| "lua_safe E (AArr xs) \<longleftrightarrow> xs \<noteq> [] \<and> (\<forall>x \<in> set xs. lua_safe E x)"
| "lua_safe E (AMap m) \<longleftrightarrow> fm_wf m \<and>
     (\<forall>(k, v) \<in> set m. CHR 0x00 \<notin> set k \<and> k \<noteq> [] \<and> lua_tonumber E k = None \<and> lua_safe E v)"

lemma push_not_nil: "x \<noteq> ANull \<Longrightarrow> push_lua_value x \<noteq> LNil"
  by (cases x) simp_all

lemma lua_safe_not_null: "lua_safe E x \<Longrightarrow> x \<noteq> ANull"
  by auto

lemma decode_array_part:
  assumes "\<And>x. x \<in> set xs \<Longrightarrow> decode_luavalue E (push_lua_value x) = Some x"
    and "length ks = length xs"
  shows "decode_luatable E (zip (map LNum ks) (map push_lua_value xs)) rd ra False = Some (AArr (ra @ xs))"
  using assms
proof (induction xs arbitrary: ks ra)
  case (Cons x xs)
  then show ?case by (cases ks) simp_all
qed simp

lemma decode_map_part:
  assumes "\<And>k x. (k, x) \<in> set m \<Longrightarrow> decode_luavalue E (push_lua_value x) = Some x \<and> x \<noteq> ANull \<and>
      CHR 0x00 \<notin> set k \<and> k \<noteq> [] \<and> lua_tonumber E k = None"
    and "fm_wf m" and "\<forall>a \<in> fst ` set rd. \<forall>b \<in> fst ` set m. a < b"
  shows "decode_luatable E (map (\<lambda>(k, v). (LStr (c_str k), push_lua_value v)) m) rd [] True = Some (AMap (rd @ m))"
  using assms
proof (induction m arbitrary: rd)
  case (Cons e m)
  obtain k x where e: "e = (k, x)" by (cases e)
  have k: "decode_luavalue E (push_lua_value x) = Some x" "x \<noteq> ANull" "c_str k = k" "k \<noteq> []"
      "lua_tonumber E k = None"
    using Cons.prems(1) [of k x] e by (simp_all add: c_str_id)
  have "\<not> fm_has k rd"
    using Cons.prems(3) e by (auto simp: fm_has_iff)
  then have put: "fm_emplace k x rd = rd @ [(k, x)]"
    using Cons.prems(3) e by (simp add: fm_emplace_def fm_put_last)
  have "decode_luatable E (map (\<lambda>(k, v). (LStr (c_str k), push_lua_value v)) m) (rd @ [(k, x)]) [] True =
      Some (AMap ((rd @ [(k, x)]) @ m))"
    using Cons.prems e by (intro Cons.IH) auto
  then show ?case
    using e k put by simp
qed simp

lemma lua_roundtrip: "lua_safe E x \<Longrightarrow> decode_luavalue E (push_lua_value x) = Some x"
proof (induction E x rule: lua_safe.induct)
  case (4 E d)
  then show ?case by (simp add: decode_number_def)
next
  case (6 E xs)
  have nn: "push_lua_value x \<noteq> LNil" if "x \<in> set xs" for x
    using 6 that by (auto intro!: push_not_nil lua_safe_not_null)
  define ks where "ks = map (\<lambda>i. f64_of_int (int i)) [1..<Suc (length xs)]"
  have ks: "length ks = length xs" by (simp add: ks_def del: upt_Suc)
  have keep: "filter (\<lambda>e. snd e \<noteq> LNil) (zip (map LNum ks) (map push_lua_value xs)) =
      zip (map LNum ks) (map push_lua_value xs)"
    using nn by (fastforce simp: filter_id_conv dest: set_zip_rightD)
  have "map LNum ks = map (\<lambda>i. LNum (f64_of_int (int i))) [1..<Suc (length xs)]"
    unfolding ks_def map_map o_def ..
  then have table: "push_lua_value (AArr xs) = LTable (zip (map LNum ks) (map push_lua_value xs))"
    using keep by (simp only: push_lua_value.simps)
  obtain k ks' y ys where cons: "ks = k # ks'" "xs = y # ys"
    using 6 ks by (cases ks; cases xs) auto
  have "decode_luatable E (zip (map LNum ks') (map push_lua_value ys)) [] [y] False = Some (AArr ([y] @ ys))"
    using 6 ks cons by (intro decode_array_part) auto
  moreover have "decode_luavalue E (push_lua_value y) = Some y" using 6 cons by auto
  ultimately show ?case unfolding table by (simp add: cons)
next
  case (7 E m)
  have "filter (\<lambda>e. snd e \<noteq> LNil) (map (\<lambda>(k, v). (LStr (c_str k), push_lua_value v)) m) =
      map (\<lambda>(k, v). (LStr (c_str k), push_lua_value v)) m"
    using 7 push_not_nil lua_safe_not_null by (fastforce simp: filter_id_conv)
  moreover have "decode_luatable E (map (\<lambda>(k, v). (LStr (c_str k), push_lua_value v)) m) [] [] True =
      Some (AMap ([] @ m))"
    using 7 by (intro decode_map_part) (auto dest: lua_safe_not_null)
  ultimately show ?case by simp
qed (simp_all add: decode_number_of_int c_str_id)

end
