(* ===== verification/Library_Runs.thy ===== *)
theory Library_Runs
  imports Script_Library Values
begin

text \<open>
  What a run of library code can do to its machine: the modules it caches, the files it writes, and
  how deep its \<open>require\<close>s nest. The locale \<open>world_relation\<close> is the contract of a relation between the
  world before and after, closed under loading a module; its three interpretations are that cached
  modules stay, that files and modules stay inside the game's folder, and that module files which
  cannot be written stay as they are.
\<close>

definition opened :: "lib_world \<Rightarrow> bool" where
  "opened w \<longleftrightarrow> w_modules w ''lobby'' \<noteq> None \<and> w_modules w ''system'' \<noteq> None"

lemma opened_new_world: "opened (new_world files)"
  by (simp add: opened_def new_world_def luaopen_lobby_def luaopen_system_def store_module_def)

lemma cached_opened: "opened w \<Longrightarrow> cached L m w = None \<Longrightarrow> w_modules w (module_path L m) = None"
  by (auto simp: opened_def cached_def split: if_splits)

lemma store_fields [simp]:
  "w_files (store_module p v w) = w_files w"
  "w_modules (store_module p v w) = (w_modules w)(p \<mapsto> v)"
  by (simp_all add: store_module_def)

lemma opened_store [simp]: "opened w \<Longrightarrow> opened (store_module p v w)"
  by (simp add: opened_def)

text \<open>What the functions other than \<open>require\<close> do to the world.\<close>

lemma world_http_request [simp]: "snd (http_request_call E L site args w) = w"
  by (simp add: http_request_call_def lua_error_def lua_return_def split: option.split sum.split)

lemma world_decode_json [simp]: "snd (decode_json E site args w) = w"
  by (simp add: decode_json_def lua_error_def lua_return_def split: option.split sum.split)

lemma world_encode_json [simp]: "snd (encode_json E site args w) = w"
  by (simp add: encode_json_def lua_error_def lua_return_def split: option.split)

lemma world_read_file [simp]: "snd (read_file_as_string E L site args w) = w"
  by (simp add: read_file_as_string_def lua_error_def lua_return_def split: option.split)

lemma world_write_file:
  "snd (write_file_as_string E L site args w) = w \<or>
   (\<exists>name content. can_open L (base_path L @ ''/'' @ name) \<and>
     snd (write_file_as_string E L site args w) =
       w\<lparr>w_files := (w_files w)(base_path L @ ''/'' @ name \<mapsto> content)\<rparr>)"
  by (auto simp: write_file_as_string_def lua_error_def lua_return_def Let_def split: option.split)

subsection \<open>Relations between worlds\<close>

locale world_relation =
  fixes L :: lib_env and R :: "lib_world \<Rightarrow> lib_world \<Rightarrow> bool"
  assumes refl: "R w w"
    and trans: "R w w' \<Longrightarrow> R w' w'' \<Longrightarrow> R w w''"
    and written: "can_open L (base_path L @ ''/'' @ name) \<Longrightarrow>
      R w (w\<lparr>w_files := (w_files w)(base_path L @ ''/'' @ name \<mapsto> content)\<rparr>)"
    and enter: "\<not> has_dots m \<Longrightarrow> w_modules w (module_path L m) = None \<Longrightarrow>
      R (store_module (module_path L m) (LBool True) w) w' \<Longrightarrow> R w w'"
    and load: "\<not> has_dots m \<Longrightarrow> w_modules w (module_path L m) = None \<Longrightarrow>
      R (store_module (module_path L m) (LBool True) w) w' \<Longrightarrow> R w (store_module (module_path L m) v w')"
    and keeps_open: "R w w' \<Longrightarrow> opened w \<Longrightarrow> opened w'"
begin

lemma load_module:
  assumes "\<And>code w. opened w \<Longrightarrow> R w (snd (run code w))" "\<not> has_dots m" "opened w"
    and "w_modules w (module_path L m) = None"
  shows "R w (snd (load_module L run site (module_path L m) w))"
proof -
  let ?w = "store_module (module_path L m) (LBool True) w"
  have "R ?w (snd (run code ?w))" for code using assms(1,3) by simp
  then have after: "R w (snd (run code ?w))"
      "R w (store_module (module_path L m) v (snd (run code ?w)))" for code v
    using enter load assms(2,4) by blast+
  have entered: "R w ?w" using enter [OF assms(2,4) refl] .
  show ?thesis
  proof (cases "w_files w (module_path L m)")
    case None
    then show ?thesis using entered by (simp add: load_module_def lua_error_def)
  next
    case (Some source)
    show ?thesis
    proof (cases "luau_load L (module_path L m) source")
      case (Inl err)
      then show ?thesis using entered Some by (simp add: load_module_def lua_error_def)
    next
      case (Inr code)
      obtain r w' where r: "run code ?w = (r, w')" by fastforce
      have "R w w'" "R w (store_module (module_path L m) v w')" for v
        using after [where code = code] r by simp_all
      then show ?thesis
        using Some Inr r by (cases r) (simp_all add: load_module_def lua_error_def lua_return_def Let_def)
    qed
  qed
qed

lemma require_step:
  assumes "\<And>code w. opened w \<Longrightarrow> R w (snd (run code w))" "opened w"
  shows "R w (snd (lua_require E L run site args w))"
  using load_module [OF assms(1), where w = w] cached_opened [OF assms(2)] assms(2) refl
  by (simp add: lua_require_def lua_error_def lua_return_def split: option.split)

lemma write_step: "R w (snd (write_file_as_string E L site args w))"
  using world_write_file [of E L site args w] written [of _ w] refl by metis

lemma lib_step:
  assumes "\<And>code w. opened w \<Longrightarrow> R w (snd (run code w))" "opened w"
  shows "R w (snd (lib_step E L run site f args w))"
  using require_step [OF assms] write_step refl by (cases f) (simp_all add: lib_step_def)

lemma run_chunk:
  assumes "\<And>code w. opened w \<Longrightarrow> R w (snd (run code w))" "opened w"
  shows "R w (snd (run_chunk E L run code w))"
  using assms(2)
proof (induction code arbitrary: w)
  case (CCall site f args k)
  obtain r w' where s: "lib_step E L run site f args w = (r, w')" by fastforce
  have "R w (snd (lib_step E L run site f args w))" by (rule lib_step [OF assms(1) CCall.prems])
  then have step: "R w w'" by (simp add: s)
  have "R w' (snd (run_chunk E L run (k r) w'))"
    by (rule CCall.IH [OF rangeI keeps_open [OF step CCall.prems]])
  then have "R w (snd (run_chunk E L run (k r) w'))" by (rule trans [OF step])
  then show ?case by (simp add: s)
qed (simp_all add: lua_return_def refl)

lemma run_nested: "opened w \<Longrightarrow> R w (snd (run_nested E L n code w))"
proof (induction n arbitrary: code w)
  case (Suc n)
  then show ?case using run_chunk by simp
qed (simp add: lua_error_def refl)

end

subsection \<open>The three relations\<close>

definition keeps_cache :: "lib_world \<Rightarrow> lib_world \<Rightarrow> bool" where
  "keeps_cache w w' \<longleftrightarrow> (\<forall>p v. w_modules w p = Some v \<longrightarrow> w_modules w' p = Some v)"

lemma keeps_cache_refl: "keeps_cache w w"
  by (simp add: keeps_cache_def)

lemma keeps_cache_trans: "keeps_cache w w' \<Longrightarrow> keeps_cache w' w'' \<Longrightarrow> keeps_cache w w''"
  by (simp add: keeps_cache_def)

lemma keeps_cache_opened: "keeps_cache w w' \<Longrightarrow> opened w \<Longrightarrow> opened w'"
  by (auto simp: keeps_cache_def opened_def)

lemma keeps_cache_enter:
  "w_modules w p = None \<Longrightarrow> keeps_cache (store_module p v w) w' \<Longrightarrow> keeps_cache w w'"
  by (metis keeps_cache_def fun_upd_other option.distinct(1) store_fields(2))

lemma keeps_cache_load:
  "w_modules w p = None \<Longrightarrow> keeps_cache (store_module p v w) w' \<Longrightarrow> keeps_cache w (store_module p v' w')"
  by (metis keeps_cache_def fun_upd_other option.distinct(1) store_fields(2))

lemma keeps_cache_write: "keeps_cache w (w\<lparr>w_files := f\<rparr>)"
  by (simp add: keeps_cache_def)

interpretation cache: world_relation L keeps_cache for L
  by unfold_locales (rule keeps_cache_refl keeps_cache_write keeps_cache_opened keeps_cache_enter keeps_cache_load keeps_cache_trans; assumption)+

text \<open>
  Only files that can be opened and whose path is the folder, a slash and a name change, and only
  modules named without \<open>..\<close> are cached.
\<close>

definition confined :: "lib_env \<Rightarrow> lib_world \<Rightarrow> lib_world \<Rightarrow> bool" where
  "confined L w w' \<longleftrightarrow> keeps_cache w w' \<and>
    (\<forall>p. (\<forall>name. p \<noteq> base_path L @ ''/'' @ name) \<or> \<not> can_open L p \<longrightarrow> w_files w' p = w_files w p) \<and>
    (\<forall>p. w_modules w p = None \<longrightarrow> w_modules w' p \<noteq> None \<longrightarrow> (\<exists>m. p = module_path L m \<and> \<not> has_dots m))"

lemma confined_load:
  assumes "\<not> has_dots m" "w_modules w (module_path L m) = None"
    and "confined L (store_module (module_path L m) v w) w'"
  shows "confined L w w'" "confined L w (store_module (module_path L m) v' w')"
proof -
  let ?p = "module_path L m"
  have cache: "keeps_cache (store_module ?p v w) w'"
    and files: "\<And>p. (\<forall>name. p \<noteq> base_path L @ ''/'' @ name) \<or> \<not> can_open L p \<Longrightarrow> w_files w' p = w_files w p"
    and modules: "\<And>p. p \<noteq> ?p \<Longrightarrow> w_modules w p = None \<Longrightarrow> w_modules w' p \<noteq> None \<Longrightarrow>
      \<exists>m. p = module_path L m \<and> \<not> has_dots m"
  proof -
    note c = assms(3) [unfolded confined_def store_fields]
    show "keeps_cache (store_module ?p v w) w'" using c by (rule conjunct1)
    show "(\<forall>name. p \<noteq> base_path L @ ''/'' @ name) \<or> \<not> can_open L p \<Longrightarrow> w_files w' p = w_files w p" for p
      by (rule c [THEN conjunct2, THEN conjunct1, rule_format])
    show "p \<noteq> ?p \<Longrightarrow> w_modules w p = None \<Longrightarrow> w_modules w' p \<noteq> None \<Longrightarrow>
      \<exists>m. p = module_path L m \<and> \<not> has_dots m" for p
      by (rule c [THEN conjunct2, THEN conjunct2, rule_format]) simp_all
  qed
  have new: "\<exists>j. p = module_path L j \<and> \<not> has_dots j"
    if "w_modules w p = None" "p \<noteq> ?p \<longrightarrow> w_modules w' p \<noteq> None" for p
  proof (cases "p = ?p")
    case True
    then show ?thesis using assms(1) by (intro exI conjI)
  next
    case False
    then show ?thesis using modules that by (iprover)
  qed
  show "confined L w w'"
    unfolding confined_def using keeps_cache_enter [OF assms(2) cache] files new by (intro conjI allI impI) simp_all
  show "confined L w (store_module ?p v' w')"
    unfolding confined_def store_fields
    using keeps_cache_load [OF assms(2) cache] files new by (intro conjI allI impI) (simp_all split: if_splits)
qed

lemma confined_write:
  "can_open L (base_path L @ ''/'' @ name) \<Longrightarrow>
   confined L w (w\<lparr>w_files := (w_files w)(base_path L @ ''/'' @ name \<mapsto> content)\<rparr>)"
  unfolding confined_def by (auto simp: keeps_cache_write)

lemma confined_refl: "confined L w w"
  by (auto simp: confined_def keeps_cache_refl)

lemma confined_trans: "confined L w w' \<Longrightarrow> confined L w' w'' \<Longrightarrow> confined L w w''"
proof -
  assume c: "confined L w w'" "confined L w' w''"
  have "\<exists>m. p = module_path L m \<and> \<not> has_dots m" if "w_modules w p = None" "w_modules w'' p \<noteq> None" for p
    using c that unfolding confined_def by (cases "w_modules w' p = None") blast+
  moreover have "w_files w'' p = w_files w p"
    if "(\<forall>name. p \<noteq> base_path L @ ''/'' @ name) \<or> \<not> can_open L p" for p
    using c that unfolding confined_def by (metis (no_types))
  ultimately show "confined L w w''"
    using c keeps_cache_trans unfolding confined_def by blast
qed

lemma confined_opened: "confined L w w' \<Longrightarrow> opened w \<Longrightarrow> opened w'"
  by (metis confined_def keeps_cache_opened)

interpretation folder: world_relation L "confined L" for L
proof (unfold_locales, goal_cases)
  case (1 w)
  show ?case by (rule confined_refl)
next
  case (2 w w' w'')
  then show ?case by (rule confined_trans)
next
  case (3 name w content)
  then show ?case by (rule confined_write)
next
  case (4 m w w')
  then show ?case by (rule confined_load)
next
  case (5 m w w' v)
  then show ?case by (rule confined_load)
next
  case (6 w w')
  then show ?case by (rule confined_opened)
qed

text \<open>Where no module file can be opened for writing, the module files stay as they are.\<close>

definition keeps_modules :: "lib_env \<Rightarrow> lib_world \<Rightarrow> lib_world \<Rightarrow> bool" where
  "keeps_modules L w w' \<longleftrightarrow> keeps_cache w w' \<and>
    ((\<forall>m. \<not> can_open L (module_path L m)) \<longrightarrow>
      (\<forall>m. w_files w' (module_path L m) = w_files w (module_path L m)))"

lemma keeps_modules_load:
  assumes "w_modules w (module_path L m) = None"
    and "keeps_modules L (store_module (module_path L m) v w) w'"
  shows "keeps_modules L w w'" "keeps_modules L w (store_module (module_path L m) v' w')"
  using assms keeps_cache_enter [OF assms(1)] keeps_cache_load [OF assms(1)]
  unfolding keeps_modules_def by auto

lemma keeps_modules_write:
  assumes "can_open L p"
  shows "keeps_modules L w (w\<lparr>w_files := (w_files w)(p \<mapsto> content)\<rparr>)"
  using assms unfolding keeps_modules_def keeps_cache_def by fastforce

lemma keeps_modules_refl: "keeps_modules L w w"
  by (simp add: keeps_modules_def keeps_cache_refl)

lemma keeps_modules_trans: "keeps_modules L w w' \<Longrightarrow> keeps_modules L w' w'' \<Longrightarrow> keeps_modules L w w''"
  unfolding keeps_modules_def by (metis keeps_cache_trans)

lemma keeps_modules_opened: "keeps_modules L w w' \<Longrightarrow> opened w \<Longrightarrow> opened w'"
  by (metis keeps_modules_def keeps_cache_opened)

interpretation modules: world_relation L "keeps_modules L" for L
  by unfold_locales (rule keeps_modules_refl keeps_modules_write keeps_modules_opened keeps_modules_load keeps_modules_trans; assumption)+

subsection \<open>How deep modules nest\<close>

text \<open>The modules a run may still load: their files exist and they are not cached.\<close>

definition pending :: "lib_env \<Rightarrow> lib_world \<Rightarrow> string set" where
  "pending L w = {p. w_files w p \<noteq> None \<and> w_modules w p = None \<and> (\<exists>m. p = module_path L m)}"

text \<open>The machine is open, its modules are finitely many, and none of their files can be written.\<close>

definition settled :: "lib_env \<Rightarrow> lib_world \<Rightarrow> bool" where
  "settled L w \<longleftrightarrow> opened w \<and> finite (pending L w) \<and> (\<forall>m. \<not> can_open L (module_path L m))"

lemma pending_shrinks:
  assumes "settled L w" "keeps_modules L w w'"
  shows "pending L w' \<subseteq> pending L w" "settled L w'"
proof -
  show sub: "pending L w' \<subseteq> pending L w"
    using assms by (auto simp: pending_def settled_def keeps_modules_def keeps_cache_def)
       (metis option.distinct(1) option.exhaust)+
  show "settled L w'"
    using assms finite_subset [OF sub] keeps_modules_opened by (auto simp: settled_def)
qed

lemma pending_load:
  assumes "settled L w" "w_modules w (module_path L m) = None" "w_files w (module_path L m) = Some s"
  shows "card (pending L (store_module (module_path L m) v w)) < card (pending L w)"
    "settled L (store_module (module_path L m) v w)"
proof -
  have "pending L (store_module (module_path L m) v w) = pending L w - {module_path L m}"
    by (auto simp: pending_def)
  moreover have "module_path L m \<in> pending L w" using assms by (auto simp: pending_def)
  ultimately show "card (pending L (store_module (module_path L m) v w)) < card (pending L w)"
    "settled L (store_module (module_path L m) v w)"
    using assms(1) card_Diff1_less [of "pending L w"] by (auto simp: settled_def simp del: card_Diff_insert)
qed

lemma require_agrees:
  assumes "\<And>code w. settled L w \<Longrightarrow> card (pending L w) < n \<Longrightarrow> run code w = run' code w"
    and "settled L w" "card (pending L w) \<le> n"
  shows "lua_require E L run site args w = lua_require E L run' site args w"
proof -
  have "load_module L run site (module_path L m) w = load_module L run' site (module_path L m) w"
    if "w_modules w (module_path L m) = None" for m
  proof (cases "w_files w (module_path L m)")
    case (Some s)
    then have "run code (store_module (module_path L m) (LBool True) w) =
        run' code (store_module (module_path L m) (LBool True) w)" for code
      using pending_load [OF assms(2) that] assms(1,3) by (meson less_le_trans)
    then show ?thesis using Some by (simp add: load_module_def Let_def split: sum.split)
  qed (simp add: load_module_def)
  then show ?thesis
    using cached_opened [of w L] assms(2)
    by (auto simp: lua_require_def settled_def split: option.split)
qed

lemma run_agrees:
  assumes "\<And>code w. settled L w \<Longrightarrow> card (pending L w) < n \<Longrightarrow> run code w = run' code w"
    and "\<And>code w. opened w \<Longrightarrow> keeps_modules L w (snd (run code w))"
    and "settled L w" "card (pending L w) \<le> n"
  shows "run_chunk E L run code w = run_chunk E L run' code w"
  using assms(3,4)
proof (induction code arbitrary: w)
  case (CCall site f args k)
  have same: "lib_step E L run' site f args w = lib_step E L run site f args w"
    using require_agrees [OF assms(1) CCall.prems] by (cases f) (simp_all add: lib_step_def)
  obtain r w' where s: "lib_step E L run site f args w = (r, w')" by fastforce
  have "keeps_modules L w (snd (lib_step E L run site f args w))"
    using CCall.prems(1) by (intro modules.lib_step assms(2)) (simp_all add: settled_def)
  then have "keeps_modules L w w'" by (simp add: s)
  then have "settled L w'" "card (pending L w') \<le> n"
    using pending_shrinks [OF CCall.prems(1)] CCall.prems card_mono [of "pending L w" "pending L w'"]
    by (auto simp: settled_def)
  then have "run_chunk E L run (k r) w' = run_chunk E L run' (k r) w'"
    by (rule CCall.IH [OF rangeI])
  then show ?case by (simp add: s same)
qed simp_all

lemma nested_stable:
  "settled L w \<Longrightarrow> card (pending L w) < n \<Longrightarrow> run_nested E L n code w = run_nested E L (Suc n) code w"
proof (induction n arbitrary: code w)
  case (Suc n)
  have "run_chunk E L (run_nested E L n) code w = run_chunk E L (run_nested E L (Suc n)) code w"
    using Suc.prems by (intro run_agrees [where n = n] Suc.IH modules.run_nested) simp_all
  then show ?case by simp
qed simp

text \<open>Whatever would happen where no nested call is left, it does not happen.\<close>

lemma nested_any_limit:
  "settled L w \<Longrightarrow> card (pending L w) < n \<Longrightarrow>
   (run_chunk E L ^^ n) limit code w = run_nested E L n code w"
proof (induction n arbitrary: code w)
  case (Suc n)
  have "run_chunk E L (run_nested E L n) code w = run_chunk E L ((run_chunk E L ^^ n) limit) code w"
    using Suc.prems by (intro run_agrees [where n = n] Suc.IH [symmetric] modules.run_nested) simp_all
  then show ?case by simp
qed simp

lemma nested_depth:
  assumes "settled L w" "card (pending L w) < n" "n \<le> m"
  shows "run_nested E L m code w = run_nested E L n code w"
  using assms(3)
proof (induction m rule: dec_induct)
  case (step m)
  then show ?case using nested_stable [OF assms(1), of m] assms(2) by (metis le_less_trans not_le)
qed simp

subsection \<open>Requiring a module twice\<close>

text \<open>
  After a module was required its cache entry stays: it is the value if the first call returned
  one, and the placeholder \<open>true\<close> if it failed.
\<close>

lemma cached_other: "m \<noteq> ''lobby'' \<Longrightarrow> m \<noteq> ''system'' \<Longrightarrow> cached L m w = w_modules w (module_path L m)"
  by (simp add: cached_def)

lemma load_caches:
  assumes "\<And>code w. opened w \<Longrightarrow> keeps_cache w (snd (run code w))" "opened w"
    and "load_module L run site p w = (r, w')"
  shows "w_modules w' p = Some (case r of Inr [v] \<Rightarrow> v | _ \<Rightarrow> LBool True)"
proof (cases "w_files w p")
  case (Some source)
  show ?thesis
  proof (cases "luau_load L p source")
    case (Inr code)
    obtain q w2 where q: "run code (store_module p (LBool True) w) = (q, w2)" by fastforce
    have "keeps_cache (store_module p (LBool True) w) w2"
      using assms(1) [of "store_module p (LBool True) w" code] assms(2) q by simp
    then have "w_modules w2 p = Some (LBool True)" by (simp add: keeps_cache_def)
    then show ?thesis
      using assms(3) Some Inr q
      by (cases q) (auto simp: load_module_def lua_error_def lua_return_def Let_def split: if_splits)
  qed (use assms(3) Some in \<open>auto simp: load_module_def lua_error_def\<close>)
qed (use assms(3) in \<open>auto simp: load_module_def lua_error_def\<close>)

lemma require_again:
  assumes "opened w" "lua_to_cstring E (lua_arg args 1) = Some m" "\<not> has_dots m"
    and "m \<noteq> ''lobby''" "m \<noteq> ''system''" "cached L m w = None"
    and "lua_require E L (run_nested E L n) site args w = (r, w')"
  shows "lua_require E L run site' args w' = (Inr [case r of Inr [v] \<Rightarrow> v | _ \<Rightarrow> LBool True], w')"
proof -
  have "load_module L (run_nested E L n) site (module_path L m) w = (r, w')"
    using assms(2,3,6,7) by (simp add: lua_require_def)
  from load_caches [OF cache.run_nested assms(1) this]
  have "cached L m w' = Some (case r of Inr [v] \<Rightarrow> v | _ \<Rightarrow> LBool True)"
    by (simp add: cached_other assms(4,5))
  then show ?thesis using assms(2,3) by (simp add: lua_require_def lua_return_def)
qed

subsection \<open>JSON texts of a script\<close>

lemma json_text_back:
  assumes "lua_safe E x" "any_wf x" "yyjson_mut_write E (to_yyjson x) = Some s" "CHR 0x00 \<notin> set s"
    and "yyjson_read E s = Some v" "decode_value v = decode_value (to_yyjson x)"
  shows "encode_json E site [push_lua_value x] w = (Inr [LStr s], w)"
    "decode_json E site [LStr s] w = (Inr [push_lua_value x], w)"
  using assms lua_roundtrip [OF assms(1)] decode_to_yyjson [OF assms(2)]
  by (simp_all add: encode_json_def decode_json_def lua_return_def lua_arg_def lua_to_cstring_def
      to_string_def c_str_id)

end
