(* ===== verification/File_Watch.thy ===== *)
theory File_Watch
  imports Game_Thread
begin

text \<open>
  \<open>GamesListener\<close>, from \<^verbatim>\<open>src/src/game/games_listener.cpp\<close>: the file watcher's callback, which finds the
  game whose folder changed and queues its name for the game thread to reload. Paths are POSIX
  texts, read the way \<open>std::filesystem\<close> reads them; symbolic links are left out. The disk tells
  whether a file exists and when it was last written; \<open>cwd\<close> is the working directory.
\<close>

subsection \<open>Paths\<close>

definition absolute :: "string \<Rightarrow> string \<Rightarrow> string" where
  "absolute cwd p = (if take 1 p = ''/'' then p
     else if cwd \<noteq> [] \<and> last cwd = CHR ''/'' then cwd @ p
     else cwd @ ''/'' @ p)"

text \<open>The names between slashes, without the empty ones.\<close>

fun path_parts :: "string \<Rightarrow> string list" where
  "path_parts [] = []"
| "path_parts (ch # s) =
     (if ch = CHR ''/'' then path_parts s
      else (case s of [] \<Rightarrow> [[ch]]
            | d # _ \<Rightarrow> if d = CHR ''/'' then [ch] # path_parts s
                      else (case path_parts s of p # ps \<Rightarrow> (ch # p) # ps | [] \<Rightarrow> [[ch]])))"

text \<open>\<open>weakly_canonical\<close>: \<open>.\<close> is dropped and \<open>..\<close> takes the name before it away.\<close>

definition canonical_step :: "string \<Rightarrow> string list \<Rightarrow> string list" where
  "canonical_step p ps = (if p = ''.'' then ps else if p = ''..'' then butlast ps else ps @ [p])"

definition canonical :: "string list \<Rightarrow> string list" where
  "canonical ps = fold canonical_step ps []"

text \<open>\<open>std::filesystem::relative\<close>: up from the base to the last common folder, then down.\<close>

fun relative_parts :: "string list \<Rightarrow> string list \<Rightarrow> string list" where
  "relative_parts (p # ps) (b # bs) =
     (if p = b then relative_parts ps bs else replicate (length (b # bs)) ''..'' @ p # ps)"
| "relative_parts ps bs = replicate (length bs) ''..'' @ ps"

definition relative :: "string \<Rightarrow> string \<Rightarrow> string list" where
  "relative p base =
    (let r = relative_parts (canonical (path_parts p)) (canonical (path_parts base))
     in if r = [] then [''.''] else r)"

subsection \<open>The listener\<close>

record games_listener =
  gl_games_path :: string
  gl_file_times :: "(string \<times> nat) list"
  gl_queue :: "string list"

text \<open>The constructor adds the missing slash to its parameter, not to the member of the same name.\<close>

definition new_listener :: "string \<Rightarrow> string \<Rightarrow> games_listener" where
  "new_listener cwd games_path =
    \<lparr>gl_games_path = absolute cwd games_path, gl_file_times = [], gl_queue = []\<rparr>"

definition file_changed :: "(string \<Rightarrow> nat option) \<Rightarrow> string \<Rightarrow> games_listener \<Rightarrow> bool \<times> games_listener" where
  "file_changed disk path w =
    (case disk path of
       None \<Rightarrow> (False, w)
     | Some last_write \<Rightarrow>
         if map_of (gl_file_times w) path \<noteq> Some last_write
         then (True, w\<lparr>gl_file_times := fm_put path last_write (gl_file_times w)\<rparr>)
         else (False, w))"

definition update_game :: "string \<Rightarrow> games_listener \<Rightarrow> games_listener" where
  "update_game game_folder w = w\<lparr>gl_queue := gl_queue w @ [game_folder]\<rparr>"

definition handleFileAction ::
  "string \<Rightarrow> (string \<Rightarrow> nat option) \<Rightarrow> string \<Rightarrow> string \<Rightarrow> games_listener \<Rightarrow> games_listener" where
  "handleFileAction cwd disk dir filename w =
    (let (changed, w) = file_changed disk (dir @ filename) w
     in if \<not> changed then w
        else
          let full_path = absolute cwd (dir @ filename)
          in if take (length (gl_games_path w)) full_path \<noteq> gl_games_path w then w
             else (case relative full_path (gl_games_path w) of
                     folder_name # _ # _ \<Rightarrow> update_game folder_name w
                   | _ \<Rightarrow> w))"

subsection \<open>Lemmas\<close>

definition plain_part :: "string \<Rightarrow> bool" where
  "plain_part p \<longleftrightarrow> p \<noteq> [] \<and> CHR ''/'' \<notin> set p \<and> p \<noteq> ''.'' \<and> p \<noteq> ''..''"

fun slashed :: "string list \<Rightarrow> string" where
  "slashed [] = []"
| "slashed (p # ps) = CHR ''/'' # p @ slashed ps"

lemma path_parts_name:
  "p \<noteq> [] \<Longrightarrow> CHR ''/'' \<notin> set p \<Longrightarrow> s = [] \<or> hd s = CHR ''/'' \<Longrightarrow> path_parts (p @ s) = p # path_parts s"
proof (induction p)
  case (Cons ch p)
  show ?case
  proof (cases p)
    case Nil
    then show ?thesis using Cons.prems by (cases s) auto
  next
    case (Cons d q)
    then have "path_parts (p @ s) = p # path_parts s"
      using Cons.IH Cons.prems by simp
    then show ?thesis using Cons Cons.prems by auto
  qed
qed simp

lemma path_parts_slashed: "\<forall>p \<in> set ps. plain_part p \<Longrightarrow> path_parts (slashed ps) = ps"
proof (induction ps)
  case (Cons p ps)
  have "slashed ps = [] \<or> hd (slashed ps) = CHR ''/''" by (cases ps) auto
  then show ?case using Cons path_parts_name [of p "slashed ps"] by (simp add: plain_part_def)
qed simp

lemma canonical_plain: "\<forall>p \<in> set ps. plain_part p \<Longrightarrow> canonical ps = ps"
proof -
  have "\<forall>p \<in> set ps. plain_part p \<Longrightarrow> fold canonical_step ps qs = qs @ ps" for qs
    by (induction ps arbitrary: qs) (auto simp: canonical_step_def plain_part_def)
  then show "\<forall>p \<in> set ps. plain_part p \<Longrightarrow> canonical ps = ps" by (simp add: canonical_def)
qed

lemma relative_below: "relative_parts (bs @ ps) bs = ps"
  by (induction bs) (cases ps; simp)+

lemma slashed_append: "slashed (ps @ qs) = slashed ps @ slashed qs"
  by (induction ps) simp_all

lemma file_changed_again:
  "file_changed disk p w = (c, w') \<Longrightarrow> file_changed disk p w' = (False, w')"
  by (auto simp: file_changed_def split: option.splits if_splits)

text \<open>A file below the folder of a game queues that game, once for every time it was written.\<close>

lemma handle_below:
  assumes "\<forall>p \<in> set (base @ folder # name # rest). plain_part p" "gl_games_path w = slashed base"
    and "base \<noteq> []" "dir @ filename = slashed (base @ folder # name # rest)"
    and "disk (dir @ filename) = Some t"
  shows "handleFileAction cwd disk dir filename w =
    (if map_of (gl_file_times w) (dir @ filename) = Some t then w
     else w\<lparr>gl_file_times := fm_put (dir @ filename) t (gl_file_times w),
            gl_queue := gl_queue w @ [folder]\<rparr>)"
proof -
  have abs: "absolute cwd (dir @ filename) = dir @ filename"
    using assms(4) by (cases base) (simp_all add: absolute_def)
  have pre: "take (length (slashed base)) (dir @ filename) = slashed base"
    using assms(4) by (simp add: slashed_append)
  have "relative (dir @ filename) (slashed base) = folder # name # rest"
    using assms(1,4) by (simp add: relative_def Let_def path_parts_slashed canonical_plain relative_below)
  then show ?thesis
    using assms(2,5) abs pre
    by (simp add: handleFileAction_def file_changed_def update_game_def)
qed

end
