(* ===== verification/Library_Paths.thy ===== *)
theory Library_Paths
  imports Library_Runs File_Watch
begin

text \<open>
  Where the paths of the library lead: \<open>resolve\<close> reads a path as the file system does, from the
  working directory, with \<open>.\<close> and \<open>..\<close> taken out (the paths of \<open>File_Watch\<close>). A name appended to
  a folder stays below it unless one of its parts is \<open>..\<close>, and a module name that \<open>require\<close>
  accepts has no such part.
\<close>

definition resolve :: "string \<Rightarrow> string \<Rightarrow> string list" where
  "resolve cwd p = canonical (path_parts (absolute cwd p))"

definition below :: "string \<Rightarrow> string \<Rightarrow> string \<Rightarrow> bool" where
  "below cwd folder p \<longleftrightarrow>
    take (length (resolve cwd folder)) (resolve cwd p) = resolve cwd folder"

lemma path_parts_nonempty: "s \<noteq> [] \<Longrightarrow> hd s \<noteq> CHR ''/'' \<Longrightarrow> path_parts s \<noteq> []"
  by (cases s; cases "tl s") (auto split: list.split)

lemma path_parts_slash: "path_parts (a @ CHR ''/'' # b) = path_parts a @ path_parts b"
proof (induction a rule: path_parts.induct)
  case (2 ch s)
  then show ?case
    using path_parts_nonempty [of s] by (cases s) (auto split: list.split)
qed simp

text \<open>A part stands in its path, up to the end or a slash.\<close>

lemma path_part_inside:
  "p \<in> set (path_parts s) \<Longrightarrow> \<exists>a b. s = a @ p @ b \<and> (b = [] \<or> hd b = CHR ''/'')"
proof (induction s arbitrary: p rule: length_induct)
  case (1 s)
  let ?name = "takeWhile (\<lambda>c. c \<noteq> CHR ''/'') s" and ?rest = "dropWhile (\<lambda>c. c \<noteq> CHR ''/'') s"
  have s: "s = ?name @ ?rest" by simp
  have rest: "?rest = [] \<or> hd ?rest = CHR ''/''" using hd_dropWhile [of "\<lambda>c. c \<noteq> CHR ''/''" s] by auto
  show ?case
  proof (cases "?name = []")
    case True
    then obtain t where t: "s = CHR ''/'' # t" using s rest "1.prems" by (cases ?rest) auto
    then have "p \<in> set (path_parts t)" using "1.prems" by simp
    then obtain a b where "t = a @ p @ b \<and> (b = [] \<or> hd b = CHR ''/'')" using "1.IH" t by force
    then show ?thesis using t by (metis append_Cons)
  next
    case False
    have "CHR ''/'' \<notin> set ?name" by (auto dest: set_takeWhileD)
    then have parts: "path_parts s = ?name # path_parts ?rest"
      using path_parts_name [OF False _ rest] s by simp
    show ?thesis
    proof (cases "p = ?name")
      case True
      then show ?thesis using s rest by (metis append_Nil)
    next
      case False
      then have p: "p \<in> set (path_parts ?rest)" using "1.prems" parts by simp
      have "length ?rest < length s" using \<open>?name \<noteq> []\<close> s by (metis length_append length_greater_0_conv less_add_same_cancel2)
      then obtain a b where "?rest = a @ p @ b" "b = [] \<or> hd b = CHR ''/''" using "1.IH" p by blast
      then show ?thesis using s by (metis append_assoc)
    qed
  qed
qed

lemma has_dots_inside: "has_dots (a @ ''..'' @ b)"
proof (induction a)
  case (Cons x a)
  then show ?case by (cases "a @ ''..'' @ b") auto
qed simp

lemma plain_name_parts: "\<not> has_dots name \<Longrightarrow> ''..'' \<notin> set (path_parts name)"
  using path_part_inside has_dots_inside by metis

lemma module_name_parts:
  assumes "\<not> has_dots m"
  shows "''..'' \<notin> set (path_parts (m @ ''.lua''))"
proof
  assume "''..'' \<in> set (path_parts (m @ ''.lua''))"
  from path_part_inside [OF this] obtain a b
    where ab: "m @ ''.lua'' = a @ ''..'' @ b" "b = [] \<or> hd b = CHR ''/''" by blast
  have "m @ ''.lua'' = (a @ ''..'') @ b" unfolding ab(1) append_assoc ..
  from append_eq_append_conv2 [THEN iffD1, OF this]
  consider us where "m = (a @ ''..'') @ us" | us where "us @ b = ''.lua''" "m @ us = a @ ''..''"
    by metis
  then show False
  proof cases
    case 1
    then show False using assms has_dots_inside [of a us] by simp
  next
    case 2
    show False
    proof (cases b)
      case Nil
      have "last (m @ ''.lua'') = last (a @ ''..'')" using ab(1) Nil by simp
      then show False by (simp add: last_append)
    next
      case (Cons x t)
      then have "CHR ''/'' \<in> set ''.lua''" using ab(2) 2(1) by (metis in_set_conv_decomp list.discI list.sel(1))
      then show False by simp
    qed
  qed
qed

lemma canonical_keeps:
  assumes "''..'' \<notin> set ps"
  shows "take (length qs) (fold canonical_step ps qs) = qs"
proof -
  have "\<exists>rs. fold canonical_step ps qs = qs @ rs"
    using assms
  proof (induction ps arbitrary: qs)
    case (Cons p ps)
    then obtain rs where "fold canonical_step ps (canonical_step p qs) = canonical_step p qs @ rs" by fastforce
    moreover have "canonical_step p qs = qs \<or> canonical_step p qs = qs @ [p]"
      using Cons.prems by (auto simp: canonical_step_def)
    ultimately show ?case by auto
  qed simp
  then show ?thesis by auto
qed

lemma below_folder:
  assumes "folder \<noteq> []" "''..'' \<notin> set (path_parts name)"
  shows "below cwd folder (folder @ ''/'' @ name)"
proof -
  have "absolute cwd (folder @ ''/'' @ name) = absolute cwd folder @ CHR ''/'' # name"
    using assms(1) by (cases folder) (simp_all add: absolute_def)
  then have "resolve cwd (folder @ ''/'' @ name) = fold canonical_step (path_parts name) (resolve cwd folder)"
    by (simp add: resolve_def canonical_def path_parts_slash)
  then show ?thesis using canonical_keeps [OF assms(2)] by (simp add: below_def)
qed

lemma module_below: "base_path L \<noteq> [] \<Longrightarrow> \<not> has_dots m \<Longrightarrow> below cwd (base_path L) (module_path L m)"
  using below_folder [OF _ module_name_parts] by (simp add: module_path_def)

lemma file_below:
  "base_path L \<noteq> [] \<Longrightarrow> \<not> has_dots name \<Longrightarrow> below cwd (base_path L) (base_path L @ ''/'' @ name)"
  by (rule below_folder [OF _ plain_name_parts])

end
