(* ===== verification/Leaderboards.thy ===== *)
theory Leaderboards
  imports Game_State
begin

text \<open>
  The database: \<^verbatim>\<open>src/src/database/database.cpp\<close> (leaderboards and the peers known by their tokens),
  \<^verbatim>\<open>database_thread.cpp\<close> (the thread that applies the scores scripts set) and the two leaderboard
  routes of \<^verbatim>\<open>main.cpp\<close>. A table is the list of its rows, and a method is the SQL statements it sends,
  read by the meaning SQL gives them: \<open>INSERT .. ON CONFLICT .. DO UPDATE\<close> on the unique key,
  \<open>ORDER BY .. LIMIT .. OFFSET\<close>, \<open>COUNT\<close>. What SQL leaves open is a parameter (\<open>sql_env\<close>): which
  texts it can store, the order in which a query scans a table, which decides between equal scores,
  the clock \<open>NOW()\<close>, and the texts of time stamps. An exception of a method is its left value.
\<close>

subsection \<open>Tables\<close>

record score_row =
  r_leaderboard_id :: string
  r_game_id :: string
  r_user_id :: string
  r_score :: i64
  r_written :: nat

record peer_row =
  pr_id :: string
  pr_peer_id :: string
  pr_game_id :: string

record database =
  leaderboards :: "score_row list"
  peers :: "peer_row list"

record sql_env =
  sql_now :: nat
  sql_text :: "string \<Rightarrow> bool"
  scan :: "i32 \<Rightarrow> i32 \<Rightarrow> score_row list \<Rightarrow> score_row list"
  to_char :: "nat \<Rightarrow> string"
  timestamp_text :: "nat \<Rightarrow> string"

type_synonym score_key = "string \<times> string \<times> string"

definition row_key :: "score_row \<Rightarrow> score_key" where
  "row_key r = (r_leaderboard_id r, r_game_id r, r_user_id r)"

definition find_score :: "score_row list \<Rightarrow> score_key \<Rightarrow> i64 option" where
  "find_score rows k = map_option r_score (List.find (\<lambda>r. row_key r = k) rows)"

text \<open>
  \<open>INSERT .. ON CONFLICT .. DO UPDATE\<close>: a new row, or the score \<open>f\<close> computes from the row's score in
  place of it, with the time stamp of now. \<open>None\<close> is the error \<open>bigint out of range\<close>.
\<close>

fun upsert ::
  "nat \<Rightarrow> score_key \<Rightarrow> i64 \<Rightarrow> (i64 \<Rightarrow> i64 option) \<Rightarrow> score_row list \<Rightarrow> score_row list option" where
  "upsert t k score f [] =
     Some [\<lparr>r_leaderboard_id = fst k, r_game_id = fst (snd k), r_user_id = snd (snd k),
            r_score = score, r_written = t\<rparr>]"
| "upsert t k score f (r # rows) =
     (if row_key r = k then map_option (\<lambda>s. r\<lparr>r_score := s, r_written := t\<rparr> # rows) (f (r_score r))
      else map_option (\<lambda>rs. r # rs) (upsert t k score f rows))"

subsection \<open>Setting a score\<close>

definition bigint :: "int \<Rightarrow> i64 option" where
  "bigint n = (if - (2 ^ 63) \<le> n \<and> n < 2 ^ 63 then Some (word_of_int n) else None)"

text \<open>The score of a row that exists, by mode.\<close>

definition next_score :: "string \<Rightarrow> i64 \<Rightarrow> i64 \<Rightarrow> i64 option" where
  "next_score mode score old =
    (if mode = ''set'' then Some score
     else if mode = ''best'' then Some (if sint old < sint score then score else old)
     else if mode = ''inc'' then bigint (sint old + sint score)
     else bigint (sint old - sint score))"

definition sql_texts :: "sql_env \<Rightarrow> string list \<Rightarrow> bool" where
  "sql_texts Q = list_all (sql_text Q)"

text \<open>A text that is not valid in the encoding of the database is refused before anything is done.\<close>

definition bad_text :: string where
  "bad_text = ''invalid byte sequence for encoding''"

definition leaderboard_modes :: "string list" where
  "leaderboard_modes = [''set'', ''best'', ''inc'', ''dec'']"

definition leaderboard_set_score ::
  "sql_env \<Rightarrow> string \<Rightarrow> string \<Rightarrow> string \<Rightarrow> i64 \<Rightarrow> string \<Rightarrow> database \<Rightarrow> string + database" where
  "leaderboard_set_score Q leaderboard_id game_id user_id score mode db =
    (if mode \<notin> set leaderboard_modes then Inr db
     else if \<not> sql_texts Q [leaderboard_id, game_id, user_id] then Inl bad_text
     else
       (case upsert (sql_now Q) (leaderboard_id, game_id, user_id) score (next_score mode score)
               (leaderboards db) of
          None \<Rightarrow> Inl ''bigint out of range''
        | Some rows \<Rightarrow> Inr (db\<lparr>leaderboards := rows\<rparr>)))"

subsection \<open>Reading scores\<close>

definition on_board :: "string \<Rightarrow> string \<Rightarrow> database \<Rightarrow> score_row list" where
  "on_board leaderboard_id game_id db =
    filter (\<lambda>r. r_leaderboard_id r = leaderboard_id \<and> r_game_id r = game_id) (leaderboards db)"

text \<open>Which of two equal scores comes first may depend on the page that is asked for.\<close>

definition ranking :: "sql_env \<Rightarrow> string \<Rightarrow> string \<Rightarrow> i32 \<Rightarrow> i32 \<Rightarrow> database \<Rightarrow> score_row list" where
  "ranking Q leaderboard_id game_id limit start db =
    sort_key (\<lambda>r. - sint (r_score r)) (scan Q limit start (on_board leaderboard_id game_id db))"

definition leaderboard_get_top ::
  "sql_env \<Rightarrow> string \<Rightarrow> string \<Rightarrow> i32 \<Rightarrow> i32 \<Rightarrow> database \<Rightarrow> string + (string \<times> i64 \<times> string) list" where
  "leaderboard_get_top Q leaderboard_id game_id limit start db =
    (if \<not> sql_texts Q [leaderboard_id, game_id] then Inl bad_text
     else if sint limit < 0 then Inl ''LIMIT must not be negative''
     else if sint start < 0 then Inl ''OFFSET must not be negative''
     else Inr (map (\<lambda>r. (r_user_id r, r_score r, to_char Q (r_written r)))
            (take (unat limit) (drop (unat start) (ranking Q leaderboard_id game_id limit start db)))))"

text \<open>
  The score, the rank and the time stamp of a user. The rank is read as an \<open>int\<close>; more rows than an
  \<open>int\<close> can count would make that throw, and are left out.
\<close>

definition better :: "string \<Rightarrow> string \<Rightarrow> i64 \<Rightarrow> database \<Rightarrow> score_row list" where
  "better leaderboard_id game_id score db =
    filter (\<lambda>r. sint score < sint (r_score r)) (on_board leaderboard_id game_id db)"

definition leaderboard_get_user_score ::
  "sql_env \<Rightarrow> string \<Rightarrow> string \<Rightarrow> string \<Rightarrow> database \<Rightarrow> string + i64 \<times> i32 \<times> string" where
  "leaderboard_get_user_score Q leaderboard_id game_id user_id db =
    (if \<not> sql_texts Q [leaderboard_id, game_id, user_id] then Inl bad_text
     else
       (case filter (\<lambda>r. r_user_id r = user_id) (on_board leaderboard_id game_id db) of
          [] \<Rightarrow> Inr (0, - 1, [])
        | r # _ \<Rightarrow>
            (let timestamp = timestamp_text Q (r_written r);
                 rank = (if timestamp = [] then - 1
                         else of_nat (length (better leaderboard_id game_id (r_score r) db)) + 1)
             in Inr (r_score r, rank, timestamp))))"

subsection \<open>Peers known by their token\<close>

definition get_peer_or_insert ::
  "sql_env \<Rightarrow> string \<Rightarrow> string \<Rightarrow> string \<Rightarrow> database \<Rightarrow> string + string \<times> database" where
  "get_peer_or_insert Q reconnection_token game_id peer_id db =
    (if \<not> sql_texts Q [reconnection_token, game_id] then Inl bad_text
     else
       (case List.find (\<lambda>r. pr_id r = reconnection_token \<and> pr_game_id r = game_id) (peers db) of
          Some r \<Rightarrow> Inr (pr_peer_id r, db)
        | None \<Rightarrow>
            if \<not> sql_text Q peer_id then Inl bad_text
            else Inr (peer_id, db\<lparr>peers := peers db @
              [\<lparr>pr_id = reconnection_token, pr_peer_id = peer_id, pr_game_id = game_id\<rparr>]\<rparr>)))"

subsection \<open>The connection\<close>

text \<open>
  \<open>ini section key default\<close> is INIReader's \<open>Get\<close>, \<open>open_db\<close> whether PostgreSQL accepts the connection.
  \<open>None\<close> is \<open>exit(1)\<close>.
\<close>

type_synonym ini = "string \<Rightarrow> string \<Rightarrow> string \<Rightarrow> string"

definition connection_string :: "ini \<Rightarrow> string + string" where
  "connection_string ini =
    (let database = ini ''database'' ''database'' ''tiny_lobby'';
         user = ini ''database'' ''username'' ''postgres'';
         password = ini ''database'' ''password'' [];
         host = ini ''database'' ''host'' ''localhost'';
         port = ini ''database'' ''port'' ''5432''
     in if database = [] then Inl ''Database name not found in config.ini''
        else if user = [] then Inl ''Database user not found in config.ini''
        else if password = [] then Inl ''Database password not found in config.ini''
        else if host = [] then Inl ''Database host not found in config.ini''
        else if port = [] then Inl ''Database port not found in config.ini''
        else Inr (''dbname='' @ database @ '' user='' @ user @ '' password='' @ password @
                  '' host='' @ host @ '' port='' @ port))"

definition connect_to_db :: "ini \<Rightarrow> (string \<Rightarrow> bool) \<Rightarrow> unit option" where
  "connect_to_db ini open_db =
    (case connection_string ini of
       Inl msg \<Rightarrow> None
     | Inr conn_str \<Rightarrow> if open_db conn_str then Some () else None)"

definition ensure_connection :: "ini \<Rightarrow> (string \<Rightarrow> bool) \<Rightarrow> bool \<Rightarrow> bool option" where
  "ensure_connection ini open_db is_open =
    (if is_open then Some True else map_option (\<lambda>_. False) (connect_to_db ini open_db))"

subsection \<open>The database thread\<close>

text \<open>
  \<open>DatabaseThread::run\<close> over the messages queued for it; an exception of a statement leaves the
  thread function, which ends the process. A thread made without a database takes no message.
\<close>

fun db_run :: "sql_env \<Rightarrow> db_message list \<Rightarrow> database \<Rightarrow> string + database" where
  "db_run Q [] db = Inr db"
| "db_run Q (m # ms) db =
     (case leaderboard_set_score Q (db_leaderboard_id m) (db_game_id m) (db_peer_id m) (db_score m)
             (db_leaderboard_type m) db of
        Inl e \<Rightarrow> Inl e
      | Inr db \<Rightarrow> db_run Q ms db)"

definition database_thread ::
  "bool \<Rightarrow> sql_env \<Rightarrow> db_message list \<Rightarrow> database \<Rightarrow> db_message list \<times> (string + database)" where
  "database_thread db_enabled Q queue db =
    (if db_enabled then ([], db_run Q queue db) else (queue, Inr db))"

subsection \<open>The routes\<close>

datatype http_reply =
    Reply string string
  | Uncaught string

text \<open>\<open>std::stoi\<close> of any text: blanks, a sign, digits; \<open>None\<close> is the exception it throws.\<close>

definition digit_value :: "char \<Rightarrow> nat" where
  "digit_value ch = of_char ch - 48"

definition std_stoi :: "string \<Rightarrow> i32 option" where
  "std_stoi s =
    (let s = dropWhile isspace s;
         neg = (take 1 s = ''-'');
         s = (if take 1 s = ''-'' \<or> take 1 s = ''+'' then drop 1 s else s);
         ds = takeWhile is_digit s;
         n = foldl (\<lambda>n ch. 10 * n + int (digit_value ch)) 0 ds;
         n = (if neg then - n else n)
     in if ds = [] \<or> n < - (2 ^ 31) \<or> 2 ^ 31 \<le> n then None else Some (word_of_int n))"

text \<open>\<open>std::to_string\<close>.\<close>

function nat_text :: "nat \<Rightarrow> string" where
  "nat_text n = (if n < 10 then [char_of (48 + n)] else nat_text (n div 10) @ [char_of (48 + n mod 10)])"
  by pat_completeness auto
termination by (relation "measure id") auto

declare nat_text.simps [simp del]

definition int_text :: "int \<Rightarrow> string" where
  "int_text n = (if n < 0 then CHR ''-'' # nat_text (nat (- n)) else nat_text (nat n))"

definition in_quotes :: "string \<Rightarrow> string" where
  "in_quotes s = CHR 0x22 # s @ [CHR 0x22]"

definition clamp_size :: "i32 \<Rightarrow> i32" where
  "clamp_size n = (if sint n < 1 then 1 else if 100 < sint n then 100 else n)"

definition clamp_start :: "i32 \<Rightarrow> i32" where
  "clamp_start n = (if sint n < 0 then 0 else n)"

definition top_entry :: "int \<Rightarrow> string \<times> i64 \<times> string \<Rightarrow> string" where
  "top_entry rank e =
    (case e of (user_id, score, timestamp) \<Rightarrow>
       ''{'' @ in_quotes ''user_id'' @ '':'' @ in_quotes user_id @ '','' @ in_quotes ''score'' @ '':'' @
       int_text (sint score) @ '','' @ in_quotes ''timestamp'' @ '':'' @ in_quotes timestamp @ '', '' @
       in_quotes ''rank'' @ '':'' @ int_text rank @ ''}'')"

definition top_json :: "i32 \<Rightarrow> (string \<times> i64 \<times> string) list \<Rightarrow> string" where
  "top_json start entries =
    ''['' @ join (map (\<lambda>(i, e). top_entry (int i + 1 + sint start) e) (enumerate 0 entries)) @ '']''"

text \<open>A query parameter that is not given keeps the default.\<close>

definition query_int :: "(i32 \<Rightarrow> i32) \<Rightarrow> i32 \<Rightarrow> string \<Rightarrow> i32 option" where
  "query_int clamp dflt s = (if s = [] then Some dflt else map_option clamp (std_stoi s))"

definition get_leaderboard ::
  "sql_env \<Rightarrow> bool \<Rightarrow> string \<Rightarrow> string \<Rightarrow> string \<Rightarrow> string \<Rightarrow> database \<Rightarrow> http_reply" where
  "get_leaderboard Q db_enabled game_id leaderboard_id size_str start_str db =
    (if \<not> db_enabled then Reply ''503 Service Unavailable'' ''Database is disabled''
     else if game_id = [] then Reply ''400 Bad Request'' ''Game ID is required''
     else
       (case (query_int clamp_size 10 size_str, query_int clamp_start 0 start_str) of
          (Some n, Some start) \<Rightarrow>
            (case leaderboard_get_top Q leaderboard_id game_id n start db of
               Inl e \<Rightarrow> Uncaught e
             | Inr top_players \<Rightarrow> Reply ''200 OK'' (top_json start top_players))
        | _ \<Rightarrow> Uncaught ''stoi''))"

definition get_user_leaderboard ::
  "sql_env \<Rightarrow> bool \<Rightarrow> string \<Rightarrow> string \<Rightarrow> string \<Rightarrow> database \<Rightarrow> http_reply" where
  "get_user_leaderboard Q db_enabled game_id leaderboard_id user_id db =
    (if \<not> db_enabled then Reply ''503 Service Unavailable'' ''Database is disabled''
     else if game_id = [] then Reply ''400 Bad Request'' ''Game ID is required''
     else
       (case leaderboard_get_user_score Q leaderboard_id game_id user_id db of
          Inl e \<Rightarrow> Uncaught e
        | Inr (score, rank, timestamp) \<Rightarrow>
            Reply ''200 OK''
              (''{'' @ in_quotes ''user_id'' @ '':'' @ in_quotes user_id @ '','' @ in_quotes ''score'' @
               '':'' @ int_text (sint score) @ '','' @ in_quotes ''rank'' @ '':'' @ int_text (sint rank) @
               '','' @ in_quotes ''timestamp'' @ '':'' @ in_quotes timestamp @ ''}'')))"

end
