(* ===== verification/Leaderboard_Effects.thy ===== *)
theory Leaderboard_Effects
  imports Leaderboards "HOL-Library.Multiset"
begin

text \<open>
  What the database keeps: the table of scores refines a map from leaderboard, game and user to a
  score. The locale \<open>score_store\<close> is the contract the database thread relies on; it is interpreted on
  the rows of the table. Then the position in a ranking against the rank of a user.
\<close>

subsection \<open>The contract of a score table\<close>

definition abs_upsert ::
  "score_key \<Rightarrow> i64 \<Rightarrow> (i64 \<Rightarrow> i64 option) \<Rightarrow> (score_key \<Rightarrow> i64 option) \<Rightarrow> (score_key \<Rightarrow> i64 option) option" where
  "abs_upsert k v f m =
    (case m k of None \<Rightarrow> Some (m(k \<mapsto> v)) | Some old \<Rightarrow> map_option (\<lambda>s. m(k \<mapsto> s)) (f old))"

type_synonym update = "score_key \<times> i64 \<times> (i64 \<Rightarrow> i64 option)"

fun abs_updates ::
  "update list \<Rightarrow> (score_key \<Rightarrow> i64 option) \<Rightarrow> (score_key \<Rightarrow> i64 option) option" where
  "abs_updates [] m = Some m"
| "abs_updates ((k, v, f) # us) m =
     (case abs_upsert k v f m of None \<Rightarrow> None | Some m \<Rightarrow> abs_updates us m)"

definition keep_best :: "i64 \<Rightarrow> i64 \<Rightarrow> i64 option" where
  "keep_best v old = Some (if sint old < sint v then v else old)"

lemma abs_upsert_Some:
  "abs_upsert k v f m = Some m' \<longleftrightarrow>
     (\<exists>w. m' = m(k \<mapsto> w) \<and> (case m k of None \<Rightarrow> w = v | Some old \<Rightarrow> f old = Some w))"
  by (auto simp: abs_upsert_def split: option.split)

locale score_store =
  fixes score_of :: "'s \<Rightarrow> score_key \<Rightarrow> i64 option"
    and insert_or_update :: "score_key \<Rightarrow> i64 \<Rightarrow> (i64 \<Rightarrow> i64 option) \<Rightarrow> 's \<Rightarrow> 's option"
  assumes refines: "map_option score_of (insert_or_update k v f s) = abs_upsert k v f (score_of s)"
begin

fun updates :: "update list \<Rightarrow> 's \<Rightarrow> 's option" where
  "updates [] s = Some s"
| "updates ((k, v, f) # us) s =
     (case insert_or_update k v f s of None \<Rightarrow> None | Some s \<Rightarrow> updates us s)"

lemma updates_refine: "map_option score_of (updates us s) = abs_updates us (score_of s)"
proof (induction us arbitrary: s)
  case (Cons u us)
  obtain k v f where u: "u = (k, v, f)" by (cases u)
  show ?case
    using refines [of k v f s, symmetric] Cons.IH by (cases "insert_or_update k v f s") (simp_all add: u)
qed simp

lemma best_is_max:
  assumes "updates us s = Some s'" "\<forall>(j, v, f) \<in> set us. j = k \<longrightarrow> f = keep_best v"
    and "S = sint ` (set_option (score_of s k) \<union> {v. \<exists>f. (k, v, f) \<in> set us})" "S \<noteq> {}"
  shows "map_option sint (score_of s' k) = Some (Max S)"
  using assms
proof (induction us arbitrary: s S)
  case Nil
  then show ?case by (cases "score_of s k") auto
next
  case (Cons u us)
  obtain j v f where u: "u = (j, v, f)" by (cases u)
  obtain s1 where s1: "insert_or_update j v f s = Some s1" "updates us s1 = Some s'"
    using Cons.prems(1) u by (auto split: option.splits)
  have m: "abs_upsert j v f (score_of s) = Some (score_of s1)"
    using refines [of j v f s] s1 by simp
  have fin: "finite {w. \<exists>f. (k, w, f) \<in> set us}"
    by (rule finite_subset [where B = "(fst \<circ> snd) ` set us"]) force+
  show ?case
  proof (cases "j = k")
    case False
    then have "score_of s1 k = score_of s k"
      using m by (auto simp: abs_upsert_Some)
    then show ?thesis
      using Cons.IH [OF s1(2)] Cons.prems(2,3,4) False u by simp
  next
    case True
    have f: "f = keep_best v" using Cons.prems(2) True u by simp
    let ?old = "sint ` set_option (score_of s k)" and ?new = "sint ` {w. \<exists>f. (k, w, f) \<in> set us}"
    have now: "sint ` set_option (score_of s1 k) = {Max (insert (sint v) ?old)}"
      using m True f by (cases "score_of s k") (auto simp: abs_upsert_Some keep_best_def max_def)
    have "map_option sint (score_of s' k) = Some (Max (sint ` set_option (score_of s1 k) \<union> ?new))"
      using Cons.IH [OF s1(2) _ refl] Cons.prems(2) u now by (simp add: image_Un)
    also have "\<dots> = Some (Max S)"
    proof -
      have joined: "Max (A \<union> ?new) = Max ({Max A} \<union> ?new)" if "finite A" "A \<noteq> {}" for A :: "int set"
        using that fin by (cases "?new = {}") (auto simp: Max_Un simp del: Un_insert_left)
      have "S = insert (sint v) ?old \<union> ?new"
        unfolding Cons.prems(3) using True u by (auto simp: image_Un)
      moreover have "Max (insert (sint v) ?old \<union> ?new) = Max ({Max (insert (sint v) ?old)} \<union> ?new)"
        by (intro joined) simp_all
      ultimately show ?thesis by (simp only: now)
    qed
    finally show ?thesis .
  qed
qed

end

subsection \<open>The rows of the table\<close>

lemma row_key_score [simp]: "row_key (r\<lparr>r_score := s, r_written := t\<rparr>) = row_key r"
  by (simp add: row_key_def)

lemma find_score_Cons: "find_score (r # rows) k = (if row_key r = k then Some (r_score r) else find_score rows k)"
  by (simp add: find_score_def)

lemma find_score_upsert: "map_option find_score (upsert t k v f rows) = abs_upsert k v f (find_score rows)"
proof (induction t k v f rows rule: upsert.induct)
  case (1 t k score f)
  then show ?case
    by (auto simp: abs_upsert_def find_score_def row_key_def fun_eq_iff)
next
  case (2 t k score f r rows)
  show ?case
  proof (cases "row_key r = k")
    case True
    then show ?thesis
      by (cases "f (r_score r)") (auto simp: abs_upsert_def find_score_Cons fun_eq_iff)
  next
    case False
    have tail: "find_score (r # rows) k = find_score rows k" using False by (simp add: find_score_Cons)
    show ?thesis
    proof (cases "upsert t k score f rows")
      case None
      then show ?thesis
        using 2 False tail by (auto simp: abs_upsert_def split: option.splits)
    next
      case (Some rs)
      then have rs: "abs_upsert k score f (find_score rows) = Some (find_score rs)"
        using 2 False by simp
      have "abs_upsert k score f (find_score (r # rows)) = Some (find_score (r # rs))"
        using rs False tail
        by (auto simp: abs_upsert_Some find_score_Cons [abs_def] fun_eq_iff)
      then show ?thesis using Some False by simp
    qed
  qed
qed

definition unique_rows :: "score_row list \<Rightarrow> bool" where
  "unique_rows rows \<longleftrightarrow> distinct (map row_key rows)"

lemma upsert_keys: "upsert t k v f rows = Some rows' \<Longrightarrow> set (map row_key rows') \<subseteq> insert k (set (map row_key rows))"
proof (induction t k v f rows arbitrary: rows' rule: upsert.induct)
  case (2 t k score f r rows)
  show ?case
  proof (cases "row_key r = k")
    case True
    then show ?thesis using "2.prems" by auto
  next
    case False
    then show ?thesis using "2.IH" [OF False] "2.prems" by fastforce
  qed
qed (auto simp: row_key_def)

lemma upsert_unique: "unique_rows rows \<Longrightarrow> upsert t k v f rows = Some rows' \<Longrightarrow> unique_rows rows'"
proof (induction t k v f rows arbitrary: rows' rule: upsert.induct)
  case (2 t k score f r rows)
  show ?case
  proof (cases "row_key r = k")
    case True
    then show ?thesis using "2.prems" by (auto simp: unique_rows_def)
  next
    case False
    then obtain rs where rs: "upsert t k score f rows = Some rs" "rows' = r # rs"
      using "2.prems" by auto
    have "unique_rows rs" using "2.IH" [OF False _ rs(1)] "2.prems"(1) by (simp add: unique_rows_def)
    moreover have "row_key r \<notin> set (map row_key rs)"
      using upsert_keys [OF rs(1)] False "2.prems"(1) by (auto simp: unique_rows_def)
    ultimately show ?thesis by (simp add: rs unique_rows_def)
  qed
qed (auto simp: unique_rows_def)

interpretation table: score_store find_score "upsert t" for t
  by unfold_locales (rule find_score_upsert)

subsection \<open>The database thread\<close>

definition message_key :: "db_message \<Rightarrow> score_key" where
  "message_key m = (db_leaderboard_id m, db_game_id m, db_peer_id m)"

definition message_update :: "db_message \<Rightarrow> update" where
  "message_update m = (message_key m, db_score m, next_score (db_leaderboard_type m) (db_score m))"

definition message_texts :: "sql_env \<Rightarrow> db_message \<Rightarrow> bool" where
  "message_texts Q m \<longleftrightarrow> sql_texts Q [db_leaderboard_id m, db_game_id m, db_peer_id m]"

definition known_mode :: "db_message \<Rightarrow> bool" where
  "known_mode m \<longleftrightarrow> db_leaderboard_type m \<in> set leaderboard_modes"

definition message_updates :: "db_message list \<Rightarrow> update list" where
  "message_updates ms = map message_update (filter known_mode ms)"

definition scores :: "database \<Rightarrow> score_key \<Rightarrow> i64 option" where
  "scores db = find_score (leaderboards db)"

lemma db_run_updates:
  "\<forall>m \<in> set ms. known_mode m \<longrightarrow> message_texts Q m \<Longrightarrow>
   (case db_run Q ms db of Inl e \<Rightarrow> None | Inr db' \<Rightarrow> Some (leaderboards db')) =
   table.updates (sql_now Q) (message_updates ms) (leaderboards db)"
proof (induction ms arbitrary: db)
  case (Cons m ms)
  have later: "\<forall>m \<in> set ms. known_mode m \<longrightarrow> message_texts Q m" using Cons.prems by simp
  show ?case
  proof (cases "known_mode m")
    case True
    then have "sql_texts Q [db_leaderboard_id m, db_game_id m, db_peer_id m]"
      using Cons.prems by (simp add: message_texts_def)
    then show ?thesis
      using Cons.IH [OF later] True
      by (auto simp: leaderboard_set_score_def known_mode_def message_updates_def message_update_def
          message_key_def split: option.split)
  next
    case False
    then show ?thesis
      using Cons.IH [OF later] by (simp add: leaderboard_set_score_def known_mode_def message_updates_def)
  qed
qed (simp add: message_updates_def)

lemma db_run_refines:
  "\<forall>m \<in> set ms. known_mode m \<longrightarrow> message_texts Q m \<Longrightarrow>
   (case db_run Q ms db of Inl e \<Rightarrow> None | Inr db' \<Rightarrow> Some (scores db')) =
   abs_updates (message_updates ms) (scores db)"
  unfolding scores_def table.updates_refine [where t = "sql_now Q", symmetric]
  by (subst db_run_updates [symmetric]) (simp_all split: sum.split)

lemma db_run_unique: "unique_rows (leaderboards db) \<Longrightarrow> db_run Q ms db = Inr db' \<Longrightarrow> unique_rows (leaderboards db')"
proof (induction ms arbitrary: db)
  case (Cons m ms)
  obtain db1 where db1: "leaderboard_set_score Q (db_leaderboard_id m) (db_game_id m) (db_peer_id m)
      (db_score m) (db_leaderboard_type m) db = Inr db1" "db_run Q ms db1 = Inr db'"
    using Cons.prems(2) by (auto split: sum.splits)
  have "unique_rows (leaderboards db1)"
    using db1(1) Cons.prems(1)
    by (auto simp: leaderboard_set_score_def intro: upsert_unique split: if_splits option.splits)
  then show ?case using Cons.IH db1(2) by blast
qed simp

lemma next_score_best: "next_score ''best'' = keep_best"
  by (simp add: next_score_def keep_best_def fun_eq_iff)

lemma message_updates_key:
  "{v. \<exists>f. (k, v, f) \<in> set (message_updates ms)} =
     db_score ` {m \<in> set ms. known_mode m \<and> message_key m = k}"
  by (force simp: message_updates_def message_update_def)

lemma db_run_best:
  assumes "db_run Q ms db = Inr db'" "\<forall>m \<in> set ms. known_mode m \<longrightarrow> message_texts Q m"
    and "\<forall>m \<in> set ms. message_key m = k \<longrightarrow> db_leaderboard_type m = ''best''"
    and "S = set_option (scores db k) \<union> db_score ` {m \<in> set ms. message_key m = k}" "S \<noteq> {}"
  shows "map_option sint (scores db' k) = Some (Max (sint ` S))"
proof -
  have known: "{m \<in> set ms. known_mode m \<and> message_key m = k} = {m \<in> set ms. message_key m = k}"
    using assms(3) by (auto simp: known_mode_def leaderboard_modes_def)
  have "table.updates (sql_now Q) (message_updates ms) (leaderboards db) = Some (leaderboards db')"
    using db_run_updates [OF assms(2), of db] assms(1) by simp
  moreover have "\<forall>(j, v, f) \<in> set (message_updates ms). j = k \<longrightarrow> f = keep_best v"
    using assms(3) by (auto simp: message_updates_def message_update_def next_score_best)
  ultimately show ?thesis
    unfolding scores_def
    by (rule table.best_is_max)
       (use assms(4,5) in \<open>simp_all add: message_updates_key known scores_def\<close>)
qed

subsection \<open>The scores as integers\<close>

text \<open>
  The specification of the queue of scores speaks of integers and of a map only: what a mode makes
  of the old and the new score, that the first score of a user is stored as it is, and the two
  errors, a text the database refuses and a value that is not a signed 64-bit integer.
\<close>

definition mode_value :: "string \<Rightarrow> int \<Rightarrow> int \<Rightarrow> int" where
  "mode_value mode old new =
    (if mode = ''set'' then new else if mode = ''best'' then max old new
     else if mode = ''inc'' then old + new else old - new)"

definition score_spec ::
  "sql_env \<Rightarrow> db_message \<Rightarrow> (score_key \<Rightarrow> int option) \<Rightarrow> string + (score_key \<Rightarrow> int option)" where
  "score_spec Q m s =
    (if db_leaderboard_type m \<notin> {''set'', ''best'', ''inc'', ''dec''} then Inr s
     else if \<not> (sql_text Q (db_leaderboard_id m) \<and> sql_text Q (db_game_id m) \<and> sql_text Q (db_peer_id m))
     then Inl ''invalid byte sequence for encoding''
     else
       let k = (db_leaderboard_id m, db_game_id m, db_peer_id m);
           v = (case s k of None \<Rightarrow> sint (db_score m)
                | Some old \<Rightarrow> mode_value (db_leaderboard_type m) old (sint (db_score m)))
       in if v \<in> {- (2 ^ 63)..<2 ^ 63} then Inr (s(k \<mapsto> v)) else Inl ''bigint out of range'')"

fun scores_spec ::
  "sql_env \<Rightarrow> db_message list \<Rightarrow> (score_key \<Rightarrow> int option) \<Rightarrow> string + (score_key \<Rightarrow> int option)" where
  "scores_spec Q [] s = Inr s"
| "scores_spec Q (m # ms) s =
     (case score_spec Q m s of Inl e \<Rightarrow> Inl e | Inr s \<Rightarrow> scores_spec Q ms s)"

definition int_scores :: "database \<Rightarrow> score_key \<Rightarrow> int option" where
  "int_scores db k = map_option sint (scores db k)"

lemma sint_range: "sint (v :: i64) \<in> {- (2 ^ 63)..<2 ^ 63}"
  using sint_ge [of v] sint_lt [of v] by simp

lemma bigint_sint: "map_option sint (bigint n) = (if n \<in> {- (2 ^ 63)..<2 ^ 63} then Some n else None)"
proof (cases "n \<in> {- (2 ^ 63)..<2 ^ 63}")
  case True
  then have "sint (0 + word_of_int n :: i64) = sint (0 :: i64) + n"
    by (intro sint_add_small) simp_all
  then have "sint (word_of_int n :: i64) = n" by (simp only: add_0 sint_0)
  moreover have "bigint n = Some (word_of_int n)" using True by (simp add: bigint_def)
  ultimately show ?thesis using True by (simp only: option.map if_True)
qed (auto simp: bigint_def)

lemma next_score_sint:
  assumes "mode \<in> set leaderboard_modes"
  shows "map_option sint (next_score mode v old) =
    (let n = mode_value mode (sint old) (sint v) in if n \<in> {- (2 ^ 63)..<2 ^ 63} then Some n else None)"
proof -
  consider "mode = ''set''" | "mode = ''best''" | "mode = ''inc''" | "mode = ''dec''"
    using assms by (auto simp: leaderboard_modes_def)
  then show ?thesis
  proof cases
    case 1
    then show ?thesis using sint_range [of v] by (simp add: next_score_def mode_value_def)
  next
    case 2
    then have "mode_value mode (sint old) (sint v) = sint (if sint old < sint v then v else old)"
      by (simp add: mode_value_def max_def)
    then show ?thesis
      using sint_range [of "if sint old < sint v then v else old"] 2 by (simp only: Let_def) (simp add: next_score_def)
  next
    case 3
    then show ?thesis using bigint_sint [of "sint old + sint v"] by (simp add: next_score_def mode_value_def Let_def)
  next
    case 4
    then show ?thesis using bigint_sint [of "sint old - sint v"] by (simp add: next_score_def mode_value_def Let_def)
  qed
qed

lemma abs_upsert_sint:
  assumes "mode \<in> set leaderboard_modes"
  shows "map_option (\<lambda>m j. map_option sint (m j)) (abs_upsert k v (next_score mode v) m) =
    (let n = (case map_option sint (m k) of None \<Rightarrow> sint v | Some old \<Rightarrow> mode_value mode old (sint v))
     in if n \<in> {- (2 ^ 63)..<2 ^ 63} then Some ((\<lambda>j. map_option sint (m j))(k \<mapsto> n)) else None)"
proof (cases "m k")
  case None
  then show ?thesis using sint_range [of v] by (auto simp: abs_upsert_def fun_eq_iff)
next
  case (Some old)
  then show ?thesis
    using next_score_sint [OF assms, of v old]
    by (cases "next_score mode v old") (auto simp: abs_upsert_def fun_eq_iff Let_def split: if_splits)
qed

lemma set_score_refines:
  "map_sum id int_scores (leaderboard_set_score Q (db_leaderboard_id m) (db_game_id m) (db_peer_id m)
      (db_score m) (db_leaderboard_type m) db) = score_spec Q m (int_scores db)"
proof (cases "db_leaderboard_type m \<in> set leaderboard_modes \<and>
    sql_texts Q [db_leaderboard_id m, db_game_id m, db_peer_id m]")
  case False
  then show ?thesis
    by (auto simp: leaderboard_set_score_def score_spec_def leaderboard_modes_def sql_texts_def bad_text_def)
next
  case True
  let ?k = "message_key m" and ?f = "next_score (db_leaderboard_type m) (db_score m)"
  have ints: "int_scores db = (\<lambda>j. map_option sint (find_score rows j))"
    if "leaderboards db = rows" for db rows
    using that by (simp add: int_scores_def scores_def fun_eq_iff)
  have up: "map_option (\<lambda>rows j. map_option sint (find_score rows j))
      (upsert (sql_now Q) ?k (db_score m) ?f (leaderboards db)) =
    map_option (\<lambda>m j. map_option sint (m j)) (abs_upsert ?k (db_score m) ?f (find_score (leaderboards db)))"
    by (simp add: option.map_comp comp_def flip: table.refines [where t = "sql_now Q"])
  show ?thesis
    using True up abs_upsert_sint [of "db_leaderboard_type m" ?k "db_score m" "find_score (leaderboards db)"]
    by (cases "upsert (sql_now Q) ?k (db_score m) ?f (leaderboards db)")
      (auto simp: leaderboard_set_score_def score_spec_def leaderboard_modes_def sql_texts_def message_key_def
        ints [OF refl] Let_def split: if_splits)
qed

lemma db_run_spec: "map_sum id int_scores (db_run Q ms db) = scores_spec Q ms (int_scores db)"
proof (induction ms arbitrary: db)
  case (Cons m ms)
  then show ?case
    using set_score_refines [of Q m db]
    by (cases "leaderboard_set_score Q (db_leaderboard_id m) (db_game_id m) (db_peer_id m)
      (db_score m) (db_leaderboard_type m) db") (auto simp flip: set_score_refines)
qed simp

subsection \<open>Positions and ranks\<close>

lemma sorted_greater_prefix:
  fixes h :: "'a \<Rightarrow> int"
  assumes "sorted (map (\<lambda>x. - h x) xs)" "i < length xs"
  shows "length (filter (\<lambda>x. h (xs ! i) < h x) xs) \<le> i \<and>
    (distinct (map h xs) \<longrightarrow> length (filter (\<lambda>x. h (xs ! i) < h x) xs) = i)"
proof -
  let ?P = "\<lambda>x. h (xs ! i) < h x"
  have later: "filter ?P (drop i xs) = []"
  proof -
    have "h (xs ! j) \<le> h (xs ! i)" if "i \<le> j" "j < length xs" for j
      using sorted_nth_mono [OF assms(1), of i j] that by simp
    then have "\<forall>x \<in> set (drop i xs). \<not> ?P x"
      by (auto simp: in_set_conv_nth) (metis add.commute le_add1 less_diff_conv linorder_not_less)
    then show ?thesis by (simp add: filter_empty_conv)
  qed
  have split: "filter ?P xs = filter ?P (take i xs)"
    using later by (metis append_Nil2 append_take_drop_id filter_append)
  moreover have "length (filter ?P (take i xs)) \<le> i"
    using length_filter_le [of ?P "take i xs"] by simp
  moreover have "filter ?P (take i xs) = take i xs" if d: "distinct (map h xs)"
  proof (rule filter_True, rule ballI)
    fix x assume "x \<in> set (take i xs)"
    then obtain j where j: "j < i" "x = xs ! j" by (auto simp: in_set_conv_nth)
    then have "h (xs ! i) \<le> h (xs ! j)"
      using sorted_nth_mono [OF assms(1), of j i] assms(2) by simp
    moreover have "h (xs ! j) \<noteq> h (xs ! i)"
      using d j(1) assms(2) by (auto simp: distinct_conv_nth)
    ultimately show "?P x" using j by simp
  qed
  ultimately show ?thesis using assms(2) by simp
qed

lemma unique_user:
  assumes "unique_rows (leaderboards db)" "r \<in> set (on_board lid gid db)"
  shows "filter (\<lambda>x. r_user_id x = r_user_id r) (on_board lid gid db) = [r]"
proof -
  have d: "distinct (map row_key (on_board lid gid db))"
    using assms(1) by (simp add: unique_rows_def on_board_def distinct_map_filter)
  then have "distinct (map row_key (filter (\<lambda>x. r_user_id x = r_user_id r) (on_board lid gid db)))"
    by (rule distinct_map_filter)
  moreover have "row_key x = row_key r" if "x \<in> set (filter (\<lambda>x. r_user_id x = r_user_id r) (on_board lid gid db))" for x
    using that assms(2) by (auto simp: row_key_def on_board_def)
  moreover have "r \<in> set (filter (\<lambda>x. r_user_id x = r_user_id r) (on_board lid gid db))"
    using assms(2) by simp
  ultimately show ?thesis
    by (cases "filter (\<lambda>x. r_user_id x = r_user_id r) (on_board lid gid db)"
        rule: remdups_adj.cases) auto
qed

lemma sint_rank: "n + 1 < 2 ^ 31 \<Longrightarrow> sint (of_nat n + 1 :: i32) = int n + 1"
  using sint_add_small [of "0 :: i32" "int n + 1"] by simp

lemma ranking_mset:
  "(\<And>n i rows. mset (scan Q n i rows) = mset rows) \<Longrightarrow> mset (ranking Q lid gid limit start db) = mset (on_board lid gid db)"
  by (simp add: ranking_def)

lemma top_entry_row:
  assumes "leaderboard_get_top Q lid gid limit start db = Inr es" "i < length es"
  shows "unat start + i < length (ranking Q lid gid limit start db) \<and> 0 \<le> sint start \<and>
    es ! i = (let r = ranking Q lid gid limit start db ! (unat start + i)
               in (r_user_id r, r_score r, to_char Q (r_written r)))"
  using assms by (auto simp: leaderboard_get_top_def Let_def split: if_splits)

lemma top_rank:
  assumes "unique_rows (leaderboards db)" "\<And>n i rows. mset (scan Q n i rows) = mset rows"
    and "\<And>t. timestamp_text Q t \<noteq> []" "length (on_board lid gid db) < 2 ^ 31"
    and known: "sql_text Q u"
    and top: "leaderboard_get_top Q lid gid limit start db = Inr es" "i < length es" "es ! i = (u, s, ts)"
  shows "\<exists>rank time. leaderboard_get_user_score Q lid gid u db = Inr (s, rank, time) \<and> 1 \<le> sint rank \<and>
    sint rank \<le> sint start + int i + 1 \<and>
    (distinct (map r_score (on_board lid gid db)) \<longrightarrow> sint rank = sint start + int i + 1)"
proof -
  let ?R = "ranking Q lid gid limit start db" and ?j = "unat start + i"
  let ?r = "?R ! ?j"
  have j: "?j < length ?R" "sint start = int (unat start)" and us: "u = r_user_id ?r" "s = r_score ?r"
    using top_entry_row [OF top(1,2)] top(3) sint_nonneg [of start] by (auto simp: Let_def)
  note m = ranking_mset [OF assms(2), of lid gid limit start db]
  have len: "length ?R = length (on_board lid gid db)" using mset_eq_length [OF m] .
  have "?r \<in> set (on_board lid gid db)" using j m by (metis nth_mem set_mset_mset)
  then have user: "leaderboard_get_user_score Q lid gid u db =
      Inr (s, of_nat (length (better lid gid s db)) + 1, timestamp_text Q (r_written ?r))"
    using unique_user [OF assms(1), of ?r lid gid] assms(3) known top(1)
    by (auto simp: leaderboard_get_user_score_def leaderboard_get_top_def sql_texts_def us split: if_splits)
  have better: "length (better lid gid s db) = length (filter (\<lambda>x. sint (r_score ?r) < sint (r_score x)) ?R)"
    unfolding better_def us(2) by (metis m mset_eq_length mset_filter)
  have "sorted (map (\<lambda>x. - sint (r_score x)) ?R)" by (simp add: ranking_def)
  from sorted_greater_prefix [where h = "\<lambda>x. sint (r_score x)", OF this j(1)]
  have count: "length (better lid gid s db) \<le> ?j"
    "distinct (map (\<lambda>x. sint (r_score x)) ?R) \<Longrightarrow> length (better lid gid s db) = ?j"
    unfolding better by auto
  have "distinct (map (\<lambda>x. sint (r_score x)) ?R)" if "distinct (map r_score (on_board lid gid db))"
  proof -
    have "distinct (map r_score ?R)" using that m by (metis mset_eq_imp_distinct_iff mset_map)
    moreover have "inj_on sint A" for A :: "i64 set"
      by (metis inj_onI signed_word_eqI)
    ultimately have "distinct (map sint (map r_score ?R))"
      by (subst distinct_map) blast
    then show ?thesis by (simp add: o_def)
  qed
  then have "distinct (map r_score (on_board lid gid db)) \<Longrightarrow>
      int (length (better lid gid s db)) = sint start + int i"
    using count(2) by (simp only: j(2) of_nat_add)
  moreover have "int (length (better lid gid s db)) \<le> sint start + int i"
    using of_nat_mono [OF count(1), where 'a = int] by (simp only: j(2) of_nat_add)
  moreover have "sint (of_nat (length (better lid gid s db)) + 1 :: i32) = int (length (better lid gid s db)) + 1"
    using count(1) j(1) len assms(4) by (intro sint_rank) simp
  ultimately show ?thesis
    unfolding user by (intro exI conjI impI refl) simp_all
qed

end
