(* ===== verification/Script_Places.thy ===== *)
theory Script_Places
  imports Growth
begin

text \<open>
  The places of peers in lobbies, as another relation of the contract \<open>kept\<close>: whatever a script does
  and kicks, records stay, a peer stays where it is or gets into no lobby, and no lobby gains a
  member.
\<close>

definition keeps_places :: "ctx \<Rightarrow> ctx \<Rightarrow> bool" where
  "keeps_places c0 c \<longleftrightarrow> uuid_count c = uuid_count c0 \<and> config (game c) = config (game c0) \<and>
    (\<forall>k. (has_peer c0 k \<longrightarrow> has_peer c k) \<and> p_id (peer_at c k) = p_id (peer_at c0 k) \<and>
      p_lobby_id (peer_at c k) \<in> {p_lobby_id (peer_at c0 k), []} \<and>
      set (l_peer_ids (lobby_at c k)) \<subseteq> set (l_peer_ids (lobby_at c0 k)))"

lemma map_at:
  "peer_at (upd_game f c) k = (case map_of (g_peers (f (game c))) k of Some p \<Rightarrow> p | None \<Rightarrow> default_peer)"
  "lobby_at (upd_game f c) k = (case map_of (g_lobbies (f (game c))) k of Some l \<Rightarrow> l | None \<Rightarrow> default_lobby)"
  "has_peer (upd_game f c) k = fm_has k (g_peers (f (game c)))"
  by (simp_all add: peer_at_def lobby_at_def has_peer_def)

lemma fault_reads:
  "peer_at (fault_add x c) = peer_at c" "lobby_at (fault_add x c) = lobby_at c" "has_peer (fault_add x c) = has_peer c"
  "uuid_count (fault_add x c) = uuid_count c" "game (fault_add x c) = game c"
  by (simp_all add: fun_eq_iff peer_at_def lobby_at_def has_peer_def fault_add_def)

lemma default_members: "l_peer_ids default_lobby = []"
  by (simp add: default_lobby_def)

lemma keeps_places_refl: "keeps_places c c"
  by (simp add: keeps_places_def)

lemma keeps_places_step:
  assumes "keeps_places c0 c" "uuid_count c' = uuid_count c" "config (game c') = config (game c)"
    and "\<And>k. has_peer c k \<Longrightarrow> has_peer c' k" "\<And>k. p_id (peer_at c' k) = p_id (peer_at c k)"
    and "\<And>k. p_lobby_id (peer_at c' k) = p_lobby_id (peer_at c k) \<or> p_lobby_id (peer_at c' k) = []"
    and "\<And>k. set (l_peer_ids (lobby_at c' k)) \<subseteq> set (l_peer_ids (lobby_at c k))"
  shows "keeps_places c0 c'"
proof -
  have "p_lobby_id (peer_at c' k) \<in> {p_lobby_id (peer_at c0 k), []}" for k
    using assms(1) assms(6) [of k] by (auto simp: map_at fault_reads default_members keeps_places_def)
  then show ?thesis using assms(1-5,7) unfolding keeps_places_def by (metis order_trans)
qed

lemma places_touch_peer: "keeps_places c0 c \<Longrightarrow> keeps_places c0 (touch_peer k c)"
  by (rule keeps_places_step [of c0 c])
    (auto simp: map_at fault_reads default_members touch_peer_def has_peer_def fm_has_def peer_at_def lobby_at_def split: option.split)

lemma places_touch_lobby: "keeps_places c0 c \<Longrightarrow> keeps_places c0 (touch_lobby k c)"
  by (rule keeps_places_step [of c0 c])
    (auto simp: map_at fault_reads default_members touch_lobby_def has_lobby_def fm_has_def peer_at_def lobby_at_def has_peer_def split: option.split)

lemma places_set_peer:
  "keeps_places c0 c \<Longrightarrow> (\<And>p. p_id (f p) = p_id p) \<Longrightarrow>
    (\<And>p. p_lobby_id (f p) = p_lobby_id p \<or> p_lobby_id (f p) = []) \<Longrightarrow> keeps_places c0 (set_peer k f c)"
  by (rule keeps_places_step [of c0 c])
    (auto simp: map_at fault_reads default_members set_peer_def has_peer_def fm_has_def peer_at_def lobby_at_def split: option.splits)

lemma places_set_lobby:
  "keeps_places c0 c \<Longrightarrow> (\<And>l. set (l_peer_ids (f l)) \<subseteq> set (l_peer_ids l)) \<Longrightarrow>
   keeps_places c0 (set_lobby k f c)"
  by (rule keeps_places_step [of c0 c])
    (auto simp: map_at fault_reads default_members set_lobby_def has_peer_def fm_has_def peer_at_def lobby_at_def split: option.splits)

interpretation places: kept keeps_places
proof
  show "keeps_places c0 c'" if "keeps_places c0 c" "same_links c c'" for c0 c c'
    using that by (simp add: keeps_places_def same_links_def has_peer_def peer_at_def lobby_at_def)
  show "keeps_places c0 (fault_add x c)" if "keeps_places c0 c" for c0 c x
    using that by (simp add: keeps_places_def fault_reads)
  show "keeps_places c0 (set_peer k f c)" if "keeps_places c0 c" "quiet_peer f" for c0 c k f
    using that by (auto intro: places_set_peer simp: quiet_peer_def)
  show "keeps_places c0 (set_lobby k f c)" if "keeps_places c0 c" "quiet_lobby f" for c0 c k f
    using that by (auto intro: places_set_lobby simp: quiet_lobby_def)
qed (auto intro: places_touch_peer places_touch_lobby)

lemma places_erase_lobby:
  "keeps_places c0 c \<Longrightarrow> keeps_places c0 (upd_game (\<lambda>g. g\<lparr>g_lobbies := fm_erase k (g_lobbies g)\<rparr>) c)"
  by (rule keeps_places_step [of c0 c])
    (auto simp: map_at fault_reads default_members has_peer_def fm_has_def peer_at_def lobby_at_def split: option.splits)

interpretation places: kept_detach keeps_places
proof
  show "keeps_places c0 (detach_peer h lid pid c)" if "keeps_places c0 c" for c0 c h lid pid
    unfolding detach_peer_def Let_def using that
    by (auto intro!: places_erase_lobby places.mark_updated places_set_lobby places_set_peer places_touch_peer)
qed

lemma script_places: "keeps_places c (snd (snd (call_script E p l f args c)))"
  by (rule places.call_script [OF keeps_places_refl])
end
