(* ===== verification/Server_Log.thy ===== *)
theory Server_Log
  imports Prelude
begin

text \<open>
  \<open>ServerLogger\<close>, from \<^verbatim>\<open>src/src/common/server_logger.h\<close>: lines go through a buffer to a file that may
  have to be opened again. Every call notes what the world does at that moment: whether the file
  could be opened, the steady clock in milliseconds, and the time of day as text.
\<close>

record moment =
  openable :: bool
  steady :: int
  clock_text :: string

record logger =
  lg_file_name :: string
  lg_open :: bool
  lg_retries :: nat
  lg_buffer :: string
  lg_disk :: string
  lg_console :: "string list"
  lg_cached_time :: string
  lg_last_time_check :: int
  lg_verbose :: bool

definition MAX_RETRIES :: nat where
  "MAX_RETRIES = 3"

definition BUFFER_LIMIT :: nat where
  "BUFFER_LIMIT = 0"

definition TIME_UPDATE_INTERVAL :: int where
  "TIME_UPDATE_INTERVAL = 1000"

definition get_cached_time :: "moment \<Rightarrow> logger \<Rightarrow> string \<times> logger" where
  "get_cached_time m g =
    (let g = (if TIME_UPDATE_INTERVAL < steady m - lg_last_time_check g \<or> lg_cached_time g = []
              then g\<lparr>lg_last_time_check := steady m, lg_cached_time := clock_text m\<rparr> else g)
     in (lg_cached_time g, g))"

definition flush_buffer :: "logger \<Rightarrow> logger" where
  "flush_buffer g =
    (if lg_open g \<and> lg_buffer g \<noteq> []
     then g\<lparr>lg_disk := lg_disk g @ lg_buffer g, lg_buffer := []\<rparr> else g)"

definition reopen_file :: "moment \<Rightarrow> logger \<Rightarrow> bool \<times> logger" where
  "reopen_file m g =
    (if MAX_RETRIES \<le> lg_retries g then (False, g)
     else
       let g = g\<lparr>lg_open := openable m\<rparr>
       in if \<not> lg_open g then (False, g\<lparr>lg_retries := lg_retries g + 1\<rparr>)
          else (True, g\<lparr>lg_retries := 0\<rparr>))"

text \<open>\<open>buffer.tellp()\<close> is the length of the buffer.\<close>

definition log_line :: "moment \<Rightarrow> string list \<Rightarrow> logger \<Rightarrow> logger" where
  "log_line m args g =
    (let (t, g) = get_cached_time m g;
         g = g\<lparr>lg_buffer := lg_buffer g @ t @ '': '' @ concat args @ [CHR 0x0A]\<rparr>
     in if BUFFER_LIMIT \<le> length (lg_buffer g) then flush_buffer g else g)"

definition log_to_file :: "moment \<Rightarrow> string list \<Rightarrow> logger \<Rightarrow> logger" where
  "log_to_file m args g =
    (if lg_open g then log_line m args g
     else (let (ok, g) = reopen_file m g in if ok then log_line m args g else g))"

definition debug_log :: "moment \<Rightarrow> string list \<Rightarrow> logger \<Rightarrow> logger" where
  "debug_log m args g = (if lg_verbose g then log_to_file m args g else g)"

definition error_log :: "moment \<Rightarrow> string list \<Rightarrow> logger \<Rightarrow> logger" where
  "error_log m args g =
    (let (t, g) = get_cached_time m (log_to_file m args g)
     in g\<lparr>lg_console := lg_console g @ [t @ '': '' @ concat args]\<rparr>)"

text \<open>The constructor and the copy: the file is opened in append mode, the buffer is empty.\<close>

definition new_logger :: "moment \<Rightarrow> bool \<Rightarrow> string \<Rightarrow> string \<Rightarrow> logger" where
  "new_logger m verbose file_name disk =
    \<lparr>lg_file_name = file_name, lg_open = openable m, lg_retries = 0, lg_buffer = [], lg_disk = disk,
     lg_console = [], lg_cached_time = [], lg_last_time_check = steady m, lg_verbose = verbose\<rparr>"

definition copy_logger :: "moment \<Rightarrow> logger \<Rightarrow> logger" where
  "copy_logger m g = new_logger m (lg_verbose g) (lg_file_name g) (lg_disk g)"

definition destroy_logger :: "logger \<Rightarrow> logger" where
  "destroy_logger g = (flush_buffer g)\<lparr>lg_open := False\<rparr>"

subsection \<open>Lemmas\<close>

lemma cached_time_fields [simp]:
  "lg_open (snd (get_cached_time m g)) = lg_open g" "lg_retries (snd (get_cached_time m g)) = lg_retries g"
  "lg_buffer (snd (get_cached_time m g)) = lg_buffer g" "lg_disk (snd (get_cached_time m g)) = lg_disk g"
  "lg_console (snd (get_cached_time m g)) = lg_console g"
  by (simp_all add: get_cached_time_def Let_def)

text \<open>The text a call adds to the file.\<close>

definition line_text :: "moment \<Rightarrow> string list \<Rightarrow> logger \<Rightarrow> string" where
  "line_text m args g = fst (get_cached_time m g) @ '': '' @ concat args @ [CHR 0x0A]"

lemma log_line_open:
  assumes "lg_open g" "lg_buffer g = []"
  shows "lg_disk (log_line m args g) = lg_disk g @ line_text m args g"
    "lg_buffer (log_line m args g) = []" "lg_open (log_line m args g)"
    "lg_retries (log_line m args g) = lg_retries g"
  using assms
  by (simp_all add: log_line_def line_text_def flush_buffer_def BUFFER_LIMIT_def case_prod_beta)

text \<open>The state the loggers are in between calls: nothing waits in the buffer.\<close>

definition drained :: "logger \<Rightarrow> bool" where
  "drained g \<longleftrightarrow> lg_buffer g = [] \<and> lg_retries g \<le> MAX_RETRIES"

lemma drained_new: "drained (new_logger m v f d)"
  by (simp add: drained_def new_logger_def)

lemma drained_log: "drained g \<Longrightarrow> drained (log_to_file m args g)"
  by (auto simp: drained_def log_to_file_def reopen_file_def log_line_open MAX_RETRIES_def Let_def)

lemma written_if_open:
  assumes "drained g" "lg_open g \<or> (lg_retries g < MAX_RETRIES \<and> openable m)"
  shows "\<exists>t. lg_disk (log_to_file m args g) = lg_disk g @ t @ '': '' @ concat args @ [CHR 0x0A]"
    "lg_open (log_to_file m args g)"
  using assms
  by (auto simp: drained_def log_to_file_def reopen_file_def log_line_open line_text_def Let_def)

lemma dropped_if_closed:
  assumes "\<not> lg_open g" "MAX_RETRIES \<le> lg_retries g \<or> \<not> openable m"
  shows "lg_disk (log_to_file m args g) = lg_disk g" "\<not> lg_open (log_to_file m args g)"
    "lg_retries (log_to_file m args g) =
      (if MAX_RETRIES \<le> lg_retries g then lg_retries g else lg_retries g + 1)"
  using assms by (auto simp: log_to_file_def reopen_file_def Let_def)

lemma log_many_open:
  "drained g \<Longrightarrow> lg_open g \<Longrightarrow>
   \<exists>ts. length ts = length calls \<and>
     lg_disk (fold (\<lambda>(m, args). log_to_file m args) calls g) =
       lg_disk g @ concat (map2 (\<lambda>t (m, args). t @ '': '' @ concat args @ [CHR 0x0A]) ts calls)"
proof (induction calls arbitrary: g)
  case (Cons call calls)
  obtain m args where call: "call = (m, args)" by (cases call)
  let ?g = "log_to_file m args g"
  obtain t where t: "lg_disk ?g = lg_disk g @ t @ '': '' @ concat args @ [CHR 0x0A]"
    using written_if_open(1) Cons.prems by blast
  have "drained ?g" "lg_open ?g" using drained_log written_if_open(2) Cons.prems by blast+
  then obtain ts where "length ts = length calls"
    "lg_disk (fold (\<lambda>(m, args). log_to_file m args) calls ?g) =
       lg_disk ?g @ concat (map2 (\<lambda>t (m, args). t @ '': '' @ concat args @ [CHR 0x0A]) ts calls)"
    using Cons.IH by blast
  then show ?case
    using t by (intro exI [of _ "t # ts"]) (simp add: call)
qed simp

lemma log_gives_up:
  "\<not> lg_open g \<Longrightarrow> lg_retries g = MAX_RETRIES \<Longrightarrow>
   lg_disk (fold (\<lambda>(m, args). log_to_file m args) calls g) = lg_disk g"
proof (induction calls arbitrary: g)
  case (Cons call calls)
  obtain m args where call: "call = (m, args)" by (cases call)
  have "log_to_file m args g = g" using Cons.prems by (simp add: log_to_file_def reopen_file_def)
  then show ?case using Cons by (simp add: call)
qed simp

lemma log_fails:
  "\<not> lg_open g \<Longrightarrow> lg_retries g + length calls = MAX_RETRIES \<Longrightarrow> \<forall>(m, args) \<in> set calls. \<not> openable m \<Longrightarrow>
   (let g' = fold (\<lambda>(m, args). log_to_file m args) calls g
    in lg_disk g' = lg_disk g \<and> \<not> lg_open g' \<and> lg_retries g' = MAX_RETRIES)"
proof (induction calls arbitrary: g)
  case (Cons call calls)
  obtain m args where call: "call = (m, args)" by (cases call)
  have m: "\<not> openable m" using Cons.prems(3) by (simp add: call)
  have "\<not> MAX_RETRIES \<le> lg_retries g" using Cons.prems(2) by simp
  then show ?case
    using Cons.IH [of "log_to_file m args g"] Cons.prems dropped_if_closed [of g m args] m
    by (simp add: call Let_def)
qed simp

end
