(* ===== verification/Thread_Stats.thy ===== *)
theory Thread_Stats
  imports Sound_Moves Leaderboards
begin

text \<open>
  The statistics at the end of a round of \<open>GameThread::run\<close> (\<^verbatim>\<open>src/src/game/game_thread.cpp\<close>): the counts
  over all games, the line appended to the file of the day, and the counters set back to zero. The
  counts are C++ \<open>int\<close>s; here they are natural numbers, as no thread holds two billion records. For a
  game in which membership is exact no peer is counted in two lobbies.
\<close>

subsection \<open>Counting\<close>

definition count_platform :: "string \<Rightarrow> gthread \<Rightarrow> nat" where
  "count_platform platform t =
    (\<Sum>(gid, g) \<leftarrow> games t. length (filter (\<lambda>(k, p). p_platform p = platform) (g_peers g)))"

definition total_users_count :: "gthread \<Rightarrow> nat" where
  "total_users_count t = (\<Sum>(gid, g) \<leftarrow> games t. length (g_peers g))"

definition total_lobbies_count :: "gthread \<Rightarrow> nat" where
  "total_lobbies_count t = (\<Sum>(gid, g) \<leftarrow> games t. length (g_lobbies g))"

definition peers_in_lobbies :: "game_data \<Rightarrow> nat" where
  "peers_in_lobbies g = (\<Sum>(lid, l) \<leftarrow> g_lobbies g. length (l_peer_ids l))"

definition peers_in_game :: "gthread \<Rightarrow> nat" where
  "peers_in_game t = (\<Sum>(gid, g) \<leftarrow> games t. peers_in_lobbies g)"

definition disconnected_peers :: "gthread \<Rightarrow> nat" where
  "disconnected_peers t = (\<Sum>(gid, g) \<leftarrow> games t. length (g_disconnected_peers g))"

subsection \<open>The file of the day\<close>

definition stats_header :: string where
  "stats_header =
    ''timestamp,messages_received,messages_sent,total_users_count,peers_in_game,'' @
    ''disconnected_peers,anon_users,discord_users,steam_users,total_lobbies_count'' @ [CHR 0x0A]"

definition stats_row :: "gthread \<Rightarrow> string" where
  "stats_row t =
    join (map int_text [sint (now t), sint (messages_received t), sint (messages_sent t),
      int (total_users_count t), int (peers_in_game t), int (disconnected_peers t),
      int (count_platform ''anon'' t), int (count_platform ''discord'' t),
      int (count_platform ''steam'' t), int (total_lobbies_count t)]) @ [CHR 0x0A]"

definition stats_interval :: int where
  "stats_interval = 10000"

text \<open>\<open>old\<close> is what the file holds, \<open>None\<close> if there is none; the header goes into an empty file.\<close>

definition stats_file :: "gthread \<Rightarrow> string option \<Rightarrow> string" where
  "stats_file t old =
    (let content = (case old of None \<Rightarrow> [] | Some s \<Rightarrow> s)
     in (if content = [] then stats_header else content) @ stats_row t)"

text \<open>The block as a whole: the time of the last line, the file, and the thread.\<close>

definition handle_stats ::
  "bool \<Rightarrow> i64 \<times> string option \<times> gthread \<Rightarrow> i64 \<times> string option \<times> gthread" where
  "handle_stats verbose s =
    (case s of (last_stats, old, t) \<Rightarrow>
       if sint (last_stats + word_of_int stats_interval) < sint (now t) \<and> verbose
       then (now t, Some (stats_file t old), t\<lparr>messages_received := 0, messages_sent := 0\<rparr>)
       else s)"

subsection \<open>Nobody is counted twice\<close>

lemma members_disjoint:
  assumes "\<And>lid l k. (lid, l) \<in> set ls \<Longrightarrow> k \<in> set (l_peer_ids l) \<Longrightarrow> f k = lid \<and> k \<in> P"
    and "distinct (map fst ls)" "\<And>lid l. (lid, l) \<in> set ls \<Longrightarrow> distinct (l_peer_ids l)"
  shows "(\<Sum>(lid, l) \<leftarrow> ls. length (l_peer_ids l)) = card (\<Union>(lid, l) \<in> set ls. set (l_peer_ids l))"
  using assms
proof (induction ls)
  case (Cons e ls)
  obtain lid l where e: "e = (lid, l)" by (cases e)
  have "set (l_peer_ids l) \<inter> (\<Union>(lid, l) \<in> set ls. set (l_peer_ids l)) = {}"
  proof (rule ccontr)
    assume "set (l_peer_ids l) \<inter> (\<Union>(lid, l) \<in> set ls. set (l_peer_ids l)) \<noteq> {}"
    then obtain k j m where k: "k \<in> set (l_peer_ids l)" "(j, m) \<in> set ls" "k \<in> set (l_peer_ids m)" by auto
    then have "f k = lid" "f k = j" using Cons.prems(1) [of lid l k] Cons.prems(1) [of j m k] e by auto
    then show False using Cons.prems(2) k(2) e by force
  qed
  moreover have "(\<Sum>(lid, l) \<leftarrow> ls. length (l_peer_ids l)) = card (\<Union>(lid, l) \<in> set ls. set (l_peer_ids l))"
  proof (rule Cons.IH)
    show "f k = lid \<and> k \<in> P" if "(lid, l) \<in> set ls" "k \<in> set (l_peer_ids l)" for lid l k
      using Cons.prems(1) [of lid l k] that by simp
    show "distinct (l_peer_ids l)" if "(lid, l) \<in> set ls" for lid l
      using Cons.prems(3) [of lid l] that by simp
  qed (use Cons.prems(2) in simp)
  moreover have "length (l_peer_ids l) = card (set (l_peer_ids l))"
    using Cons.prems(3) [of lid l] e by (simp add: distinct_card)
  ultimately show ?case
    by (simp add: e card_Un_disjoint case_prod_beta')
qed simp

lemma players_bounded:
  assumes "sound E c"
  shows "peers_in_lobbies (game c) \<le> length (g_peers (game c))"
proof -
  let ?ls = "g_lobbies (game c)" and ?P = "fst ` set (g_peers (game c))"
  have wf: "fm_wf (g_peers (game c))" "fm_wf ?ls" using sound_wf [OF assms] by (simp_all add: wf_game_def)
  have at: "lobby_at c lid = l" "map_of ?ls lid = Some l" if "(lid, l) \<in> set ?ls" for lid l
    using that fm_wf_distinct [OF wf(2)] by (simp_all add: lobby_at_def)
  have member: "p_lobby_id (peer_at c k) = lid \<and> k \<in> ?P" if "(lid, l) \<in> set ?ls" "k \<in> set (l_peer_ids l)" for lid l k
    using sound_member(1,2) [OF assms, of k lid] that at [OF that(1)] by (simp add: has_peer_def fm_has_iff)
  have "peers_in_lobbies (game c) = card (\<Union>(lid, l) \<in> set ?ls. set (l_peer_ids l))"
    unfolding peers_in_lobbies_def
  proof (rule members_disjoint [where f = "\<lambda>k. p_lobby_id (peer_at c k)" and P = ?P])
    show "distinct (l_peer_ids l)" if "(lid, l) \<in> set ?ls" for lid l
      using sound_wf_lobby [OF assms at(2) [OF that]] by (auto simp: wf_lobby_def intro: fs_wf_distinct)
  qed (use member fm_wf_distinct [OF wf(2)] in auto)
  also have "\<dots> \<le> card ?P"
    using member by (intro card_mono) auto
  also have "\<dots> \<le> length (g_peers (game c))"
    by (metis card_image_le card_length finite_set order.trans)
  finally show ?thesis .
qed

end
