(* ===== verification/Thread_Effects.thy ===== *)
theory Thread_Effects
  imports Moves_Effects Values
begin

text \<open>
  The text filter of the chat, the clock, the message loop, batching, the sweep over disconnected
  peers and the flush of a script's changes: what each does as a whole.
\<close>

subsection \<open>Stripping markup\<close>

lemma strip_open: "after_close s = None \<Longrightarrow> after_close (strip_BBCode s) = None"
  by (induction s) (auto split: if_splits)

lemma strip_no_tag: "strip_BBCode s = u @ CHR ''['' # v \<Longrightarrow> after_close v = None"
proof (induction s arbitrary: u rule: strip_BBCode.induct)
  case (2 ch s)
  show ?case
  proof (cases "ch = CHR ''[''")
    case True
    show ?thesis
    proof (cases "after_close s")
      case None
      then have eq: "ch # strip_BBCode s = u @ CHR ''['' # v" using 2 True by simp
      show ?thesis
      proof (cases u)
        case Nil
        then show ?thesis using eq strip_open [OF None] by simp
      next
        case (Cons x u')
        then have "strip_BBCode s = u' @ CHR ''['' # v" using eq by simp
        then show ?thesis using 2 True None by blast
      qed
    next
      case (Some r)
      then show ?thesis using 2 True by simp
    qed
  next
    case False
    then obtain u' where "u = ch # u'" "strip_BBCode s = u' @ CHR ''['' # v"
      using 2 by (cases u) auto
    then show ?thesis using 2 False by blast
  qed
qed simp

lemma strip_id: "(\<And>u v. s = u @ CHR ''['' # v \<Longrightarrow> after_close v = None) \<Longrightarrow> strip_BBCode s = s"
proof (induction s)
  case (Cons ch s)
  have "strip_BBCode s = s"
    using Cons.prems by (intro Cons.IH) (metis append_Cons)
  moreover have "after_close s = None" if "ch = CHR ''[''"
    using Cons.prems [of "[]"] that by simp
  ultimately show ?case by simp
qed simp

lemma after_close_subset: "after_close s = Some r \<Longrightarrow> set r \<subseteq> set s"
  by (induction s) (auto split: if_splits)

lemma strip_subset: "set (strip_BBCode s) \<subseteq> set s \<and> length (strip_BBCode s) \<le> length s"
proof (induction s rule: strip_BBCode.induct)
  case (2 ch s)
  show ?case
  proof (cases "ch = CHR ''['' \<and> after_close s \<noteq> None")
    case True
    then obtain r where r: "after_close s = Some r" by auto
    then show ?thesis
      using True 2 after_close_subset [OF r] after_close_length [OF r] by auto
  next
    case False
    then have "strip_BBCode (ch # s) = ch # strip_BBCode s" by auto
    moreover have "set (strip_BBCode s) \<subseteq> set s \<and> length (strip_BBCode s) \<le> length s"
      using False 2 by (cases "ch = CHR ''[''") auto
    ultimately show ?thesis by auto
  qed
qed simp

subsection \<open>The clock\<close>

lemma next_tick_bounds:
  assumes "0 \<le> t" "0 < check"
  shows "t \<le> next_tick_ms t check" "2 * next_tick_ms t check \<le> 2 * t + check"
    "t smod check < check - 1 \<Longrightarrow> t < next_tick_ms t check"
proof -
  have r: "t smod check = t mod check" "0 \<le> t mod check" "t mod check < check"
    using assms by (cases "t = 0"; simp add: signed_modulo_int_def)+
  have d: "check sdiv 2 = check div 2" "(t mod check) sdiv 2 = (t mod check) div 2"
    using assms r by (cases "check = 0"; cases "t mod check = 0"; simp add: signed_divide_int_def sgn_if)+
  define m where "m = t mod check"
  have tick: "next_tick_ms t check = t + (check div 2 - m div 2)"
    unfolding next_tick_ms_def r(1) d m_def ..
  have m: "0 \<le> m" "m < check" using r(2,3) by (simp_all add: m_def)
  show "t \<le> next_tick_ms t check" "2 * next_tick_ms t check \<le> 2 * t + check"
    unfolding tick using m by presburger+
  show "t < next_tick_ms t check" if "t smod check < check - 1"
    using that m unfolding tick r(1) m_def [symmetric] by presburger
qed


subsection \<open>The message loop\<close>

definition serve :: "env \<Rightarrow> ws_message \<Rightarrow> gthread \<Rightarrow> gthread" where
  "serve E m t = in_game (m_game_id m) (handle_event E m)
     (t\<lparr>messages_received := messages_received t + 1,
        games := fm_emplace (m_game_id m) (new_game (m_game_id m) ''relay'') (games t)\<rparr>)"

lemma in_game_queue: "in_game gid f (t\<lparr>receive_queue := q\<rparr>) = (in_game gid f t)\<lparr>receive_queue := q\<rparr>"
  by (auto simp: in_game_def leave_game_def enter_game_def split: option.split)

lemma receive_queue_in_game [simp]: "receive_queue (in_game gid f t) = receive_queue t"
  by (auto simp: in_game_def leave_game_def split: option.split)

lemma handle_events_serve:
  "receive_queue t = m # ms \<Longrightarrow> handle_events E t = (True, (serve E m t)\<lparr>receive_queue := ms\<rparr>)"
  by (simp add: handle_events_def serve_def Let_def in_game_queue [symmetric])
     (rule arg_cong [where f = "in_game _ _"], simp)

lemma serve_queue: "serve E m (t\<lparr>receive_queue := q\<rparr>) = (serve E m t)\<lparr>receive_queue := q\<rparr>"
  unfolding serve_def in_game_queue [symmetric] by (rule arg_cong [where f = "in_game _ _"]) simp

lemma serves_queue: "fold (serve E) ms (t\<lparr>receive_queue := q\<rparr>) = (fold (serve E) ms t)\<lparr>receive_queue := q\<rparr>"
  by (induction ms arbitrary: t) (simp_all add: serve_queue)

lemma process_messages_fold:
  "process_messages E n t = (fold (serve E) (take n (receive_queue t)) t)\<lparr>receive_queue := drop n (receive_queue t)\<rparr>"
proof (induction n arbitrary: t)
  case 0
  then show ?case by simp
next
  case (Suc n)
  show ?case
  proof (cases "receive_queue t")
    case Nil
    then show ?thesis by (simp add: handle_events_def)
  next
    case (Cons m ms)
    then show ?thesis
      by (simp add: handle_events_serve Suc serves_queue)
  qed
qed

lemma serve_other: "k \<noteq> m_game_id m \<Longrightarrow> map_of (games (serve E m t)) k = map_of (games t) k"
  by (auto simp: serve_def in_game_def leave_game_def map_of_fm_emplace split: option.split)

lemma messages_received_in_game [simp]: "messages_received (in_game gid f t) = messages_received t"
  by (auto simp: in_game_def leave_game_def split: option.split)

lemma serves_count: "messages_received (fold (serve E) ms t) = messages_received t + of_nat (length ms)"
  by (induction ms arbitrary: t) (simp_all add: serve_def ac_simps)

lemma serves_other:
  "k \<notin> m_game_id ` set ms \<Longrightarrow> map_of (games (fold (serve E) ms t)) k = map_of (games t) k"
  by (induction ms arbitrary: t) (simp_all add: serve_other)

subsection \<open>Batches\<close>

text \<open>What happens to the outgoing messages of a game: texts are sent, and now and then a batch is due.\<close>

datatype net_step = Put string string | Batch i64

fun net_run :: "net_step \<Rightarrow> ctx \<Rightarrow> ctx" where
  "net_run (Put p m) c = send p m OpText c"
| "net_run (Batch t) c = send_game (c\<lparr>now := t\<rparr>)"

fun put_texts :: "string \<Rightarrow> net_step \<Rightarrow> string list" where
  "put_texts q (Put p m) = (if p = q then [m] else [])"
| "put_texts q (Batch t) = []"

lemma now_reads: "stream q (c\<lparr>now := t\<rparr>) = stream q c" "direct (c\<lparr>now := t\<rparr>) = direct c"
  "online (c\<lparr>now := t\<rparr>) = online c"
  by (simp_all add: stream_def direct_def online_def fun_eq_iff)

lemma online_send_game: "online (send_game c) = online c"
  by (simp add: online_def send_game_def Let_def fun_eq_iff)

lemma net_runs:
  "direct c \<Longrightarrow> stream q (fold net_run sts c) =
     stream q c @ (if online c q then concat (map (put_texts q) sts) else [])"
proof (induction sts arbitrary: c)
  case (Cons st sts)
  show ?case
  proof (cases st)
    case (Put p m)
    have "direct (send p m OpText c)" using Cons.prems by (rule net.ok_put)
    then show ?thesis
      using Cons Put by (simp add: stream_send net.up_put)
  next
    case (Batch t)
    have "direct (send_game (c\<lparr>now := t\<rparr>))" using Cons.prems by (simp add: direct_send_game now_reads)
    then show ?thesis
      using Cons.IH Batch by (simp add: stream_send_game online_send_game now_reads)
  qed
qed simp

subsection \<open>Disconnected peers\<close>

lemma disconnect_steps_erase:
  "set (fst (fold (disconnect_step E m) ks s)) \<subseteq> set (fst s) \<union> fst ` set ks"
proof (induction ks arbitrary: s)
  case (Cons kt ks)
  have "set (fst (disconnect_step E m kt s)) \<subseteq> insert (fst kt) (set (fst s))"
    by (auto simp: disconnect_step_def Let_def split: prod.split)
  then show ?case using Cons.IH [of "disconnect_step E m kt s"] by auto
qed simp

lemma erase_all_peers:
  "map_of (g_peers (game (fold (\<lambda>k. upd_game (\<lambda>g. g\<lparr>
      g_disconnected_peers := fm_erase k (g_disconnected_peers g),
      g_peers := fm_erase k (g_peers g),
      g_lobby_listing_peers := fs_erase k (g_lobby_listing_peers g)\<rparr>)) ks c))) j =
    (if j \<in> set ks then None else map_of (g_peers (game c)) j)"
  by (induction ks arbitrary: c) auto

text \<open>No operation of a script, and no removal from a lobby, takes a peer's record away.\<close>

definition keeps_records :: "ctx \<Rightarrow> ctx \<Rightarrow> bool" where
  "keeps_records c0 c \<longleftrightarrow> (\<forall>k. has_peer c0 k \<longrightarrow> has_peer c k)"

lemma keeps_records_has: "keeps_records c0 c \<Longrightarrow> (\<And>k. has_peer c k \<Longrightarrow> has_peer c' k) \<Longrightarrow> keeps_records c0 c'"
  by (simp add: keeps_records_def)

lemma has_peer_upd [simp]: "(\<And>g. g_peers (f g) = g_peers g) \<Longrightarrow> has_peer (upd_game f c) k = has_peer c k"
  by (simp add: has_peer_def)

lemma has_peer_touch_lobby [simp]: "has_peer (touch_lobby j c) k = has_peer c k"
  by (simp add: touch_lobby_def)

interpretation records: kept keeps_records
proof
  show "keeps_records c0 c'" if "keeps_records c0 c" "same_links c c'" for c0 c c'
    using that by (simp add: keeps_records_def same_links_def has_peer_def)
qed (auto elim!: keeps_records_has)

interpretation records: kept_detach keeps_records
proof
  show "keeps_records c0 (detach_peer h lid pid c)" if "keeps_records c0 c" for c0 c h lid pid
    unfolding detach_peer_def Let_def using that by (auto elim!: keeps_records_has)
qed

lemma disconnect_steps_records:
  "keeps_records c0 (snd s) \<Longrightarrow> keeps_records c0 (snd (fold (disconnect_step E m) ks s))"
proof (induction ks arbitrary: s)
  case (Cons kt ks)
  obtain k t e c where "kt = (k, t)" "s = (e, c)" by (cases kt; cases s)
  then have "keeps_records c0 (snd (disconnect_step E m kt s))"
    using Cons.prems
    by (auto simp: disconnect_step_def Let_def
        intro: records.remove records.call_script records.set_leave)
  then show ?case using Cons.IH by simp
qed simp

lemma disconnect_keeps:
  assumes "has_peer c k" "\<not> fm_has k (g_disconnected_peers (game c))"
  shows "has_peer (disconnect_game E m c) k"
proof -
  obtain e c1 where r: "fold (disconnect_step E m) (g_disconnected_peers (game c)) ([], c) = (e, c1)"
    by (cases "fold (disconnect_step E m) (g_disconnected_peers (game c)) ([], c)")
  have "k \<notin> set e"
    using disconnect_steps_erase [of E m "g_disconnected_peers (game c)" "([], c)"] assms(2)
    by (auto simp: r fm_has_iff)
  moreover have "has_peer c1 k"
    using disconnect_steps_records [of c "([], c)" E m "g_disconnected_peers (game c)"] assms(1)
    by (simp add: r keeps_records_def)
  ultimately show ?thesis
    by (simp add: disconnect_game_def r Let_def has_peer_def fm_has_def erase_all_peers)
qed

end
