(* ===== verification/Web_Effects.thy ===== *)
theory Web_Effects
  imports Web_Server Delivery
begin

text \<open>
  What the web server does as a whole: no connection record ever points to a closed socket
  (\<open>live\<close>, \<open>web_step\<close>), a reconnection hands the old id over, the rate limit bounds what a socket
  gets through in any second, and what the game thread defers reaches the socket of the peer it is
  meant for, in order. The web server's sockets are a second instance of the locale \<open>channel\<close>.
\<close>

subsection \<open>Maps and outputs\<close>

lemma fm_put_twice [simp]: "fm_put k v (fm_put k u m) = fm_put k v m"
  by (induction k u m rule: fm_put.induct) auto

lemma web_fields [simp]:
  "connection_data (put_socket s d w) = connection_data w" "open_sockets (put_socket s d w) = open_sockets w"
  "sockets (put_socket s d w) = (sockets w)(s := d)" "outbox (put_socket s d w) = outbox w"
  "web_queue (put_socket s d w) = web_queue w" "max_messages_per_second (put_socket s d w) = max_messages_per_second w"
  "connection_data (enqueue m w) = connection_data w" "open_sockets (enqueue m w) = open_sockets w"
  "sockets (enqueue m w) = sockets w" "outbox (enqueue m w) = outbox w"
  "max_messages_per_second (enqueue m w) = max_messages_per_second w"
  "web_queue (enqueue m w) = web_queue w @ [m]"
  "connection_data (ws_send s x w) = connection_data w" "open_sockets (ws_send s x w) = open_sockets w"
  "sockets (ws_send s x w) = sockets w" "web_queue (ws_send s x w) = web_queue w"
  "max_messages_per_second (ws_send s x w) = max_messages_per_second w"
  by (simp_all add: put_socket_def enqueue_def ws_send_def)

lemma closed_fields [simp]:
  "open_sockets (closed s m w) = filter (\<lambda>j. j \<noteq> s) (open_sockets w)"
  "sockets (closed s m w) = sockets w" "outbox (closed s m w) = outbox w"
  "reconnections (closed s m w) = reconnections w"
  "connected_users (closed s m w) = connected_users w - 1"
  "max_messages_per_second (closed s m w) = max_messages_per_second w"
  "web_queue (closed s m w) = web_queue w @ [web_message (sockets w s) CLOSE m]"
  by (simp_all add: closed_def web_on_close_def Let_def enqueue_def split: option.split)

lemma connection_data_closed:
  "connection_data (closed s m w) = (let d = sockets w s in
     case map_of (connection_data w) (s_id d) of None \<Rightarrow> connection_data w
     | Some k \<Rightarrow> if s_reconnection_token d = k_reconnection_token k \<and> k_ws k = Some s
         then fm_put (s_id d) (k\<lparr>k_ws := None\<rparr>) (connection_data w) else connection_data w)"
  by (simp add: closed_def web_on_close_def Let_def enqueue_def split: option.split)

subsection \<open>No dangling sockets\<close>

definition live :: "web \<Rightarrow> bool" where
  "live w \<longleftrightarrow> (\<forall>pid k s. map_of (connection_data w) pid = Some k \<longrightarrow> k_ws k = Some s \<longrightarrow>
     s \<in> set (open_sockets w) \<and> s_id (sockets w s) = pid \<and>
     s_reconnection_token (sockets w s) = k_reconnection_token k)"

lemma liveD:
  "live w \<Longrightarrow> map_of (connection_data w) pid = Some k \<Longrightarrow> k_ws k = Some s \<Longrightarrow>
     s \<in> set (open_sockets w) \<and> s_id (sockets w s) = pid \<and>
     s_reconnection_token (sockets w s) = k_reconnection_token k"
  by (simp add: live_def)

definition unused :: "nat \<Rightarrow> web \<Rightarrow> bool" where
  "unused s w \<longleftrightarrow> (\<forall>pid k. map_of (connection_data w) pid = Some k \<longrightarrow> k_ws k \<noteq> Some s)"

lemma live_unused: "live w \<Longrightarrow> s \<notin> set (open_sockets w) \<Longrightarrow> unused s w"
  by (auto simp: live_def unused_def)

lemma closed_refers:
  assumes "map_of (connection_data (closed s m w)) pid = Some k" "k_ws k = Some j"
  shows "map_of (connection_data w) pid = Some k \<and>
    (j = s \<longrightarrow> \<not> (pid = s_id (sockets w s) \<and> s_reconnection_token (sockets w s) = k_reconnection_token k))"
proof (cases "map_of (connection_data w) (s_id (sockets w s))")
  case None
  then show ?thesis using assms unfolding connection_data_closed Let_def by (simp, metis option.distinct(1))
next
  case (Some a)
  let ?hit = "s_reconnection_token (sockets w s) = k_reconnection_token a \<and> k_ws a = Some s"
  have cd: "connection_data (closed s m w) = (if ?hit then fm_put (s_id (sockets w s)) (a\<lparr>k_ws := None\<rparr>) (connection_data w)
      else connection_data w)"
    unfolding connection_data_closed Let_def Some by simp
  have off: "k_ws (a\<lparr>k_ws := None\<rparr>) = None" by simp
  show ?thesis
  proof (cases "pid = s_id (sockets w s)")
    case True
    then have "\<not> ?hit" using assms off unfolding cd by (metis fun_upd_same map_of_fm_put option.distinct(1) option.inject)
    then show ?thesis using assms Some True unfolding cd by auto
  next
    case False
    then show ?thesis using assms unfolding cd by (simp split: if_splits)
  qed
qed

lemma live_closed:
  assumes "live w"
  shows "live (closed s m w)"
proof -
  have "j \<in> set (open_sockets (closed s m w)) \<and> s_id (sockets w j) = pid \<and>
      s_reconnection_token (sockets w j) = k_reconnection_token k"
    if "map_of (connection_data (closed s m w)) pid = Some k" "k_ws k = Some j" for pid k j
    using closed_refers [OF that] liveD [OF assms _ that(2)] by auto
  then show ?thesis by (simp add: live_def)
qed

lemma live_same:
  "live w \<Longrightarrow> connection_data w' = connection_data w \<Longrightarrow> open_sockets w' = open_sockets w \<Longrightarrow>
   sockets w' = sockets w \<Longrightarrow> live w'"
  by (simp add: live_def)

lemma live_clear_ws: "live w \<Longrightarrow> live (clear_ws pid w)"
  by (auto simp: live_def clear_ws_def split: option.split)

lemma live_ws_end: "live w \<Longrightarrow> live (ws_end s c m w)"
  unfolding ws_end_def by (intro live_closed) (erule live_same; simp)

lemma live_web_send: "live w \<Longrightarrow> live (web_send pid m op w)"
  unfolding web_send_def by (auto intro: live_clear_ws live_ws_end live_same split: option.split)

lemma live_clear_user: "live w \<Longrightarrow> live (clear_user pid w)"
proof -
  assume "live w"
  then have "live (web_send pid ''ERROR_SERVER_FAILED_TO_RECONNECT'' OpClose w)" by (rule live_web_send)
  then show ?thesis by (auto simp: clear_user_def Let_def live_def split: option.split)
qed

lemma live_deliver: "live w \<Longrightarrow> live (deliver d w)"
proof (cases d)
  case (DBatch b)
  have "live w \<Longrightarrow> live (fold (\<lambda>(pid, ms) w. if ms = [] then w else web_send pid (batch_frame ms) OpText w) b w)" for w
    by (induction b arbitrary: w) (auto simp: live_web_send)
  then show "live w \<Longrightarrow> ?thesis" by (simp add: deliver_def DBatch)
next
  case (DClear users)
  have "live w \<Longrightarrow> live (fold clear_user us w)" for us w
    by (induction us arbitrary: w) (auto simp: live_clear_user)
  then show "live w \<Longrightarrow> ?thesis" by (simp add: deliver_def DClear clear_users_def)
qed (simp add: deliver_def live_web_send)

text \<open>A socket nobody refers to may change its data, and stays unreferenced under sends.\<close>

lemma live_put_socket: "live w \<Longrightarrow> unused s w \<Longrightarrow> live (put_socket s d w)"
  by (auto simp: live_def unused_def)

lemma unused_same: "unused s w \<Longrightarrow> connection_data w' = connection_data w \<Longrightarrow> unused s w'"
  by (simp add: unused_def)

lemma unused_closed: "unused s w \<Longrightarrow> unused s (closed j m w)"
  unfolding unused_def using closed_refers by blast

lemma unused_web_send: "unused s w \<Longrightarrow> unused s (web_send pid m op w)"
proof -
  assume u: "unused s w"
  have "unused s (ws_end j 1002 m w)" for j
    unfolding ws_end_def by (intro unused_closed) (rule unused_same [OF u], simp)
  moreover have "unused s (clear_ws pid v)" if "unused s v" for v
    using that by (auto simp: unused_def clear_ws_def split: option.split)
  ultimately show ?thesis
    using u unfolding web_send_def by (auto intro: unused_same split: option.split)
qed

lemma open_sockets_web_send:
  "live w \<Longrightarrow> unused s w \<Longrightarrow> s \<in> set (open_sockets w) \<Longrightarrow> s \<in> set (open_sockets (web_send pid m op w))"
  by (auto simp: web_send_def ws_end_def clear_ws_def unused_def split: option.split)

lemma live_reconnect:
  assumes "live w" "unused s w" "s \<in> set (open_sockets w)" "reconnect t s w = (e, w')"
  shows "live w' \<and> unused s w' \<and> s \<in> set (open_sockets w')"
proof -
  let ?sent = "\<lambda>pid. web_send pid ''ERROR_SERVER_RECONNECT_CLOSE'' OpClose w"
  have sent: "live (?sent pid) \<and> unused s (?sent pid) \<and> s \<in> set (open_sockets (?sent pid))" for pid
    using assms(1-3) live_web_send unused_web_send open_sockets_web_send by blast
  have taken: "live v \<and> unused s v \<and> s \<in> set (open_sockets v)"
    if "v = (put_socket s d (?sent pid))\<lparr>reconnections := rs\<rparr>" for v d pid rs
    using live_put_socket [of "?sent pid" s d] sent [of pid] that
    by (auto intro: live_same unused_same)
  have tokens: "live (w\<lparr>reconnections := rs\<rparr>) \<and> unused s (w\<lparr>reconnections := rs\<rparr>)" for rs
    using assms(1,2) by (auto intro: live_same unused_same)
  show ?thesis
    using assms tokens taken [OF refl]
    by (auto simp: reconnect_def Let_def split: option.splits if_splits)
qed

lemma live_register:
  "live w \<Longrightarrow> unused s w \<Longrightarrow> s \<in> set (open_sockets w) \<Longrightarrow> live (register t s w)"
  by (auto simp: register_def Let_def live_def enqueue_def unused_def)

lemma live_on_open:
  assumes "live w" "unused s w" "s \<in> set (open_sockets w)"
  shows "live (web_on_open gen t s w)"
proof -
  obtain e w' where r: "reconnect t s w = (e, w')" by (cases "reconnect t s w")
  note w' = live_reconnect [OF assms r]
  show ?thesis
  proof (cases e)
    case None
    let ?d = "settle_token (gen (web_uuids w')) (sockets w' s)"
    let ?v = "put_socket s ?d (w'\<lparr>web_uuids := web_uuids w' + 1\<rparr>)"
    have "live (put_socket s ?d w')" using w' live_put_socket by blast
    then have "live ?v" "unused s ?v" "s \<in> set (open_sockets ?v)"
      using w' by (auto intro: live_same unused_same)
    then show ?thesis using r None by (simp add: web_on_open_def live_register)
  next
    case (Some err)
    then show ?thesis using r w' by (simp add: web_on_open_def live_ws_end)
  qed
qed

lemma live_on_message: "live w \<Longrightarrow> live (on_message t room s m w)"
proof -
  assume "live w"
  then have "live (put_socket s (count_message t (sockets w s)) w)"
    by (auto simp: live_def count_message_def)
  then show ?thesis
    by (auto simp: on_message_def Let_def intro: live_web_send live_same)
qed

text \<open>
  One step: the library opens a socket it has not opened before, hands over a message, reports a
  close, or runs a callback of the game thread.
\<close>

inductive web_step :: "(nat \<Rightarrow> string) \<Rightarrow> web \<Rightarrow> web \<Rightarrow> bool" for gen where
  opens: "s \<notin> set (open_sockets w) \<Longrightarrow>
    web_step gen w (web_on_open gen t s (put_socket s d (w\<lparr>open_sockets := s # open_sockets w\<rparr>)))"
| says: "s \<in> set (open_sockets w) \<Longrightarrow> web_step gen w (on_message t room s m w)"
| leaves: "s \<in> set (open_sockets w) \<Longrightarrow> web_step gen w (closed s m w)"
| delivers: "web_step gen w (deliver d w)"

inductive web_reachable :: "(nat \<Rightarrow> string) \<Rightarrow> i32 \<Rightarrow> i32 \<Rightarrow> web \<Rightarrow> bool" for gen messages users where
  start: "web_reachable gen messages users (start_web messages users)"
| step: "web_reachable gen messages users w \<Longrightarrow> web_step gen w w' \<Longrightarrow> web_reachable gen messages users w'"

inductive_cases web_step_cases: "web_step gen w w'"

lemma live_step: "web_step gen w w' \<Longrightarrow> live w \<Longrightarrow> live w'"
proof (erule web_step_cases; clarify?)
  fix s t d
  assume w: "live w" and s: "s \<notin> set (open_sockets w)"
  let ?v = "put_socket s d (w\<lparr>open_sockets := s # open_sockets w\<rparr>)"
  have u: "unused s w" using live_unused [OF w s] .
  have "live ?v" using w u by (auto simp: live_def unused_def)
  moreover have "unused s ?v" using u by (rule unused_same) simp
  ultimately show "live (web_on_open gen t s ?v)" by (rule live_on_open) simp
qed (simp_all add: live_on_message live_closed live_deliver)

lemma web_reachable_live: "web_reachable gen messages users w \<Longrightarrow> live w"
  by (induction rule: web_reachable.induct) (auto simp: start_web_def live_def dest: live_step)

subsection \<open>Reconnecting\<close>

lemma web_send_close:
  assumes w: "live w" and k: "map_of (connection_data w) pid = Some k" "k_ws k = Some s"
  shows "connection_data (web_send pid m OpClose w) = fm_put pid (k\<lparr>k_ws := None\<rparr>) (connection_data w) \<and>
    web_queue (web_send pid m OpClose w) = web_queue w @ [web_message (sockets w s) CLOSE m] \<and>
    outbox (web_send pid m OpClose w) = outbox w @ [Ended s 1002 m] \<and>
    open_sockets (web_send pid m OpClose w) = filter (\<lambda>j. j \<noteq> s) (open_sockets w)"
proof -
  have d: "s_id (sockets w s) = pid" "s_reconnection_token (sockets w s) = k_reconnection_token k"
    using liveD [OF w k] by simp_all
  have cd: "connection_data (ws_end s 1002 m w) = fm_put pid (k\<lparr>k_ws := None\<rparr>) (connection_data w)"
    unfolding ws_end_def connection_data_closed Let_def by (simp add: k d)
  then have eq: "web_send pid m OpClose w = (ws_end s 1002 m w)\<lparr>connection_data :=
      fm_put pid (k\<lparr>k_ws := None\<rparr>) (connection_data w)\<rparr>"
    by (simp add: web_send_def k clear_ws_def cd)
  show ?thesis unfolding eq by (simp add: ws_end_def)
qed

lemma web_send_fields [simp]:
  "sockets (web_send pid m op w) = sockets w" "reconnections (web_send pid m op w) = reconnections w"
  "max_messages_per_second (web_send pid m op w) = max_messages_per_second w"
  by (simp_all add: web_send_def clear_ws_def ws_end_def ws_send_def split: option.split)

lemma web_send_queue:
  "filter (\<lambda>x. m_event x = MESSAGE) (web_queue (web_send pid m op w)) = filter (\<lambda>x. m_event x = MESSAGE) (web_queue w)"
  by (simp add: web_send_def clear_ws_def ws_end_def web_message_def split: option.split)

definition token_key :: "per_socket_data \<Rightarrow> string" where
  "token_key d = s_game_id d @ s_reconnection_token d"

text \<open>The connection a new socket takes over, if its token gives it one.\<close>

definition takes_over :: "i64 \<Rightarrow> per_socket_data \<Rightarrow> web \<Rightarrow> reconnection \<Rightarrow> connection \<Rightarrow> bool" where
  "takes_over t d w r k \<longleftrightarrow> s_reconnection_token d \<noteq> [] \<and>
     map_of (reconnections w) (token_key d) = Some r \<and>
     \<not> sint (r_timestamp r) < sint (t - to_i64 MAX_RECONNECTION_TIME) \<and>
     map_of (connection_data w) (r_peer_id r) = Some k \<and> k_game_id k = s_game_id d"

lemma open_takes_over:
  assumes w: "live w" and d: "sockets w s = d" "s_platform d = ''anon''" and new: "takes_over t d w r k"
    and w': "w' = web_on_open gen t s w"
  shows "map_of (connection_data w') (r_peer_id r) = Some \<lparr>k_id = r_peer_id r, k_game_id = s_game_id d,
      k_reconnection_token = s_reconnection_token d, k_ws = Some s\<rparr> \<and>
    s_id (sockets w' s) = r_peer_id r \<and>
    map_of (reconnections w') (token_key d) = Some \<lparr>r_peer_id = r_peer_id r, r_timestamp = t\<rparr> \<and>
    map (\<lambda>m. (m_event m, m_id m)) (web_queue w') = map (\<lambda>m. (m_event m, m_id m)) (web_queue w) @
      (if k_ws k = None then [] else [(CLOSE, r_peer_id r)]) @ [(OPEN, r_peer_id r)] \<and>
    outbox w' = outbox w @ (case k_ws k of None \<Rightarrow> []
      | Some j \<Rightarrow> [Ended j 1002 ''ERROR_SERVER_RECONNECT_CLOSE''])"
proof -
  define w1 where "w1 = web_send (r_peer_id r) ''ERROR_SERVER_RECONNECT_CLOSE'' OpClose w"
  have n: "s_reconnection_token d \<noteq> []" "map_of (reconnections w) (s_game_id d @ s_reconnection_token d) = Some r"
    "\<not> sint (r_timestamp r) < sint (t - to_i64 MAX_RECONNECTION_TIME)"
    "map_of (connection_data w) (r_peer_id r) = Some k" "k_game_id k = s_game_id d"
    using new by (simp_all add: takes_over_def token_key_def)
  have rec: "reconnect t s w = (None, (put_socket s (d\<lparr>s_id := r_peer_id r\<rparr>) w1)
      \<lparr>reconnections := fm_erase (s_game_id d @ s_reconnection_token d) (reconnections w)\<rparr>)"
    unfolding reconnect_def Let_def d(1) using n by (simp add: w1_def put_socket_def)
  have q: "map (\<lambda>m. (m_event m, m_id m)) (web_queue w1) = map (\<lambda>m. (m_event m, m_id m)) (web_queue w) @
      (if k_ws k = None then [] else [(CLOSE, r_peer_id r)]) \<and>
    outbox w1 = outbox w @ (case k_ws k of None \<Rightarrow> [] | Some j \<Rightarrow> [Ended j 1002 ''ERROR_SERVER_RECONNECT_CLOSE''])"
  proof (cases "k_ws k")
    case None
    then show ?thesis by (simp add: w1_def web_send_def n)
  next
    case (Some j)
    show ?thesis
      using web_send_close [OF w n(4) Some, of "''ERROR_SERVER_RECONNECT_CLOSE''"] liveD [OF w n(4) Some] Some
      by (simp add: w1_def web_message_def)
  qed
  have "map_of (fm_emplace key v (fm_erase key m)) key = Some v" for key and v :: reconnection and m
    by (simp add: map_of_fm_emplace fm_has_def)
  then show ?thesis
    unfolding w' web_on_open_def rec token_key_def using q n d(2)
    by (simp add: register_def Let_def settle_token_def enqueue_def put_socket_def web_message_def)
qed

lemma unused_closed_data: "unused s w \<Longrightarrow> connection_data (closed s m w) = connection_data w"
  unfolding connection_data_closed Let_def unused_def
  by (cases "map_of (connection_data w) (s_id (sockets w s))") auto

text \<open>A token that is too old: the new socket is closed again, and counted as a user that left.\<close>

lemma open_expired:
  assumes u: "unused s w" and d: "sockets w s = d" "s_reconnection_token d \<noteq> []"
    and r: "map_of (reconnections w) (token_key d) = Some r"
      "sint (r_timestamp r) < sint (t - to_i64 MAX_RECONNECTION_TIME)"
    and w': "w' = web_on_open gen t s w"
  shows "connection_data w' = connection_data w \<and>
    outbox w' = outbox w @ [Ended s 1002 ''ERROR_SERVER_RECONNECT_EXPIRED''] \<and>
    reconnections w' = fm_erase (token_key d) (reconnections w) \<and>
    connected_users w' = connected_users w - 1 \<and>
    web_queue w' = web_queue w @ [web_message d CLOSE ''ERROR_SERVER_RECONNECT_EXPIRED'']"
proof -
  have rec: "reconnect t s w = (Some ''ERROR_SERVER_RECONNECT_EXPIRED'',
      w\<lparr>reconnections := fm_erase (token_key d) (reconnections w)\<rparr>)"
    unfolding reconnect_def Let_def d(1) using d(2) r by (simp add: token_key_def)
  define v where "v = w\<lparr>reconnections := fm_erase (token_key d) (reconnections w),
      outbox := outbox w @ [Ended s 1002 ''ERROR_SERVER_RECONNECT_EXPIRED'']\<rparr>"
  have eq: "w' = closed s ''ERROR_SERVER_RECONNECT_EXPIRED'' v"
    unfolding w' web_on_open_def rec by (simp add: ws_end_def v_def)
  have "unused s v" using u by (rule unused_same) (simp add: v_def)
  then have "connection_data w' = connection_data w" by (simp add: eq unused_closed_data) (simp add: v_def)
  then show ?thesis using d(1) by (simp add: eq) (simp add: v_def)
qed

subsection \<open>Delivery\<close>

text \<open>The frames sent on the socket a peer has now.\<close>

definition frames_to :: "nat \<Rightarrow> web \<Rightarrow> string list" where
  "frames_to s w = concat (map (\<lambda>x. case x of Frame j m \<Rightarrow> if j = s then [m] else [] | Ended _ _ _ \<Rightarrow> []) (outbox w))"

definition socket_of :: "string \<Rightarrow> web \<Rightarrow> nat option" where
  "socket_of q w = (case map_of (connection_data w) q of None \<Rightarrow> None | Some k \<Rightarrow> k_ws k)"

definition frames :: "string \<Rightarrow> web \<Rightarrow> string list" where
  "frames q w = (case socket_of q w of None \<Rightarrow> [] | Some s \<Rightarrow> frames_to s w)"

lemma web_send_text:
  "web_send p m OpText w = (case socket_of p w of None \<Rightarrow> w | Some s \<Rightarrow> ws_send s m w)"
  by (simp add: web_send_def socket_of_def split: option.split)

lemma socket_of_same: "connection_data w' = connection_data w \<Longrightarrow> socket_of q w' = socket_of q w"
  by (simp add: socket_of_def)

lemma socket_of_id: "live w \<Longrightarrow> socket_of p w = Some s \<Longrightarrow> s_id (sockets w s) = p"
  by (auto simp: socket_of_def dest: liveD split: option.splits)

lemma socket_of_text: "socket_of q (web_send p m OpText w) = socket_of q w"
  unfolding web_send_text by (rule socket_of_same) (simp split: option.split)

interpretation web: channel frames "\<lambda>p m. web_send p m OpText" "\<lambda>w q. socket_of q w \<noteq> None" live
proof
  show "frames q (web_send p m OpText w) = frames q w @ (if q = p \<and> socket_of p w \<noteq> None then [m] else [])"
    if "live w" for q p m w
  proof (cases "socket_of p w")
    case None
    then show ?thesis by (simp add: web_send_text)
  next
    case (Some s)
    then have "web_send p m OpText w = ws_send s m w" by (simp add: web_send_text)
    moreover have "socket_of q (ws_send s m w) = socket_of q w" by (rule socket_of_same) simp
    moreover have "frames_to j (ws_send s m w) = frames_to j w @ (if s = j then [m] else [])" for j
      by (simp add: frames_to_def ws_send_def)
    moreover have "socket_of q w = Some s \<Longrightarrow> q = p"
      using socket_of_id [OF that] Some by metis
    ultimately show ?thesis
      using Some by (cases "socket_of q w") (auto simp: frames_def)
  qed
  show "(\<lambda>q. socket_of q (web_send p m OpText w) \<noteq> None) = (\<lambda>q. socket_of q w \<noteq> None)" for p m w
    by (simp add: socket_of_text)
qed (rule live_web_send)

text \<open>What a peer's socket gets of a deferred callback: the texts of \<open>stream\<close>, a batch as one frame.\<close>

definition frames_of :: "string \<Rightarrow> deferred \<Rightarrow> string list" where
  "frames_of q d =
    (case d of DBatch b \<Rightarrow> (if deferred_texts q d = [] then [] else [batch_frame (deferred_texts q d)])
     | _ \<Rightarrow> deferred_texts q d)"

definition only_texts :: "deferred \<Rightarrow> bool" where
  "only_texts d \<longleftrightarrow> (case d of DSend _ _ op \<Rightarrow> op = OpText | DBatch b \<Rightarrow> fm_wf b | DClear _ \<Rightarrow> False)"

lemma batch_frames:
  assumes "live w" "distinct (map fst b)"
  shows "frames q (fold (\<lambda>(p, ms) w. if ms = [] then w else web_send p (batch_frame ms) OpText w) b w) =
    frames q w @ (if socket_of q w = None then [] else
      case map_of b q of None \<Rightarrow> [] | Some ms \<Rightarrow> if ms = [] then [] else [batch_frame ms])"
  using assms
proof (induction b arbitrary: w)
  case (Cons e b)
  obtain p ms where e: "e = (p, ms)" by (cases e)
  have "map_of b p = None" using Cons.prems(2) e by (simp add: map_of_eq_None_iff)
  moreover have "live (web_send p (batch_frame ms) OpText w)" using Cons.prems(1) by (rule live_web_send)
  ultimately show ?case
    using Cons.IH [of "web_send p (batch_frame ms) OpText w"] Cons.IH [of w] Cons.prems
    by (auto simp: e web.inbox_put socket_of_text)
qed simp

lemma socket_of_batch:
  "socket_of q (fold (\<lambda>(p, ms) w. if ms = [] then w else web_send p (batch_frame ms) OpText w) b w) = socket_of q w"
  by (induction b arbitrary: w) (auto simp: socket_of_text)

lemma deliver_frames:
  assumes "live w" "only_texts d"
  shows "frames q (deliver d w) = frames q w @ (if socket_of q w = None then [] else frames_of q d) \<and>
    socket_of q (deliver d w) = socket_of q w"
proof (cases d)
  case (DSend p m op)
  then show ?thesis
    using assms by (auto simp: deliver_def only_texts_def frames_of_def deferred_texts_def web.inbox_put socket_of_text)
next
  case (DBatch b)
  have "distinct (map fst b)" using assms(2) DBatch by (simp add: only_texts_def fm_wf_distinct)
  then show ?thesis
    using batch_frames [OF assms(1), of b q] socket_of_batch [of q b w] DBatch
    by (auto simp: deliver_def frames_of_def deferred_texts_def split: option.split)
next
  case (DClear us)
  then show ?thesis using assms(2) by (simp add: only_texts_def)
qed

lemma delivers_frames:
  "live w \<Longrightarrow> \<forall>d \<in> set ds. only_texts d \<Longrightarrow> frames q (fold deliver ds w) =
    frames q w @ (if socket_of q w = None then [] else concat (map (frames_of q) ds))"
proof (induction ds arbitrary: w)
  case (Cons d ds)
  then show ?case
    using Cons.IH [OF live_deliver [OF Cons.prems(1), of d]] deliver_frames [OF Cons.prems(1), of d q] by simp
qed simp

subsection \<open>The rate limit\<close>

lemma sint_elapsed:
  fixes a b :: i64
  assumes "0 \<le> sint a" "0 \<le> sint b"
  shows "sint (a - b) = sint a - sint b"
proof -
  have "sint a < 2 ^ 63" "sint b < 2 ^ 63" using sint_less [of a] sint_less [of b] by simp_all
  then have "sint (a + word_of_int (- sint b)) = sint a + - sint b"
    using assms by (intro sint_add_small) simp_all
  then show ?thesis by simp
qed

text \<open>How many messages of one socket, at the given times, the limiter lets through.\<close>

fun passes :: "i32 \<Rightarrow> i64 list \<Rightarrow> per_socket_data \<Rightarrow> nat" where
  "passes limit [] d = 0"
| "passes limit (t # ts) d =
     (let d = count_message t d
      in (if sint limit < sint (s_message_count d) then 0 else 1) + passes limit ts d)"

definition sane :: "i64 list \<Rightarrow> per_socket_data \<Rightarrow> bool" where
  "sane ts d \<longleftrightarrow> 0 \<le> sint (s_last_message_time d) \<and> (\<forall>t \<in> set ts. 0 \<le> sint t) \<and>
     0 \<le> sint (s_message_count d) \<and> sint (s_message_count d) + int (length ts) < 2 ^ 31"

lemma count_message_same:
  assumes "sane (t # ts) d" "sint t - sint (s_last_message_time d) < 1000"
  shows "count_message t d = d\<lparr>s_message_count := s_message_count d + 1\<rparr>"
    "sint (s_message_count d + 1) = sint (s_message_count d) + 1" "sane ts (count_message t d)"
proof -
  have "sint (t - s_last_message_time d) = sint t - sint (s_last_message_time d)"
    using assms(1) by (intro sint_elapsed) (simp_all add: sane_def)
  then have eq: "count_message t d = d\<lparr>s_message_count := s_message_count d + 1\<rparr>"
    using assms(2) by (simp add: count_message_def RATE_LIMIT_WINDOW_def)
  have "sint (s_message_count d + word_of_int 1) = sint (s_message_count d) + 1"
    using assms(1) by (intro sint_add_small) (simp_all add: sane_def)
  then show "sint (s_message_count d + 1) = sint (s_message_count d) + 1" by simp
  then show "sane ts (count_message t d)" using assms(1) eq by (simp add: sane_def)
  show "count_message t d = d\<lparr>s_message_count := s_message_count d + 1\<rparr>" by (rule eq)
qed

lemma count_message_reset:
  assumes "sane (t # ts) d" "\<not> sint t - sint (s_last_message_time d) < 1000"
  shows "count_message t d = d\<lparr>s_last_message_time := t, s_message_count := 1\<rparr>" "sane ts (count_message t d)"
proof -
  have "sint (t - s_last_message_time d) = sint t - sint (s_last_message_time d)"
    using assms(1) by (intro sint_elapsed) (simp_all add: sane_def)
  then have eq: "count_message t d = d\<lparr>s_last_message_time := t, s_message_count := 1\<rparr>"
    using assms(2) by (simp add: count_message_def RATE_LIMIT_WINDOW_def)
  then show "sane ts (count_message t d)" using assms(1) by (simp add: sane_def)
  show "count_message t d = d\<lparr>s_last_message_time := t, s_message_count := 1\<rparr>" by (rule eq)
qed

lemma passes_in_window:
  assumes "sane ts d" "\<forall>t \<in> set ts. sint t - sint (s_last_message_time d) < 1000"
  shows "int (passes limit ts d) \<le> max 0 (sint limit - sint (s_message_count d))"
  using assms
proof (induction ts arbitrary: d)
  case (Cons t ts)
  have now: "sint t - sint (s_last_message_time d) < 1000" using Cons.prems(2) by simp
  note c = count_message_same [OF Cons.prems(1) now]
  have "int (passes limit ts (count_message t d)) \<le> max 0 (sint limit - sint (s_message_count (count_message t d)))"
    by (rule Cons.IH [OF c(3)]) (use Cons.prems(2) c(1) in simp)
  then show ?case using c(2) by (auto simp: Let_def c(1) max_def split: if_splits)
qed simp

lemma passes_bound:
  assumes "sane ts d" "\<forall>t \<in> set ts. a \<le> sint t \<and> sint t < a + 1000"
  shows "int (passes limit ts d) \<le> max 0 (sint limit - sint (s_message_count d)) + max 0 (sint limit)"
  using assms
proof (induction ts arbitrary: d)
  case (Cons t ts)
  show ?case
  proof (cases "sint t - sint (s_last_message_time d) < 1000")
    case True
    note c = count_message_same [OF Cons.prems(1) True]
    have "int (passes limit ts (count_message t d)) \<le>
        max 0 (sint limit - sint (s_message_count (count_message t d))) + max 0 (sint limit)"
      by (rule Cons.IH [OF c(3)]) (use Cons.prems(2) in simp)
    then show ?thesis using c(2) by (auto simp: Let_def c(1) max_def split: if_splits)
  next
    case False
    note c = count_message_reset [OF Cons.prems(1) False]
    have "int (passes limit ts (count_message t d)) \<le>
        max 0 (sint limit - sint (s_message_count (count_message t d)))"
      by (rule passes_in_window [OF c(2)]) (use Cons.prems(2) c(1) in force)
    then show ?thesis by (auto simp: Let_def c(1) max_def split: if_splits)
  qed
qed simp

definition said :: "web \<Rightarrow> nat" where
  "said w = length (filter (\<lambda>m. m_event m = MESSAGE) (web_queue w))"

lemma said_on_message:
  "sockets (on_message t room s m w) s = count_message t (sockets w s) \<and>
   max_messages_per_second (on_message t room s m w) = max_messages_per_second w \<and>
   said (on_message t room s m w) = said w +
     (if sint (max_messages_per_second w) < sint (s_message_count (count_message t (sockets w s))) \<or> \<not> room
      then 0 else 1)"
  by (simp add: on_message_def Let_def said_def web_send_queue) (simp add: web_message_def)

lemma said_messages:
  "said (fold (\<lambda>(t, room, m). on_message t room s m) ms w) \<le>
     said w + passes (max_messages_per_second w) (map fst ms) (sockets w s)"
proof (induction ms arbitrary: w)
  case (Cons e ms)
  obtain t room m where e: "e = (t, room, m)" by (cases e)
  show ?case
    using Cons.IH [of "on_message t room s m w"] said_on_message [of t room s m w]
    by (auto simp: e Let_def split: if_splits)
qed simp

subsection \<open>The protocol header\<close>

lemma split_commas_part: "CHR '','' \<notin> set p \<Longrightarrow> split_commas p = [p]"
  by (induction p) auto

lemma split_commas_append:
  "CHR '','' \<notin> set p \<Longrightarrow> split_commas (p @ CHR '','' # s) = p # split_commas s"
  by (induction p) auto

lemma split_join:
  "ps \<noteq> [] \<Longrightarrow> \<forall>p \<in> set ps. CHR '','' \<notin> set p \<Longrightarrow> split_commas (join ps) = ps"
  by (induction ps rule: join.induct) (simp_all add: split_commas_part split_commas_append)

lemma protocols_join:
  "ps \<noteq> [] \<Longrightarrow> \<forall>p \<in> set ps. CHR '','' \<notin> set p \<and> trim p = p \<Longrightarrow> protocols_split (join ps) = ps"
  by (simp add: protocols_split_def split_join map_idI)

end
