(* ===== verification/Server_System.thy ===== *)
theory Server_System
  imports Reachable Thread_Effects Web_Effects
begin

text \<open>
  The web server and the game thread together. They share two queues: \<open>receive_queue\<close>, which the
  handlers of the sockets fill and \<open>GameThread::run\<close> empties, and the callbacks the game thread
  defers to the loop of the web server (\<open>loop->defer\<close>). A step is one handler of the web server, one
  deferred callback, or one step of the game thread; \<open>history\<close> notes the messages the game thread has
  taken from its queue. \<open>web_queue\<close> is the log of what was ever queued.
\<close>

subsection \<open>One round and the queue\<close>

lemma receive_queue_for_games [simp]: "receive_queue (for_games f t) = receive_queue t"
proof -
  have "receive_queue (fold (\<lambda>gid. in_game gid f) ks t) = receive_queue t" for ks
    by (induction ks arbitrary: t) simp_all
  then show ?thesis by (simp add: for_games_def)
qed

lemma process_messages_queue: "receive_queue (process_messages E n t) = drop n (receive_queue t)"
  by (simp add: process_messages_fold)

lemma queue_handlers [simp]:
  "receive_queue (handle_tick E t) = receive_queue t" "receive_queue (handle_send t) = receive_queue t"
  "receive_queue (handle_timers E t) = receive_queue t" "receive_queue (handle_disconnects E t) = receive_queue t"
  "receive_queue (handle_lobby_list E t) = receive_queue t" "receive_queue (reload_game E time f t) = receive_queue t"
  by (simp_all add: handle_tick_def handle_send_def handle_timers_def handle_disconnects_def
      handle_lobby_list_def reload_game_def)

lemma queue_afk [simp]: "receive_queue (handle_afk E t) = receive_queue t"
proof -
  have "receive_queue (afk_games E ks t) = receive_queue t" for ks
    by (induction ks arbitrary: t) (auto simp: Let_def split: option.split)
  then show ?thesis by (simp add: handle_afk_def)
qed

lemma run_round_queue: "receive_queue (snd (run_round E time (r, t))) = drop 50 (receive_queue t)"
  by (simp add: run_round_def Let_def process_messages_queue case_prod_beta split: list.split)

lemma queue_load [simp]: "receive_queue (load_games E folders t) = receive_queue t"
proof -
  have "receive_queue (snd (load_folder f s)) = receive_queue (snd s)" for f s
    by (cases s) (simp add: load_folder_def Let_def)
  then have folders: "receive_queue (snd (fold load_folder fs s)) = receive_queue (snd s)" for fs s
    by (induction fs arbitrary: s) simp_all
  have opens: "receive_queue (fold (\<lambda>gid t. if gid \<notin> set os then t else in_game gid f t) ks t) =
      receive_queue t" for os f ks t
    by (induction ks arbitrary: t) simp_all
  show ?thesis
    using folders [of folders "([], t)"]
    by (cases "fold load_folder folders ([], t)") (simp add: load_games_def opens)
qed

lemma queue_unload [simp]: "receive_queue (unload_game E gid t) = receive_queue t"
  by (simp add: unload_game_def Let_def)

subsection \<open>Rounds while messages arrive\<close>

text \<open>
  One round after the messages \<open>ms\<close> arrived; what the round takes from the queue is noted. \<open>played\<close> is
  any number of them.
\<close>

definition arrive :: "ws_message list \<Rightarrow> gthread \<Rightarrow> gthread" where
  "arrive ms t = t\<lparr>receive_queue := receive_queue t @ ms\<rparr>"

definition next_round ::
  "env \<Rightarrow> ws_message list \<times> i64 \<Rightarrow> ws_message list \<times> run_state \<times> gthread \<Rightarrow>
   ws_message list \<times> run_state \<times> gthread" where
  "next_round E round s =
    (let (ms, time) = round; (taken, r, t) = s; t = arrive ms t
     in (taken @ take 50 (receive_queue t), run_round E time (r, t)))"

lemma next_rounds_queue:
  "fold (next_round E) rounds (taken, r, t) = (taken', r', t') \<Longrightarrow>
   taken' @ receive_queue t' = taken @ receive_queue t @ concat (map fst rounds) \<and>
   length taken + min (50 * length rounds) (length (receive_queue t)) \<le> length taken'"
proof (induction rounds arbitrary: taken r t)
  case (Cons round rounds)
  obtain ms time where round: "round = (ms, time)" by (cases round)
  let ?q = "receive_queue t @ ms"
  obtain r1 t1 where one: "run_round E time (r, arrive ms t) = (r1, t1)" by fastforce
  have q1: "receive_queue t1 = drop 50 ?q"
    using run_round_queue [of E time r "arrive ms t"] one by (simp add: arrive_def)
  have "next_round E round (taken, r, t) = (taken @ take 50 ?q, r1, t1)"
    using one by (simp add: round next_round_def Let_def arrive_def del: take_append)
  then have "fold (next_round E) rounds (taken @ take 50 ?q, r1, t1) = (taken', r', t')"
    using Cons.prems by simp
  from Cons.IH [OF this]
  have "taken' @ receive_queue t' = taken @ (take 50 ?q @ drop 50 ?q) @ concat (map fst rounds)"
    "length taken + length (take 50 ?q) + min (50 * length rounds) (length (drop 50 ?q)) \<le> length taken'"
    by (simp_all only: q1 append_assoc length_append)
  moreover have "min (50 * length (round # rounds)) (length (receive_queue t)) \<le>
      length (take 50 ?q) + min (50 * length rounds) (length (drop 50 ?q))"
  proof -
    have "length (receive_queue t) \<le> length ?q" by simp
    then show ?thesis
      unfolding length_take length_drop by (cases rounds) (auto simp: min_def simp del: length_append)
  qed
  ultimately show ?case by (simp only: append_take_drop_id round) simp
qed simp

subsection \<open>The web server's log of messages\<close>

text \<open>Handlers only append to the queue.\<close>

definition appends :: "web \<Rightarrow> web \<Rightarrow> bool" where
  "appends w w' \<longleftrightarrow> (\<exists>ms. web_queue w' = web_queue w @ ms)"

lemma appends_refl: "web_queue w' = web_queue w \<Longrightarrow> appends w w'"
  by (simp add: appends_def)

lemma appends_trans: "appends w w' \<Longrightarrow> appends w' w'' \<Longrightarrow> appends w w''"
  by (auto simp: appends_def)

text \<open>
  Every message a socket says is preceded by the \<open>OPEN\<close> of the same peer in the same game: \<open>told\<close> of
  an open socket, \<open>announced\<close> of a queue.
\<close>

definition opens_for :: "string \<Rightarrow> string \<Rightarrow> ws_message \<Rightarrow> bool" where
  "opens_for pid gid m \<longleftrightarrow> m_event m = OPEN \<and> m_id m = pid \<and> m_game_id m = gid"

definition announced :: "ws_message list \<Rightarrow> bool" where
  "announced q \<longleftrightarrow> (\<forall>i < length q. m_event (q ! i) = MESSAGE \<longrightarrow>
     (\<exists>j < i. opens_for (m_id (q ! i)) (m_game_id (q ! i)) (q ! j)))"

definition told :: "web \<Rightarrow> nat \<Rightarrow> bool" where
  "told w s \<longleftrightarrow> (\<exists>m \<in> set (web_queue w). opens_for (s_id (sockets w s)) (s_game_id (sockets w s)) m)"

definition orderly :: "web \<Rightarrow> bool" where
  "orderly w \<longleftrightarrow> announced (web_queue w) \<and> (\<forall>s \<in> set (open_sockets w). told w s)"

lemma announced_snoc:
  "announced (q @ [m]) \<longleftrightarrow> announced q \<and>
     (m_event m = MESSAGE \<longrightarrow> (\<exists>b \<in> set q. opens_for (m_id m) (m_game_id m) b))"
proof -
  have old: "(q @ [m]) ! i = q ! i" if "i < length q" for i using that by (simp add: nth_append)
  have same: "(\<exists>j < i. opens_for a b ((q @ [m]) ! j)) \<longleftrightarrow> (\<exists>j < i. opens_for a b (q ! j))"
    if "i \<le> length q" for i a b
    using that old by (metis less_le_trans)
  have "announced (q @ [m]) \<longleftrightarrow>
      (m_event m = MESSAGE \<longrightarrow> (\<exists>j < length q. opens_for (m_id m) (m_game_id m) (q ! j))) \<and>
      (\<forall>i < length q. m_event (q ! i) = MESSAGE \<longrightarrow>
        (\<exists>j < i. opens_for (m_id (q ! i)) (m_game_id (q ! i)) (q ! j)))"
    unfolding announced_def length_append_singleton All_less_Suc using same old by simp
  moreover have "(\<exists>j < length q. opens_for a b (q ! j)) \<longleftrightarrow> (\<exists>x \<in> set q. opens_for a b x)" for a b
    by (metis in_set_conv_nth)
  ultimately show ?thesis unfolding announced_def [of q] by blast
qed

lemma announced_append:
  "announced q \<Longrightarrow> \<forall>m \<in> set ms. m_event m \<noteq> MESSAGE \<Longrightarrow> announced (q @ ms)"
proof (induction ms rule: rev_induct)
  case (snoc m ms)
  then show ?case using announced_snoc [of "q @ ms" m] by simp
qed simp

text \<open>
  What closing and sending do to the queue: only messages that are not \<open>MESSAGE\<close> are appended, no
  socket is opened, and the data of a socket stay.
\<close>

definition quiet :: "web \<Rightarrow> web \<Rightarrow> bool" where
  "quiet w w' \<longleftrightarrow> (\<exists>ms. web_queue w' = web_queue w @ ms \<and> (\<forall>m \<in> set ms. m_event m \<noteq> MESSAGE)) \<and>
     set (open_sockets w') \<subseteq> set (open_sockets w) \<and> sockets w' = sockets w"

lemma quiet_same:
  "web_queue w' = web_queue w \<Longrightarrow> open_sockets w' = open_sockets w \<Longrightarrow> sockets w' = sockets w \<Longrightarrow> quiet w w'"
  by (simp add: quiet_def)

lemma quiet_trans: "quiet w w' \<Longrightarrow> quiet w' w'' \<Longrightarrow> quiet w w''"
  unfolding quiet_def by (metis UnE append_assoc order.trans set_append)

lemma quiet_orderly: "quiet w w' \<Longrightarrow> orderly w \<Longrightarrow> orderly w'"
  unfolding quiet_def orderly_def told_def by (auto simp: announced_append) blast

lemma quiet_closed: "quiet w (closed s m w)"
  by (auto simp: quiet_def closed_def web_on_close_def enqueue_def web_message_def Let_def split: option.split)

lemma quiet_end: "quiet w (ws_end s code m w)"
  unfolding ws_end_def by (rule quiet_trans [OF _ quiet_closed]) (simp add: quiet_same)

lemma quiet_send: "quiet w (web_send pid m op w)"
proof -
  have clear: "quiet v (clear_ws pid v)" for v
    by (auto simp: clear_ws_def quiet_same split: option.split)
  show ?thesis
    using quiet_trans [OF quiet_end clear] by (auto simp: web_send_def ws_send_def quiet_same split: option.split)
qed

lemma quiet_fold: "(\<And>x w. quiet w (f x w)) \<Longrightarrow> quiet w (fold f xs w)"
  by (induction xs arbitrary: w) (auto simp: quiet_same intro: quiet_trans)

lemma quiet_clear_user: "quiet w (clear_user pid w)"
proof -
  have "quiet (web_send pid m OpClose w) (web_send pid m OpClose w\<lparr>reconnections := r, connection_data := k\<rparr>)" for m r k
    by (simp add: quiet_same)
  then show ?thesis
    unfolding clear_user_def Let_def
    by (auto intro: quiet_send quiet_trans [OF quiet_send] split: option.split)
qed

lemma quiet_deliver: "quiet w (deliver d w)"
proof (cases d)
  case (DBatch b)
  have "quiet w (case e of (pid, ms) \<Rightarrow> if ms = [] then w else web_send pid (batch_frame ms) OpText w)" for e w
    by (auto simp: quiet_same quiet_send split: prod.split)
  then show ?thesis unfolding DBatch deliver_def by (auto intro: quiet_fold)
qed (auto simp: deliver_def clear_users_def quiet_send intro: quiet_fold quiet_clear_user)

lemma orderly_put_socket:
  "orderly w \<Longrightarrow> s_id d = s_id (sockets w s) \<Longrightarrow> s_game_id d = s_game_id (sockets w s) \<Longrightarrow>
   orderly (put_socket s d w)"
  by (auto simp: orderly_def told_def put_socket_def)

lemma orderly_message:
  assumes "orderly w" "s \<in> set (open_sockets w)"
  shows "orderly (on_message t room s m w)"
proof -
  let ?d = "count_message t (sockets w s)"
  have d: "s_id ?d = s_id (sockets w s)" "s_game_id ?d = s_game_id (sockets w s)"
    by (simp_all add: count_message_def)
  let ?w = "put_socket s ?d w"
  have o: "orderly ?w" using assms(1) d by (rule orderly_put_socket)
  have "told ?w s" using o assms(2) by (simp add: orderly_def put_socket_def)
  then have "orderly (enqueue (web_message ?d MESSAGE m) ?w)"
    using o by (auto simp: orderly_def enqueue_def announced_snoc told_def web_message_def put_socket_def)
  then show ?thesis
    using o quiet_orderly [OF quiet_send] by (simp add: on_message_def Let_def)
qed


lemma orderly_open:
  assumes "orderly w" "s \<notin> set (open_sockets w)"
  shows "orderly (web_on_open gen t s (put_socket s d (w\<lparr>open_sockets := s # open_sockets w\<rparr>)))"
proof -
  let ?v = "put_socket s d (w\<lparr>open_sockets := s # open_sockets w\<rparr>)"
  define others where "others v \<longleftrightarrow> announced (web_queue v) \<and> (\<forall>j \<in> set (open_sockets v). j \<noteq> s \<longrightarrow> told v j)" for v
  have start: "others ?v"
    using assms by (auto simp: others_def orderly_def told_def put_socket_def)
  have keep: "others v'" if "others v" "quiet v v'" for v v'
    using that unfolding others_def quiet_def told_def by (auto simp: announced_append) blast
  have put: "others (put_socket s e v)" if "others v" for e v
    using that by (auto simp: others_def told_def put_socket_def)
  have same: "others (v\<lparr>reconnections := r\<rparr>)" "others (v\<lparr>web_uuids := n\<rparr>)" if "others v" for v r n
    using that by (simp_all add: others_def told_def)
  obtain err v where v: "reconnect t s ?v = (err, v)" by fastforce
  have others: "others v"
    using v start keep [OF start quiet_send] put same
    by (auto simp: reconnect_def Let_def split: option.splits if_splits)
  show ?thesis
  proof (cases err)
    case (Some e)
    have "others (ws_end s 1002 e v)" using keep [OF others quiet_end] .
    moreover have "s \<notin> set (open_sockets (ws_end s 1002 e v))"
      by (simp add: ws_end_def closed_def web_on_close_def enqueue_def Let_def split: option.split)
    ultimately show ?thesis by (auto simp: web_on_open_def v Some others_def orderly_def)
  next
    case None
    have reg: "orderly (register t s v')" if "others v'" for v'
      using that
      by (auto simp: register_def Let_def enqueue_def web_message_def orderly_def others_def told_def
          announced_snoc opens_for_def)
    show ?thesis
      unfolding web_on_open_def v using None others put same reg by (simp add: Let_def)
  qed
qed

lemma orderly_step: "web_step gen w w' \<Longrightarrow> orderly w \<Longrightarrow> orderly w'"
  by (erule web_step_cases)
     (auto intro: orderly_open orderly_message quiet_orderly [OF quiet_closed] quiet_orderly [OF quiet_deliver])

lemma web_reachable_orderly: "web_reachable gen messages users w \<Longrightarrow> orderly w"
proof (induction rule: web_reachable.induct)
  case start
  show ?case by (simp add: start_web_def orderly_def announced_def)
next
  case (step w w')
  then show ?case by (blast intro: orderly_step)
qed

text \<open>What is queued once stays queued, in its place.\<close>

lemma quiet_appends: "quiet w w' \<Longrightarrow> appends w w'"
  by (auto simp: quiet_def appends_def)

lemma appends_enqueue: "appends w v \<Longrightarrow> appends w (enqueue m v)"
  by (auto simp: appends_def enqueue_def)

lemma appends_same: "appends w v \<Longrightarrow> web_queue v' = web_queue v \<Longrightarrow> appends w v'"
  by (simp add: appends_def)

lemma appends_reconnect:
  assumes "reconnect t s w = (err, v)"
  shows "appends w v"
proof -
  have "appends w (put_socket s d (web_send pid m op w)\<lparr>reconnections := r\<rparr>)" for d pid m op r
    by (rule appends_same [OF quiet_appends [OF quiet_send]]) (simp add: put_socket_def)
  then show ?thesis
    using assms by (auto simp: reconnect_def Let_def appends_refl split: option.splits if_splits)
qed

lemma appends_open: "appends w (web_on_open gen t s w)"
proof -
  obtain err v where v: "reconnect t s w = (err, v)" by fastforce
  have "appends w (ws_end s 1002 e v)" for e
    using appends_trans [OF appends_reconnect [OF v] quiet_appends [OF quiet_end]] .
  moreover have "appends w (register t s v')" if "web_queue v' = web_queue v" for v'
    unfolding register_def Let_def
    by (rule appends_enqueue, rule appends_same [OF appends_reconnect [OF v]]) (simp add: that)
  ultimately show ?thesis
    by (auto simp: web_on_open_def v Let_def put_socket_def split: option.split)
qed

lemma appends_message: "appends w (on_message t room s m w)"
proof -
  have "appends w (put_socket s d w)" for d by (simp add: put_socket_def appends_refl)
  then show ?thesis
    using appends_trans [OF _ quiet_appends [OF quiet_send]]
    by (auto simp: on_message_def Let_def intro: appends_enqueue)
qed

lemma appends_step: "web_step gen w w' \<Longrightarrow> appends w w'"
proof (erule web_step_cases; clarify?)
  fix s t d
  show "appends w (web_on_open gen t s (put_socket s d (w\<lparr>open_sockets := s # open_sockets w\<rparr>)))"
    by (rule appends_trans [OF _ appends_open]) (simp add: put_socket_def appends_refl)
qed (simp_all add: appends_message quiet_appends quiet_closed quiet_deliver)

subsection \<open>The composed system\<close>

definition fresh_messages :: "web \<Rightarrow> web \<Rightarrow> ws_message list" where
  "fresh_messages w w' = drop (length (web_queue w)) (web_queue w')"

inductive client_step :: "(nat \<Rightarrow> string) \<Rightarrow> web \<Rightarrow> web \<Rightarrow> bool" for gen where
  "s \<notin> set (open_sockets w) \<Longrightarrow>
    client_step gen w (web_on_open gen t s (put_socket s d (w\<lparr>open_sockets := s # open_sockets w\<rparr>)))"
| "s \<in> set (open_sockets w) \<Longrightarrow> client_step gen w (on_message t room s m w)"
| "s \<in> set (open_sockets w) \<Longrightarrow> client_step gen w (closed s m w)"

inductive system ::
  "env \<Rightarrow> (nat \<Rightarrow> string) \<Rightarrow> i32 \<Rightarrow> i32 \<Rightarrow> web \<Rightarrow> run_state \<times> gthread \<Rightarrow> ws_message list \<Rightarrow> bool"
  for E gen messages users where
  sys_start: "system E gen messages users (start_web messages users)
    (r, start_thread check listing reconnection folder time) []"
| sys_client: "system E gen messages users w (r, t) h \<Longrightarrow> client_step gen w w' \<Longrightarrow>
    system E gen messages users w' (r, arrive (fresh_messages w w') t) h"
| sys_callback: "system E gen messages users w (r, t) h \<Longrightarrow> defers t = d # ds \<Longrightarrow> w' = deliver d w \<Longrightarrow>
    system E gen messages users w' (r, arrive (fresh_messages w w') (t\<lparr>defers := ds\<rparr>)) h"
| sys_round: "system E gen messages users w (r, t) h \<Longrightarrow>
    system E gen messages users w (run_round E time (r, t)) (h @ take 50 (receive_queue t))"
| sys_load: "system E gen messages users w (r, t) h \<Longrightarrow>
    system E gen messages users w (r, load_games E folders t) h"
| sys_clock: "system E gen messages users w (r, t) h \<Longrightarrow> system E gen messages users w (r, t\<lparr>now := time\<rparr>) h"
| sys_watch: "system E gen messages users w (r, t) h \<Longrightarrow>
    system E gen messages users w (r, t\<lparr>file_watcher_queue := file_watcher_queue t @ [f]\<rparr>) h"

lemma client_step_web: "client_step gen w w' \<Longrightarrow> web_step gen w w'"
  by (induction rule: client_step.induct) (rule web_step.intros; assumption)+

lemma arrive_queue: "h @ receive_queue (arrive ms t) = (h @ receive_queue t) @ ms"
  by (simp add: arrive_def)

lemma reachable_arrive: "reachable E (r, t) \<Longrightarrow> reachable E (r, arrive ms t)"
proof (induction ms rule: rev_induct)
  case (snoc m ms)
  then show ?case using reachable.receive [of E r "arrive ms t" m] by (simp add: arrive_def)
qed (simp add: arrive_def)

text \<open>Each part of the system runs as it does alone, and the game thread takes what the web server queued.\<close>

lemma system_parts:
  "system E gen messages users w s h \<Longrightarrow>
   web_reachable gen messages users w \<and> reachable E s \<and> h @ receive_queue (snd s) = web_queue w"
proof (induction rule: system.induct)
  case (sys_start r check listing reconnection folder time)
  then show ?case
    by (simp add: web_reachable.start reachable.init) (simp add: start_thread_def start_web_def)
next
  case (sys_client w r t h w')
  have step: "web_step gen w w'" using sys_client.hyps(2) by (rule client_step_web)
  then have "web_queue w' = web_queue w @ fresh_messages w w'"
    using appends_step by (fastforce simp: appends_def fresh_messages_def)
  moreover have "web_reachable gen messages users w'"
    using sys_client.IH step by (blast intro: web_reachable.step)
  ultimately show ?case
    using sys_client.IH reachable_arrive by (simp add: arrive_queue)
next
  case (sys_callback w r t h d ds w')
  have step: "web_step gen w w'" unfolding sys_callback.hyps(3) by (rule web_step.delivers)
  then have "web_queue w' = web_queue w @ fresh_messages w w'"
    using appends_step by (fastforce simp: appends_def fresh_messages_def)
  moreover have "reachable E (r, arrive (fresh_messages w w') (t\<lparr>defers := ds\<rparr>))"
    using sys_callback.IH sys_callback.hyps(2) by (blast intro: reachable_arrive reachable.callback)
  moreover have "web_reachable gen messages users w'"
    using sys_callback.IH step by (blast intro: web_reachable.step)
  ultimately show ?case
    using sys_callback.IH by (simp add: arrive_queue)
next
  case (sys_round w r t h time)
  then have "reachable E (run_round E time (r, t))" by (blast intro: reachable.round)
  then show ?case
    using sys_round.IH by (simp add: run_round_queue)
qed (simp_all add: reachable.load reachable.clock reachable.watch)

end
