(* ===== verification/Start_Up.thy ===== *)
theory Start_Up
  imports Leaderboards
begin

text \<open>
  Starting the server: \<open>main\<close> of \<^verbatim>\<open>src/src/main.cpp\<close> up to the event loop, with its two passes over the
  command line, the settings it reads and narrows, the folder of the session file, and \<open>BasePath\<close>
  of \<^verbatim>\<open>common/base_path.cpp\<close>. The configuration is a parameter: The fields of \<open>ini_reader\<close> are
  INIReader's getters (section, name, default). The file system is a map from names to contents.
\<close>

type_synonym files = "string \<Rightarrow> string option"

subsection \<open>Paths\<close>

text \<open>\<open>BasePath::set\<close> and \<open>BasePath::file\<close>.\<close>

definition base_path_set :: "string \<Rightarrow> string" where
  "base_path_set path =
    (if path \<noteq> [] \<and> last path \<noteq> CHR ''/'' \<and> last path \<noteq> CHR 0x5C then path @ ''/'' else path)"

definition base_path_file :: "string \<Rightarrow> string \<Rightarrow> string" where
  "base_path_file base fname = base @ fname"

text \<open>The Linux branch; the environment variables \<open>XDG_CONFIG_HOME\<close> and \<open>HOME\<close> may be missing.\<close>

definition getUserAppDataPath :: "string option \<Rightarrow> string option \<Rightarrow> string \<Rightarrow> string" where
  "getUserAppDataPath config_home home appName =
    (case config_home of
       Some c \<Rightarrow> c @ ''/'' @ appName @ ''/''
     | None \<Rightarrow>
         (case home of
            Some h \<Rightarrow> h @ ''/.config/'' @ appName @ ''/''
          | None \<Rightarrow> ''./'' @ appName @ ''/''))"

definition get_jwt_path :: "string option \<Rightarrow> string option \<Rightarrow> string" where
  "get_jwt_path config_home home = getUserAppDataPath config_home home ''LobbyServer'' @ ''session.jwt''"

subsection \<open>The command line\<close>

text \<open>The first pass; the argument after \<open>--path\<close> is skipped, and the last \<open>--path\<close> wins.\<close>

fun parse_path :: "string \<Rightarrow> string list \<Rightarrow> string" where
  "parse_path base [] = base"
| "parse_path base [a] = base"
| "parse_path base (a # b # args) =
     (if a = ''--path'' then parse_path (base_path_set b) args else parse_path base (b # args))"

datatype start_action =
    Serve bool
  | Logout
  | Generate_config
  | Usage

text \<open>The second pass looks at every argument, the one after \<open>--path\<close> as well.\<close>

fun parse_options :: "bool \<Rightarrow> string list \<Rightarrow> start_action" where
  "parse_options verbose [] = Serve verbose"
| "parse_options verbose (a # args) =
     (if a = ''--verbose'' then parse_options True args
      else if a = ''--logout'' then Logout
      else if a = ''--generate-config'' then Generate_config
      else if a = ''--help'' \<or> a = ''-h'' then Usage
      else parse_options verbose args)"

text \<open>
  What the process does to the files before it serves or returns: \<open>None\<close> for the settings when it
  returns at once. \<open>can_open\<close> says whether the configuration file can be written.
\<close>

definition start_files ::
  "string \<Rightarrow> string \<Rightarrow> (string \<Rightarrow> bool) \<Rightarrow> string \<Rightarrow> start_action \<Rightarrow> files \<Rightarrow> files" where
  "start_files default_config jwt_path can_open config action fs =
    (case action of
       Logout \<Rightarrow> fs(jwt_path := None)
     | Generate_config \<Rightarrow> if can_open config then fs(config \<mapsto> default_config) else fs
     | _ \<Rightarrow> fs)"

definition main_start ::
  "string \<Rightarrow> string option \<Rightarrow> string option \<Rightarrow> (string \<Rightarrow> bool) \<Rightarrow> string list \<Rightarrow> files \<Rightarrow>
   start_action \<times> string \<times> files" where
  "main_start default_config config_home home can_open args fs =
    (let config = base_path_file (parse_path [] args) ''config.ini'';
         action = parse_options False args
     in (action, config,
         start_files default_config (get_jwt_path config_home home) can_open config action fs))"

subsection \<open>Settings\<close>

record ini_reader =
  ini_get :: "string \<Rightarrow> string \<Rightarrow> string \<Rightarrow> string"
  ini_get_string :: "string \<Rightarrow> string \<Rightarrow> string \<Rightarrow> string"
  ini_integer :: "string \<Rightarrow> string \<Rightarrow> i64 \<Rightarrow> i64"
  ini_unsigned :: "string \<Rightarrow> string \<Rightarrow> 64 word \<Rightarrow> 64 word"
  ini_boolean :: "string \<Rightarrow> string \<Rightarrow> bool \<Rightarrow> bool"

record settings =
  c_db_enabled :: bool
  c_port :: i32
  c_message_queue_length :: i64
  c_database_queue_length :: i64
  c_log_folder :: string
  c_max_messages_per_second :: i32
  c_max_users :: i32
  c_compression :: "16 word"
  c_max_payload_length :: "32 word"
  c_idle_timeout :: "16 word"
  c_max_backpressure :: "32 word"
  c_reset_idle_timeout_on_send :: bool
  c_game_log_folder :: string
  c_scripts_folder :: string
  c_listing_interval :: i32
  c_max_reconnection_time :: i32

definition queue_length :: "i64 \<Rightarrow> i64" where
  "queue_length n = (if sint n \<le> 100 then 100 else n)"

text \<open>
  Every number is read as a \<open>long\<close> or an \<open>unsigned long\<close> and narrowed to the type it is used at; \<open>uws_disabled\<close> is the
  constant of uWebSockets for no compression.
\<close>

definition read_settings :: "64 word \<Rightarrow> ini_reader \<Rightarrow> string \<Rightarrow> settings" where
  "read_settings uws_disabled I base =
    (let s = ''webserverserver'';
         db_enabled = ini_boolean I ''database'' ''enabled'' False;
         n = queue_length (ini_integer I s ''message_queue_length'' 250000)
     in \<lparr>c_db_enabled = db_enabled, c_port = ucast (ini_unsigned I s ''port'' 8080),
         c_message_queue_length = n, c_database_queue_length = (if db_enabled then n else 0),
         c_log_folder = ini_get_string I s ''log_folder'' ''logs'',
         c_max_messages_per_second = ucast (ini_integer I s ''max_messages_per_second'' 5),
         c_max_users = ucast (ini_integer I s ''max_users'' 10000),
         c_compression = ucast (ini_unsigned I s ''compression'' uws_disabled),
         c_max_payload_length = ucast (ini_unsigned I s ''max_payload_length'' 2048),
         c_idle_timeout = ucast (ini_unsigned I s ''idle_timeout'' 30),
         c_max_backpressure = ucast (ini_unsigned I s ''max_backpressure'' 65536),
         c_reset_idle_timeout_on_send = ini_boolean I s ''reset_idle_timeout_on_send'' True,
         c_game_log_folder = base_path_file base (ini_get_string I ''games'' ''log_folder'' ''logs''),
         c_scripts_folder = base_path_file base (ini_get I ''games'' ''scripts_folder'' ''scripts''),
         c_listing_interval = ucast (ini_integer I ''games'' ''listing_interval'' 3000),
         c_max_reconnection_time = ucast (ini_integer I ''games'' ''max_reconnection_time'' 360000)\<rparr>)"

subsection \<open>The routes without state\<close>

definition root_route :: http_reply where
  "root_route = Reply ''200 OK'' ''OK''"

definition health_route :: http_reply where
  "health_route = Reply ''200 OK'' ''OK''"

subsection \<open>Lemmas\<close>

definition ends_run :: "string \<Rightarrow> bool" where
  "ends_run a \<longleftrightarrow> a \<in> {''--logout'', ''--generate-config'', ''--help'', ''-h''}"

lemma parse_options_serves:
  "parse_options v args = Serve b \<longleftrightarrow>
     (\<forall>a \<in> set args. \<not> ends_run a) \<and> b = (v \<or> ''--verbose'' \<in> set args)"
  by (induction args arbitrary: v) (auto simp: ends_run_def)

lemma parse_options_cases:
  "parse_options v args \<noteq> Serve b \<Longrightarrow> parse_options v args \<noteq> Serve (\<not> b) \<Longrightarrow>
     \<exists>a \<in> set args. ends_run a"
  by (induction args arbitrary: v) (auto simp: ends_run_def split: if_splits)

lemma parse_path_none: "''--path'' \<notin> set (butlast args) \<Longrightarrow> parse_path b args = b"
  by (induction b args rule: parse_path.induct) (auto split: if_splits)

text \<open>The value that counts follows the last \<open>--path\<close> that is not itself a value and has one.\<close>

lemma parse_path_given:
  assumes "before = [] \<or> last before \<noteq> ''--path''" "''--path'' \<notin> set (butlast after)"
  shows "parse_path b (before @ ''--path'' # p # after) = base_path_set p"
  using assms(1)
proof (induction b before rule: parse_path.induct)
  case (1 base)
  have "parse_path base ([] @ ''--path'' # p # after) = parse_path (base_path_set p) after" by simp
  then show ?case by (simp only: parse_path_none [OF assms(2)])
next
  case (2 base x)
  then have "x \<noteq> ''--path''" by simp
  then have "parse_path base ([x] @ ''--path'' # p # after) = parse_path (base_path_set p) after" by simp
  then show ?case by (simp only: parse_path_none [OF assms(2)])
next
  case (3 base x y args)
  let ?rest = "''--path'' # p # after"
  show ?case
  proof (cases "x = ''--path''")
    case True
    have "args = [] \<or> last args \<noteq> ''--path''" using "3.prems" by (cases args) simp_all
    with "3.IH"(1) [OF True] show ?thesis using True by simp
  next
    case False
    have "y # args = [] \<or> last (y # args) \<noteq> ''--path''" using "3.prems" by simp
    with "3.IH"(2) [OF False] show ?thesis using False by simp
  qed
qed

definition ending :: "string \<Rightarrow> start_action" where
  "ending a = (if a = ''--logout'' then Logout else if a = ''--generate-config'' then Generate_config else Usage)"

lemma parse_options_ends:
  assumes "\<forall>x \<in> set before. \<not> ends_run x" "ends_run a"
  shows "parse_options v (before @ a # after) = ending a"
  using assms(1)
proof (induction before arbitrary: v)
  case Nil
  have "a \<noteq> ''--verbose''" using assms(2) by (auto simp: ends_run_def)
  then show ?case using assms(2) unfolding ends_run_def by (simp add: ending_def) blast
next
  case (Cons x xs)
  then have "x \<notin> {''--logout'', ''--generate-config'', ''--help'', ''-h''}" by (simp add: ends_run_def)
  then have "parse_options v ((x # xs) @ a # after) = parse_options (x = ''--verbose'' \<or> v) (xs @ a # after)"
    by simp
  then show ?case using Cons by simp
qed

end
