(* ===== verification/Auth_Thread.thy ===== *)
theory Auth_Thread
  imports Authentication Leaderboards
begin

text \<open>
  \<open>AuthenticationThread\<close> of \<^verbatim>\<open>src/src/authentication/authentication_thread.cpp\<close> at work: requests wait
  in the queue, the thread takes one at a time and asks the login service about tokens with a dot,
  and defers a callback that the event loop runs later, which looks an anonymous client up in the
  database and upgrades or rejects the request. Requests are numbered in the order they are queued;
  the number stands for the pointers \<open>res\<close> and \<open>abort\<close> the messages share. An exception in a
  callback ends the process.
\<close>

subsection \<open>State\<close>

record auth_message =
  am_user_data :: per_socket_data
  am_res :: nat

text \<open>A deferred callback, with the answer of the login service if it was asked.\<close>

record auth_callback =
  cb_user_data :: per_socket_data
  cb_res :: nat
  cb_result :: "string option"

record auth_thread =
  authentication_queue :: "auth_message list"
  auth_deferred :: "auth_callback list"
  auth_aborted :: "nat list"
  auth_running :: bool
  auth_waiting :: bool
  auth_db_enabled :: bool
  auth_db :: database
  auth_requests :: nat
  auth_replies :: "(auth_callback \<times> auth_reply) list"
  auth_dead :: bool

text \<open>The thread starts with \<open>running\<close> true and waits for its first message.\<close>

definition start_auth :: "bool \<Rightarrow> database \<Rightarrow> auth_thread" where
  "start_auth db_enabled db =
    \<lparr>authentication_queue = [], auth_deferred = [], auth_aborted = [], auth_running = True,
     auth_waiting = True, auth_db_enabled = db_enabled, auth_db = db, auth_requests = 0,
     auth_replies = [], auth_dead = False\<rparr>"

subsection \<open>Steps\<close>

definition auth_enqueue :: "per_socket_data \<Rightarrow> auth_thread \<Rightarrow> auth_thread" where
  "auth_enqueue d s =
    s\<lparr>authentication_queue := authentication_queue s @ [\<lparr>am_user_data = d, am_res = auth_requests s\<rparr>],
      auth_requests := auth_requests s + 1\<rparr>"

definition has_dot :: "string \<Rightarrow> bool" where
  "has_dot token \<longleftrightarrow> CHR ''.'' \<in> set token"

text \<open>
  One turn of the loop of \<open>run\<close>: a message is dequeued, its callback deferred, and \<open>running\<close> is
  looked at before the thread waits for the next message.
\<close>

definition auth_serve :: "env \<Rightarrow> (string \<Rightarrow> string \<Rightarrow> string) \<Rightarrow> auth_thread \<Rightarrow> auth_thread" where
  "auth_serve E http s =
    (case authentication_queue s of
       [] \<Rightarrow> s
     | m # ms \<Rightarrow>
         if \<not> auth_waiting s then s
         else
           let d = am_user_data m;
               result = (if has_dot (s_reconnection_token d)
                         then Some (verify_jwt E http (s_reconnection_token d)) else None)
           in s\<lparr>authentication_queue := ms,
                auth_deferred := auth_deferred s @ [\<lparr>cb_user_data = d, cb_res = am_res m, cb_result = result\<rparr>],
                auth_waiting := auth_running s\<rparr>)"

text \<open>The callback of an anonymous client looks it up; the other one reads the login answer.\<close>

definition anonymous_callback ::
  "sql_env \<Rightarrow> bool \<Rightarrow> bool \<Rightarrow> per_socket_data \<Rightarrow> database \<Rightarrow> auth_reply \<times> database" where
  "anonymous_callback Q aborted db_enabled d db =
    (if aborted then (Dropped, db)
     else if \<not> db_enabled then (Upgraded d, db)
     else
       (case get_peer_or_insert Q (s_reconnection_token d) (s_game_id d) (s_id d) db of
          Inl e \<Rightarrow> (Thrown, db)
        | Inr (pid, db) \<Rightarrow> (Upgraded (d\<lparr>s_id := pid\<rparr>), db)))"

definition auth_run_callback :: "env \<Rightarrow> sql_env \<Rightarrow> auth_thread \<Rightarrow> auth_thread" where
  "auth_run_callback E Q s =
    (case auth_deferred s of
       [] \<Rightarrow> s
     | cb # cbs \<Rightarrow>
         if auth_dead s then s
         else
           let aborted = (cb_res cb \<in> set (auth_aborted s));
               (reply, db) =
                 (case cb_result cb of
                    None \<Rightarrow> anonymous_callback Q aborted (auth_db_enabled s) (cb_user_data cb) (auth_db s)
                  | Some result \<Rightarrow> (upgrade_login E result [] aborted (cb_user_data cb), auth_db s))
           in s\<lparr>auth_deferred := cbs, auth_db := db, auth_replies := auth_replies s @ [(cb, reply)],
                auth_dead := (reply = Thrown)\<rparr>)"

definition auth_abort :: "nat \<Rightarrow> auth_thread \<Rightarrow> auth_thread" where
  "auth_abort res s = s\<lparr>auth_aborted := res # auth_aborted s\<rparr>"

text \<open>\<open>stop\<close>; the flag is not looked at by a thread that waits.\<close>

definition auth_stop :: "auth_thread \<Rightarrow> auth_thread" where
  "auth_stop s = s\<lparr>auth_running := False\<rparr>"

datatype auth_event =
    Auth_requested per_socket_data
  | Auth_served "string \<Rightarrow> string \<Rightarrow> string"
  | Auth_called
  | Auth_aborted nat
  | Auth_stopped

definition auth_step :: "env \<Rightarrow> sql_env \<Rightarrow> auth_event \<Rightarrow> auth_thread \<Rightarrow> auth_thread" where
  "auth_step E Q ev s =
    (case ev of
       Auth_requested d \<Rightarrow> auth_enqueue d s
     | Auth_served http \<Rightarrow> auth_serve E http s
     | Auth_called \<Rightarrow> auth_run_callback E Q s
     | Auth_aborted res \<Rightarrow> auth_abort res s
     | Auth_stopped \<Rightarrow> auth_stop s)"

definition auth_run :: "env \<Rightarrow> sql_env \<Rightarrow> auth_event list \<Rightarrow> auth_thread \<Rightarrow> auth_thread" where
  "auth_run E Q = fold (auth_step E Q)"

subsection \<open>Requests are answered in order\<close>

text \<open>Where every request is: answered, deferred or waiting.\<close>

definition requests_of :: "auth_thread \<Rightarrow> (nat \<times> per_socket_data) list" where
  "requests_of s =
    map (\<lambda>(cb, r). (cb_res cb, cb_user_data cb)) (auth_replies s) @
    map (\<lambda>cb. (cb_res cb, cb_user_data cb)) (auth_deferred s) @
    map (\<lambda>m. (am_res m, am_user_data m)) (authentication_queue s)"

definition requested :: "auth_event list \<Rightarrow> per_socket_data list" where
  "requested evs = List.map_filter (\<lambda>ev. case ev of Auth_requested d \<Rightarrow> Some d | _ \<Rightarrow> None) evs"

lemma requested_simps [simp]:
  "requested [] = []" "requested (Auth_requested d # evs) = d # requested evs"
  "requested (Auth_served http # evs) = requested evs" "requested (Auth_called # evs) = requested evs"
  "requested (Auth_aborted res # evs) = requested evs" "requested (Auth_stopped # evs) = requested evs"
  by (simp_all add: requested_def List.map_filter_simps)

lemma requests_step:
  "requests_of (auth_step E Q ev s) =
     requests_of s @ enumerate (auth_requests s) (requested [ev])"
  "auth_requests (auth_step E Q ev s) = auth_requests s + length (requested [ev])"
  by (cases ev;
      auto simp: auth_step_def auth_enqueue_def auth_serve_def auth_run_callback_def auth_abort_def
        auth_stop_def requests_of_def Let_def split: list.split prod.split)+

lemma requested_Cons: "requested (ev # evs) = requested [ev] @ requested evs"
  by (cases ev) simp_all

lemma enumerate_append: "enumerate n (xs @ ys) = enumerate n xs @ enumerate (n + length xs) ys"
  by (induction xs arbitrary: n) simp_all

lemma requests_run:
  "requests_of (auth_run E Q evs s) = requests_of s @ enumerate (auth_requests s) (requested evs)"
proof (induction evs arbitrary: s)
  case (Cons ev evs)
  show ?case
    using Cons.IH [of "auth_step E Q ev s"] requested_Cons [of ev evs]
    by (simp add: auth_run_def requests_step enumerate_append)
qed (simp add: auth_run_def)

subsection \<open>A token keeps its peer\<close>

definition peer_of :: "string \<Rightarrow> string \<Rightarrow> database \<Rightarrow> string option" where
  "peer_of token gid db =
    map_option pr_peer_id (List.find (\<lambda>r. pr_id r = token \<and> pr_game_id r = gid) (peers db))"

lemma find_snoc: "List.find P (xs @ [x]) =
    (case List.find P xs of None \<Rightarrow> if P x then Some x else None | Some y \<Rightarrow> Some y)"
  by (induction xs) auto

lemma get_peer_or_insert_finds:
  assumes "get_peer_or_insert Q token gid pid db = Inr (q, db')"
  shows "peer_of token gid db' = Some q"
    "peer_of token' gid' db = Some p \<Longrightarrow> peer_of token' gid' db' = Some p"
    "(token', gid') \<noteq> (token, gid) \<Longrightarrow> peer_of token' gid' db' = peer_of token' gid' db"
    "peer_of token gid db = None \<Longrightarrow> q = pid"
  using assms
  by (auto simp: get_peer_or_insert_def peer_of_def find_snoc split: option.splits if_splits)

lemma anonymous_callback_finds:
  assumes "anonymous_callback Q ab True d db = (reply, db')"
  shows "reply = Upgraded d' \<Longrightarrow> d' = d\<lparr>s_id := s_id d'\<rparr> \<and>
      peer_of (s_reconnection_token d) (s_game_id d) db' = Some (s_id d')"
    "peer_of token gid db = Some p \<Longrightarrow> peer_of token gid db' = Some p"
  using assms
  by (auto simp: anonymous_callback_def intro: get_peer_or_insert_finds split: if_splits sum.splits)

text \<open>
  What the replies say of the table: a reply to a client without a dot in its token that was upgraded
  names the peer of the token. The table only grows, so this stays.
\<close>

definition names_peer :: "database \<Rightarrow> auth_callback \<times> auth_reply \<Rightarrow> bool" where
  "names_peer db e \<longleftrightarrow>
    (case e of (cb, reply) \<Rightarrow> \<forall>d'. \<not> has_dot (s_reconnection_token (cb_user_data cb)) \<longrightarrow> reply = Upgraded d' \<longrightarrow>
       peer_of (s_reconnection_token (cb_user_data cb)) (s_game_id (cb_user_data cb)) db = Some (s_id d'))"

definition replies_in_table :: "auth_thread \<Rightarrow> bool" where
  "replies_in_table s \<longleftrightarrow>
    (\<forall>cb \<in> set (auth_deferred s). cb_result cb = None \<longleftrightarrow> \<not> has_dot (s_reconnection_token (cb_user_data cb))) \<and>
    (\<forall>e \<in> set (auth_replies s). names_peer (auth_db s) e)"

lemma names_peer_grows:
  assumes "\<And>token gid p. peer_of token gid db = Some p \<Longrightarrow> peer_of token gid db' = Some p" "names_peer db e"
  shows "names_peer db' e"
  using assms by (cases e) (simp add: names_peer_def)

lemma replies_in_table_add:
  assumes "replies_in_table s" "auth_deferred s = cb # cbs"
    and "\<And>token gid p. peer_of token gid (auth_db s) = Some p \<Longrightarrow> peer_of token gid db = Some p"
    and "\<And>d'. cb_result cb = None \<Longrightarrow> reply = Upgraded d' \<Longrightarrow>
      peer_of (s_reconnection_token (cb_user_data cb)) (s_game_id (cb_user_data cb)) db = Some (s_id d')"
  shows "replies_in_table (s\<lparr>auth_deferred := cbs, auth_db := db,
    auth_replies := auth_replies s @ [(cb, reply)], auth_dead := dead\<rparr>)"
proof -
  have "names_peer db (cb, reply)"
    using assms(1,2,4) by (auto simp: names_peer_def replies_in_table_def)
  moreover have "names_peer db e" if "e \<in> set (auth_replies s)" for e
    using names_peer_grows [OF assms(3)] assms(1) that by (auto simp: replies_in_table_def)
  ultimately show ?thesis using assms(1,2) by (simp add: replies_in_table_def)
qed

lemma replies_in_table_callback:
  assumes "replies_in_table s" "auth_db_enabled s" "auth_deferred s = cb # cbs" "\<not> auth_dead s"
  shows "replies_in_table (auth_run_callback E Q s)"
proof (cases "cb_result cb")
  case None
  obtain reply db where r: "anonymous_callback Q (cb_res cb \<in> set (auth_aborted s)) True (cb_user_data cb)
      (auth_db s) = (reply, db)" by fastforce
  have "replies_in_table (s\<lparr>auth_deferred := cbs, auth_db := db,
      auth_replies := auth_replies s @ [(cb, reply)], auth_dead := (reply = Thrown)\<rparr>)"
    using anonymous_callback_finds [OF r] by (intro replies_in_table_add [OF assms(1,3)]) blast+
  then show ?thesis using assms(2-) None r by (simp add: auth_run_callback_def Let_def)
next
  case (Some result)
  have "replies_in_table (s\<lparr>auth_deferred := cbs, auth_db := auth_db s,
      auth_replies := auth_replies s @ [(cb, reply)], auth_dead := dead\<rparr>)" for reply dead
    by (intro replies_in_table_add [OF assms(1,3)]) (simp_all add: Some)
  then show ?thesis using assms(2-) Some by (simp add: auth_run_callback_def Let_def)
qed

lemma replies_in_table_step:
  assumes "replies_in_table s" "auth_db_enabled s"
  shows "replies_in_table (auth_step E Q ev s)" "auth_db_enabled (auth_step E Q ev s)"
proof -
  show "auth_db_enabled (auth_step E Q ev s)"
    using assms(2)
    by (cases ev; auto simp: auth_step_def auth_enqueue_def auth_serve_def auth_run_callback_def
        auth_abort_def auth_stop_def Let_def split: list.split prod.split)
  show "replies_in_table (auth_step E Q ev s)"
  proof (cases "ev = Auth_called \<and> auth_deferred s \<noteq> [] \<and> \<not> auth_dead s")
    case True
    then show ?thesis
      using replies_in_table_callback assms by (auto simp: auth_step_def neq_Nil_conv)
  next
    case False
    then show ?thesis
      using assms(1)
      by (cases ev; auto simp: replies_in_table_def auth_step_def auth_enqueue_def auth_serve_def
          auth_run_callback_def auth_abort_def auth_stop_def Let_def split: list.split)
  qed
qed

lemma replies_in_table_run:
  "replies_in_table s \<Longrightarrow> auth_db_enabled s \<Longrightarrow> replies_in_table (auth_run E Q evs s)"
  by (induction evs arbitrary: s) (simp_all add: auth_run_def replies_in_table_step)

lemma replies_in_table_start: "replies_in_table (start_auth db_enabled db)"
  by (simp add: replies_in_table_def start_auth_def)

subsection \<open>A callback is the decision of \<open>authenticate\<close>\<close>

lemma callback_authenticates:
  assumes "\<not> auth_dead s" "auth_deferred s = cb # cbs"
    and "cb_result cb = (let token = s_reconnection_token (cb_user_data cb) in
      if has_dot token then Some (verify_jwt E http token) else None)"
    and "snd (last (auth_replies (auth_run_callback E Q s))) \<noteq> Thrown"
  shows "snd (last (auth_replies (auth_run_callback E Q s))) =
    authenticate E
      (if auth_db_enabled s
       then Some (\<lambda>token gid pid. case get_peer_or_insert Q token gid pid (auth_db s) of Inr (q, _) \<Rightarrow> q | Inl e \<Rightarrow> pid)
       else None) http (cb_res cb \<in> set (auth_aborted s)) (cb_user_data cb)"
  using assms
  by (auto simp: auth_run_callback_def anonymous_callback_def authenticate_def upgrade_anonymous_def
      has_dot_def Let_def split: sum.split if_splits)

subsection \<open>Stopping\<close>

text \<open>A thread that waits on an empty queue does not see that it was stopped, so nobody can join it.\<close>

lemma stop_leaves_the_thread_waiting:
  assumes "auth_waiting s" "authentication_queue s = []" "\<forall>ev \<in> set evs. \<forall>d. ev \<noteq> Auth_requested d"
  shows "auth_waiting (auth_run E Q evs (auth_stop s))"
proof -
  have "auth_waiting s' \<Longrightarrow> authentication_queue s' = [] \<Longrightarrow> auth_waiting (auth_run E Q evs s')" for s'
    using assms(3)
  proof (induction evs arbitrary: s')
    case (Cons ev evs)
    then show ?case
      by (cases ev) (simp_all add: auth_run_def auth_step_def auth_serve_def auth_run_callback_def
          auth_abort_def auth_stop_def Let_def split: list.split prod.split)
  qed (simp add: auth_run_def)
  then show ?thesis using assms(1,2) by (simp add: auth_stop_def)
qed

end
