(* ===== verification/Server_Boot.thy ===== *)
theory Server_Boot
  imports Server_System Start_Up Auth_Thread
begin

text \<open>
  From the settings to a running server: \<open>main\<close> (\<^verbatim>\<open>src/src/main.cpp\<close>) makes the web server with its
  authentication thread and the game thread, whose \<open>run\<close> loads the games before the first round. So
  the runs of \<open>system\<close> start where the program starts.
\<close>

definition GAME_CHECK_TIME :: i32 where
  "GAME_CHECK_TIME = 100"

definition boot_web :: "settings \<Rightarrow> web" where
  "boot_web S = start_web (c_max_messages_per_second S) (c_max_users S)"

definition boot_game_thread :: "settings \<Rightarrow> i64 \<Rightarrow> gthread" where
  "boot_game_thread S time =
    start_thread GAME_CHECK_TIME (c_listing_interval S) (c_max_reconnection_time S) (c_scripts_folder S) time"

text \<open>\<open>run\<close> up to its loop: the times of the last listing, sweep and timers are the time of the start.\<close>

definition run_begin :: "env \<Rightarrow> i64 \<Rightarrow> game_folder list \<Rightarrow> gthread \<Rightarrow> run_state \<times> gthread" where
  "run_begin E time folders t =
    (let t = load_games E folders (t\<lparr>now := time\<rparr>)
     in (\<lparr>last_listing = now t, last_disconnect = now t, last_timers = now t\<rparr>, t))"

lemma boot_system:
  "system E gen (c_max_messages_per_second S) (c_max_users S) (boot_web S)
     (run_begin E time folders (boot_game_thread S time0)) []"
proof -
  let ?t = "(boot_game_thread S time0)\<lparr>now := time\<rparr>"
  have "system E gen (c_max_messages_per_second S) (c_max_users S) (boot_web S) (r, load_games E folders ?t) []" for r
    unfolding boot_web_def boot_game_thread_def by (rule sys_load [OF sys_clock [OF sys_start]])
  then show ?thesis by (simp add: run_begin_def Let_def)
qed

end
