(* ===== verification/Property_Cache.thy ===== *)
theory Property_Cache
  imports Lua_Api
begin

text \<open>
  The userdata objects of a virtual machine and the cache in front of \<open>lobby.public_data\<close>, from
  \<^verbatim>\<open>src/src/lua/script_lua.cpp\<close> (\<open>create_lobby_userdata\<close>, \<open>get_lobby_userdata_cache\<close>,
  \<open>cache_lobby_property\<close>, \<open>set_lua_metatables\<close>). An object is its number in the order of creation; what
  it holds never changes. The cache maps an object to a table of its properties; its values are
  weak, so the collector may take any of these tables away at any time. The model of a property
  read (\<open>index_lobby_root\<close>) has no cache: here is why it needs none.
\<close>

subsection \<open>Objects and the cache\<close>

type_synonym property_table = "string \<Rightarrow> nat option"

record machine =
  vm_userdata :: "lobby_userdata list"
  vm_lobby_cache :: "nat \<Rightarrow> property_table option"

definition vm_create :: "lobby_userdata \<Rightarrow> machine \<Rightarrow> nat \<times> machine" where
  "vm_create u m = (length (vm_userdata m), m\<lparr>vm_userdata := vm_userdata m @ [u]\<rparr>)"

definition vm_metatables :: "machine \<Rightarrow> machine" where
  "vm_metatables m = m\<lparr>vm_lobby_cache := (\<lambda>_. None)\<rparr>"

definition get_lobby_userdata_cache :: "nat \<Rightarrow> machine \<Rightarrow> property_table \<times> machine" where
  "get_lobby_userdata_cache obj m =
    (case vm_lobby_cache m obj of
       Some table \<Rightarrow> (table, m)
     | None \<Rightarrow> (\<lambda>_. None, m\<lparr>vm_lobby_cache := (vm_lobby_cache m)(obj \<mapsto> (\<lambda>_. None))\<rparr>))"

text \<open>Whether the property was found, the object now on the stack, and the machine.\<close>

definition cache_lobby_property ::
  "nat \<Rightarrow> string \<Rightarrow> (machine \<Rightarrow> nat \<times> machine) \<Rightarrow> machine \<Rightarrow> bool \<times> nat \<times> machine" where
  "cache_lobby_property obj key push_value m =
    (let (table, m) = get_lobby_userdata_cache obj m in
     case table key of
       Some v \<Rightarrow> (True, v, m)
     | None \<Rightarrow>
         (let (v, m) = push_value m in
          (False, v, m\<lparr>vm_lobby_cache := (vm_lobby_cache m)(obj \<mapsto> table(key \<mapsto> v))\<rparr>)))"

text \<open>\<open>public_data\<close> of a root object.\<close>

definition public_view :: "lobby_userdata \<Rightarrow> lobby_userdata" where
  "public_view u = u\<lparr>ud_type := LOBBY_PUBLIC_DATA, ud_peer_id := []\<rparr>"

definition index_public_data :: "nat \<Rightarrow> machine \<Rightarrow> nat \<times> machine" where
  "index_public_data obj m =
    (let (found, v, m) = cache_lobby_property obj ''public_data''
           (vm_create (public_view (vm_userdata m ! obj))) m
     in (v, m))"

subsection \<open>Memories of a function\<close>

text \<open>
  The contract of a memory in front of a function \<open>f\<close>: a lookup answers with \<open>f\<close> of its argument and
  keeps the invariant, and so does everything else that may happen meanwhile.
\<close>

locale memory =
  fixes inv :: "'m \<Rightarrow> bool"
    and asks :: "'k \<Rightarrow> 'm \<Rightarrow> bool"
    and get :: "'k \<Rightarrow> 'm \<Rightarrow> 'v \<times> 'm"
    and other :: "'e \<Rightarrow> 'm \<Rightarrow> 'm"
    and f :: "'k \<Rightarrow> 'm \<Rightarrow> 'w"
    and read :: "'v \<Rightarrow> 'm \<Rightarrow> 'w"
  assumes get_value: "inv m \<Longrightarrow> asks k m \<Longrightarrow> get k m = (v, m') \<Longrightarrow> read v m' = f k m \<and> inv m'"
    and other_inv: "inv m \<Longrightarrow> inv (other e m)"
begin

lemma others_inv: "inv m \<Longrightarrow> inv (fold other es m)"
  by (induction es arbitrary: m) (simp_all add: other_inv)

lemma get_after:
  assumes "inv m" "asks k (fold other es m)" "get k (fold other es m) = (v, m')"
  shows "read v m' = f k (fold other es m) \<and> inv m'"
  using get_value [OF others_inv [OF assms(1)] assms(2,3)] .

end

subsection \<open>The cache is one\<close>

text \<open>Whatever is in the cache is a view of the object it is filed under.\<close>

definition cache_ok :: "machine \<Rightarrow> bool" where
  "cache_ok m \<longleftrightarrow>
    (\<forall>obj table v. vm_lobby_cache m obj = Some table \<longrightarrow> table ''public_data'' = Some v \<longrightarrow>
       obj < length (vm_userdata m) \<and> v < length (vm_userdata m) \<and>
       vm_userdata m ! v = public_view (vm_userdata m ! obj))"

text \<open>What else happens: objects are created, other objects are asked, tables are collected.\<close>

datatype vm_event =
    Vm_create lobby_userdata
  | Vm_public nat
  | Vm_collect "nat list"

definition vm_step :: "vm_event \<Rightarrow> machine \<Rightarrow> machine" where
  "vm_step ev m =
    (case ev of
       Vm_create u \<Rightarrow> snd (vm_create u m)
     | Vm_public obj \<Rightarrow> if obj < length (vm_userdata m) then snd (index_public_data obj m) else m
     | Vm_collect objs \<Rightarrow>
         m\<lparr>vm_lobby_cache := (\<lambda>obj. if obj \<in> set objs then None else vm_lobby_cache m obj)\<rparr>)"

lemma cache_ok_metatables: "cache_ok (vm_metatables m)"
  by (simp add: cache_ok_def vm_metatables_def)

lemma cache_ok_create: "cache_ok m \<Longrightarrow> cache_ok (snd (vm_create u m))"
  by (fastforce simp: cache_ok_def vm_create_def nth_append)

definition fresh_view :: "nat \<Rightarrow> property_table \<Rightarrow> machine \<Rightarrow> machine" where
  "fresh_view obj table m =
    m\<lparr>vm_userdata := vm_userdata m @ [public_view (vm_userdata m ! obj)],
      vm_lobby_cache := (vm_lobby_cache m)(obj \<mapsto> table(''public_data'' \<mapsto> length (vm_userdata m)))\<rparr>"

lemma index_public_data_None:
  "vm_lobby_cache m obj = None \<Longrightarrow>
   index_public_data obj m = (length (vm_userdata m), fresh_view obj (\<lambda>_. None) m)"
  by (simp add: index_public_data_def cache_lobby_property_def get_lobby_userdata_cache_def vm_create_def
      fresh_view_def)

lemma index_public_data_Some:
  "vm_lobby_cache m obj = Some table \<Longrightarrow>
   index_public_data obj m =
     (case table ''public_data'' of
        Some v \<Rightarrow> (v, m)
      | None \<Rightarrow> (length (vm_userdata m), fresh_view obj table m))"
  by (simp add: index_public_data_def cache_lobby_property_def get_lobby_userdata_cache_def vm_create_def
      fresh_view_def split: option.split)

lemma cache_ok_fresh_view:
  assumes "cache_ok m" "obj < length (vm_userdata m)"
  shows "cache_ok (fresh_view obj table m)"
  using assms by (auto simp: cache_ok_def fresh_view_def nth_append dest: less_SucI split: if_splits)

lemma index_public_data_view:
  assumes "cache_ok m" "obj < length (vm_userdata m)" "index_public_data obj m = (v, m')"
  shows "v < length (vm_userdata m') \<and> vm_userdata m' ! v = public_view (vm_userdata m ! obj) \<and> cache_ok m'"
proof -
  have fresh: ?thesis if "v = length (vm_userdata m)" "m' = fresh_view obj table m" for table
    using that cache_ok_fresh_view [OF assms(1,2)] by (simp add: fresh_view_def)
  show ?thesis
  proof (cases "vm_lobby_cache m obj")
    case None
    then show ?thesis using fresh assms(3) index_public_data_None by (metis prod.inject)
  next
    case (Some table)
    show ?thesis
    proof (cases "table ''public_data''")
      case None
      then show ?thesis using fresh [of table] assms(3) index_public_data_Some [OF Some] by simp
    next
      case found: (Some w)
      then have "v = w" "m' = m" using assms(3) index_public_data_Some [OF Some] by simp_all
      then show ?thesis using assms(1) Some found by (simp add: cache_ok_def)
    qed
  qed
qed

lemma cache_ok_step: "cache_ok m \<Longrightarrow> cache_ok (vm_step ev m)"
proof (cases ev)
  case (Vm_public obj)
  assume "cache_ok m"
  then show ?thesis
    using Vm_public index_public_data_view [of m obj]
    by (cases "index_public_data obj m") (simp add: vm_step_def)
qed (auto simp: vm_step_def cache_ok_create, auto simp: cache_ok_def split: if_splits)

interpretation property_cache: memory cache_ok "\<lambda>obj m. obj < length (vm_userdata m)" index_public_data vm_step
  "\<lambda>obj m. public_view (vm_userdata m ! obj)" "\<lambda>v m. vm_userdata m ! v"
  using index_public_data_view cache_ok_step by unfold_locales blast+

text \<open>So a read through the cache is the read of the model.\<close>

lemma cached_read_is_the_read:
  assumes "cache_ok m" "obj < length (vm_userdata m)" "index_public_data obj m = (v, m')"
  shows "index_lobby_root (vm_userdata m ! obj) ''public_data'' c = ([LUserdata (vm_userdata m' ! v)], c)"
  using index_public_data_view [OF assms] by (simp add: index_lobby_root_def peer_userdata_def public_view_def Let_def)

text \<open>Between collections the same object is handed out again.\<close>

lemma second_read_is_the_same:
  assumes "index_public_data obj m = (v, m')"
  shows "index_public_data obj m' = (v, m')"
proof (cases "vm_lobby_cache m obj")
  case None
  then show ?thesis
    using assms index_public_data_None [OF None] by (auto simp: index_public_data_Some fresh_view_def)
next
  case (Some table)
  then show ?thesis
    using assms index_public_data_Some [OF Some]
    by (cases "table ''public_data''") (auto simp: index_public_data_Some fresh_view_def)
qed

end
