(* ===== verification/Spec2Isabelle.thy ===== *)
theory Spec2Isabelle
  imports Flush_Effects Authentication Login_Requests Library_Paths Leaderboard_Effects
    Script_Places Server_Log File_Watch Thread_Stats Server_Boot Property_Cache
begin

text \<open>
  \<^bold>\<open>A verification of the tiny lobby server\<close>

  The program (C++, under \<^verbatim>\<open>src/src\<close>) lets the players of many games meet in lobbies. A web server
  thread (\<^verbatim>\<open>websocket/websocket_server.cpp\<close>) accepts connections, asks the authentication thread
  (\<^verbatim>\<open>authentication\<close>) who the client is, and queues what clients say. The game thread
  (\<^verbatim>\<open>game/game_thread.cpp\<close>) takes the queue, keeps the peers and lobbies of every game, runs the
  games' Lua scripts (\<^verbatim>\<open>lua\<close>), and defers its answers to the loop of the web server. A clock thread
  stores the time the game thread works with, a database thread applies the scores scripts set, and a
  file watcher names the games to reload.

  \<^bold>\<open>The theories and the code they model\<close>

  \<^item> \<open>Prelude\<close>: \<open>flat_map\<close>, \<open>flat_set\<close>, \<open>int\<close> and \<open>int64_t\<close> as words, comparisons of a size with a
    signed number, C strings; the locale \<open>keyed_store\<close>, interpreted on \<open>flat_map\<close>.
  \<^item> \<open>Any_Type\<close> (\<^verbatim>\<open>common/any_type.*\<close>): the dynamic value, its comparison, JSON documents, decoders.
  \<^item> \<open>Messages\<close> (\<^verbatim>\<open>game/game_thread_messages.h\<close>): error codes, commands, responses, notifications.
  \<^item> \<open>Lua_Types\<close>, \<open>Lua_Api\<close> (\<^verbatim>\<open>lua/*.cpp\<close>): values between server and script, the outside services
    (record \<open>env\<close>), and the functions a script calls. A script is a tree of calls: what it asks
    the server and how it continues on the answer, so any script is some tree.
  \<^item> \<open>Game_State\<close>, \<open>Lobby_Core\<close> (\<^verbatim>\<open>game_data.h\<close>, \<^verbatim>\<open>peer_data.h\<close>, \<^verbatim>\<open>lobby_data.h\<close>, \<open>send\<close>,
    \<open>remove_peer_from_lobby\<close>, \<open>notify_lobby_changes\<close>), \<open>Lobby_Handlers\<close> (connect, close, create, join,
    quick join, leave, list), \<open>Host_Handlers\<close> (chat, tags, kick, ready, seal, size, title, password),
    \<open>Relay_Handlers\<close> (data and notifications), \<open>Game_Thread\<close> (dispatch, ticks, batches, timers, sweeps,
    loading games, one round of the loop): the functions of \<^verbatim>\<open>game_thread.cpp\<close> by their names.
  \<^item> \<open>Web_Server\<close>: upgrade, open, message, close, send, clear users, and \<open>deliver\<close>, which runs what
    the game thread deferred. \<open>Authentication\<close>, \<open>Login_Requests\<close>: the decision on a token, and what the
    login client sends and reads. \<open>Auth_Thread\<close> (\<^verbatim>\<open>authentication/authentication_thread.*\<close>): the queue of
    requests, the thread that serves it and the callbacks that upgrade or reject.
  \<^item> \<open>Script_Library\<close> (\<^verbatim>\<open>lua/script_lua_functions.cpp\<close>): HTTP requests, JSON, files, \<open>require\<close> and the start
    of a script, over the files and the module cache of one machine. \<open>Property_Cache\<close>
    (\<^verbatim>\<open>lua/script_lua.cpp\<close>): the userdata objects of a machine and the cache of their properties.
  \<^item> \<open>Leaderboards\<close> (\<^verbatim>\<open>database/database.cpp\<close>, \<^verbatim>\<open>database_thread.cpp\<close>, the routes of \<^verbatim>\<open>main.cpp\<close>): tables as
    lists of rows, methods as the SQL statements they send. \<open>Start_Up\<close> (\<^verbatim>\<open>main.cpp\<close>,
    \<^verbatim>\<open>common/base_path.cpp\<close>): command line and settings. \<open>Server_Log\<close> (\<^verbatim>\<open>common/server_logger.h\<close>),
    \<open>File_Watch\<close> (\<^verbatim>\<open>game/games_listener.cpp\<close>), \<open>Thread_Stats\<close> (the statistics of \<open>GameThread::run\<close>).
  \<^item> \<open>Server_System\<close>: the web server and the game thread composed over the two queues they share;
    \<open>Server_Boot\<close>: how \<open>main\<close> makes them from the settings, and \<open>run\<close> up to its loop.

  A handler of the game thread is a function on \<open>ctx\<close>: the thread's shared state (time, deferred
  callbacks, counters) and the game at hand. \<open>faults\<close> records undefined behaviour and exceptions of
  the C++ code at the point where they happen (an iterator used after its container changed, a wrong
  \<open>std::get\<close>), and a record made by \<open>operator[]\<close> for an id that was not there, which is defined but
  which no code here means to do. The model goes on after a fault, and statements say which runs they
  are about.

  \<^bold>\<open>The lemmas\<close>

  \<^item> \<open>Frames\<close>, \<open>Kept\<close>, \<open>Growth\<close>: what operations leave alone. The locales \<open>kept\<close>, \<open>kept_scripts\<close>,
    \<open>kept_detach\<close> and \<open>kept_any\<close> carry a relation between states through every operation once its
    few basic steps keep it; they are interpreted for links, configuration, counters and records.
    \<open>Script_Places\<close> interprets them for the places of peers in lobbies, whatever a script does.
  \<^item> \<open>Consistency\<close>, \<open>Handlers_Keep\<close>, \<open>Reachable\<close>: the invariant of the records of a game and its
    preservation by every handler, script and round of the loop.
  \<^item> \<open>Membership\<close>, \<open>Sound_Handlers\<close>, \<open>Sound_Moves\<close>: exact membership in games without scripts
    that disband a lobby when its host leaves (\<open>exact_game\<close>, \<open>unscripted\<close>, \<open>g_disband_on_leave\<close>). The
    properties of single handlers that need this scope assume these three and say so; joining,
    listing and chat are also stated for games with scripts.
  \<^item> \<open>Delivery\<close>: the locale \<open>channel\<close> and what each client is sent; \<open>Effects\<close>, \<open>Moves_Effects\<close>,
    \<open>Thread_Effects\<close>, \<open>Flush_Effects\<close>, \<open>Values\<close>: what each operation does; \<open>Web_Effects\<close>: sockets, tokens,
    rate limit, and the second instance of \<open>channel\<close>. \<open>Scenario\<close>: a concrete server.
  \<^item> \<open>Library_Runs\<close>: the locale \<open>world_relation\<close>, a relation that loading a module keeps, interpreted for the
    module cache, the folder, and files that cannot be written; how deep \<open>require\<close> nests.
    \<open>Library_Paths\<close>: where the paths of modules and files lead, as the file system reads them.
    \<open>Leaderboard_Effects\<close>: the locale \<open>score_store\<close>, interpreted on the rows of the table; the queue of
    scores against \<open>scores_spec\<close>, a specification in integers of its own; ranks.
    \<open>Server_System\<close>: no message is lost between the threads, and every message is served.
  \<^item> \<open>Auth_Thread\<close>: requests stay in order, and the table of peers only grows; a callback decides as
    \<open>authenticate\<close> does. \<open>Property_Cache\<close>: the locale \<open>memory\<close>, a memory in front of a function,
    interpreted on the property cache with its collector.

  \<^bold>\<open>Bounds and choices\<close>

  Nested calls of a script into itself by way of kicks are bounded by \<open>lua_c_depth\<close>, the limit Lua
  sets on C calls: a call at depth 0 fails with an error, as it does in Lua. A round serves fifty
  messages, as in \<open>run\<close>. The order of an \<open>unordered_map\<close> and the identifiers that are drawn are
  parameters (\<open>bucket_order\<close>, \<open>uuid_gen\<close>); lobbies are named by the first eight characters, and
  what depends on these being distinct says so (\<open>fresh_uuids\<close>). \<open>std::sort\<close> by order number is a
  stable sort. Time changes between rounds only. Scripts see the game whose handler called them,
  because a game's id is its key. uWebSockets runs the close handler inside \<open>WebSocket::end\<close>. Modules
  that require each other nest on the C stack as well; with more calls left than there are files the
  limit is never met. SQL leaves the order of equal scores open: the order of a scan is a parameter, and so is which
  texts the database can store. An aborted request sets its flag, as the code intends; the callback
  that sets it refers to a variable of a function that has returned.

  \<^bold>\<open>Not modelled\<close>

  The transport itself: TLS, HTTP and WebSocket frames, the PostgreSQL server and its failures, and
  Luau's compiler and interpreter (their answers are parameters, among them \<open>luau_load\<close>, \<open>lua_pcall\<close>,
  \<open>https_exchange\<close> and the yyjson text functions). What the operating system does to paths beyond
  their text: symbolic links, permissions. The registration of handlers with uWebSockets and the
  threads' sleeping in \<open>main\<close> and \<open>run\<close>; the sending half of \<open>main\<close>'s shutdown; memory exhaustion. The
  library calls of a script and its calls into the game are modelled apart from each other: no
  library call reads or writes the records of a game.
\<close>

section \<open>The records of a game always fit together\<close>

text \<open>
  C1. In every state the game thread can reach, whatever the scripts, the clients, the file watcher
  and the clock did, a peer record is stored under its own id, and a peer that says it is in a
  lobby is a member of an existing lobby under that id. Two things are required of the run: its
  list of \<open>faults\<close> is empty, so there was neither undefined behaviour nor an \<open>operator[]\<close> that
  created a record for an id that was not there, and the eight-character prefixes of the UUIDs drawn
  are distinct.
\<close>

theorem reachable_peer_in_its_lobby:
  assumes "reachable E (r, t)" "faults t = []" "fresh_uuids E (uuid_count t)"
    and "map_of (games t) gid = Some g" "map_of (g_peers g) k = Some p"
  shows "p_id p = k \<and>
    (p_lobby_id p \<noteq> [] \<longrightarrow>
      (\<exists>l. map_of (g_lobbies g) (p_lobby_id p) = Some l \<and> k \<in> set (l_peer_ids l)))"
proof -
  have "wf_game E (uuid_count t) g"
    using reachable_thread_ok [OF assms(1)] assms(2,3,4) by (simp add: thread_ok_def)
  then show ?thesis
    using wf_game_peer [OF _ assms(5)] by (simp add: wf_peer_iff)
qed

theorem reachable_peer_in_its_lobby_witness:
  "\<exists>p l. map_of (g_peers served_game) ''b'' = Some p \<and> p_id p = ''b'' \<and>
     map_of (g_lobbies served_game) (p_lobby_id p) = Some l \<and> ''b'' \<in> set (l_peer_ids l)"
proof -
  obtain r where r: "reachable E0 (r, served)" using served_reachable by blast
  have "map_of (g_peers served_game) ''b'' \<noteq> None" by code_simp
  then obtain p where p: "map_of (g_peers served_game) ''b'' = Some p" by blast
  have "p_lobby_id (the (map_of (g_peers served_game) ''b'')) \<noteq> []" by code_simp
  then show ?thesis
    using reachable_peer_in_its_lobby [OF r served_clean served_games p] p by auto
qed

text \<open>
  C2. In every state the thread reaches without a fault and with distinct UUID prefixes, a lobby
  carries the id it is stored under, that id is the prefix of a UUID drawn earlier, the lobby has at
  least one member, its member set is strictly ordered, and the list in order of joining holds the
  same peers. Without a fault means here as well: no undefined behaviour, and no \<open>operator[]\<close>
  that created a record for an id that was not there. The second is a real condition for games with
  a script: \<open>kicked_caller_leaves_a_ghost_lobby\<close> shows a run that has no undefined behaviour and leaves
  a lobby without id and members.
\<close>

theorem reachable_lobby_well_formed:
  assumes "reachable E (r, t)" "faults t = []" "fresh_uuids E (uuid_count t)"
    and "map_of (games t) gid = Some g" "map_of (g_lobbies g) k = Some l"
  shows "l_id l = k \<and> (\<exists>i < uuid_count t. k = take 8 (uuid_gen E i)) \<and> l_peer_ids l \<noteq> [] \<and>
    sorted_wrt (<) (l_peer_ids l) \<and> set (l_peer_ordered_ids l) = set (l_peer_ids l)"
proof -
  have "wf_game E (uuid_count t) g"
    using reachable_thread_ok [OF assms(1)] assms(2,3,4) by (simp add: thread_ok_def)
  then have "wf_lobby E (uuid_count t) k l" using wf_game_lobby assms(5) by blast
  then show ?thesis by (auto simp: wf_lobby_def lobby_key_def fs_wf_def)
qed

theorem reachable_lobby_well_formed_witness:
  "\<exists>l. map_of (g_lobbies served_game) ''u'' = Some l \<and> l_id l = ''u'' \<and> l_peer_ids l \<noteq> [] \<and>
     set (l_peer_ordered_ids l) = set (l_peer_ids l)"
proof -
  obtain r where r: "reachable E0 (r, served)" using served_reachable by blast
  have "map_of (g_lobbies served_game) ''u'' \<noteq> None" by code_simp
  then obtain l where l: "map_of (g_lobbies served_game) ''u'' = Some l" by blast
  show ?thesis
    using reachable_lobby_well_formed [OF r served_clean served_games l] l by blast
qed

text \<open>
  C3. A game without a script whose configuration disbands a lobby when its host leaves never
  hits undefined behaviour, and membership is exact at every moment: for any sequence of
  connections, messages and disconnections, sweeps, batches and lists, the members of a lobby are
  exactly the peers that say they are in it, the host is one of them, no one is listed twice, and
  there are no more of them than the lobby allows.
\<close>

theorem membership_is_exact:
  assumes folder: "\<not> gf_has_main f" "gf_disband_on_leave f"
    and t: "faults t = []" "orders_keys E"
    and c: "c = fold (play E) sts (enter_game t (folder_game scripts f))"
    and fresh: "fresh_uuids E (uuid_count c)"
  shows "faults c = [] \<and>
    (\<forall>k l. map_of (g_lobbies (game c)) k = Some l \<longrightarrow>
      l_host l \<in> set (l_peer_ids l) \<and> distinct (l_peer_ids l) \<and>
      size_le (length (l_peer_ids l)) (l_max_players l) \<and>
      (\<forall>j. j \<in> set (l_peer_ids l) \<longleftrightarrow>
        (\<exists>p. map_of (g_peers (game c)) j = Some p \<and> p_lobby_id p = k)))"
proof -
  let ?c0 = "enter_game t (folder_game scripts f)"
  have "grows ?c0 c" unfolding c by (rule grows_plays) (rule grows_refl)
  then have "fresh_uuids E (uuid_count t)"
    using fresh fresh_uuids_mono by (auto simp: grows_def)
  then have "sound E ?c0"
    using folder t(1)
    by (simp add: sound_def folder_game_def Let_def strict_game_def wf_game_def unscripted_def new_game_def)
  then have s: "sound E c" using sound_plays [OF _ t(2)] fresh unfolding c by blast
  have "l_host l \<in> set (l_peer_ids l) \<and> distinct (l_peer_ids l) \<and>
      size_le (length (l_peer_ids l)) (l_max_players l) \<and>
      (\<forall>j. j \<in> set (l_peer_ids l) \<longleftrightarrow>
        (\<exists>p. map_of (g_peers (game c)) j = Some p \<and> p_lobby_id p = k))"
    if l: "map_of (g_lobbies (game c)) k = Some l" for k l
  proof -
    have fl: "full_lobby (g_peers (game c)) k l" using sound_full [OF s l] .
    have "distinct (l_peer_ids l)"
      using sound_wf_lobby [OF s l] by (simp add: wf_lobby_def fs_wf_distinct)
    moreover have "j \<in> set (l_peer_ids l)"
      if "map_of (g_peers (game c)) j = Some p" "p_lobby_id p = k" for j p
      using wf_game_peer [OF sound_wf [OF s] that(1)] that(2) l fl by (auto simp: wf_peer_iff full_lobby_def)
    ultimately show ?thesis using fl by (auto simp: full_lobby_def)
  qed
  moreover have "faults c = []" using s by (simp add: sound_def)
  ultimately show ?thesis by blast
qed

definition relay_folder :: game_folder where
  "relay_folder = \<lparr>gf_name = ''g'', gf_has_main = False, gf_tickrate = 0, gf_sendrate = 0,
     gf_max_afk_time = 0, gf_seal = False, gf_disband_on_leave = True\<rparr>"

theorem membership_is_exact_witness:
  "\<exists>l. map_of (g_lobbies (game (fold (play E0) (map Incoming pair_events)
      (enter_game empty_thread (folder_game ''s'' relay_folder))))) ''u'' = Some l \<and>
    distinct (l_peer_ids l) \<and> l_host l \<in> set (l_peer_ids l)"
proof -
  define c where "c = fold (play E0) (map Incoming pair_events) (enter_game empty_thread (folder_game ''s'' relay_folder))"
  have "uuid_count c = 1" unfolding c_def by code_simp
  then have fresh: "fresh_uuids E0 (uuid_count c)" by (simp add: fresh_E0)
  have "map_of (g_lobbies (game c)) ''u'' \<noteq> None" unfolding c_def by code_simp
  then obtain l where l: "map_of (g_lobbies (game c)) ''u'' = Some l" by blast
  have start: "\<not> gf_has_main relay_folder" "gf_disband_on_leave relay_folder" "faults empty_thread = []"
    by (simp_all add: relay_folder_def empty_thread_def start_thread_def)
  show ?thesis
    using membership_is_exact [OF start orders_keys_E0 c_def fresh] l
    unfolding c_def [symmetric] by blast
qed


section \<open>Scripts\<close>

text \<open>
  C4. Whatever a script does while the server calls it, kicks and nested calls included: no
  identifier is drawn and the configuration of the game is the same; no peer record is erased or
  changes its id; each peer is still in the lobby it was in or in none, and no lobby has a
  member it did not have, so a script can take peers out of lobbies and never put one in. This
  holds of every call, for as long as its behaviour is defined. A call may change the data of
  peers and lobbies, and kicking an id nobody has creates a record for it
  (\<open>kicking_a_stranger_creates_a_record\<close>). A call that did neither that nor anything undefined
  (\<open>faults\<close>) leaves exactly the peers that were there, and records that fit together again.
\<close>

theorem script_is_contained:
  assumes "call_script E pid lid func args c = (r, e, c')"
  shows "uuid_count c' = uuid_count c \<and> config (game c') = config (game c) \<and>
    (\<forall>k. (has_peer c k \<longrightarrow> has_peer c' k) \<and> p_id (peer_at c' k) = p_id (peer_at c k) \<and>
      p_lobby_id (peer_at c' k) \<in> {p_lobby_id (peer_at c k), []} \<and>
      set (l_peer_ids (lobby_at c' k)) \<subseteq> set (l_peer_ids (lobby_at c k))) \<and>
    (consistent E c \<longrightarrow> faults c' = [] \<longrightarrow>
      faults c = [] \<and> consistent E c' \<and> (\<forall>k. has_peer c' k = has_peer c k))"
proof -
  have "keeps_places c c'" using script_places [of c E pid lid func args] assms by simp
  moreover have "faults c = [] \<and> consistent E c' \<and> (\<forall>k. has_peer c' k = has_peer c k)"
    if "consistent E c" "faults c' = []"
  proof -
    have st: "steps E c c'"
      using steps.call_script [OF steps_refl [OF that(1)]] assms by (metis snd_conv)
    then have sh: "faults c = []" "shrinks c c'" using that(2) by (simp_all add: steps_def)
    have "has_peer c' k = has_peer c k" for k
    proof -
      have "rel_option (\<lambda>p q. p_lobby_id q = p_lobby_id p \<or> p_lobby_id q = [])
          (map_of (g_peers (game c)) k) (map_of (g_peers (game c')) k)"
        using sh(2) by (simp add: shrinks_def)
      then show ?thesis
        by (cases rule: option.rel_cases) (auto simp: has_peer_def fm_has_def)
    qed
    then show ?thesis using st sh by (simp add: steps_inv)
  qed
  ultimately show ?thesis unfolding keeps_places_def by blast
qed

text \<open>A script with one function, which kicks the peer \<open>k\<close>, and a game that runs it.\<close>

definition kick_env :: "string \<Rightarrow> env" where
  "kick_env k = E0\<lparr>lua_main := (\<lambda>_. Some (LTable [])), lua_has_function := (\<lambda>_ f. f = ''kick''),
     lua_pcall := (\<lambda>vm f args. SApi Api_kick_peer [LStr k] (\<lambda>r. SRet vm [LBool True]))\<rparr>"

definition with_script :: "ctx \<Rightarrow> ctx" where
  "with_script = upd_game (\<lambda>g. g\<lparr>g_lobby_control := ''script'',
     g_lua := default_lua\<lparr>lua_L := Some 0, lua_enabled := True\<rparr>\<rparr>)"

definition scripted :: ctx where
  "scripted = with_script (pair True)"

theorem script_is_contained_witness:
  "p_lobby_id (peer_at scripted ''b'') = ''u'' \<and>
   (let c' = snd (snd (call_script (kick_env ''b'') ''a'' ''u'' ''kick'' [] scripted))
    in p_lobby_id (peer_at c' ''b'') = [] \<and> has_peer c' ''b'' \<and> consistent (kick_env ''b'') c')"
proof -
  let ?E = "kick_env ''b''"
  define c' where "c' = snd (snd (call_script ?E ''a'' ''u'' ''kick'' [] scripted))"
  obtain r e where call: "call_script ?E ''a'' ''u'' ''kick'' [] scripted = (r, e, c')"
    unfolding c'_def by (metis prod.collapse)
  have "uuid_count scripted = 1" by code_simp
  moreover have "wf_game ?E 1 (game scripted)" by code_simp
  ultimately have "consistent ?E scripted" by (simp add: consistent_def)
  moreover have "faults c' = []" unfolding c'_def by code_simp
  moreover have "p_lobby_id (peer_at c' ''b'') = []" unfolding c'_def by code_simp
  moreover have "has_peer scripted ''b''" "p_lobby_id (peer_at scripted ''b'') = ''u''" by code_simp+
  ultimately show ?thesis
    using script_is_contained [OF call] unfolding Let_def c'_def [symmetric] by blast
qed

text \<open>
  Two calls that create records by \<open>operator[]\<close>, without any undefined behaviour: \<open>kick_peer\<close> does not
  ask whether the peer exists, and a lone member that calls a function which kicks it takes the
  lobby away that \<open>notify_lobby_changes\<close> looks up afterwards.
\<close>

theorem kicking_a_stranger_creates_a_record:
  "let c' = snd (snd (call_script (kick_env ''zz'') ''a'' ''u'' ''kick'' [] (with_script (pair False))))
   in faults c' = [MissingPeer ''zz''] \<and> \<not> has_peer (pair False) ''zz'' \<and>
     has_peer c' ''zz'' \<and> p_id (peer_at c' ''zz'') = []"
  by code_simp

theorem kicked_caller_leaves_a_ghost_lobby:
  "let c = with_script (hosted False);
       c' = on_lobby_call (kick_env ''a'') [] ''a'' (Some (YObj [(YStr ''f'', YStr ''kick'')])) c
   in l_peer_ids (lobby_at c ''u'') = [''a''] \<and> faults c' = [MissingLobby ''u''] \<and>
     has_lobby c' ''u'' \<and> lobby_at c' ''u'' = default_lobby \<and> p_lobby_id (peer_at c' ''a'') = []"
  by code_simp

section \<open>Membership\<close>

text \<open>
  C5. Exactly when a join succeeds, in every game whose records fit together, with a script or
  without. The caller must fit: it is a disconnected member that comes back to its lobby, or it is in
  no lobby, the lobby it names exists, the password is the lobby's and there is room (a size of zero
  would be no limit); whether the lobby is sealed is not asked. And where the game's script has a \<open>_can_peer_join\<close>, that function,
  which is asked only about callers that fit, must not end in an error with a text. A join that
  fails changes no record, except for what the script itself did when it was asked.
\<close>

theorem join_succeeds_iff:
  assumes wf: "wf_game E n (game c)" and pid: "has_peer c pid" and rec: "back = reconnecting (peer_at c pid)"
    and lid: "lid = join_target back (peer_at c pid) data []"
    and fits: "fits \<longleftrightarrow> back \<or>
      (p_lobby_id (peer_at c pid) = [] \<and> lid \<noteq> [] \<and> has_lobby c lid \<and>
       l_password (lobby_at c lid) = decode_string_or_default data ''_p'' [] \<and>
       (l_max_players (lobby_at c lid) = 0 \<or>
        size_lt (length (l_peer_ids (lobby_at c lid))) (l_max_players (lobby_at c lid))))"
    and answer: "call_script E' pid lid ''_can_peer_join'' [] c = (result, has_error, asked)"
    and join: "on_join_lobby E' i pid data [] c = (joined, c')"
  shows "(joined \<longleftrightarrow> fits \<and>
      (has_callback c ''_can_peer_join'' \<longrightarrow> \<not> (has_error \<and> (\<exists>s. result = AStr s)))) \<and>
    (\<not> joined \<longrightarrow> state_of c' = state_of (if fits then asked else c))"
proof -
  note join = join [unfolded join_cases_wf [OF wf pid rec lid]]
  show ?thesis
  proof (cases "lid = [] \<or> \<not> has_lobby c lid")
    case True
    then have "\<not> fits" using own_lobby_wf [OF wf pid] fits rec lid
      by (auto simp: reconnecting_def join_target_def)
    then show ?thesis using join True by auto
  next
    case False
    then have "fits \<longleftrightarrow> join_refusal back data (peer_at c pid) (lobby_at c lid) = None"
      by (auto simp: fits join_refusal_def)
    then show ?thesis
      using join False answer
      by (cases "join_refusal back data (peer_at c pid) (lobby_at c lid)"; cases result)
        (auto simp: ask_script_def split: if_splits)
  qed
qed

theorem join_succeeds_iff_witness:
  "fst (on_join_lobby E0 [] ''b'' (Some (YObj [(YStr ''l'', YStr ''u'')])) [] (hosted True)) \<and>
   \<not> fst (on_join_lobby E0 [] ''b'' (Some (YObj [(YStr ''l'', YStr ''v'')])) [] (hosted True))"
proof -
  let ?b = "reconnecting (peer_at (hosted True) ''b'')"
  have b: "has_peer (hosted True) ''b''" "?b = False" "p_lobby_id (peer_at (hosted True) ''b'') = []" by code_simp+
  have u: "join_target False (peer_at (hosted True) ''b'') (Some (YObj [(YStr ''l'', YStr ''u'')])) [] = ''u''"
    and v: "join_target False (peer_at (hosted True) ''b'') (Some (YObj [(YStr ''l'', YStr ''v'')])) [] = ''v''"
    by code_simp+
  have l: "has_lobby (hosted True) ''u''" "\<not> has_lobby (hosted True) ''v''"
    "size_lt (length (l_peer_ids (lobby_at (hosted True) ''u''))) (l_max_players (lobby_at (hosted True) ''u''))"
    "l_password (lobby_at (hosted True) ''u'') =
      decode_string_or_default (Some (YObj [(YStr ''l'', YStr ''u'')])) ''_p'' []" by code_simp+
  obtain r1 e1 a1 r2 e2 a2
    where a: "call_script E0 ''b'' ''u'' ''_can_peer_join'' [] (hosted True) = (r1, e1, a1)"
      "call_script E0 ''b'' ''v'' ''_can_peer_join'' [] (hosted True) = (r2, e2, a2)" by (meson prod_cases3)
  have n: "\<not> has_callback (hosted True) ''_can_peer_join''" by code_simp
  show ?thesis
    using join_succeeds_iff [OF sound_wf [OF sound_hosted] b(1) b(2) [symmetric] u [symmetric] refl a(1) prod.collapse [symmetric], of "[]"]
      join_succeeds_iff [OF sound_wf [OF sound_hosted] b(1) b(2) [symmetric] v [symmetric] refl a(2) prod.collapse [symmetric], of "[]"]
      b l n by simp
qed

text \<open>
  C6. In a game without a script that disbands its lobbies when the host leaves and whose membership
  is exact (\<open>exact_game\<close>, what \<open>membership_is_exact\<close> shows of every run of such a game), a join puts the
  caller into the lobby's member set and nowhere else: no other peer and no other lobby changes,
  the host stays, and the list in order of joining gains exactly the caller and is sorted by the
  peers' order numbers. In a game with a script its \<open>_on_peer_joined\<close> may do more.
\<close>

theorem join_adds_the_peer:
  assumes scope: "exact_game E c" "unscripted (game c)" "g_disband_on_leave (game c)"
    and pid: "has_peer c pid" "p_lobby_id (peer_at c pid) = []"
    and joined: "on_join_lobby E' i pid data [] c = (True, c')"
    and lid: "lid = decode_string_or_default data ''l'' []"
  shows "p_lobby_id (peer_at c' pid) = lid \<and>
    l_peer_ids (lobby_at c' lid) = fs_insert pid (l_peer_ids (lobby_at c lid)) \<and>
    l_host (lobby_at c' lid) = l_host (lobby_at c lid) \<and>
    mset (l_peer_ordered_ids (lobby_at c' lid)) = add_mset pid (mset (l_peer_ordered_ids (lobby_at c lid))) \<and>
    sorted (map (\<lambda>k. sint (p_order_id (peer_at c' k))) (l_peer_ordered_ids (lobby_at c' lid))) \<and>
    (\<forall>k. k \<noteq> pid \<longrightarrow> peer_at c' k = peer_at c k) \<and>
    (\<forall>k. k \<noteq> lid \<longrightarrow> lobby_at c' k = lobby_at c k)"
proof -
  have s: "sound E c" using scope by (simp add: sound_iff)
  have b: "False = reconnecting (peer_at c pid)" using pid(2) by (simp add: reconnecting_def)
  have t: "lid = join_target False (peer_at c pid) data []" by (simp add: lid join_target_def)
  have l: "has_lobby c lid" using join_iff [OF s pid(1) b t, of E' i] joined by simp
  have st: "state_of c' = state_of (let_in False pid lid c)"
    using join_state [OF s pid(1) b t, of E' i] joined by simp
  show ?thesis
    using let_in_records [OF s pid(1) l] state_of_peer_at [OF st] state_of_lobby_at [OF st] by simp
qed

theorem join_adds_the_peer_witness:
  "l_peer_ids (lobby_at (snd (on_join_lobby E0 [] ''b'' (Some (YObj [(YStr ''l'', YStr ''u'')])) [] (hosted True))) ''u'') =
   [''a'', ''b'']"
proof -
  let ?d = "Some (YObj [(YStr ''l'', YStr ''u'')])"
  have b: "has_peer (hosted True) ''b''" "p_lobby_id (peer_at (hosted True) ''b'') = []"
    "fst (on_join_lobby E0 [] ''b'' ?d [] (hosted True))" "''u'' = decode_string_or_default ?d ''l'' []"
    "fs_insert ''b'' (l_peer_ids (lobby_at (hosted True) ''u'')) = [''a'', ''b'']" by code_simp+
  have "on_join_lobby E0 [] ''b'' ?d [] (hosted True) = (True, snd (on_join_lobby E0 [] ''b'' ?d [] (hosted True)))"
    using b(3) by (simp add: prod_eq_iff)
  then show ?thesis using join_adds_the_peer [OF sound_parts [OF sound_hosted] b(1,2) _ b(4)] b(5) by simp
qed


text \<open>
  C7. Creating a lobby, in a game without a script that disbands its lobbies when the host leaves and
  whose membership is exact: a peer in no lobby that asks for at least one place and whose tags can
  be decoded gets a lobby of its own under a new id, as its host and only member, with the name,
  password, tags and seal it asked for. No other peer and no other lobby changes. Otherwise every
  record stays as it was and the answer is one error: that it is in a lobby already, that the lobby
  would be full, or that the tags are invalid. In a game with a script \<open>_can_create_lobby\<close> may refuse.
\<close>

theorem create_makes_a_lobby:
  assumes scope: "exact_game E c" "unscripted (game c)" "g_disband_on_leave (game c)"
    and pid: "has_peer c pid" and fresh: "fresh_uuids E (Suc (uuid_count c))"
    and small: "small = take 8 (uuid_gen E (uuid_count c))"
    and c': "c' = on_create_lobby E i pid data None c"
    and n: "n = decode_int_or_default (double_to_int E) data ''m'' 0"
    and tags: "decode_object (yy_obj_get data ''t'') [] = (terr, tags)"
  shows "if p_lobby_id (peer_at c pid) = [] \<and> 1 \<le> sint n \<and> terr = []
    then \<not> has_lobby c small \<and> has_lobby c' small \<and> p_lobby_id (peer_at c' pid) = small \<and>
      (let l = lobby_at c' small in l_id l = small \<and> l_host l = pid \<and> l_peer_ids l = [pid] \<and>
        l_peer_ordered_ids l = [pid] \<and> l_max_players l = n \<and> l_tags l = tags \<and>
        l_name l = decode_string_or_default data ''n'' [] \<and>
        l_password l = decode_string_or_default data ''_p'' [] \<and>
        l_sealed l = decode_bool_or_default data ''s'' (g_seal (game c)) \<and> l_create_time l = now c) \<and>
      (\<forall>k. k \<noteq> pid \<longrightarrow> peer_at c' k = peer_at c k) \<and> (\<forall>k. k \<noteq> small \<longrightarrow> lobby_at c' k = lobby_at c k)
    else peer_at c' = peer_at c \<and> lobby_at c' = lobby_at c \<and>
      (\<exists>m. c' = on_error E i pid
        (if p_lobby_id (peer_at c pid) \<noteq> [] then ERROR_PEER_IS_IN_A_LOBBY
         else if sint n < 1 then ERROR_LOBBY_FULL else ERROR_INVALID_TAGS) False False (c\<lparr>uuid_count := m\<rparr>))"
proof -
  have s: "sound E c" using scope by (simp add: sound_iff)
  show ?thesis
  proof (cases "create_refusal E data None (peer_at c pid)")
    case None
    then have "p_lobby_id (peer_at c pid) = [] \<and> 1 \<le> sint n \<and> terr = []" "create_tags data None = tags"
      by (auto simp: create_refusal_def create_tags_def n tags split: if_splits)
    then show ?thesis
      using create_accepted [OF s pid fresh None small c'] sound_peer_id [OF s pid]
      by (simp add: new_lobby_def default_lobby_def n)
  next
    case (Some err)
    then have no: "\<not> (p_lobby_id (peer_at c pid) = [] \<and> 1 \<le> sint n \<and> terr = [])"
      by (auto simp: create_refusal_def n tags split: if_splits)
    obtain m where "c' = on_error E i pid err False False (c\<lparr>uuid_count := m\<rparr>)"
      using create_refused [OF s pid Some, of i] c' by blast
    moreover have "peer_at c' = peer_at c \<and> lobby_at c' = lobby_at c"
      unfolding calculation by (simp add: fun_eq_iff peer_at_def lobby_at_def)
    moreover have "err = (if p_lobby_id (peer_at c pid) \<noteq> [] then ERROR_PEER_IS_IN_A_LOBBY
        else if sint n < 1 then ERROR_LOBBY_FULL else ERROR_INVALID_TAGS)"
      using Some by (auto simp: create_refusal_def n tags split: if_splits)
    ultimately show ?thesis unfolding if_not_P [OF no] by blast
  qed
qed

theorem create_makes_a_lobby_witness:
  "let c' = on_create_lobby E0 [] ''a'' (Some (YObj [(YStr ''m'', YSint 4)])) None (arrived True)
   in has_lobby c' ''u'' \<and> l_host (lobby_at c' ''u'') = ''a'' \<and> p_lobby_id (peer_at c' ''a'') = ''u''"
proof -
  let ?d = "Some (YObj [(YStr ''m'', YSint 4)])"
  have f: "has_peer (arrived True) ''a''" "p_lobby_id (peer_at (arrived True) ''a'') = []"
    "''u'' = take 8 (uuid_gen E0 (uuid_count (arrived True)))"
    "decode_object (yy_obj_get ?d ''t'') [] = ([], [])"
    "1 \<le> sint (decode_int_or_default (double_to_int E0) ?d ''m'' 0)" by code_simp+
  have "fresh_uuids E0 (Suc (uuid_count (arrived True)))" by (simp add: counts fresh_E0)
  then show ?thesis
    using create_makes_a_lobby [OF sound_parts [OF sound_arrived] f(1) _ f(3) refl refl f(4), of "[]"] f(2,5)
    unfolding Let_def by simp
qed

text \<open>
  C8. Leaving, in a game without a script that disbands its lobbies when the host leaves
  (\<open>disband_on_leave\<close>, which is off unless the game's configuration sets it) and whose membership is
  exact: a member that leaves is in no lobby and no longer listed; when it was the host, the lobby is
  gone and so is everyone's membership. Nobody else is affected and no other lobby changes. A peer
  in no lobby changes nothing. Without \<open>disband_on_leave\<close> the lobby of a relay host that leaves
  stays behind (\<open>departed_relay_host_leaves_a_ghost_lobby\<close>).
\<close>

theorem leave_takes_the_peer_out:
  assumes scope: "exact_game E c" "unscripted (game c)" "g_disband_on_leave (game c)"
    and lid: "lid = p_lobby_id (peer_at c pid)"
    and c': "c' = on_leave_lobby E' i pid data c"
  shows "if lid = [] then state_of c' = state_of c else
    (\<forall>k. p_lobby_id (peer_at c' k) =
      (if k = pid \<or> (pid = l_host (lobby_at c lid) \<and> k \<in> set (l_peer_ids (lobby_at c lid))) then []
       else p_lobby_id (peer_at c k))) \<and>
    (has_lobby c' lid \<longleftrightarrow> pid \<noteq> l_host (lobby_at c lid)) \<and>
    (pid \<noteq> l_host (lobby_at c lid) \<longrightarrow>
      l_peer_ids (lobby_at c' lid) = fs_erase pid (l_peer_ids (lobby_at c lid)) \<and>
      l_host (lobby_at c' lid) = l_host (lobby_at c lid)) \<and>
    (\<forall>k. k \<noteq> lid \<longrightarrow> has_lobby c' k = has_lobby c k \<and> lobby_at c' k = lobby_at c k)"
proof (cases "lid = []")
  case True
  then show ?thesis using lid by (simp add: c' on_leave_lobby_def Let_def)
next
  case False
  have s: "sound E c" using scope by (simp add: sound_iff)
  have "c' = remove_peer_from_lobby (call_script E') E' lid pid i False c"
    unfolding c' using leave_accepted [OF s lid [symmetric] False] .
  then show ?thesis
    using remove_effect [OF s sound_member_of [OF s lid [symmetric] False]] False
    by (simp add: without_def)
qed

theorem leave_takes_the_peer_out_witness:
  "let c' = on_leave_lobby E0 [] ''b'' None (pair True)
   in p_lobby_id (peer_at c' ''b'') = [] \<and> has_lobby c' ''u'' \<and> p_lobby_id (peer_at c' ''a'') = ''u''"
proof -
  have f: "''u'' = p_lobby_id (peer_at (pair True) ''b'')" "p_lobby_id (peer_at (pair True) ''a'') = ''u''"
    "l_host (lobby_at (pair True) ''u'') = ''a''" by code_simp+
  show ?thesis
    using leave_takes_the_peer_out [OF sound_parts [OF sound_pair] f(1) refl, of E0 "[]" None] f(2,3) unfolding Let_def by simp
qed

text \<open>
  C9. A quick join in a game without a script that disbands its lobbies when the host leaves and whose
  membership is exact, by a peer in no lobby that gives no password and tags that can be decoded:
  it picks a lobby with room that is neither sealed nor protected, whose host is connected and whose
  tags match, if there is one, and joins it; if there is none it does exactly what the command that
  creates a lobby does, which may refuse (\<open>create_makes_a_lobby\<close>). In a game with a script
  \<open>_can_peer_join\<close> may refuse each lobby.
\<close>

theorem quick_join_picks_or_creates:
  assumes scope: "exact_game E c" "unscripted (game c)" "g_disband_on_leave (game c)"
    and pid: "has_peer c pid" "\<not> has_peer c []" "p_lobby_id (peer_at c pid) = []"
    and data: "decode_string_or_default data ''_p'' [] = []"
      "decode_object (yy_obj_get data ''t'') [] = ([], tags)"
    and order: "set (bucket_order E (map fst (g_lobbies (game c)))) = set (map fst (g_lobbies (game c)))"
    and c': "c' = on_quick_join E i pid data c"
  shows "if \<exists>k. suits tags c k
    then \<exists>k. suits tags c k \<and> p_lobby_id (peer_at c' pid) = k \<and>
      l_peer_ids (lobby_at c' k) = fs_insert pid (l_peer_ids (lobby_at c k))
    else \<exists>c1. state_of c1 = state_of c \<and> c' = on_create_lobby E i pid data (Some tags) c1"
proof -
  have s: "sound E c" using scope by (simp add: sound_iff)
  let ?keys = "bucket_order E (map fst (g_lobbies (game c)))"
  obtain joined c1 where r: "quick_join_loop E i pid data tags ?keys c = (joined, c1)"
    by (cases "quick_join_loop E i pid data tags ?keys c")
  have keys: "k \<in> set ?keys \<longleftrightarrow> has_lobby c k" for k
    unfolding order by (simp add: has_lobby_def fm_has_iff)
  have ne: "[] \<notin> set ?keys"
  proof
    assume "[] \<in> set ?keys"
    then obtain l where l: "map_of (g_lobbies (game c)) [] = Some l"
      by (auto simp: keys has_lobby_def fm_has_def)
    then show False using sound_full [OF s l] by (simp add: full_lobby_def)
  qed
  have c'_eq: "c' = (if joined then c1 else on_create_lobby E i pid data (Some tags) c1)"
    unfolding c' on_quick_join_def Let_def using pid(3) data(2) r by simp
  note spec = quick_join_loop_spec [OF s pid data(1) r ne]
  show ?thesis
  proof (cases joined)
    case True
    then show ?thesis using spec c'_eq by auto
  next
    case False
    have "\<not> suits tags c k" for k
      using spec False keys [of k] by (auto simp: suits_def)
    then show ?thesis using spec False c'_eq by auto
  qed
qed

theorem quick_join_picks_or_creates_witness:
  "p_lobby_id (peer_at (on_quick_join E0 [] ''b'' None (hosted True)) ''b'') = ''u''"
proof -
  have f: "has_peer (hosted True) ''b''" "\<not> has_peer (hosted True) []" "p_lobby_id (peer_at (hosted True) ''b'') = []"
    "decode_string_or_default None ''_p'' [] = []" "decode_object (yy_obj_get None ''t'') [] = ([], [])"
    "suits [] (hosted True) ''u''" "map fst (g_lobbies (game (hosted True))) = [''u'']"
    by code_simp+
  have "set (bucket_order E0 (map fst (g_lobbies (game (hosted True))))) = set (map fst (g_lobbies (game (hosted True))))"
    by (simp add: E0_def)
  then obtain k where "suits [] (hosted True) k"
    "p_lobby_id (peer_at (on_quick_join E0 [] ''b'' None (hosted True)) ''b'') = k"
    using quick_join_picks_or_creates [OF sound_parts [OF sound_hosted] f(1-5) _ refl, of "[]"] f(6) by (auto split: if_splits)
  moreover have "has_lobby (hosted True) k \<Longrightarrow> k = ''u''" for k
    using f(7) by (auto simp: has_lobby_def fm_has_iff simp flip: set_map)
  ultimately show ?thesis by (auto simp: suits_def)
qed


section \<open>Commands of members and hosts\<close>

text \<open>
  C10. Chat, where the game's script has no \<open>_can_peer_chat\<close> (where it has, the script may refuse): a
  message of one to 256 bytes, counted without its markup, reaches every connected member of the
  sender's lobby exactly once, the sender's copy carries the command id, nobody else receives
  anything, and no record changes. Metadata that cannot be decoded does not stop the message: the
  sender first gets the error \<open>ERROR_CANNOT_PARSE_JSON\<close>, and the message goes out with the part that
  was decoded. An empty or longer message reaches nobody and the sender gets an error. (\<open>direct\<close>: a
  game that does not batch has no text waiting for a batch; batching ones may.)
\<close>

theorem chat_reaches_the_lobby:
  assumes m: "member_of c pid lid" and cb: "\<not> has_callback c ''_can_peer_chat''" and d: "direct c"
    and message: "message = strip_BBCode (decode_string_or_default data ''c'' [])"
    and meta: "decode_object (yy_obj_get data ''m'') [] = (err, metadata)"
    and c': "c' = on_chat_lobby E i pid data c" and wr: "wr = yyjson_mut_write E"
  shows "state_of c' = state_of c \<and> stream q c' = stream q c @
    (if \<not> online c q then []
     else if message = [] \<or> 256 < length message
     then (if q = pid then [notification_error wr ''Invalid chat message'' i False] else [])
     else if q = pid
     then (if err = [] then [] else [notification_error wr ERROR_CANNOT_PARSE_JSON i False]) @
       [notification_chat wr pid message i metadata]
     else if q \<in> set (l_peer_ids (lobby_at c lid)) then [notification_chat wr pid message [] metadata]
     else [])"
proof (cases "message = [] \<or> 256 < length message")
  case True
  then show ?thesis
    using chat_refused [OF m message] by (simp add: c' wr stream_on_error d)
next
  case False
  define c1 where "c1 = (if err = [] then c else on_error E i pid ERROR_CANNOT_PARSE_JSON False False c)"
  have dist: "distinct (l_peer_ids (lobby_at c lid))" using m by (simp add: member_of_def)
  have st: "state_of c1 = state_of c" by (simp add: c1_def)
  have d1: "direct c1" using d by (simp add: c1_def on_error_def net.ok_put)
  have first: "stream q c1 = stream q c @
      (if err \<noteq> [] \<and> q = pid \<and> online c q then [notification_error wr ERROR_CANNOT_PARSE_JSON i False] else [])"
    by (auto simp: c1_def wr stream_on_error [OF d])
  have "c' = send pid (notification_chat wr pid message i metadata) OpText
      (send_others pid (l_peer_ids (lobby_at c lid)) (notification_chat wr pid message [] metadata) c1)"
    using chat_accepted [OF m cb message _ _ meta c1_def] False by (simp add: c' wr)
  then show ?thesis
    using False stream_others_then_self [OF d1 dist, of q] online_state [OF st] st first by simp
qed

definition hello :: "yyval option" where
  "hello = Some (YObj [(YStr ''c'', YStr ''[b]hello[/b]'')])"

theorem chat_reaches_the_lobby_witness:
  "stream ''a'' (on_chat_lobby E0 ''7'' ''b'' hello (pair True)) = stream ''a'' (pair True) @
     [notification_chat (yyjson_mut_write E0) ''b'' ''hello'' [] []]"
proof -
  have f: "member_of (pair True) ''b'' ''u''" "\<not> has_callback (pair True) ''_can_peer_chat''" "direct (pair True)"
    "''hello'' = strip_BBCode (decode_string_or_default hello ''c'' [])"
    "decode_object (yy_obj_get hello ''m'') [] = ([], [])"
    "online (pair True) ''a''" "''a'' \<in> set (l_peer_ids (lobby_at (pair True) ''u''))" by code_simp+
  show ?thesis
    using chat_reaches_the_lobby [OF f(1-5) refl refl, where q = "''a''" and E = E0 and i = "''7''"] f(6,7) by simp
qed

text \<open>
  C11. What \<open>COMMAND_LOBBY_NOTIFY\<close> does in a relay game: the host's notification goes to the whole
  lobby, another member's to the host alone; the sender gets one confirmation after it, and
  no record changes. (\<open>direct\<close>: a game that does not batch has no text waiting for a batch.) The protocol document says of this command that it notifies all peers, which
  holds of the host only.
\<close>

theorem notification_goes_through_the_host:
  assumes m: "member_of c pid lid" and relay: "g_lobby_control (game c) = ''relay''" and d: "direct c"
    and data: "decode_entry data ''d'' = Inr x"
    and c': "c' = on_lobby_notify E i pid data c" and wr: "wr = yyjson_mut_write E"
  shows "state_of c' = state_of c \<and> stream q c' = stream q c @
    (if \<not> online c q then [] else
      (if (if l_host (lobby_at c lid) = pid then q \<in> set (l_peer_ids (lobby_at c lid)) else q = l_host (lobby_at c lid))
       then [notification_peer_notify wr (AMap x) pid] else []) @
      (if q = pid then [notification_notify_sent wr i] else []))"
proof -
  let ?ids = "if l_host (lobby_at c lid) = pid then l_peer_ids (lobby_at c lid) else [l_host (lobby_at c lid)]"
  let ?note = "notification_peer_notify wr (AMap x) pid"
  have dist: "distinct ?ids" using m by (simp add: member_of_def)
  have eq: "c' = send pid (notification_notify_sent wr i) OpText (send_loop ?ids ?note c)"
    using lobby_notify_accepted [OF m relay data] by (simp add: c' wr)
  have "direct (send_loop ?ids ?note c)"
    unfolding send_loop_def using d by (rule net.ok_all)
  moreover have "online (send_loop ?ids ?note c) = online c"
    by (rule online_state) simp
  ultimately show ?thesis
    unfolding eq by (auto simp: stream_send stream_all [OF d dist])
qed

definition news :: "yyval option" where
  "news = Some (YObj [(YStr ''d'', YObj [(YStr ''x'', YSint 1)])])"

theorem notification_goes_through_the_host_witness:
  "stream ''a'' (on_lobby_notify E0 ''7'' ''b'' news (pair True)) = stream ''a'' (pair True) @
     [notification_peer_notify (yyjson_mut_write E0) (AMap [(''x'', AInt 1)]) ''b'']"
proof -
  have f: "member_of (pair True) ''b'' ''u''" "g_lobby_control (game (pair True)) = ''relay''" "direct (pair True)"
    "decode_entry news ''d'' = Inr [(''x'', AInt 1)]"
    "online (pair True) ''a''" "l_host (lobby_at (pair True) ''u'') = ''a''" by code_simp+
  show ?thesis
    using notification_goes_through_the_host [OF f(1-4) refl refl, where q = "''a''" and E = E0 and i = "''7''"] f(5,6) by simp
qed

text \<open>
  C12. Lobby data in a relay game: the host's entries are merged into the lobby's public data
  (\<open>null\<close> erases an entry, every other value is stored, entries not named stay) and the change is
  sent to every connected member once, the host's copy with the command id; nothing else of any
  record changes.
\<close>

theorem host_data_is_merged_and_sent:
  assumes m: "member_of c pid lid" and host: "l_host (lobby_at c lid) = pid"
    and relay: "g_lobby_control (game c) = ''relay''" and d: "direct c"
    and data: "decode_entry data ''d'' = Inr x" "x \<noteq> []" "\<not> decode_bool_or_default data ''_p'' False"
    and clean: "clean_lobby (lobby_at c lid)"
    and c': "c' = on_lobby_data E i pid data c" and wr: "wr = yyjson_mut_write E"
  shows "lobby_at c' lid = (lobby_at c lid)\<lparr>l_public_data := l_public_data (lobby_at c' lid)\<rparr> \<and>
    (\<forall>k. map_of (l_public_data (lobby_at c' lid)) k =
      (case map_of x k of None \<Rightarrow> map_of (l_public_data (lobby_at c lid)) k
       | Some v \<Rightarrow> if v = ANull then None else Some v)) \<and>
    peer_at c' = peer_at c \<and> (\<forall>k. k \<noteq> lid \<longrightarrow> lobby_at c' k = lobby_at c k) \<and>
    (\<forall>q. stream q c' = stream q c @
      (if \<not> online c q then []
       else if q = pid then [notification_lobby_public_data wr (AMap x) i]
       else if q \<in> set (l_peer_ids (lobby_at c lid)) then [notification_lobby_public_data wr (AMap x) []]
       else []))"
proof -
  have hl: "has_lobby c lid" and dist: "distinct (l_peer_ids (lobby_at c lid))"
    using m by (simp_all add: member_of_def)
  let ?c = "set_lobby lid (\<lambda>l. l\<lparr>l_public_data := merge_dict x (l_public_data l)\<rparr>) c"
  have eq: "c' = send pid (notification_lobby_public_data wr (AMap x) i) OpText
      (send_others pid (l_peer_ids (lobby_at c lid)) (notification_lobby_public_data wr (AMap x) []) ?c)"
    using lobby_data_accepted(1) [OF m host relay data(1) clean data(3,2)] by (simp add: c' wr)
  have x: "distinct (map fst x)" using fm_wf_distinct [OF decode_entry_wf [OF data(1)]] .
  have merge: "map_of (merge_dict x old) k = (case map_of x k of None \<Rightarrow> map_of old k
       | Some v \<Rightarrow> if v = ANull then None else Some v)" for old k
    unfolding merge_dict_def using fm.merge_find [OF x, of "\<lambda>v. v = ANull"] by (simp add: split_def)
  have reads: "lobby_at c' k = (if k = lid then (lobby_at c lid)\<lparr>l_public_data :=
      merge_dict x (l_public_data (lobby_at c lid))\<rparr> else lobby_at c k)" "peer_at c' k = peer_at c k" for k
    by (simp_all add: eq set_lobby_reads hl)
  have "direct ?c" "online ?c = online c" "stream q ?c = stream q c" for q
    using d by (simp_all add: set_lobby_reads hl)
  then have "stream q c' = stream q c @
      (if \<not> online c q then []
       else if q = pid then [notification_lobby_public_data wr (AMap x) i]
       else if q \<in> set (l_peer_ids (lobby_at c lid)) then [notification_lobby_public_data wr (AMap x) []]
       else [])" for q
    unfolding eq using stream_others_then_self [OF _ dist] by simp
  then show ?thesis by (simp add: reads merge fun_eq_iff)
qed

theorem host_data_is_merged_and_sent_witness:
  "map_of (l_public_data (lobby_at (on_lobby_data E0 ''7'' ''a'' news (pair True)) ''u'')) ''x'' = Some (AInt 1)"
proof -
  have f: "member_of (pair True) ''a'' ''u''" "l_host (lobby_at (pair True) ''u'') = ''a''"
    "g_lobby_control (game (pair True)) = ''relay''" "direct (pair True)"
    "decode_entry news ''d'' = Inr [(''x'', AInt 1)]" "[(''x'', AInt 1)] \<noteq> []"
    "\<not> decode_bool_or_default news ''_p'' False" "clean_lobby (lobby_at (pair True) ''u'')" by code_simp+
  show ?thesis
    using host_data_is_merged_and_sent [OF f refl refl, of E0 "''7''"] by simp
qed

text \<open>
  C13. A member that is not the host and sends one of the commands reserved to the host (lobby and
  peer data, notifications to a peer, tags, kick, seal, unseal) gets the error \<open>PEER_NOT_HOST\<close>;
  no record changes and nobody else receives anything.
\<close>

theorem host_commands_need_the_host:
  assumes m: "member_of c pid lid" and host: "l_host (lobby_at c lid) \<noteq> pid" and d: "direct c"
    and cmd: "cmd \<in> set host_commands" and c': "c' = dispatch E cmd i pid data c"
  shows "state_of c' = state_of c \<and> stream q c' = stream q c @
    (if q = pid \<and> online c q
     then [notification_error (yyjson_mut_write E) ERROR_PEER_NOT_HOST i False] else [])"
  unfolding c' host_only [OF m host cmd] by (simp add: stream_on_error d)

theorem host_commands_need_the_host_witness:
  "state_of (dispatch E0 COMMAND_KICK_PEER [] ''b'' None (pair True)) = state_of (pair True)"
proof -
  have f: "member_of (pair True) ''b'' ''u''" "l_host (lobby_at (pair True) ''u'') \<noteq> ''b''" "direct (pair True)"
    "COMMAND_KICK_PEER \<in> set host_commands" by code_simp+
  show ?thesis using host_commands_need_the_host [OF f refl] by blast
qed

text \<open>
  Title and password are different: any member changes them, host or not, although the
  protocol document reserves both to the host.
\<close>

theorem any_member_sets_title_and_password:
  assumes m: "member_of c pid lid" and cb: "\<not> has_callback c ''_can_host_set_title''"
  shows "l_name (lobby_at (on_lobby_title E i pid data c) lid) = decode_string_or_default data ''n'' [] \<and>
    l_password (lobby_at (on_lobby_password E i pid data c) lid) = decode_string_or_default data ''_p'' []"
proof -
  have hl: "has_lobby c lid" using m by (simp add: member_of_def)
  show ?thesis
    by (simp add: lobby_title_any_member [OF m cb refl] lobby_password_any_member [OF m refl]
        set_lobby_reads hl)
qed

text \<open>
  Resizing: any member may do it. A size that is at least the number of members is stored;
  so is every negative size, because the comparison is unsigned; any other is refused.
\<close>

theorem resize_accepts_negative_sizes:
  assumes m: "member_of c pid lid" and cb: "\<not> has_callback c ''_can_host_resize''"
    and n: "n = decode_int_or_default (double_to_int E) data ''m'' 0"
    and few: "length (l_peer_ids (lobby_at c lid)) \<le> 2 ^ 63"
    and c': "c' = on_lobby_max_players E i pid data c"
  shows "l_max_players (lobby_at c' lid) =
      (if sint n < 0 \<or> int (length (l_peer_ids (lobby_at c lid))) \<le> sint n then n
       else l_max_players (lobby_at c lid))"
proof -
  have hl: "has_lobby c lid" using m by (simp add: member_of_def)
  have "size_le (length (l_peer_ids (lobby_at c lid))) n \<longleftrightarrow>
      sint n < 0 \<or> int (length (l_peer_ids (lobby_at c lid))) \<le> sint n"
    using few by (rule size_le_signed)
  then show ?thesis
    unfolding c' lobby_max_players_any_member [OF m cb n] by (simp add: set_lobby_reads hl on_error_def)
qed


section \<open>Connections and time\<close>



text \<open>
  C15. The sweep over disconnected peers takes no record of a peer that is connected, whatever the
  scripts it runs do.
\<close>

theorem sweep_spares_connected_peers:
  assumes "has_peer c k" "online c k"
  shows "has_peer (disconnect_game E m c) k"
  using assms unfolding online_def by (rule disconnect_keeps)

theorem sweep_spares_connected_peers_witness:
  "has_peer (disconnect_game E0 (- 1) (on_close E0 ''b'' (pair True))) ''a'' \<and>
   \<not> has_peer (disconnect_game E0 (- 1) (on_close E0 ''b'' (pair True))) ''b''"
proof -
  have f: "has_peer (on_close E0 ''b'' (pair True)) ''a''" "online (on_close E0 ''b'' (pair True)) ''a''"
    "\<not> has_peer (disconnect_game E0 (- 1) (on_close E0 ''b'' (pair True))) ''b''" by code_simp+
  show ?thesis using sweep_spares_connected_peers [OF f(1,2)] f(3) by blast
qed

text \<open>
  C16. Batching is a refinement of sending at once: for any interleaving of texts and batches a
  connected client's stream is the texts addressed to it, in order, each exactly once; a
  disconnected client gets none.
\<close>

theorem batches_deliver_in_order:
  assumes "direct c"
  shows "stream q (fold net_run sts c) =
    stream q c @ (if online c q then concat (map (put_texts q) sts) else [])"
  using assms by (rule net_runs)

theorem batches_deliver_in_order_witness:
  "stream ''b'' (fold net_run [Put ''b'' ''x'', Put ''a'' ''y'', Batch 9, Put ''b'' ''z'']
     (upd_game (\<lambda>g. g\<lparr>g_send_rate := 2\<rparr>) (blank True))) = [''x'', ''z'']"
proof -
  have f: "direct (upd_game (\<lambda>g. g\<lparr>g_send_rate := 2\<rparr>) (blank True))"
    "online (upd_game (\<lambda>g. g\<lparr>g_send_rate := 2\<rparr>) (blank True)) ''b''"
    "stream ''b'' (upd_game (\<lambda>g. g\<lparr>g_send_rate := 2\<rparr>) (blank True)) = []" by code_simp+
  define sts where "sts = [Put ''b'' ''x'', Put ''a'' ''y'', Batch 9, Put ''b'' ''z'']"
  have "concat (map (put_texts ''b'') sts) = [''x'', ''z'']" by (simp add: sts_def)
  then show ?thesis
    using batches_deliver_in_order [OF f(1), of "''b''" sts] f(2,3) unfolding sts_def [symmetric] by simp
qed

text \<open>
  C17. A round serves the oldest fifty messages of the queue in their order of arrival, counts
  them, and leaves the others queued. The games no message names are as they were.
\<close>

theorem messages_are_served_in_order:
  assumes ms: "ms = take n (receive_queue t)" and t': "t' = process_messages E n t"
  shows "receive_queue t' = drop n (receive_queue t) \<and>
    messages_received t' = messages_received t + of_nat (length ms) \<and>
    games t' = games (fold (serve E) ms t) \<and>
    (\<forall>k. k \<notin> m_game_id ` set ms \<longrightarrow> map_of (games t') k = map_of (games t) k)"
  unfolding t' process_messages_fold ms [symmetric] by (simp add: serves_count serves_other)

theorem messages_are_served_in_order_witness:
  "receive_queue (process_messages E0 3 (empty_thread\<lparr>receive_queue := pair_events\<rparr>)) = drop 3 pair_events"
  using messages_are_served_in_order [OF refl refl, of E0 3 "empty_thread\<lparr>receive_queue := pair_events\<rparr>"] by simp



text \<open>
  C19. Listing lobbies, in every game whose records fit together, scripted or not, in whatever order
  the hash map of lobbies lists its keys. The first list
  command of a caller is answered with at most a hundred lobbies, oldest first, each of them
  visible to the caller (not sealed, or its own): all the visible ones when there are at most a
  hundred, else none that is left out is older than one that is listed. The caller is registered
  for updates and nothing else changes. A caller that is registered already gets an empty list.
\<close>

theorem listing_shows_visible_lobbies:
  assumes wf: "wf_game E n (game c)" and pid: "has_peer c pid"
    and order: "set (bucket_order E' (map fst (g_lobbies (game c)))) = set (map fst (g_lobbies (game c)))"
    and keys: "keys = filter (visible c pid) (bucket_order E' (map fst (g_lobbies (game c))))"
  shows "if pid \<in> set (g_lobby_listing_peers (game c))
    then on_list_lobby E' i pid data c =
      send pid (notification_lobby_list (yyjson_mut_write E') (AArr []) i) OpText c
    else \<exists>ks. on_list_lobby E' i pid data c = send pid (notification_lobby_list (yyjson_mut_write E')
        (AArr (map (\<lambda>k. AMap (lobby_to_dict False (lobby_at c k))) ks)) i) OpText
      (upd_game (\<lambda>g. g\<lparr>g_lobby_listing_peers := fs_insert pid (g_lobby_listing_peers g)\<rparr>) c) \<and>
    length ks \<le> 100 \<and> sorted (map (\<lambda>k. sint (l_create_time (lobby_at c k))) ks) \<and>
    (\<forall>k \<in> set ks. visible c pid k) \<and> (length keys \<le> 100 \<longrightarrow> set ks = set keys) \<and>
    (\<forall>j \<in> set ks. \<forall>k. visible c pid k \<and> k \<notin> set ks \<longrightarrow>
      sint (l_create_time (lobby_at c j)) \<le> sint (l_create_time (lobby_at c k)))"
proof (cases "pid \<in> set (g_lobby_listing_peers (game c))")
  case True
  then show ?thesis using list_lobby_again [OF wf pid] by simp
next
  case False
  from list_lobby_answer [OF wf pid order False, of i data, folded keys] obtain ks where
    "on_list_lobby E' i pid data c = send pid (notification_lobby_list (yyjson_mut_write E')
        (AArr (map (\<lambda>k. AMap (lobby_to_dict False (lobby_at c k))) ks)) i) OpText
      (upd_game (\<lambda>g. g\<lparr>g_lobby_listing_peers := fs_insert pid (g_lobby_listing_peers g)\<rparr>) c)"
    "length ks \<le> 100" "sorted (map (\<lambda>k. sint (l_create_time (lobby_at c k))) ks)"
    "\<forall>k \<in> set ks. visible c pid k"
    "\<And>j k. j \<in> set ks \<Longrightarrow> visible c pid k \<Longrightarrow> k \<notin> set ks \<Longrightarrow>
      sint (l_create_time (lobby_at c j)) \<le> sint (l_create_time (lobby_at c k))"
    "length keys \<le> 100 \<Longrightarrow> set ks = set keys" by blast
  then show ?thesis unfolding if_not_P [OF False] by blast
qed

theorem listing_shows_visible_lobbies_witness:
  "g_lobby_listing_peers (game (on_list_lobby E0 [] ''b'' None (hosted True))) = [''b'']"
proof -
  have f: "has_peer (hosted True) ''b''" "g_lobby_listing_peers (game (hosted True)) = []" by code_simp+
  moreover have "set (bucket_order E0 (map fst (g_lobbies (game (hosted True))))) = set (map fst (g_lobbies (game (hosted True))))"
    by (simp add: E0_def)
  ultimately obtain ks where "on_list_lobby E0 [] ''b'' None (hosted True) =
      send ''b'' (notification_lobby_list (yyjson_mut_write E0)
        (AArr (map (\<lambda>k. AMap (lobby_to_dict False (lobby_at (hosted True) k))) ks)) []) OpText
      (upd_game (\<lambda>g. g\<lparr>g_lobby_listing_peers := fs_insert ''b'' (g_lobby_listing_peers g)\<rparr>) (hosted True))"
    using listing_shows_visible_lobbies [OF sound_wf [OF sound_hosted] f(1) _ refl, of E0 "[]" None] by auto
  then show ?thesis using f(2) by simp
qed


section \<open>The web server\<close>

text \<open>A server that lets five messages a second through, and a client \<open>p\<close> of game \<open>g\<close> with token \<open>k\<close>.\<close>

definition gen0 :: "nat \<Rightarrow> string" where
  "gen0 n = replicate (Suc n) CHR ''u''"

definition opened_socket :: "nat \<Rightarrow> i64 \<Rightarrow> per_socket_data \<Rightarrow> web \<Rightarrow> web" where
  "opened_socket s t d w = web_on_open gen0 t s (put_socket s d (w\<lparr>open_sockets := s # open_sockets w\<rparr>))"

definition client :: per_socket_data where
  "client = new_socket_data ''x'' ''p'' ''g'' ''k''"

definition one_client :: web where
  "one_client = opened_socket 1 0 client (start_web 5 100)"

lemma one_client_reachable: "web_reachable gen0 5 100 one_client"
proof -
  have "1 \<notin> set (open_sockets (start_web 5 100))" by (simp add: start_web_def)
  then show ?thesis
    unfolding one_client_def opened_socket_def by (rule web_reachable.step [OF web_reachable.start web_step.opens])
qed

text \<open>
  C20. Whatever clients and the game thread do, a connection record never refers to a socket that is
  closed: the socket it points to is open, and belongs to the same peer with the same token.
\<close>

theorem connections_never_dangle:
  assumes "web_reachable gen messages users w"
    and "map_of (connection_data w) pid = Some k" "k_ws k = Some s"
  shows "s \<in> set (open_sockets w) \<and> s_id (sockets w s) = pid \<and>
    s_reconnection_token (sockets w s) = k_reconnection_token k"
  using liveD [OF web_reachable_live [OF assms(1)] assms(2,3)] .

theorem connections_never_dangle_witness:
  "\<exists>k. map_of (connection_data one_client) ''p'' = Some k \<and> k_ws k = Some 1 \<and> s_id (sockets one_client 1) = ''p''"
proof -
  have "map_of (connection_data one_client) ''p'' =
      Some \<lparr>k_id = ''p'', k_game_id = ''g'', k_reconnection_token = ''k'', k_ws = Some 1\<rparr>" by code_simp
  then show ?thesis using connections_never_dangle [OF one_client_reachable, of "''p''"] by fastforce
qed

text \<open>
  C21. A new socket that shows a fresh token of an existing peer takes its place: it gets the peer's
  id, the connection record points to it, the old socket is closed, and the game is told of the
  close before it is told of the new connection.
\<close>

theorem reconnection_takes_the_old_place:
  assumes "live w" "sockets w s = d" "s_platform d = ''anon''" "takes_over t d w r k"
    and "w' = web_on_open gen t s w"
  shows "s_id (sockets w' s) = r_peer_id r \<and>
    map_of (connection_data w') (r_peer_id r) = Some \<lparr>k_id = r_peer_id r, k_game_id = s_game_id d,
      k_reconnection_token = s_reconnection_token d, k_ws = Some s\<rparr> \<and>
    map_of (reconnections w') (token_key d) = Some \<lparr>r_peer_id = r_peer_id r, r_timestamp = t\<rparr> \<and>
    map (\<lambda>m. (m_event m, m_id m)) (web_queue w') = map (\<lambda>m. (m_event m, m_id m)) (web_queue w) @
      (if k_ws k = None then [] else [(CLOSE, r_peer_id r)]) @ [(OPEN, r_peer_id r)] \<and>
    outbox w' = outbox w @ (case k_ws k of None \<Rightarrow> []
      | Some j \<Rightarrow> [Ended j 1002 ''ERROR_SERVER_RECONNECT_CLOSE''])"
  using open_takes_over [OF assms] by blast

definition second_socket :: web where
  "second_socket = put_socket 2 (client\<lparr>s_id := ''q''\<rparr>) (one_client\<lparr>open_sockets := 2 # open_sockets one_client\<rparr>)"

lemma second_socket_live: "live second_socket"
proof -
  have "2 \<notin> set (open_sockets one_client)" by code_simp
  then have "unused 2 one_client" by (rule live_unused [OF web_reachable_live [OF one_client_reachable]])
  then show ?thesis
    using web_reachable_live [OF one_client_reachable] unfolding second_socket_def
    by (auto simp: live_def unused_def)
qed

theorem reconnection_takes_the_old_place_witness:
  "outbox (web_on_open gen0 9 2 second_socket) = [Ended 1 1002 ''ERROR_SERVER_RECONNECT_CLOSE''] \<and>
   s_id (sockets (web_on_open gen0 9 2 second_socket) 2) = ''p''"
proof -
  let ?d = "client\<lparr>s_id := ''q''\<rparr>" and ?r = "\<lparr>r_peer_id = ''p'', r_timestamp = 0\<rparr>"
    and ?k = "\<lparr>k_id = ''p'', k_game_id = ''g'', k_reconnection_token = ''k'', k_ws = Some 1\<rparr>"
  have f: "sockets second_socket 2 = ?d" "s_platform ?d = ''anon''" "takes_over 9 ?d second_socket ?r ?k"
    "outbox second_socket = []" by code_simp+
  show ?thesis
    using reconnection_takes_the_old_place [OF second_socket_live f(1-3) refl, of gen0] f(4) by simp
qed

text \<open>
  C22. The age of a token counts from the moment its connection was opened, not from when it was
  lost: a client that was connected for longer than six minutes is refused at once. The refused
  socket was never counted as a user, but is subtracted from the number of users.
\<close>

theorem old_tokens_are_refused:
  assumes "unused s w" "sockets w s = d" "s_reconnection_token d \<noteq> []"
    and "map_of (reconnections w) (token_key d) = Some r"
    and "sint (r_timestamp r) < sint (t - to_i64 MAX_RECONNECTION_TIME)"
    and "w' = web_on_open gen t s w"
  shows "connection_data w' = connection_data w \<and>
    outbox w' = outbox w @ [Ended s 1002 ''ERROR_SERVER_RECONNECT_EXPIRED''] \<and>
    reconnections w' = fm_erase (token_key d) (reconnections w) \<and>
    connected_users w' = connected_users w - 1 \<and>
    web_queue w' = web_queue w @ [web_message d CLOSE ''ERROR_SERVER_RECONNECT_EXPIRED'']"
  using open_expired [OF assms] .

text \<open>The client of \<open>one_client\<close> loses its connection after 400 seconds and is back a millisecond later.\<close>

definition back_again :: web where
  "back_again = put_socket 2 (client\<lparr>s_id := ''q''\<rparr>) ((closed 1 [] one_client)\<lparr>open_sockets := [2]\<rparr>)"

theorem old_tokens_are_refused_witness:
  "connected_users back_again = 0 \<and> connected_users (web_on_open gen0 400001 2 back_again) = - 1 \<and>
   outbox (web_on_open gen0 400001 2 back_again) = [Ended 2 1002 ''ERROR_SERVER_RECONNECT_EXPIRED'']"
proof -
  let ?d = "client\<lparr>s_id := ''q''\<rparr>" and ?r = "\<lparr>r_peer_id = ''p'', r_timestamp = 0\<rparr>"
  have "connection_data back_again =
      [(''p'', \<lparr>k_id = ''p'', k_game_id = ''g'', k_reconnection_token = ''k'', k_ws = None\<rparr>)]" by code_simp
  then have u: "unused 2 back_again" by (simp add: unused_def)
  have f: "sockets back_again 2 = ?d" "s_reconnection_token ?d \<noteq> []"
    "map_of (reconnections back_again) (token_key ?d) = Some ?r"
    "sint (r_timestamp ?r) < sint (400001 - to_i64 MAX_RECONNECTION_TIME)"
    "connected_users back_again = 0" "outbox back_again = []" by code_simp+
  show ?thesis using old_tokens_are_refused [OF u f(1-4) refl, of gen0] f(5,6) by simp
qed

text \<open>
  C23. The rate limit: of the messages a socket sends within any one second, at most twice the
  configured number reach the game.
\<close>

theorem rate_limit_bounds_messages:
  assumes "sane (map fst ms) (sockets w s)"
    and "\<forall>t \<in> set (map fst ms). start \<le> sint t \<and> sint t < start + 1000"
    and "w' = fold (\<lambda>(t, room, m). on_message t room s m) ms w"
  shows "int (said w') \<le> int (said w) + 2 * max 0 (sint (max_messages_per_second w))"
proof -
  have "0 \<le> sint (s_message_count (sockets w s))" using assms(1) by (simp add: sane_def)
  then have "int (passes (max_messages_per_second w) (map fst ms) (sockets w s)) \<le>
      2 * max 0 (sint (max_messages_per_second w))"
    using passes_bound [OF assms(1,2), of "max_messages_per_second w"] by (simp add: max_def split: if_splits)
  moreover have "int (said w') \<le> int (said w) + int (passes (max_messages_per_second w) (map fst ms) (sockets w s))"
    using said_messages [of s ms w] unfolding assms(3) of_nat_add [symmetric] of_nat_le_iff .
  ultimately show ?thesis by linarith
qed

theorem rate_limit_bounds_messages_witness:
  "int (said (fold (\<lambda>(t, room, m). on_message t room 1 m) (replicate 40 (700 :: i64, True, ''hi'')) one_client)) \<le> 10"
proof -
  let ?ms = "replicate 40 (700 :: i64, True, ''hi'')"
  have f: "sane (map fst ?ms) (sockets one_client 1)" "said one_client = 0"
    "sint (max_messages_per_second one_client) = 5" by code_simp+
  have "\<forall>t \<in> set (map fst ?ms). 700 \<le> sint t \<and> sint t < 700 + 1000" by simp
  then show ?thesis using rate_limit_bounds_messages [OF f(1) _ refl, of 700] f(2,3) by simp
qed

text \<open>
  C24. From the game thread to the network: when the callbacks the game thread deferred run on the
  web server, the socket a peer has gets exactly the texts meant for that peer, in order, a batch
  as one frame; a peer without a socket gets nothing. When nothing was batched these are the
  texts of \<open>stream\<close>, one frame each.
\<close>

theorem deferred_texts_reach_the_socket:
  assumes "live w" "\<forall>d \<in> set (defers c). only_texts d" and w': "w' = fold deliver (defers c) w"
  shows "frames q w' = frames q w @
      (if socket_of q w = None then [] else concat (map (frames_of q) (defers c))) \<and>
    ((\<forall>d \<in> set (defers c). \<exists>p m. d = DSend p m OpText) \<and> waiting q (game c) = [] \<and> socket_of q w \<noteq> None \<longrightarrow>
      frames q w' = frames q w @ stream q c)"
proof -
  have one: "frames q w' = frames q w @
      (if socket_of q w = None then [] else concat (map (frames_of q) (defers c)))"
    unfolding w' by (rule delivers_frames [OF assms(1,2)])
  have "concat (map (frames_of q) (defers c)) = concat (map (deferred_texts q) (defers c))"
    if "\<forall>d \<in> set (defers c). \<exists>p m. d = DSend p m OpText"
    using that by (intro arg_cong [where f = concat] map_cong refl) (auto simp: frames_of_def)
  then show ?thesis using one by (auto simp: stream_def)
qed

theorem deferred_texts_reach_the_socket_witness:
  "frames ''p'' (fold deliver (defers (send ''p'' ''hi'' OpText (blank True))) one_client) = [''hi'']"
proof -
  let ?c = "send ''p'' ''hi'' OpText (blank True)"
  have f: "\<forall>d \<in> set (defers ?c). only_texts d" "frames ''p'' one_client = []" "socket_of ''p'' one_client = Some 1"
    "concat (map (frames_of ''p'') (defers ?c)) = [''hi'']" by code_simp+
  show ?thesis
    using deferred_texts_reach_the_socket [OF web_reachable_live [OF one_client_reachable] f(1) refl, of "''p''"] f(2-4)
    by simp
qed

section \<open>Who a client is\<close>

text \<open>
  C25. A client whose token holds a dot is let in only when the login service answered with a
  readable object whose \<open>success\<close> is true. It then carries the platform, name and platform id of
  the answer and the token made of them; or, when \<open>data\<close> or \<open>token\<close> is there but is no object, it
  comes in exactly as it asked to, as an anonymous client.
\<close>

theorem login_is_verified:
  assumes "CHR ''.'' \<in> set (s_reconnection_token d)" "authenticate E db http aborted d = Upgraded d'"
  shows "\<exists>root r. yyjson_read E (verify_jwt E http (s_reconnection_token d)) = Some root \<and>
    decode_object (Some root) [] = ([], r) \<and> map_of r ''success'' = Some (ABool True) \<and>
    (d' = d \<or> (\<exists>platform name platform_id.
      d' = d\<lparr>s_platform := platform, s_name := name, s_platform_id := platform_id,
        s_reconnection_token := platform @ '':'' @ platform_id\<rparr>))"
proof -
  have "upgrade_login E (verify_jwt E http (s_reconnection_token d)) [] aborted d = Upgraded d'"
    using assms by (simp add: authenticate_def)
  then obtain root r where r: "yyjson_read E (verify_jwt E http (s_reconnection_token d)) = Some root"
    "decode_object (Some root) [] = ([], r)" and login: "read_login r d = Upgraded d'"
    by (rule upgrade_login_upgraded)
  have "d' = d \<or> (\<exists>platform name platform_id.
      d' = d\<lparr>s_platform := platform, s_name := name, s_platform_id := platform_id,
        s_reconnection_token := platform @ '':'' @ platform_id\<rparr>)"
    using read_login_upgraded [OF login] read_token_upgraded by metis
  then show ?thesis using r read_login_upgraded [OF login] by blast
qed

text \<open>A login service that knows one user.\<close>

definition login_answer :: "yyval \<Rightarrow> yyval" where
  "login_answer token = YObj [(YStr ''success'', YBool True), (YStr ''data'', YObj [(YStr ''token'', token)])]"

definition E2 :: env where
  "E2 = E0\<lparr>yyjson_read := (\<lambda>s. if s = ''good'' then Some (login_answer (YObj
       [(YStr ''name'', YStr ''Ann''), (YStr ''platform'', YStr ''steam''), (YStr ''platform_id'', YStr ''1'')]))
     else None)\<rparr>"

theorem login_is_verified_witness:
  "authenticate E2 None (\<lambda>_ _. ''good'') False (client\<lparr>s_reconnection_token := ''a.b''\<rparr>) =
     Upgraded (client\<lparr>s_platform := ''steam'', s_name := ''Ann'', s_platform_id := ''1'',
       s_reconnection_token := ''steam:1''\<rparr>) \<and>
   yyjson_read E2 (verify_jwt E2 (\<lambda>_ _. ''good'') ''a.b'') \<noteq> None"
proof -
  let ?d = "client\<lparr>s_reconnection_token := ''a.b''\<rparr>"
  have f: "CHR ''.'' \<in> set (s_reconnection_token ?d)" "s_reconnection_token ?d = ''a.b''"
    "authenticate E2 None (\<lambda>_ _. ''good'') False ?d =
      Upgraded (client\<lparr>s_platform := ''steam'', s_name := ''Ann'', s_platform_id := ''1'',
       s_reconnection_token := ''steam:1''\<rparr>)" by code_simp+
  show ?thesis using login_is_verified [OF f(1,3)] f(2,3) by fastforce
qed

text \<open>
  C26. The token of a signed-in user is its platform and platform id. A client that asks for the
  same game with that text as its token is taken for an anonymous one and let in, with or without a
  database, if the text holds no dot (and no comma or blank at its ends, which the header would
  lose). If the user opened its connection no more than six minutes before (later the attempt is
  refused: \<open>old_tokens_are_refused\<close>), the client gets the user's peer id, the connection record of the
  user now points to the client's socket, the socket the user had, if it was still connected, is
  closed, and the game thread is told that this peer left and came back.
\<close>

theorem anyone_can_take_over_an_account:
  assumes tok: "token = platform @ '':'' @ platform_id" "CHR ''.'' \<notin> set token" "CHR '','' \<notin> set token" "trim token = token"
    and gid: "CHR '','' \<notin> set gid" "trim gid = gid"
    and up: "on_upgrade gen (join [''appsinacup'', gid, token]) room w = (Inr d, w1)"
    and w1: "live w1" "s \<notin> set (open_sockets w1)"
    and user: "map_of (reconnections w1) (gid @ token) = Some r"
      "map_of (connection_data w1) (r_peer_id r) = Some k" "k_game_id k = gid"
    and fresh: "\<not> sint (r_timestamp r) < sint (t - to_i64 MAX_RECONNECTION_TIME)"
  shows "\<exists>d' w'. authenticate E db http False d = Upgraded d' \<and>
    w' = web_on_open gen t s (put_socket s d' (w1\<lparr>open_sockets := s # open_sockets w1\<rparr>)) \<and>
    s_id (sockets w' s) = r_peer_id r \<and>
    map_of (connection_data w') (r_peer_id r) = Some \<lparr>k_id = r_peer_id r, k_game_id = gid,
      k_reconnection_token = token, k_ws = Some s\<rparr> \<and>
    outbox w' = outbox w1 @ (case k_ws k of None \<Rightarrow> []
      | Some j \<Rightarrow> [Ended j 1002 ''ERROR_SERVER_RECONNECT_CLOSE'']) \<and>
    map (\<lambda>m. (m_event m, m_id m)) (web_queue w') = map (\<lambda>m. (m_event m, m_id m)) (web_queue w1) @
      (if k_ws k = None then [] else [(CLOSE, r_peer_id r)]) @ [(OPEN, r_peer_id r)]"
proof -
  have "trim ''appsinacup'' = ''appsinacup''" by code_simp
  then have "protocols_split (join [''appsinacup'', gid, token]) = [''appsinacup'', gid, token]"
    using tok gid by (intro protocols_join) auto
  then have d: "s_game_id d = gid" "s_reconnection_token d = token" "s_platform d = ''anon''"
    using up by (auto simp: on_upgrade_def Let_def new_socket_data_def split: if_splits)
  define d' where "d' = (case db of None \<Rightarrow> d
    | Some lookup \<Rightarrow> d\<lparr>s_id := lookup (s_reconnection_token d) (s_game_id d) (s_id d)\<rparr>)"
  have d': "s_game_id d' = gid" "s_reconnection_token d' = token" "s_platform d' = ''anon''"
    using d by (simp_all add: d'_def split: option.split)
  have auth: "authenticate E db http False d = Upgraded d'"
    using d(2) tok(2) by (simp add: authenticate_def upgrade_anonymous_def d'_def)
  let ?v = "put_socket s d' (w1\<lparr>open_sockets := s # open_sockets w1\<rparr>)"
  have v: "sockets ?v s = d'" "outbox ?v = outbox w1" "web_queue ?v = web_queue w1"
    by (simp_all add: put_socket_def)
  have "unused s w1" using live_unused [OF w1] .
  then have "live ?v" using w1(1) by (auto simp: live_def unused_def)
  moreover have "takes_over t d' ?v r k"
    using user fresh d' tok(1) by (simp add: takes_over_def token_key_def) (simp add: put_socket_def)
  ultimately show ?thesis
    using open_takes_over [OF _ v(1) d'(3) _ refl, of t r k gen] auth v(2,3) d' by auto
qed

definition signed_in :: web where
  "signed_in = opened_socket 1 0 (client\<lparr>s_platform := ''steam'', s_name := ''Ann'', s_platform_id := ''1'',
     s_reconnection_token := ''steam:1''\<rparr>) (start_web 5 100)"

theorem anyone_can_take_over_an_account_witness:
  "\<exists>d w. on_upgrade gen0 ''appsinacup,g,steam:1'' True signed_in = (Inr d, w) \<and>
     s_id (sockets (opened_socket 2 9 d w) 2) = ''p'' \<and>
     outbox (opened_socket 2 9 d w) = outbox w @ [Ended 1 1002 ''ERROR_SERVER_RECONNECT_CLOSE'']"
proof -
  define w where "w = snd (on_upgrade gen0 ''appsinacup,g,steam:1'' True signed_in)"
  define d where "d = projr (fst (on_upgrade gen0 ''appsinacup,g,steam:1'' True signed_in))"
  let ?r = "\<lparr>r_peer_id = ''p'', r_timestamp = 0\<rparr>"
    and ?k = "\<lparr>k_id = ''p'', k_game_id = ''g'', k_reconnection_token = ''steam:1'', k_ws = Some 1\<rparr>"
  have tok: "''steam:1'' = ''steam'' @ '':'' @ ''1''" "CHR ''.'' \<notin> set ''steam:1''" "CHR '','' \<notin> set ''steam:1''"
    "trim ''steam:1'' = ''steam:1''" "CHR '','' \<notin> set ''g''" "trim ''g'' = ''g''"
    "join [''appsinacup'', ''g'', ''steam:1''] = ''appsinacup,g,steam:1''" by code_simp+
  have "isl (fst (on_upgrade gen0 ''appsinacup,g,steam:1'' True signed_in)) = False" by code_simp
  then have up: "on_upgrade gen0 ''appsinacup,g,steam:1'' True signed_in = (Inr d, w)"
    by (simp add: d_def w_def prod_eq_iff)
  have "web_reachable gen0 5 100 signed_in"
    unfolding signed_in_def opened_socket_def
    by (rule web_reachable.step [OF web_reachable.start web_step.opens]) (simp add: start_web_def)
  then have "live w" using web_reachable_live up
    by (auto simp: on_upgrade_def Let_def live_def split: if_splits)
  moreover have "2 \<notin> set (open_sockets w)" "map_of (reconnections w) (''g'' @ ''steam:1'') = Some ?r"
    "map_of (connection_data w) (r_peer_id ?r) = Some ?k" "k_game_id ?k = ''g''"
    "\<not> sint (r_timestamp ?r) < sint (9 - to_i64 MAX_RECONNECTION_TIME)"
    unfolding w_def by code_simp+
  moreover have "authenticate E0 None (\<lambda>_ _. []) False d = Upgraded d" unfolding d_def by code_simp
  ultimately show ?thesis
    using anyone_can_take_over_an_account [OF tok(1-6) up [folded tok(7)], of 2 ?r ?k 9 E0 None "\<lambda>_ _. []"] up
    unfolding opened_socket_def by auto
qed

section \<open>The two threads together\<close>

text \<open>A client opens a socket, says something, and the game thread runs a round.\<close>

definition greeted :: web where
  "greeted = on_message 5 True 1 ''x'' one_client"

lemma one_client_step: "client_step gen0 (start_web 5 100) one_client"
  unfolding one_client_def opened_socket_def by (rule client_step.intros(1)) (simp add: start_web_def)

lemma greeted_step: "client_step gen0 one_client greeted"
proof -
  have "1 \<in> set (open_sockets one_client)" by code_simp
  then show ?thesis unfolding greeted_def by (rule client_step.intros(2))
qed

definition greeted_thread :: gthread where
  "greeted_thread = arrive (fresh_messages one_client greeted)
     (arrive (fresh_messages (start_web 5 100) one_client) empty_thread)"

lemma greeted_system: "system E0 gen0 5 100 greeted (start_times, greeted_thread) []"
  unfolding greeted_thread_def empty_thread_def
  by (rule sys_client [OF sys_client [OF sys_start one_client_step] greeted_step])

text \<open>
  C27. Between the web server and the game thread no message is lost, doubled or overtaken: what the
  game thread has served and what waits in its queue is, in order, what the sockets' handlers
  queued. And the thread never serves a client's message before the \<open>OPEN\<close> of the same peer in the
  same game.
\<close>

theorem messages_arrive_once_and_in_order:
  assumes "system E gen messages users w (r, t) h"
  shows "h @ receive_queue t = web_queue w \<and>
    (\<forall>i < length h. m_event (h ! i) = MESSAGE \<longrightarrow>
      (\<exists>j < i. m_event (h ! j) = OPEN \<and> m_id (h ! j) = m_id (h ! i) \<and> m_game_id (h ! j) = m_game_id (h ! i)))"
proof -
  have q: "h @ receive_queue t = web_queue w" and w: "web_reachable gen messages users w"
    using system_parts [OF assms] by simp_all
  have "announced (h @ receive_queue t)" using web_reachable_orderly [OF w] by (simp add: q orderly_def)
  then have "\<exists>j < i. opens_for (m_id (h ! i)) (m_game_id (h ! i)) (h ! j)"
    if "i < length h" "m_event (h ! i) = MESSAGE" for i
    using that unfolding announced_def by (auto simp: nth_append dest!: spec [of _ i])
  then show ?thesis using q by (auto simp: opens_for_def)
qed

theorem messages_arrive_once_and_in_order_witness:
  "\<exists>h. system E0 gen0 5 100 greeted (run_round E0 9 (start_times, greeted_thread)) h \<and>
     map m_event h = [OPEN, MESSAGE] \<and> m_id (h ! 0) = m_id (h ! 1)"
proof -
  define h where "h = [] @ take 50 (receive_queue greeted_thread)"
  have s: "system E0 gen0 5 100 greeted (run_round E0 9 (start_times, greeted_thread)) h"
    unfolding h_def by (rule sys_round [OF greeted_system])
  have f: "map m_event h = [OPEN, MESSAGE]" "1 < length h" "m_event (h ! 1) = MESSAGE"
    unfolding h_def by code_simp+
  obtain r' t' where "run_round E0 9 (start_times, greeted_thread) = (r', t')" by fastforce
  then have "\<exists>j < 1. m_event (h ! j) = OPEN \<and> m_id (h ! j) = m_id (h ! 1) \<and> m_game_id (h ! j) = m_game_id (h ! 1)"
    using messages_arrive_once_and_in_order [of E0 gen0 5 100 greeted r' t' h] s f(2,3) by metis
  then show ?thesis using s f(1) by auto
qed

text \<open>
  C28. Every message is served: whatever keeps arriving, after one round for every fifty messages that
  were waiting the thread has served all of these, in order, and then those that arrived later.
\<close>

theorem every_message_is_served:
  assumes "fold (next_round E) rounds ([], r, t) = (taken, r', t')"
    and "length (receive_queue t) \<le> 50 * length rounds"
  shows "take (length (receive_queue t)) taken = receive_queue t \<and>
    taken @ receive_queue t' = receive_queue t @ concat (map fst rounds)"
proof -
  have q: "taken @ receive_queue t' = receive_queue t @ concat (map fst rounds)"
    and n: "length (receive_queue t) \<le> length taken"
    using next_rounds_queue [OF assms(1)] assms(2) by auto
  have "take (length (receive_queue t)) taken = take (length (receive_queue t)) (taken @ receive_queue t')"
    using n by simp
  also have "\<dots> = receive_queue t" unfolding q by simp
  finally show ?thesis using q by simp
qed

theorem every_message_is_served_witness:
  "\<exists>taken s. fold (next_round E0) [([event MESSAGE ''b'' ''x''], 9)] ([], start_times, greeted_thread) = (taken, s) \<and>
     take 2 taken = receive_queue greeted_thread"
proof -
  obtain taken r' t' where f: "fold (next_round E0) [([event MESSAGE ''b'' ''x''], 9)] ([], start_times, greeted_thread) = (taken, r', t')"
    by (cases "fold (next_round E0) [([event MESSAGE ''b'' ''x''], 9)] ([], start_times, greeted_thread)") auto
  have "length (receive_queue greeted_thread) = 2" by code_simp
  then show ?thesis using every_message_is_served [OF f] f by auto
qed


section \<open>The library of the scripts\<close>

text \<open>A game's folder with two modules that require each other, which no script can write.\<close>

definition L0 :: lib_env where
  "L0 = \<lparr>base_path = ''g'',
     luau_load = (\<lambda>path source.
       if source = ''require b'' then Inr (CCall [] Lib_require [LStr ''b''] (\<lambda>r. CRet [LTable []]))
       else if source = ''require a'' then Inr (CCall [] Lib_require [LStr ''a''] (\<lambda>r. CRet [LTable []]))
       else Inl None),
     can_open = (\<lambda>p. p = ''g/../log''),
     https_exchange = (\<lambda>_. Inl ''offline'')\<rparr>"

definition files0 :: "string \<Rightarrow> string option" where
  "files0 = [''g/a.lua'' \<mapsto> ''require b'', ''g/b.lua'' \<mapsto> ''require a'', ''g/../secret'' \<mapsto> ''x'']"

lemma L0_closed: "\<not> can_open L0 (module_path L0 m)"
proof
  assume "can_open L0 (module_path L0 m)"
  then have "last (''g/'' @ m @ ''.lua'') = last ''g/../log''"
    by (simp add: L0_def module_path_def)
  then show False by (simp add: last_append)
qed

text \<open>
  C29. Requiring modules always comes to an end, however they require each other: where scripts
  cannot write module files, a run never nests deeper than there are files, so with more nested
  calls than that it does not matter what happens at the limit, or how far away the limit is.
\<close>

theorem requires_terminate:
  assumes "opened w" "finite (dom (w_files w))" "card (dom (w_files w)) < n" "n \<le> m"
    and "\<And>name. \<not> can_open L (module_path L name)"
  shows "(run_chunk E L ^^ m) limit code w = run_nested E L n code w"
proof -
  have sub: "pending L w \<subseteq> dom (w_files w)" by (auto simp: pending_def)
  have "settled L w"
    using assms(1,5) finite_subset [OF sub assms(2)] by (simp add: settled_def)
  moreover have "card (pending L w) < n" using card_mono [OF assms(2) sub] assms(3) by simp
  ultimately show ?thesis
    using nested_any_limit [of L w m E limit code] nested_depth [of L w n m E code] assms(4) by simp
qed

theorem requires_terminate_witness:
  "fst ((run_chunk E0 L0 ^^ 9) (\<lambda>code w. lua_error [] w) (CCall [] Lib_require [LStr ''a''] (case_sum CErr CRet)) (new_world files0)) =
     Inr [LTable []]"
proof -
  have d: "w_files (new_world files0) = files0"
    by (simp add: new_world_def luaopen_system_def luaopen_lobby_def)
  have f: "dom files0 = {''g/a.lua'', ''g/b.lua'', ''g/../secret''}" by (auto simp: files0_def)
  have "fst (run_nested E0 L0 4 (CCall [] Lib_require [LStr ''a''] (case_sum CErr CRet)) (new_world files0)) =
      Inr [LTable []]" by code_simp
  then show ?thesis
    using requires_terminate [OF opened_new_world, of files0 4 9 L0 E0 "\<lambda>code w. lua_error [] w"
        "CCall [] Lib_require [LStr ''a''] (case_sum CErr CRet)"] L0_closed
    by (simp add: d f del: run_nested.simps)
qed

text \<open>
  C30. A module is loaded once: after a first \<open>require\<close> a second one returns at once and changes
  nothing. It returns the module if the first one did; if the first one failed, it does not fail
  again but returns the placeholder \<open>true\<close>.
\<close>

theorem second_require_sees_the_first:
  assumes "opened w" "lua_to_cstring E (lua_arg args 1) = Some m" "\<not> has_dots m"
    and "m \<noteq> ''lobby''" "m \<noteq> ''system''" "cached L m w = None"
    and "lua_require E L (run_nested E L n) site args w = (r, w')"
  shows "lua_require E L run site' args w' = (Inr [case r of Inr [v] \<Rightarrow> v | _ \<Rightarrow> LBool True], w')"
  using assms by (rule require_again)

theorem second_require_sees_the_first_witness:
  "\<exists>w'. lua_require E0 L0 (run_nested E0 L0 3) [] [LStr ''x''] (new_world files0) =
      (Inl (Some (''require: cannot open file '' @ quoted ''g/x.lua'')), w') \<and>
    lua_require E0 L0 (run_nested E0 L0 3) [] [LStr ''x''] w' = (Inr [LBool True], w')"
proof -
  let ?q = "lua_require E0 L0 (run_nested E0 L0 3) [] [LStr ''x''] (new_world files0)"
  obtain r w' where q: "?q = (r, w')" by fastforce
  have "fst ?q = Inl (Some (''require: cannot open file '' @ quoted ''g/x.lua''))" by code_simp
  then have r: "r = Inl (Some (''require: cannot open file '' @ quoted ''g/x.lua''))" by (simp add: q)
  have f: "lua_to_cstring E0 (lua_arg [LStr ''x''] 1) = Some ''x''" "\<not> has_dots ''x''"
    "cached L0 ''x'' (new_world files0) = None" by code_simp+
  have "lua_require E0 L0 (run_nested E0 L0 3) [] [LStr ''x''] w' = (Inr [LBool True], w')"
    using second_require_sees_the_first [OF opened_new_world f(1,2) _ _ f(3) q] r by simp
  then show ?thesis using q r by blast
qed

text \<open>
  C31. What a run of scripts can change, with paths read as the file system reads them (\<open>below\<close>):
  every module it caches is one \<open>require\<close> looked up by a name without two dots, and its file lies
  below the folder of the game whatever the working directory; a module that is cached is never
  replaced. A file it changes is one the process can open whose path is the folder, a slash and a
  name; it lies below the folder if the name has no two dots. With them a script does write outside
  the folder (\<open>read_file_leaves_the_folder\<close>): only \<open>require\<close> refuses such names.
\<close>

theorem modules_come_from_the_folder:
  assumes "opened w" "base_path L \<noteq> []" and w': "w' = snd (run_nested E L n code w)"
  shows "(\<forall>p. w_modules w p = None \<and> w_modules w' p \<noteq> None \<longrightarrow>
      (\<exists>m. p = module_path L m \<and> \<not> has_dots m) \<and> below cwd (base_path L) p) \<and>
    (\<forall>p v. w_modules w p = Some v \<longrightarrow> w_modules w' p = Some v) \<and>
    (\<forall>p. w_files w' p \<noteq> w_files w p \<longrightarrow>
      can_open L p \<and> (\<exists>name. p = base_path L @ ''/'' @ name \<and> (\<not> has_dots name \<longrightarrow> below cwd (base_path L) p)))"
proof -
  have c: "confined L w w'" unfolding w' by (rule folder.run_nested [OF assms(1)])
  have "(\<exists>m. p = module_path L m \<and> \<not> has_dots m) \<and> below cwd (base_path L) p"
    if "w_modules w p = None" "w_modules w' p \<noteq> None" for p
    using c that module_below [OF assms(2)] unfolding confined_def by metis
  moreover have "can_open L p \<and> (\<exists>name. p = base_path L @ ''/'' @ name \<and> (\<not> has_dots name \<longrightarrow> below cwd (base_path L) p))"
    if "w_files w' p \<noteq> w_files w p" for p
  proof -
    have "can_open L p \<and> (\<exists>name. p = base_path L @ ''/'' @ name)"
      using c that unfolding confined_def by metis
    then show ?thesis using file_below [OF assms(2)] by blast
  qed
  moreover have "w_modules w' p = Some v" if "w_modules w p = Some v" for p v
    using c that by (simp add: confined_def keeps_cache_def)
  ultimately show ?thesis by blast
qed

theorem modules_come_from_the_folder_witness:
  "\<not> below ''/srv'' ''g'' ''g/../log'' \<and>
   w_files (snd (run_nested E0 L0 4 (CCall [] Lib_write_file [LStr ''../log'', LStr ''x''] (case_sum CErr CRet))
      (new_world files0))) ''h/a.lua'' = files0 ''h/a.lua''"
proof -
  define w' where "w' = snd (run_nested E0 L0 4
    (CCall [] Lib_write_file [LStr ''../log'', LStr ''x''] (case_sum CErr CRet)) (new_world files0))"
  have b: "base_path L0 \<noteq> []" and closed: "\<not> can_open L0 ''h/a.lua''" by (simp_all add: L0_def)
  have files: "w_files (new_world files0) = files0"
    by (simp add: new_world_def luaopen_system_def luaopen_lobby_def)
  note r = modules_come_from_the_folder [OF opened_new_world b w'_def, of "''/srv''"]
  have "w_files w' ''h/a.lua'' = w_files (new_world files0) ''h/a.lua''"
    using r [THEN conjunct2, THEN conjunct2, THEN spec, of "''h/a.lua''"] closed by blast
  moreover have "\<not> below ''/srv'' ''g'' ''g/../log''" by code_simp
  ultimately show ?thesis unfolding w'_def [symmetric] files by blast
qed

text \<open>The name may hold \<open>..\<close>: unlike \<open>require\<close>, reading and writing reach files above the folder.\<close>

lemma read_file_leaves_the_folder:
  "fst (read_file_as_string E0 L0 [] [LStr ''../secret''] (new_world files0)) = Inr [LStr ''x''] \<and>
   w_files (snd (write_file_as_string E0 L0 [] [LStr ''../log'', LStr ''y''] (new_world files0)))
     ''g/../log'' = Some ''y''"
  by code_simp

text \<open>
  C32. What a script encodes it can decode: a value that survives the way into Lua is encoded to the
  text the JSON writer makes of it, and decoding that text gives the script its value back, if the
  JSON reader reads back what the writer wrote (positive numbers may come back as unsigned ones).
\<close>

theorem script_json_roundtrip:
  assumes "lua_safe E x" "any_wf x"
    and "yyjson_mut_write E (to_yyjson x) = Some s" "CHR 0x00 \<notin> set s"
    and "yyjson_read E s = Some v" "decode_value v = decode_value (to_yyjson x)"
  shows "encode_json E site [push_lua_value x] w = (Inr [LStr s], w) \<and>
    decode_json E site [LStr s] w = (Inr [push_lua_value x], w)"
  using json_text_back [OF assms] by simp

theorem script_json_roundtrip_witness:
  "decode_json (E0\<lparr>yyjson_mut_write := (\<lambda>_. Some ''[7]''), yyjson_read := (\<lambda>_. Some (YArr [YUint 7]))\<rparr>) []
     [LStr ''[7]''] (new_world files0) =
     (Inr [push_lua_value (AArr [AInt 7])], new_world files0)"
  using script_json_roundtrip [of "E0\<lparr>yyjson_mut_write := (\<lambda>_. Some ''[7]''), yyjson_read := (\<lambda>_. Some (YArr [YUint 7]))\<rparr>"
      "AArr [AInt 7]" "''[7]''" "YArr [YUint 7]" "[]" "new_world files0"]
  by simp


section \<open>Leaderboards and the database\<close>

definition Q0 :: sql_env where
  "Q0 = \<lparr>sql_now = 7, sql_text = (\<lambda>_. True), scan = (\<lambda>_ _ rows. rows),
     to_char = (\<lambda>_. ''t''), timestamp_text = (\<lambda>_. ''t'')\<rparr>"

definition score_message :: "string \<Rightarrow> i64 \<Rightarrow> string \<Rightarrow> db_message" where
  "score_message user score mode =
    \<lparr>db_game_id = ''g'', db_peer_id = user, db_score = score, db_leaderboard_id = ''l'',
     db_leaderboard_type = mode\<rparr>"

definition empty_database :: database where
  "empty_database = \<lparr>leaderboards = [], peers = []\<rparr>"

definition two_scores :: database where
  "two_scores = (case db_run Q0 [score_message ''a'' 3 ''set'', score_message ''b'' 5 ''best'',
     score_message ''b'' 4 ''best''] empty_database of Inr db \<Rightarrow> db | Inl e \<Rightarrow> empty_database)"

text \<open>
  C33. The table of scores refines a map from leaderboard, game and user to an integer: the database
  thread applies the queue of messages to it one by one as \<open>scores_spec\<close> says with integer arithmetic.
  \<open>set\<close> stores the new score, \<open>best\<close> the larger one, \<open>inc\<close> the sum, \<open>dec\<close> the difference, the first
  score of a user is stored as it is whatever the mode, and a message with another mode is passed over.
  The run ends in an exception exactly when the specification fails: at the first message with a text
  the database refuses or with a value outside the signed 64-bit integers. There is never more than
  one row for a user.
\<close>

theorem scores_refine_a_map:
  assumes "unique_rows (leaderboards db)"
  shows "case db_run Q ms db of
      Inl e \<Rightarrow> scores_spec Q ms (int_scores db) = Inl e
    | Inr db' \<Rightarrow> scores_spec Q ms (int_scores db) = Inr (int_scores db') \<and> unique_rows (leaderboards db')"
  using db_run_spec [of Q ms db] db_run_unique [OF assms, of Q ms] by (auto split: sum.splits)

theorem scores_refine_a_map_witness:
  "db_run Q0 [score_message ''a'' (2 ^ 62) ''inc'', score_message ''a'' (2 ^ 62) ''inc''] empty_database =
     Inl ''bigint out of range'' \<and>
   scores_spec Q0 [score_message ''a'' (2 ^ 62) ''inc'', score_message ''a'' (2 ^ 62) ''inc'']
     (int_scores empty_database) = Inl ''bigint out of range''"
proof -
  have u: "unique_rows (leaderboards empty_database)" by code_simp
  have r: "db_run Q0 [score_message ''a'' (2 ^ 62) ''inc'', score_message ''a'' (2 ^ 62) ''inc''] empty_database =
     Inl ''bigint out of range''" by code_simp
  show ?thesis
    using scores_refine_a_map [OF u, of Q0
        "[score_message ''a'' (2 ^ 62) ''inc'', score_message ''a'' (2 ^ 62) ''inc'']"] r
    by simp
qed

text \<open>
  C34. The rank a user is told is never worse than the position in the list of the best, and the two
  agree where no two scores of the leaderboard are equal.
\<close>

theorem ranks_follow_positions:
  assumes "unique_rows (leaderboards db)" "\<And>n k rows. mset (scan Q n k rows) = mset rows"
    and "\<And>t. timestamp_text Q t \<noteq> []" "length (on_board lid gid db) < 2 ^ 31" "sql_text Q u"
    and "leaderboard_get_top Q lid gid limit start db = Inr es" "i < length es" "es ! i = (u, s, ts)"
  shows "\<exists>rank time. leaderboard_get_user_score Q lid gid u db = Inr (s, rank, time) \<and> 1 \<le> sint rank \<and>
    sint rank \<le> sint start + int i + 1 \<and>
    (distinct (map r_score (on_board lid gid db)) \<longrightarrow> sint rank = sint start + int i + 1)"
  using assms by (rule top_rank)

theorem ranks_follow_positions_witness:
  "leaderboard_get_top Q0 ''l'' ''g'' 10 1 two_scores = Inr [(''a'', 3, ''t'')] \<and>
   (\<exists>rank time. leaderboard_get_user_score Q0 ''l'' ''g'' ''a'' two_scores = Inr (3, rank, time) \<and> sint rank = 2)"
proof -
  have f: "unique_rows (leaderboards two_scores)" "length (on_board ''l'' ''g'' two_scores) = 2"
    "distinct (map r_score (on_board ''l'' ''g'' two_scores))"
    "leaderboard_get_top Q0 ''l'' ''g'' 10 1 two_scores = Inr [(''a'', 3, ''t'')]" "sint (1 :: i32) = 1" by code_simp+
  have q: "mset (scan Q0 n k rows) = mset rows" "timestamp_text Q0 t \<noteq> []" "sql_text Q0 u" for n k rows t u
    by (simp_all add: Q0_def)
  show ?thesis
    using ranks_follow_positions [OF f(1) q(1,2) _ q(3) f(4), of 0 "''a''" 3 "''t''"] f(2,3,4,5) by auto
qed

text \<open>
  The leaderboard route ends in an exception that nothing catches exactly when the database is on,
  a game is named, and a size or a start is given that is not a number an \<open>int\<close> can hold, or a name the database cannot store. A size that
  is a number asks for one to a hundred entries, a start for none below zero.
\<close>

theorem leaderboard_route_needs_numbers:
  "((\<exists>e. get_leaderboard Q db_enabled gid lid size_str start_str db = Uncaught e) \<longleftrightarrow>
     db_enabled \<and> gid \<noteq> [] \<and>
     (size_str \<noteq> [] \<and> std_stoi size_str = None \<or> start_str \<noteq> [] \<and> std_stoi start_str = None \<or>
      \<not> sql_texts Q [lid, gid])) \<and>
   1 \<le> sint (clamp_size n) \<and> sint (clamp_size n) \<le> 100 \<and> 0 \<le> sint (clamp_start n)"
proof -
  have s: "1 \<le> sint (clamp_size k)" "sint (clamp_size k) \<le> 100" "0 \<le> sint (clamp_start k)" for k
    by (simp_all add: clamp_size_def clamp_start_def)
  have nonneg: "\<not> sint (clamp_size k) < 0" "\<not> sint (clamp_start k) < 0" for k
    using s(1,3) [of k] by simp_all
  have top: "(\<exists>e. leaderboard_get_top Q lid gid k i db = Inl e) \<longleftrightarrow> \<not> sql_texts Q [lid, gid]"
    if "query_int clamp_size 10 size_str = Some k" "query_int clamp_start 0 start_str = Some i" for k i
    using that nonneg by (auto simp: query_int_def leaderboard_get_top_def split: if_splits)
  have "(\<exists>e. get_leaderboard Q db_enabled gid lid size_str start_str db = Uncaught e) \<longleftrightarrow>
     db_enabled \<and> gid \<noteq> [] \<and>
     (query_int clamp_size 10 size_str = None \<or> query_int clamp_start 0 start_str = None \<or>
      \<not> sql_texts Q [lid, gid])"
  proof (cases "query_int clamp_size 10 size_str = None \<or> query_int clamp_start 0 start_str = None")
    case True
    then show ?thesis by (auto simp: get_leaderboard_def split: option.splits)
  next
    case False
    then obtain k i where q: "query_int clamp_size 10 size_str = Some k" "query_int clamp_start 0 start_str = Some i"
      by auto
    show ?thesis using top [OF q] by (auto simp: get_leaderboard_def q split: sum.splits)
  qed
  then show ?thesis using s by (simp add: query_int_def)
qed

text \<open>The texts of a row go into the answer as they are: a quote in a user's name ends the JSON string.\<close>

lemma route_does_not_escape:
  "get_leaderboard Q0 True ''g'' ''l'' ''1'' []
     (two_scores\<lparr>leaderboards := [\<lparr>r_leaderboard_id = ''l'', r_game_id = ''g'', r_user_id = [CHR 0x22],
        r_score = 1, r_written = 0\<rparr>]\<rparr>) =
   Reply ''200 OK'' (''[{'' @ in_quotes ''user_id'' @ '':'' @ [CHR 0x22, CHR 0x22, CHR 0x22] @ '','' @
     in_quotes ''score'' @ '':1,'' @ in_quotes ''timestamp'' @ '':'' @ in_quotes ''t'' @ '', '' @
     in_quotes ''rank'' @ '':1}]'')"
  by code_simp

text \<open>Taking away from a score that is not there adds to it.\<close>

lemma first_decrement_adds:
  "map_option (\<lambda>r. sint (r_score r)) (List.find (\<lambda>r. True) (case db_run Q0 [score_message ''a'' 5 ''dec''] empty_database of
     Inr db \<Rightarrow> leaderboards db | Inl e \<Rightarrow> [])) = Some 5"
  by code_simp

text \<open>Without a database nobody takes the messages: the queue only grows.\<close>

lemma disabled_database_keeps_the_queue: "database_thread False Q ms db = (ms, Inr db)"
  by (simp add: database_thread_def)


section \<open>Authentication at work\<close>

text \<open>Two clients with the same token, one with a login, and one that gives up before it is served.\<close>

definition visitor :: "string \<Rightarrow> string \<Rightarrow> per_socket_data" where
  "visitor pid token = new_socket_data ''u'' pid ''g'' token"

definition visits :: "auth_event list" where
  "visits = [Auth_requested (visitor ''p'' ''t''), Auth_requested (visitor ''q'' ''a.b''),
     Auth_requested (visitor ''r'' ''t''), Auth_served (\<lambda>_ _. []), Auth_served (\<lambda>_ _. []),
     Auth_called, Auth_served (\<lambda>_ _. []), Auth_called, Auth_called]"

text \<open>
  C35. Every request is answered once and in the order of the requests, whatever the threads do
  meanwhile: the requests that were answered, those whose callback is deferred and those that wait
  are together the requests that came, in this order. And with a database the clients without a
  login that come with the same token to the same game are told the same peer id, however the rest
  of the run goes.
\<close>

theorem requests_are_answered_in_order:
  assumes "s = auth_run E Q evs (start_auth True db)"
  shows "requests_of s = enumerate 0 (requested evs) \<and>
    ((cb1, Upgraded d1) \<in> set (auth_replies s) \<and> (cb2, Upgraded d2) \<in> set (auth_replies s) \<and>
       s_reconnection_token (cb_user_data cb1) = token \<and> s_reconnection_token (cb_user_data cb2) = token \<and>
       s_game_id (cb_user_data cb1) = s_game_id (cb_user_data cb2) \<and> \<not> has_dot token \<longrightarrow>
     s_id d1 = s_id d2)"
proof -
  have "requests_of (start_auth True db) = []" "auth_requests (start_auth True db) = 0"
    "auth_db_enabled (start_auth True db)"
    by (simp_all add: start_auth_def requests_of_def)
  then have "requests_of s = enumerate 0 (requested evs)" "replies_in_table s"
    using requests_run [of E Q evs "start_auth True db"]
      replies_in_table_run [OF replies_in_table_start [of True db], of E Q evs]
    by (simp_all add: assms)
  moreover have "peer_of (s_reconnection_token (cb_user_data cb)) (s_game_id (cb_user_data cb)) (auth_db s) = Some (s_id d)"
    if "(cb, Upgraded d) \<in> set (auth_replies s)" "\<not> has_dot (s_reconnection_token (cb_user_data cb))" for cb d
  proof -
    have "names_peer (auth_db s) (cb, Upgraded d)"
      using \<open>replies_in_table s\<close> that(1) by (simp add: replies_in_table_def)
    then show ?thesis using that(2) by (simp add: names_peer_def)
  qed
  ultimately show ?thesis by (metis option.inject)
qed

theorem requests_are_answered_in_order_witness:
  "\<exists>cb1 d1 x cb2 d2. auth_replies (auth_run E0 Q0 visits (start_auth True empty_database)) =
     [(cb1, Upgraded d1), x, (cb2, Upgraded d2)] \<and> s_id d1 = s_id d2 \<and>
     requests_of (auth_run E0 Q0 visits (start_auth True empty_database)) =
       [(0, visitor ''p'' ''t''), (1, visitor ''q'' ''a.b''), (2, visitor ''r'' ''t'')]"
proof -
  define rs where "rs = auth_replies (auth_run E0 Q0 visits (start_auth True empty_database))"
  have "map (\<lambda>(cb, r). (s_reconnection_token (cb_user_data cb), s_game_id (cb_user_data cb),
      case r of Upgraded d \<Rightarrow> True | _ \<Rightarrow> False)) rs =
    [(''t'', ''g'', True), (''a.b'', ''g'', False), (''t'', ''g'', True)]"
    unfolding rs_def by code_simp
  then obtain e1 x e2 where e: "rs = [e1, x, e2]"
    and u: "map (\<lambda>(cb, r). (s_reconnection_token (cb_user_data cb), s_game_id (cb_user_data cb),
      case r of Upgraded d \<Rightarrow> True | _ \<Rightarrow> False)) [e1, e2] = [(''t'', ''g'', True), (''t'', ''g'', True)]"
    by (auto simp only: map_eq_Cons_conv map_is_Nil_conv list.map)
  obtain cb1 r1 cb2 r2 where c: "e1 = (cb1, r1)" "e2 = (cb2, r2)" by fastforce
  obtain d1 d2 where rs: "rs = [(cb1, Upgraded d1), x, (cb2, Upgraded d2)]"
    using u by (cases r1; cases r2) (simp_all add: e c)
  have t: "s_reconnection_token (cb_user_data cb1) = ''t''" "s_reconnection_token (cb_user_data cb2) = ''t''"
      "s_game_id (cb_user_data cb1) = ''g''" "s_game_id (cb_user_data cb2) = ''g''"
    using u by (simp_all add: c)
  have d: "\<not> has_dot ''t''" "enumerate 0 (requested visits) =
      [(0, visitor ''p'' ''t''), (1, visitor ''q'' ''a.b''), (2, visitor ''r'' ''t'')]" by code_simp+
  show ?thesis
    using requests_are_answered_in_order [of "auth_run E0 Q0 visits (start_auth True empty_database)" E0 Q0 visits
        empty_database cb1 d1 cb2 d2 "''t''"] rs t d
    unfolding rs_def by auto
qed

text \<open>The thread does not see that it was stopped while it waits: it takes one more request first.\<close>

lemma stopped_thread_still_waits:
  "auth_waiting (auth_run E0 Q0 [Auth_stopped] (start_auth True empty_database))"
  by code_simp

text \<open>
  C36. Reading \<open>public_data\<close> through the cache is reading it without: whatever objects were created,
  read and collected before, the object a script gets holds what the uncached read of the model
  gives, and a second read gives the same object again.
\<close>

theorem cached_reads_are_reads:
  assumes "m = fold vm_step evs (vm_metatables m0)" "obj < length (vm_userdata m)"
    and "index_public_data obj m = (v, m')"
  shows "index_lobby_root (vm_userdata m ! obj) ''public_data'' c = ([LUserdata (vm_userdata m' ! v)], c) \<and>
    index_public_data obj m' = (v, m')"
proof -
  have "cache_ok m" unfolding assms(1) by (rule property_cache.others_inv [OF cache_ok_metatables])
  then show ?thesis
    using cached_read_is_the_read assms(2,3) second_read_is_the_same by blast
qed

definition some_lobby :: lobby_userdata where
  "some_lobby = \<lparr>ud_type = LOBBY_ROOT, ud_game_id = ''g'', ud_lobby_id = ''l'', ud_calling_peer_id = ''p'',
     ud_peer_id = []\<rparr>"

definition machine_events :: "vm_event list" where
  "machine_events = [Vm_create some_lobby, Vm_public 0, Vm_create some_lobby, Vm_collect [0], Vm_public 0]"

definition used_machine :: machine where
  "used_machine = fold vm_step machine_events (vm_metatables \<lparr>vm_userdata = [], vm_lobby_cache = (\<lambda>_. None)\<rparr>)"

theorem cached_reads_are_reads_witness:
  "fst (index_public_data 0 used_machine) = 3 \<and>
   index_lobby_root some_lobby ''public_data'' scripted =
     ([LUserdata (vm_userdata (snd (index_public_data 0 used_machine)) ! 3)], scripted)"
proof -
  have f: "vm_userdata used_machine ! 0 = some_lobby" "0 < length (vm_userdata used_machine)"
    "fst (index_public_data 0 used_machine) = 3" by code_simp+
  have i: "index_public_data 0 used_machine = (3, snd (index_public_data 0 used_machine))"
    using f(3) by (metis prod.collapse)
  show ?thesis
    using cached_reads_are_reads [OF used_machine_def f(2) i, of scripted] f(3) unfolding f(1) by blast
qed

section \<open>Starting, logging, watching\<close>



text \<open>
  C38. While the log file is open every line that is logged is in it, once and in order, with a time in
  front. Once it is closed and three attempts to open it have failed, nothing is ever written again,
  even if the file could be opened.
\<close>

theorem log_keeps_lines_until_it_gives_up:
  assumes "drained g"
  shows "(lg_open g \<longrightarrow> (\<exists>ts. length ts = length calls \<and>
      lg_disk (fold (\<lambda>(m, args). log_to_file m args) calls g) =
        lg_disk g @ concat (map2 (\<lambda>t (m, args). t @ '': '' @ concat args @ [CHR 0x0A]) ts calls))) \<and>
    (\<not> lg_open g \<longrightarrow> lg_retries g = 0 \<longrightarrow> length failing = 3 \<longrightarrow>
      (\<forall>(m, args) \<in> set failing. \<not> openable m) \<longrightarrow>
      lg_disk (fold (\<lambda>(m, args). log_to_file m args) (failing @ calls) g) = lg_disk g)"
proof (intro conjI impI)
  assume "lg_open g"
  then show "\<exists>ts. length ts = length calls \<and>
      lg_disk (fold (\<lambda>(m, args). log_to_file m args) calls g) =
        lg_disk g @ concat (map2 (\<lambda>t (m, args). t @ '': '' @ concat args @ [CHR 0x0A]) ts calls)"
    using log_many_open assms by blast
next
  assume "\<not> lg_open g" "lg_retries g = 0" "length failing = 3" "\<forall>(m, args) \<in> set failing. \<not> openable m"
  then show "lg_disk (fold (\<lambda>(m, args). log_to_file m args) (failing @ calls) g) = lg_disk g"
    using log_fails [of g failing] log_gives_up [of "fold (\<lambda>(m, args). log_to_file m args) failing g" calls]
    by (simp add: MAX_RETRIES_def Let_def)
qed

definition shut :: moment where
  "shut = \<lparr>openable = False, steady = 0, clock_text = ''t''\<rparr>"

theorem log_keeps_lines_until_it_gives_up_witness:
  "lg_disk (fold (\<lambda>(m, args). log_to_file m args)
     [(shut, [''a'']), (shut, [''b'']), (shut, [''c'']), (shut\<lparr>openable := True\<rparr>, [''d''])]
     (new_logger shut True ''f'' ''old'')) = ''old''"
proof -
  have n: "\<not> lg_open (new_logger shut True ''f'' ''old'')" "lg_retries (new_logger shut True ''f'' ''old'') = 0"
    "lg_disk (new_logger shut True ''f'' ''old'') = ''old''" by (simp_all add: new_logger_def shut_def)
  show ?thesis
    using log_keeps_lines_until_it_gives_up [OF drained_new [of shut True "''f''" "''old''"],
        of "[(shut\<lparr>openable := True\<rparr>, [''d''])]" "[(shut, [''a'']), (shut, [''b'']), (shut, [''c''])]"] n
    by (simp add: shut_def)
qed



text \<open>The lost slash: a neighbour of the games folder whose name goes on from it counts as inside.\<close>

lemma neighbour_folder_counts:
  "gl_queue (handleFileAction ''/'' (\<lambda>_. Some 3) ''/s_old/chess/'' ''main.lua'' (new_listener ''/'' ''/s'')) = [''..'']"
  by code_simp

text \<open>In a game whose membership is exact the statistics count no peer in two lobbies.\<close>

lemma players_are_counted_once: "sound E c \<Longrightarrow> peers_in_lobbies (game c) \<le> length (g_peers (game c))"
  by (rule players_bounded)


section \<open>Values\<close>

text \<open>
  C40. Every document a client can send decodes to such a value or to an error: dictionaries come
  out strictly ordered by key, and no string or key holds a zero byte. Decoding what was decoded
  before changes nothing.
\<close>

theorem decoded_values_are_proper:
  assumes "decode_value v = Inr x"
  shows "any_wf x \<and> decode_value (to_yyjson x) = decode_value v"
  using decode_wf(1) [OF assms] decode_to_yyjson assms by simp

theorem decoded_values_are_proper_witness:
  "any_wf (AMap [(''a'', AInt 1), (''b'', AInt 3)])"
proof -
  have "decode_value (YObj [(YStr ''b'', YUint 2), (YStr ''a'', YSint 1), (YStr ''b'', YSint 3)]) =
      Inr (AMap [(''a'', AInt 1), (''b'', AInt 3)])" by code_simp
  then show ?thesis using decoded_values_are_proper by blast
qed

subsection \<open>Three defects\<close>

text \<open>
  When the host of a relay game leaves a lobby that is not to be disbanded, every member is
  told that the lobby is closed and loses its membership, but the lobby stays, with the members
  listed and the departed host as its host.
\<close>

theorem departed_relay_host_leaves_a_ghost_lobby:
  "let c = on_leave_lobby E0 [] ''a'' None (pair False)
   in has_lobby c ''u'' \<and> l_peer_ids (lobby_at c ''u'') = [''b''] \<and> l_host (lobby_at c ''u'') = ''a'' \<and>
      p_lobby_id (peer_at c ''b'') = []"
  unfolding Let_def by (intro conjI) code_simp+

text \<open>
  The idle sweep stops at the first game without an idle limit: in a server of two games
  where only the second has a limit, a member idle for longer than the limit stays in its lobby;
  without the first game it is removed.
\<close>

definition idle_game :: game_data where
  "idle_game = (game (pair True))\<lparr>g_max_afk_time := 1\<rparr>"

definition two_games :: "bool \<Rightarrow> gthread" where
  "two_games both = empty_thread\<lparr>now := 1000000,
     games := (if both then [(''f'', new_game ''f'' ''relay'')] else []) @ [(''g'', idle_game)]\<rparr>"

definition still_in :: "gthread \<Rightarrow> bool" where
  "still_in t \<longleftrightarrow> (case map_of (games t) ''g'' of None \<Rightarrow> False
     | Some g \<Rightarrow> (case map_of (g_peers g) ''b'' of None \<Rightarrow> False | Some p \<Rightarrow> p_lobby_id p = ''u''))"

theorem idle_sweep_stops_at_a_game_without_limit:
  "handle_afk E0 (two_games True) = two_games True \<and> still_in (handle_afk E0 (two_games True)) \<and>
   \<not> still_in (handle_afk E0 (two_games False))"
proof -
  have "still_in (two_games True)" "\<not> still_in (handle_afk E0 (two_games False))" by code_simp+
  moreover have "handle_afk E0 (two_games True) = two_games True"
    by (simp add: handle_afk_def two_games_def new_game_def)
  ultimately show ?thesis by simp
qed

text \<open>
  A timer that is due is erased from the map the loop is running over: every sweep that fires
  a timer hits undefined behaviour.
\<close>

theorem firing_a_timer_invalidates_the_loop:
  assumes "map_of (g_timer_data (game c)) tid = Some td" "sint (t_end_time td) < sint (now c)"
  shows "faults (timer_step E tid c) \<noteq> []"
proof -
  let ?c1 = "erase_timer tid c"
  have er: "faults (erase_timer tid c') \<noteq> []" for c' by (simp add: erase_timer_def fault_add_def)
  show ?thesis
  proof (cases "has_lobby c (t_lobby_id td)")
    case True
    obtain r e c2 where r: "call_script E (t_peer_id td) (t_lobby_id td) (t_id td) (t_args td) ?c1 = (r, e, c2)"
      by (metis prod_cases3)
    have "grows ?c1 (report_script_error E (t_peer_id td) r e c2)"
      using grows.call_script [of ?c1 ?c1 E "t_peer_id td" "t_lobby_id td" "t_id td" "t_args td"] r
      by (auto intro: grows.report_script_error grows_refl)
    then show ?thesis using True assms r er [of c] by (auto simp: timer_step_def Let_def grows_def)
  next
    case False
    then show ?thesis using assms er by (simp add: timer_step_def)
  qed
qed


end
